(* ===== verification/Prelude.thy ===== *)
theory Prelude
  imports Main "HOL-Library.AList" "HOL-Library.Word" "HOL-Library.List_Lexorder"
    "HOL-Library.Char_ord" "HOL-Library.Code_Target_Numeral"
begin

text \<open>
  What every component shares: Go's control results, Go's maps, and 64-bit arithmetic.

  A Go \<open>map[K]V\<close> is an association list \<open>('k, 'v) gomap\<close> with distinct keys: \<open>m[k]\<close> is
  \<^const>\<open>map_of\<close>, assignment is \<open>AList.update\<close>, \<open>delete\<close> is \<open>AList.delete\<close> and
  \<open>len\<close> is \<^const>\<open>length\<close>. The order of the list stands for one order in which a \<open>range\<close> loop
  may visit the map; results that must not depend on it are stated through \<^const>\<open>map_of\<close>.

  A function that may panic returns an \<open>outcome\<close>; a function that may fail returns a sum whose
  left side is the error value.
\<close>

named_theorems gomap_simps \<open>lookups and lengths of updated maps\<close>
named_theorems wf_intros \<open>well-formedness of the maps and stores a component keeps\<close>

section \<open>Panics\<close>

datatype 'a outcome = Return 'a | Panic string

fun returns :: "'a outcome \<Rightarrow> bool" where
  "returns (Return _) = True"
| "returns (Panic _) = False"

lemma returnsE: "returns r \<Longrightarrow> (\<And>a. r = Return a \<Longrightarrow> P) \<Longrightarrow> P"
  by (cases r) auto

section \<open>Go maps\<close>

type_synonym ('k, 'v) gomap = "('k \<times> 'v) list"

definition gm_wf :: "('k, 'v) gomap \<Rightarrow> bool" where
  "gm_wf m \<longleftrightarrow> distinct (map fst m)"

lemma gm_wf_empty [wf_intros, simp]: "gm_wf []"
  by (simp add: gm_wf_def)

lemma gm_wf_update [wf_intros]: "gm_wf m \<Longrightarrow> gm_wf (AList.update k v m)"
  by (simp add: gm_wf_def distinct_update)

lemma gm_wf_delete [wf_intros]: "gm_wf m \<Longrightarrow> gm_wf (AList.delete k m)"
  by (simp add: gm_wf_def distinct_delete)

lemma map_of_update [gomap_simps]: "map_of (AList.update k v m) = (map_of m)(k \<mapsto> v)"
  by (simp add: update_conv')

lemma map_of_delete [gomap_simps]: "map_of (AList.delete k m) = (map_of m)(k := None)"
  by (simp add: delete_conv')

lemma gm_length_update_new:
  "map_of m k = None \<Longrightarrow> length (AList.update k v m) = Suc (length m)"
  by (induction m) (auto split: if_splits)

lemma gm_length_update_old:
  "map_of m k = Some w \<Longrightarrow> length (AList.update k v m) = length m"
  by (induction m) (auto split: if_splits)

lemma gm_length_update [gomap_simps]:
  "length (AList.update k v m) = (if map_of m k = None then Suc (length m) else length m)"
  by (cases "map_of m k") (simp_all add: gm_length_update_new gm_length_update_old)

lemma gm_delete_absent: "map_of m k = None \<Longrightarrow> AList.delete k m = m"
  by (induction m) (auto simp: AList.delete_eq split: if_splits)

lemma gm_length_delete [gomap_simps]:
  "gm_wf m \<Longrightarrow> map_of m k = Some w \<Longrightarrow> Suc (length (AList.delete k m)) = length m"
proof (induction m)
  case (Cons p m)
  show ?case
  proof (cases "fst p = k")
    case True
    with Cons.prems have "map_of m k = None"
      by (auto simp: gm_wf_def map_of_eq_None_iff)
    with True show ?thesis by (cases p) (simp add: gm_delete_absent)
  next
    case False
    with Cons.prems have "Suc (length (AList.delete k m)) = length m"
      by (intro Cons.IH) (auto simp: gm_wf_def split: if_splits)
    with False show ?thesis by (cases p) simp
  qed
qed simp

lemma gm_get_in_set: "gm_wf m \<Longrightarrow> (k, v) \<in> set m \<longleftrightarrow> map_of m k = Some v"
  by (simp add: gm_wf_def)

section \<open>Fixed-width integers\<close>

text \<open>
  Go's \<open>int\<close> and \<open>int64\<close> are 64 bits wide on the platforms the gateway is built for. They are
  modelled as \<^typ>\<open>int\<close>, with \<open>wrap64\<close> written where an operation of the source can overflow.
\<close>

definition wrap64 :: "int \<Rightarrow> int" where
  "wrap64 i = sint (word_of_int i :: 64 word)"

definition in_int64 :: "int \<Rightarrow> bool" where
  "in_int64 i \<longleftrightarrow> - (2 ^ 63) \<le> i \<and> i < 2 ^ 63"

lemma wrap64_id: "in_int64 i \<Longrightarrow> wrap64 i = i"
  by (simp add: wrap64_def in_int64_def sint_sbintrunc' signed_take_bit_int_eq_self_iff
      signed_take_bit_int_eq_self)

lemma wrap64_range: "in_int64 (wrap64 i)"
  using sint_range_size [of "word_of_int i :: 64 word"]
  by (simp add: wrap64_def in_int64_def word_size)

section \<open>Small list facts\<close>

lemma dropWhile_idem: "dropWhile P (dropWhile P xs) = dropWhile P xs"
  by (induction xs) auto

lemma length_filter_partition:
  "length (filter P xs) + length (filter (\<lambda>x. \<not> P x) xs) = length xs"
  by (induction xs) auto

end
