(* ===== verification/GoUtf8.thy ===== *)
theory GoUtf8
  imports GoStrings
begin

text \<open>
  Runes: the conversions \<open>[]rune(s)\<close> and \<open>string(rs)\<close>, \<open>range\<close> over a string, and the
  functions built on them (\<open>strings.TrimSpace\<close>, \<open>strings.ToLower\<close>, the \<open>%q\<close> verb). A byte that
  does not start a well-formed sequence decodes to \<open>U+FFFD\<close> with width one, as
  \<open>utf8.DecodeRune\<close> does.
\<close>

definition rune_error :: nat where
  "rune_error = 65533"

definition cont_byte :: "nat \<Rightarrow> bool" where
  "cont_byte b \<longleftrightarrow> 128 \<le> b \<and> b \<le> 191"

text \<open>The range the second byte must lie in, by first byte (the accept ranges of the package).\<close>

definition second_ok :: "nat \<Rightarrow> nat \<Rightarrow> bool" where
  "second_ok b0 b1 \<longleftrightarrow>
     (if b0 = 224 then 160 \<le> b1 \<and> b1 \<le> 191
      else if b0 = 237 then 128 \<le> b1 \<and> b1 \<le> 159
      else if b0 = 240 then 144 \<le> b1 \<and> b1 \<le> 191
      else if b0 = 244 then 128 \<le> b1 \<and> b1 \<le> 143
      else cont_byte b1)"

definition decode2 :: "nat \<Rightarrow> nat list \<Rightarrow> nat \<times> nat" where
  "decode2 b0 r = (case r of
     b1 # _ \<Rightarrow> if cont_byte b1 then ((b0 - 192) * 64 + (b1 - 128), 2) else (rune_error, 1)
   | [] \<Rightarrow> (rune_error, 1))"

definition decode3 :: "nat \<Rightarrow> nat list \<Rightarrow> nat \<times> nat" where
  "decode3 b0 r = (case r of
     b1 # b2 # _ \<Rightarrow> if second_ok b0 b1 \<and> cont_byte b2
       then ((b0 - 224) * 4096 + (b1 - 128) * 64 + (b2 - 128), 3) else (rune_error, 1)
   | _ \<Rightarrow> (rune_error, 1))"

definition decode4 :: "nat \<Rightarrow> nat list \<Rightarrow> nat \<times> nat" where
  "decode4 b0 r = (case r of
     b1 # b2 # b3 # _ \<Rightarrow> if second_ok b0 b1 \<and> cont_byte b2 \<and> cont_byte b3
       then ((b0 - 240) * 262144 + (b1 - 128) * 4096 + (b2 - 128) * 64 + (b3 - 128), 4)
       else (rune_error, 1)
   | _ \<Rightarrow> (rune_error, 1))"

definition decode_rune :: "nat list \<Rightarrow> nat \<times> nat" where
  "decode_rune bs = (case bs of
     [] \<Rightarrow> (rune_error, 0)
   | b0 # r \<Rightarrow>
       if b0 < 128 then (b0, 1)
       else if 194 \<le> b0 \<and> b0 \<le> 223 then decode2 b0 r
       else if 224 \<le> b0 \<and> b0 \<le> 239 then decode3 b0 r
       else if 240 \<le> b0 \<and> b0 \<le> 244 then decode4 b0 r
       else (rune_error, 1))"

text \<open>
  \<open>runes_of\<close> lists the runes a \<open>range\<close> loop sees, each with the bytes it came from.
\<close>

function runes_of :: "nat list \<Rightarrow> (nat \<times> nat list) list" where
  "runes_of [] = []"
| "runes_of (b # bs) =
     (let (r, w) = decode_rune (b # bs)
      in (r, take w (b # bs)) # runes_of (drop (w - 1) bs))"
  by pat_completeness auto
termination
  by (relation "measure length") auto

definition runes :: "string \<Rightarrow> nat list" where
  "runes s = map fst (runes_of (map byte s))"

definition valid_rune :: "nat \<Rightarrow> bool" where
  "valid_rune r \<longleftrightarrow> r < 55296 \<or> (57344 \<le> r \<and> r < 1114112)"

definition encode_rune_bytes :: "nat \<Rightarrow> nat list" where
  "encode_rune_bytes r0 =
     (let r = (if valid_rune r0 then r0 else rune_error) in
      if r < 128 then [r]
      else if r < 2048 then [192 + r div 64, 128 + r mod 64]
      else if r < 65536 then [224 + r div 4096, 128 + (r div 64) mod 64, 128 + r mod 64]
      else [240 + r div 262144, 128 + (r div 4096) mod 64, 128 + (r div 64) mod 64, 128 + r mod 64])"

definition string_of_runes :: "nat list \<Rightarrow> string" where
  "string_of_runes rs = map chr (concat (map encode_rune_bytes rs))"

definition to_valid_utf8 :: "string \<Rightarrow> string" where
  "to_valid_utf8 s = string_of_runes (runes s)"

lemma rune_error_valid [simp]: "valid_rune rune_error"
  by (simp add: valid_rune_def rune_error_def)

lemma encode_bytes_less: "b \<in> set (encode_rune_bytes r) \<Longrightarrow> b < 256"
  by (auto simp: encode_rune_bytes_def valid_rune_def rune_error_def Let_def split: if_splits)

lemma encode_nonempty [simp]: "encode_rune_bytes r \<noteq> []"
  by (simp add: encode_rune_bytes_def Let_def)

text \<open>The digits of a rune in base 64, and the ranges its leading byte forces on the second.\<close>

lemma base64_digits3:
  fixes r :: nat
  shows "r = (r div 4096) * 4096 + ((r div 64) mod 64) * 64 + r mod 64"
proof -
  have "r div 64 = (r div 4096) * 64 + (r div 64) mod 64"
    using div_mult_mod_eq [of "r div 64" 64] by (simp add: div_mult2_eq [symmetric])
  moreover have "r = (r div 64) * 64 + r mod 64" by simp
  ultimately show ?thesis by linarith
qed

lemma base64_digits4:
  fixes r :: nat
  shows "r = (r div 262144) * 262144 + ((r div 4096) mod 64) * 4096 + ((r div 64) mod 64) * 64 + r mod 64"
proof -
  have "r div 4096 = (r div 262144) * 64 + (r div 4096) mod 64"
    using div_mult_mod_eq [of "r div 4096" 64] by (simp add: div_mult2_eq [symmetric])
  with base64_digits3 [of r] show ?thesis by linarith
qed

lemma second_ok3:
  fixes a b c :: nat
  assumes "valid_rune (a * 4096 + b * 64 + c)" "2048 \<le> a * 4096 + b * 64 + c" "b < 64" "c < 64" "a \<le> 15"
  shows "second_ok (224 + a) (128 + b)"
proof -
  have "a = 0 \<Longrightarrow> 32 \<le> b" using assms by linarith
  moreover have "a = 13 \<Longrightarrow> b \<le> 31" using assms by (auto simp: valid_rune_def)
  ultimately show ?thesis using assms(3,4,5)
    by (auto simp: second_ok_def cont_byte_def)
qed

lemma decode_encode3:
  assumes "valid_rune r" "2048 \<le> r" "r < 65536"
  shows "decode_rune (encode_rune_bytes r @ rest) = (r, 3)"
proof -
  define a b c where "a = r div 4096" and "b = (r div 64) mod 64" and "c = r mod 64"
  have r: "r = a * 4096 + b * 64 + c"
    using base64_digits3 [of r] by (simp add: a_def b_def c_def)
  have bc: "b < 64" "c < 64" by (simp_all add: b_def c_def)
  have a: "a \<le> 15" using assms(3) r by linarith
  have ok: "second_ok (224 + a) (128 + b)"
    using second_ok3 [of a b c] assms r bc a by simp
  have enc: "encode_rune_bytes r = [224 + a, 128 + b, 128 + c]"
    using assms by (simp add: encode_rune_bytes_def a_def b_def c_def)
  have cc: "cont_byte (128 + c)" using bc by (simp add: cont_byte_def)
  have "decode_rune ([224 + a, 128 + b, 128 + c] @ rest) = (a * 4096 + b * 64 + c, 3)"
    using a ok cc by (simp add: decode_rune_def decode3_def)
  with enc r show ?thesis by simp
qed

lemma decode_encode4:
  assumes "65536 \<le> r" "r < 1114112"
  shows "decode_rune (encode_rune_bytes r @ rest) = (r, 4)"
proof -
  define a b c d where "a = r div 262144" and "b = (r div 4096) mod 64"
    and "c = (r div 64) mod 64" and "d = r mod 64"
  have r: "r = a * 262144 + b * 4096 + c * 64 + d"
    using base64_digits4 [of r] by (simp add: a_def b_def c_def d_def)
  have bcd: "b < 64" "c < 64" "d < 64" by (simp_all add: b_def c_def d_def)
  have a: "a \<le> 4" using assms(2) r by linarith
  have b0: "a = 0 \<Longrightarrow> 16 \<le> b" and b4: "a = 4 \<Longrightarrow> b \<le> 15"
    using assms r bcd by linarith+
  have ok: "second_ok (240 + a) (128 + b)"
    using b0 b4 a bcd by (auto simp: second_ok_def cont_byte_def)
  have enc: "encode_rune_bytes r = [240 + a, 128 + b, 128 + c, 128 + d]"
    using assms by (simp add: encode_rune_bytes_def valid_rune_def a_def b_def c_def d_def)
  have cc: "cont_byte (128 + c)" "cont_byte (128 + d)" using bcd by (simp_all add: cont_byte_def)
  have "decode_rune ([240 + a, 128 + b, 128 + c, 128 + d] @ rest) = (a * 262144 + b * 4096 + c * 64 + d, 4)"
    using a ok cc by (simp add: decode_rune_def decode4_def)
  with enc r show ?thesis by simp
qed

lemma decode_encode2:
  assumes "128 \<le> r" "r < 2048"
  shows "decode_rune (encode_rune_bytes r @ rest) = (r, 2)"
proof -
  have d: "2 \<le> r div 64" "r div 64 \<le> 31" "r div 64 * 64 + r mod 64 = r" using assms by auto
  have enc: "encode_rune_bytes r = [192 + r div 64, 128 + r mod 64]"
    using assms by (simp add: encode_rune_bytes_def valid_rune_def)
  have cc: "cont_byte (128 + r mod 64)" by (simp add: cont_byte_def less_Suc_eq_le)
  show ?thesis using d cc by (simp add: enc decode_rune_def decode2_def)
qed

lemma decode_encode:
  assumes "valid_rune r"
  shows "decode_rune (encode_rune_bytes r @ rest) = (r, length (encode_rune_bytes r))"
proof -
  consider "r < 128" | "128 \<le> r" "r < 2048" | "2048 \<le> r" "r < 65536" | "65536 \<le> r" "r < 1114112"
    using assms unfolding valid_rune_def by linarith
  then show ?thesis
  proof cases
    case 1
    then show ?thesis using assms by (simp add: encode_rune_bytes_def decode_rune_def)
  next
    case 2
    then show ?thesis using decode_encode2 [of r rest] assms by (simp add: encode_rune_bytes_def)
  next
    case 3
    then show ?thesis using decode_encode3 [of r rest] assms by (simp add: encode_rune_bytes_def)
  next
    case 4
    then show ?thesis using decode_encode4 [of r rest] assms by (simp add: encode_rune_bytes_def)
  qed
qed

text \<open>What decoding returns is always a valid rune, so the conversions round-trip on runes.\<close>

lemma decode3_valid: "224 \<le> b0 \<Longrightarrow> b0 \<le> 239 \<Longrightarrow> valid_rune (fst (decode3 b0 r))"
proof -
  assume b0: "224 \<le> b0" "b0 \<le> 239"
  have "valid_rune ((b0 - 224) * 4096 + (b1 - 128) * 64 + (b2 - 128))"
    if "second_ok b0 b1" "cont_byte b2" for b1 b2
  proof -
    have b1: "128 \<le> b1" "b1 \<le> 191" and sur: "b0 = 237 \<Longrightarrow> b1 \<le> 159"
      using that(1) by (auto simp: second_ok_def cont_byte_def split: if_splits)
    consider "b0 \<le> 236" | "b0 = 237" | "238 \<le> b0" by linarith
    then show ?thesis
      using b0 b1 sur that(2) unfolding valid_rune_def cont_byte_def by cases auto
  qed
  then show ?thesis by (auto simp: decode3_def split: list.splits)
qed

lemma decode4_valid: "240 \<le> b0 \<Longrightarrow> b0 \<le> 244 \<Longrightarrow> valid_rune (fst (decode4 b0 r))"
proof -
  assume b0: "240 \<le> b0" "b0 \<le> 244"
  have "valid_rune ((b0 - 240) * 262144 + (b1 - 128) * 4096 + (b2 - 128) * 64 + (b3 - 128))"
    if "second_ok b0 b1" "cont_byte b2" "cont_byte b3" for b1 b2 b3
  proof -
    have b1: "128 \<le> b1" "b1 \<le> 191" "b0 = 240 \<Longrightarrow> 144 \<le> b1" "b0 = 244 \<Longrightarrow> b1 \<le> 143"
      using that(1) by (auto simp: second_ok_def cont_byte_def split: if_splits)
    consider "b0 = 240" | "241 \<le> b0" "b0 \<le> 243" | "b0 = 244" using b0 by linarith
    then show ?thesis
      using b1 that(2,3) unfolding valid_rune_def cont_byte_def by cases auto
  qed
  then show ?thesis by (auto simp: decode4_def split: list.splits)
qed

lemma decode_rune_valid: "valid_rune (fst (decode_rune bs))"
proof (cases bs)
  case (Cons b0 r)
  have "194 \<le> b0 \<Longrightarrow> b0 \<le> 223 \<Longrightarrow> valid_rune (fst (decode2 b0 r))"
    by (auto simp: decode2_def valid_rune_def cont_byte_def rune_error_def split: list.splits)
  moreover have "b0 < 128 \<Longrightarrow> valid_rune b0" by (simp add: valid_rune_def)
  ultimately show ?thesis
    using Cons decode3_valid [of b0 r] decode4_valid [of b0 r]
    by (auto simp: decode_rune_def)
qed (simp add: decode_rune_def)

lemma runes_of_valid: "list_all valid_rune (map fst (runes_of bs))"
proof (induction bs rule: runes_of.induct)
  case (2 b bs)
  obtain r w where rw: "decode_rune (b # bs) = (r, w)" by fastforce
  with decode_rune_valid [of "b # bs"] have "valid_rune r" by simp
  with 2 rw show ?case by simp
qed simp

lemma runes_valid: "list_all valid_rune (runes s)"
  by (simp add: runes_def runes_of_valid)

lemma runes_of_encode_append:
  assumes "valid_rune r"
  shows "map fst (runes_of (encode_rune_bytes r @ bs)) = r # map fst (runes_of bs)"
proof -
  obtain e es where e: "encode_rune_bytes r = e # es" by (cases "encode_rune_bytes r") auto
  have "decode_rune (e # es @ bs) = (r, Suc (length es))"
    using decode_encode [OF assms, of bs] e by simp
  then show ?thesis by (simp add: e)
qed

lemma map_byte_chr: "list_all (\<lambda>b. b < 256) bs \<Longrightarrow> map byte (map chr bs) = bs"
  by (induction bs) auto

lemma encode_runes_bytes_less: "list_all (\<lambda>b. b < 256) (concat (map encode_rune_bytes rs))"
  by (auto simp: list_all_iff encode_bytes_less)

lemma runes_string_of_runes_append:
  assumes "list_all valid_rune rs"
  shows "runes (string_of_runes rs @ t) = rs @ runes t"
proof -
  have "map fst (runes_of (concat (map encode_rune_bytes rs) @ bs)) = rs @ map fst (runes_of bs)" for bs
    using assms by (induction rs) (simp_all add: runes_of_encode_append)
  moreover have "map byte (string_of_runes rs) = concat (map encode_rune_bytes rs)"
    unfolding string_of_runes_def by (rule map_byte_chr [OF encode_runes_bytes_less])
  ultimately show ?thesis by (simp add: runes_def)
qed

lemma runes_string_of_runes: "list_all valid_rune rs \<Longrightarrow> runes (string_of_runes rs) = rs"
  using runes_string_of_runes_append [of rs "[]"] by (simp add: runes_def)

lemma to_valid_utf8_idem [simp]: "to_valid_utf8 (to_valid_utf8 s) = to_valid_utf8 s"
  by (simp add: to_valid_utf8_def runes_string_of_runes runes_valid)

lemma runes_to_valid [simp]: "runes (to_valid_utf8 s) = runes s"
  by (simp add: to_valid_utf8_def runes_string_of_runes runes_valid)

definition is_ascii :: "string \<Rightarrow> bool" where
  "is_ascii s \<longleftrightarrow> list_all (\<lambda>c. byte c < 128) s"

lemma runes_ascii: "is_ascii s \<Longrightarrow> runes s = map byte s"
  by (induction s) (auto simp: runes_def is_ascii_def decode_rune_def)

lemma runes_of_ascii: "is_ascii s \<Longrightarrow> runes_of (map byte s) = map (\<lambda>c. (byte c, [byte c])) s"
  by (induction s) (auto simp: is_ascii_def decode_rune_def)

lemma string_of_ascii: "is_ascii s \<Longrightarrow> string_of_runes (map byte s) = s"
  by (induction s) (auto simp: string_of_runes_def is_ascii_def encode_rune_bytes_def valid_rune_def)

lemma to_valid_ascii [simp]: "is_ascii s \<Longrightarrow> to_valid_utf8 s = s"
  by (simp add: to_valid_utf8_def runes_ascii string_of_ascii)

section \<open>White space, case and quoting\<close>

definition is_space_rune :: "nat \<Rightarrow> bool" where
  "is_space_rune r \<longleftrightarrow> (9 \<le> r \<and> r \<le> 13) \<or> r = 32 \<or> r = 133 \<or> r = 160 \<or> r = 5760
     \<or> (8192 \<le> r \<and> r \<le> 8202) \<or> r = 8232 \<or> r = 8233 \<or> r = 8239 \<or> r = 8287 \<or> r = 12288"

text \<open>\<open>strings.TrimSpace(s) == ""\<close>\<close>

definition blank :: "string \<Rightarrow> bool" where
  "blank s \<longleftrightarrow> list_all is_space_rune (runes s)"

text \<open>
  \<open>strings.ToLower\<close>: byte-wise on ASCII strings, otherwise rune-wise; \<open>ulow\<close> is the lower-casing
  of the code points beyond ASCII (the tables of Go's \<open>unicode\<close> package).
\<close>

definition lower_rune :: "(nat \<Rightarrow> nat) \<Rightarrow> nat \<Rightarrow> nat" where
  "lower_rune ulow r = (if r < 128 then byte (ascii_lower (chr r)) else ulow r)"

definition to_lower :: "(nat \<Rightarrow> nat) \<Rightarrow> string \<Rightarrow> string" where
  "to_lower ulow s =
     (if is_ascii s then map ascii_lower s
      else string_of_runes (map (lower_rune ulow) (runes s)))"

definition hex_chr :: "nat \<Rightarrow> char" where
  "hex_chr n = (if n < 10 then chr (48 + n) else chr (87 + n))"

definition hex2 :: "nat \<Rightarrow> string" where
  "hex2 b = [hex_chr (b div 16), hex_chr (b mod 16)]"

text \<open>
  The \<open>%q\<close> verb (\<open>strconv.Quote\<close>). Runes beyond ASCII are kept as they are, which is Go's
  rule for the printable ones.
\<close>

fun quote_rune :: "nat \<times> nat list \<Rightarrow> string" where
  "quote_rune (r, bs) =
     (if r = rune_error \<and> length bs = 1 then CHR 0x5C # CHR ''x'' # hex2 (hd bs)
      else if r = 34 \<or> r = 92 then [CHR 0x5C, chr r]
      else if 32 \<le> r \<and> r \<le> 126 then [chr r]
      else if r = 7 then [CHR 0x5C, CHR ''a'']
      else if r = 8 then [CHR 0x5C, CHR ''b'']
      else if r = 9 then [CHR 0x5C, CHR ''t'']
      else if r = 10 then [CHR 0x5C, CHR ''n'']
      else if r = 11 then [CHR 0x5C, CHR ''v'']
      else if r = 12 then [CHR 0x5C, CHR ''f'']
      else if r = 13 then [CHR 0x5C, CHR ''r'']
      else if r < 32 \<or> r = 127 then CHR 0x5C # CHR ''x'' # hex2 r
      else map chr bs)"

definition go_quote :: "string \<Rightarrow> string" where
  "go_quote s = CHR 0x22 # concat (map quote_rune (runes_of (map byte s))) @ [CHR 0x22]"

end
