(* ===== verification/GoJson.thy ===== *)
theory GoJson
  imports GoUtf8
begin

text \<open>
  JSON values as \<open>encoding/json\<close> sees them, and \<open>json.Marshal\<close> / \<open>json.MarshalIndent\<close>.
  A number is kept as the text the encoder prints for it. \<open>JUnsupported\<close> is a Go value the encoder
  rejects (a channel, a NaN), with the text of its error. Struct fields come in the struct's
  order, map keys sorted; both are the order of the \<open>JObj\<close> list.
\<close>

datatype jval = JNull | JBool bool | JNum string | JStr string | JArr "jval list"
  | JObj "(string \<times> jval) list" | JUnsupported string

definition json_escape :: "nat \<Rightarrow> string" where
  "json_escape r = CHR 0x5C # CHR ''u'' # hex2 (r div 256) @ hex2 (r mod 256)"

fun json_rune :: "nat \<times> nat list \<Rightarrow> string" where
  "json_rune (r, bs) =
     (if r = rune_error \<and> length bs = 1 then json_escape rune_error
      else if r = 34 \<or> r = 92 then [CHR 0x5C, chr r]
      else if r = 8 then [CHR 0x5C, CHR ''b'']
      else if r = 12 then [CHR 0x5C, CHR ''f'']
      else if r = 10 then [CHR 0x5C, CHR ''n'']
      else if r = 13 then [CHR 0x5C, CHR ''r'']
      else if r = 9 then [CHR 0x5C, CHR ''t'']
      else if r < 32 \<or> r = 60 \<or> r = 62 \<or> r = 38 \<or> r = 8232 \<or> r = 8233 then json_escape r
      else map chr bs)"

definition json_string :: "string \<Rightarrow> string" where
  "json_string s = CHR 0x22 # concat (map json_rune (runes_of (map byte s))) @ [CHR 0x22]"

text \<open>The first unsupported value met, in encoding order, is the error.\<close>

fun json_bad :: "jval \<Rightarrow> string option" where
  "json_bad (JUnsupported e) = Some e"
| "json_bad (JArr vs) = List.find (\<lambda>_. True) (concat (map (\<lambda>v. case json_bad v of None \<Rightarrow> [] | Some e \<Rightarrow> [e]) vs))"
| "json_bad (JObj kvs) = List.find (\<lambda>_. True) (concat (map (\<lambda>kv. case json_bad (snd kv) of None \<Rightarrow> [] | Some e \<Rightarrow> [e]) kvs))"
| "json_bad _ = None"

fun json_text :: "jval \<Rightarrow> string" where
  "json_text JNull = ''null''"
| "json_text (JBool b) = (if b then ''true'' else ''false'')"
| "json_text (JNum n) = n"
| "json_text (JStr s) = json_string s"
| "json_text (JArr vs) = ''['' @ join '','' (map json_text vs) @ '']''"
| "json_text (JObj kvs) = ''{'' @ join '','' (map (\<lambda>kv. json_string (fst kv) @ '':'' @ json_text (snd kv)) kvs) @ ''}''"
| "json_text (JUnsupported _) = []"

definition json_marshal :: "jval \<Rightarrow> string + string" where
  "json_marshal v = (case json_bad v of Some e \<Rightarrow> Inl e | None \<Rightarrow> Inr (json_text v))"

definition newline_indent :: "nat \<Rightarrow> string" where
  "newline_indent d = CHR 0x0A # concat (replicate d ''  '')"

text \<open>\<open>MarshalIndent(v, "", "  ")\<close> at nesting depth \<open>d\<close>.\<close>

fun json_pretty :: "nat \<Rightarrow> jval \<Rightarrow> string" where
  "json_pretty d (JArr vs) =
     (if vs = [] then ''[]''
      else ''['' @ join '','' (map (\<lambda>v. newline_indent (Suc d) @ json_pretty (Suc d) v) vs)
        @ newline_indent d @ '']'')"
| "json_pretty d (JObj kvs) =
     (if kvs = [] then ''{}''
      else ''{'' @ join '','' (map (\<lambda>kv. newline_indent (Suc d) @ json_string (fst kv) @ '': '' @ json_pretty (Suc d) (snd kv)) kvs)
        @ newline_indent d @ ''}'')"
| "json_pretty d v = json_text v"

definition json_marshal_indent :: "jval \<Rightarrow> string + string" where
  "json_marshal_indent v = (case json_bad v of Some e \<Rightarrow> Inl e | None \<Rightarrow> Inr (json_pretty 0 v))"

end
