(* ===== verification/GoError.thy ===== *)
theory GoError
  imports GoUtf8
begin

text \<open>
  Go error values. An error is its text (\<open>err.Error()\<close>) and what \<open>errors.Is\<close> and
  \<open>errors.As\<close> find on its chain: the sentinels and typed errors the gateway asks about.
  \<open>errors.New\<close> makes a fresh error with an empty chain; \<open>fmt.Errorf\<close> with \<open>%w\<close> keeps the chain
  of the wrapped error, with \<open>%v\<close> or \<open>%s\<close> drops it.
\<close>

datatype errkind =
    TaskNotFound            \<comment> \<open>\<open>a2a.ErrTaskNotFound\<close>\<close>
  | TaskNotCancelable       \<comment> \<open>\<open>a2a.ErrTaskNotCancelable\<close>\<close>
  | Unauthenticated         \<comment> \<open>\<open>a2a.ErrUnauthenticated\<close>\<close>
  | Unauthorized            \<comment> \<open>\<open>a2a.ErrUnauthorized\<close>\<close>
  | ContextCanceled         \<comment> \<open>\<open>context.Canceled\<close>\<close>
  | DeadlineExceeded        \<comment> \<open>\<open>context.DeadlineExceeded\<close>\<close>
  | NetOpError              \<comment> \<open>\<open>*net.OpError\<close>\<close>
  | TlsCertError            \<comment> \<open>\<open>*tls.CertificateVerificationError\<close>\<close>
  | NetError                \<comment> \<open>\<open>net.Error\<close>\<close>
  | IoEOF                   \<comment> \<open>\<open>io.EOF\<close>\<close>
  | IoUnexpectedEOF         \<comment> \<open>\<open>io.ErrUnexpectedEOF\<close>\<close>
  | FsNotExist              \<comment> \<open>\<open>fs.ErrNotExist\<close>\<close>
  | StreamTimeoutErr        \<comment> \<open>\<open>ErrStreamTimeout\<close>\<close>
  | StreamConnectionTimeoutErr \<comment> \<open>\<open>ErrStreamConnectionTimeout\<close>\<close>
  | ServerClosed            \<comment> \<open>\<open>http.ErrServerClosed\<close>\<close>
  | InvalidCursorErr        \<comment> \<open>\<open>directory.ErrInvalidCursor\<close>\<close>

record goerr =
  err_text :: string
  err_chain :: "errkind list"

definition err_is :: "goerr \<Rightarrow> errkind \<Rightarrow> bool" where
  "err_is e k \<longleftrightarrow> k \<in> set (err_chain e)"

definition errors_new :: "string \<Rightarrow> goerr" where
  "errors_new t = \<lparr>err_text = t, err_chain = []\<rparr>"

definition wrap_err :: "string \<Rightarrow> goerr \<Rightarrow> goerr" where
  "wrap_err p e = \<lparr>err_text = p @ err_text e, err_chain = err_chain e\<rparr>"

lemma err_is_new [simp]: "\<not> err_is (errors_new t) k"
  by (simp add: err_is_def errors_new_def)

lemma err_is_wrap [simp]: "err_is (wrap_err p e) k = err_is e k"
  by (simp add: err_is_def wrap_err_def)

lemma err_text_new [simp]: "err_text (errors_new t) = t"
  by (simp add: errors_new_def)

lemma err_text_wrap [simp]: "err_text (wrap_err p e) = p @ err_text e"
  by (simp add: wrap_err_def)

lemma errors_new_inject [simp]: "errors_new s = errors_new t \<longleftrightarrow> s = t"
  by (simp add: errors_new_def)

end
