(* ===== verification/JsonSchema.thy ===== *)
theory JsonSchema
  imports GoJson GoError
begin

text \<open>
  JSON schemas as the gateway builds them (\<open>jsonschema.Schema\<close>), what it means for a value to conform
  to one, and \<open>internal/specification/schema.go\<close>, which joins the schemas of an A2A message and an A2A
  task into the schema of a reply.

  The two embedded documents are read by the schema library: they are parameters. They also use keywords
  the gateway never sets, as \<open>$ref\<close> and \<open>enum\<close>; such a keyword is a value of the type \<open>'k\<close>, and what it
  demands is a parameter that may look names up in the definitions at the root of the document.
\<close>

section \<open>Schemas\<close>

datatype 'k json_schema = JsonSchema
  (jsc_title: string) (jsc_type: string) (jsc_description: string)
  (jsc_properties: "(string \<times> 'k json_schema) list") (jsc_required: "string list")
  (jsc_items: "'k json_schema option") (jsc_additional: "'k json_schema option")
  (jsc_one_of: "'k json_schema list") (jsc_definitions: "(string \<times> 'k json_schema) list")
  (jsc_keywords: "'k list")

text \<open>A schema that only has a type and a description, and a plain object schema.\<close>

abbreviation typed_schema :: "string \<Rightarrow> string \<Rightarrow> 'k json_schema" where
  "typed_schema ty d \<equiv> JsonSchema [] ty d [] [] None None [] [] []"

fun clear_definitions :: "'k json_schema \<Rightarrow> 'k json_schema" where
  "clear_definitions (JsonSchema t ty d ps req it ad oo defs kws) = JsonSchema t ty d ps req it ad oo [] kws"

text \<open>The type of a value. A number is an integer when it is printed without a fraction or exponent.\<close>

definition integer_text :: "string \<Rightarrow> bool" where
  "integer_text n \<longleftrightarrow> list_all (\<lambda>c. c \<in> set ''-0123456789'') n"

fun type_allows :: "string \<Rightarrow> jval \<Rightarrow> bool" where
  "type_allows t JNull = (t = [] \<or> t = ''null'')"
| "type_allows t (JBool _) = (t = [] \<or> t = ''boolean'')"
| "type_allows t (JNum n) = (t = [] \<or> t = ''number'' \<or> t = ''integer'' \<and> integer_text n)"
| "type_allows t (JStr _) = (t = [] \<or> t = ''string'')"
| "type_allows t (JArr _) = (t = [] \<or> t = ''array'')"
| "type_allows t (JObj _) = (t = [] \<or> t = ''object'')"
| "type_allows t (JUnsupported _) = False"

fun members :: "jval \<Rightarrow> (string \<times> jval) list" where
  "members (JObj kvs) = kvs"
| "members _ = []"

fun elements :: "jval \<Rightarrow> jval list" where
  "elements (JArr vs) = vs"
| "elements _ = []"

fun is_object :: "jval \<Rightarrow> bool" where
  "is_object (JObj _) = True"
| "is_object _ = False"

text \<open>
  \<open>required\<close>, \<open>properties\<close> and \<open>additionalProperties\<close> say nothing about a value that is no object, \<open>items\<close>
  nothing about one that is no array; exactly one schema of \<open>oneOf\<close> has to hold.
\<close>

fun conforms :: "('k \<Rightarrow> jval \<Rightarrow> bool) \<Rightarrow> 'k json_schema \<Rightarrow> jval \<Rightarrow> bool" where
  "conforms kw (JsonSchema t ty d ps req it ad oo defs kws) j \<longleftrightarrow>
     type_allows ty j \<and>
     (is_object j \<longrightarrow> (\<forall>r \<in> set req. map_of (members j) r \<noteq> None)) \<and>
     (\<forall>p \<in> set ps. case map_of (members j) (fst p) of None \<Rightarrow> True | Some v \<Rightarrow> conforms kw (snd p) v) \<and>
     (case ad of None \<Rightarrow> True
      | Some s \<Rightarrow> \<forall>m \<in> set (members j). fst m \<in> fst ` set ps \<or> conforms kw s (snd m)) \<and>
     (case it of None \<Rightarrow> True | Some s \<Rightarrow> \<forall>v \<in> set (elements j). conforms kw s v) \<and>
     (oo = [] \<or> length (filter (\<lambda>s. conforms kw s j) oo) = 1) \<and>
     (\<forall>k \<in> set kws. kw k j)"

text \<open>A document: references are resolved in its own definitions.\<close>

type_synonym 'k keyword_meaning = "(string \<times> 'k json_schema) list \<Rightarrow> 'k \<Rightarrow> jval \<Rightarrow> bool"

definition document_valid :: "'k keyword_meaning \<Rightarrow> 'k json_schema \<Rightarrow> jval \<Rightarrow> bool" where
  "document_valid kw s j \<longleftrightarrow> conforms (kw (jsc_definitions s)) s j"

lemma conforms_typed [simp]: "conforms kw (typed_schema ty d) j = type_allows ty j"
  by simp

lemma conforms_clear [simp]: "conforms kw (clear_definitions s) j = conforms kw s j"
  by (cases s) simp

text \<open>Conformance depends on the meaning of the keywords that occur in the schema only.\<close>

lemma conforms_cong:
  assumes "\<And>k j. k \<in> set_json_schema s \<Longrightarrow> kw k j = kw' k j"
  shows "conforms kw s j = conforms kw' s j"
  using assms
proof (induction s arbitrary: j)
  case (JsonSchema t ty d ps req it ad oo defs kws)
  let ?s = "JsonSchema t ty d ps req it ad oo defs kws"
  note prems = JsonSchema.prems [unfolded json_schema.set]
  have p: "conforms kw (snd p) v = conforms kw' (snd p) v" if "p \<in> set ps" for p v
  proof -
    have "snd p \<in> Basic_BNFs.snds p" by (cases p) simp
    with that show ?thesis by (intro JsonSchema.IH(1) [of p "snd p"] prems) blast+
  qed
  have it: "conforms kw s v = conforms kw' s v" if "it = Some s" for s v
    using that by (intro JsonSchema.IH(2) prems) (simp, blast)
  have ad: "conforms kw s v = conforms kw' s v" if "ad = Some s" for s v
    using that by (intro JsonSchema.IH(3) prems) (simp, blast)
  have oo: "conforms kw s v = conforms kw' s v" if "s \<in> set oo" for s v
    using that by (intro JsonSchema.IH(4) prems) blast+
  have k: "(\<forall>k \<in> set kws. kw k j) = (\<forall>k \<in> set kws. kw' k j)"
    using JsonSchema.prems by auto
  have f: "filter (\<lambda>s. conforms kw s j) oo = filter (\<lambda>s. conforms kw' s j) oo"
    by (rule filter_cong) (simp_all add: oo)
  show ?case
    unfolding conforms.simps f k
    using p it ad by (auto split: option.splits)
qed

section \<open>The specification package\<close>

text \<open>\<open>json.Unmarshal\<close> of the embedded documents: a schema, partly filled in when there is an error.\<close>

record 'k spec_docs =
  sd_message :: "'k json_schema"
  sd_message_err :: "goerr option"
  sd_task :: "'k json_schema"
  sd_task_err :: "goerr option"

definition MessageSchema :: "'k spec_docs \<Rightarrow> 'k json_schema \<times> goerr option" where
  "MessageSchema docs = (sd_message docs, sd_message_err docs)"

definition TaskSchema :: "'k spec_docs \<Rightarrow> 'k json_schema \<times> goerr option" where
  "TaskSchema docs = (sd_task docs, sd_task_err docs)"

text \<open>\<open>errors.Join\<close> of two errors: their texts on lines of their own.\<close>

definition errors_join :: "goerr option \<Rightarrow> goerr option \<Rightarrow> goerr option" where
  "errors_join e f =
     (case (e, f) of
        (None, None) \<Rightarrow> None
      | (Some a, None) \<Rightarrow> Some a
      | (None, Some b) \<Rightarrow> Some b
      | (Some a, Some b) \<Rightarrow>
          Some \<lparr>err_text = err_text a @ [CHR 0x0A] @ err_text b, err_chain = err_chain a @ err_chain b\<rparr>)"

text \<open>The loops that copy the definitions of both documents into one map.\<close>

definition hoisted :: "'k json_schema \<Rightarrow> 'k json_schema \<Rightarrow> (string \<times> 'k json_schema) list" where
  "hoisted message task =
     fold (\<lambda>p m. AList.update (fst p) (snd p) m) (jsc_definitions task)
       (fold (\<lambda>p m. AList.update (fst p) (snd p) m) (jsc_definitions message) [])"

definition async_alternative :: "'k json_schema" where
  "async_alternative = JsonSchema [] []
     (''Returned when async: true '' @ string_of_runes [8212] @ '' the message was dispatched without blocking.'')
     [(''async'', JsonSchema [] ''object''
        (''Returned when async: true '' @ string_of_runes [8212]
          @ '' confirms dispatch without waiting for the agent's response.'')
        [(''alias'', typed_schema ''string'' ''Agent alias the message was dispatched to.''),
         (''status'', typed_schema ''string'' ''Dispatch status (dispatched or error).''),
         (''error'', typed_schema ''string'' ''Error message if dispatch failed immediately.'')]
        [''alias'', ''status''] None None [] [] [])]
     [''async''] None None [] [] []"

definition SendMessageResponseSchema :: "'k spec_docs \<Rightarrow> 'k json_schema \<times> goerr option" where
  "SendMessageResponseSchema docs =
     (case (MessageSchema docs, TaskSchema docs) of ((message, messageErr), (task, taskErr)) \<Rightarrow>
        (JsonSchema ''SendMessageResponse'' ''object''
           ''The target payload mapping exactly to the A2A spec 'oneof' behavior.'' [] [] None None
           [JsonSchema [] [] ''Returned when the interaction is short-lived or synchronous.''
              [(''message'', clear_definitions message)] [''message''] None None [] [] [],
            JsonSchema [] [] ''Returned when a long-running workflow or background execution is triggered.''
              [(''task'', clear_definitions task)] [''task''] None None [] [] [],
            async_alternative]
           (hoisted message task) [],
         errors_join messageErr taskErr))"

section \<open>Hoisting keeps the meaning of the documents\<close>

lemma map_of_fold_update:
  "map_of (fold (\<lambda>p m. AList.update (fst p) (snd p) m) ps m) n
     = (case map_of (rev ps) n of None \<Rightarrow> map_of m n | Some v \<Rightarrow> Some v)"
  by (induction ps arbitrary: m) (auto simp: map_of_update split: option.splits)

text \<open>
  A document looks up only names it defines: its keywords mean the same under any definitions that give
  these names the meaning they have in the document.
\<close>

definition self_contained :: "'k keyword_meaning \<Rightarrow> 'k json_schema \<Rightarrow> bool" where
  "self_contained kw d \<longleftrightarrow>
     (\<forall>defs. (\<forall>n s. map_of (jsc_definitions d) n = Some s \<longrightarrow> map_of defs n = Some s) \<longrightarrow>
        (\<forall>k \<in> set_json_schema d. kw defs k = kw (jsc_definitions d) k))"

definition docs_agree :: "'k spec_docs \<Rightarrow> bool" where
  "docs_agree docs \<longleftrightarrow>
     distinct (map fst (jsc_definitions (sd_message docs))) \<and> distinct (map fst (jsc_definitions (sd_task docs))) \<and>
     (\<forall>n s s'. map_of (jsc_definitions (sd_message docs)) n = Some s \<longrightarrow>
        map_of (jsc_definitions (sd_task docs)) n = Some s' \<longrightarrow> s = s')"

lemma map_of_rev_distinct: "distinct (map fst ps) \<Longrightarrow> map_of (rev ps) = map_of ps"
  by (simp add: map_of_inject_set flip: rev_map)

lemma map_of_hoisted:
  assumes "docs_agree docs"
  shows "map_of (hoisted (sd_message docs) (sd_task docs)) n =
    (case map_of (jsc_definitions (sd_task docs)) n of
       None \<Rightarrow> map_of (jsc_definitions (sd_message docs)) n | Some s \<Rightarrow> Some s)"
  using assms by (simp add: hoisted_def map_of_fold_update docs_agree_def map_of_rev_distinct split: option.splits)

lemma hoisted_message:
  assumes "docs_agree docs" "self_contained kw (sd_message docs)"
  shows "conforms (kw (hoisted (sd_message docs) (sd_task docs))) (sd_message docs) j
    = document_valid kw (sd_message docs) j"
  unfolding document_valid_def
proof (rule conforms_cong)
  fix k j assume "k \<in> set_json_schema (sd_message docs)"
  moreover have "map_of (hoisted (sd_message docs) (sd_task docs)) n = Some s"
    if "map_of (jsc_definitions (sd_message docs)) n = Some s" for n s
  proof (cases "map_of (jsc_definitions (sd_task docs)) n")
    case (Some s')
    with assms(1) that have "s' = s" unfolding docs_agree_def by metis
    with Some show ?thesis by (simp add: map_of_hoisted [OF assms(1)])
  qed (simp add: that map_of_hoisted [OF assms(1)])
  ultimately show "kw (hoisted (sd_message docs) (sd_task docs)) k j = kw (jsc_definitions (sd_message docs)) k j"
    using assms(2) unfolding self_contained_def by metis
qed

lemma hoisted_task:
  assumes "docs_agree docs" "self_contained kw (sd_task docs)"
  shows "conforms (kw (hoisted (sd_message docs) (sd_task docs))) (sd_task docs) j
    = document_valid kw (sd_task docs) j"
  unfolding document_valid_def
proof (rule conforms_cong)
  fix k j assume "k \<in> set_json_schema (sd_task docs)"
  moreover have "map_of (hoisted (sd_message docs) (sd_task docs)) n = Some s"
    if "map_of (jsc_definitions (sd_task docs)) n = Some s" for n s
    using assms(1) that by (simp add: map_of_hoisted)
  ultimately show "kw (hoisted (sd_message docs) (sd_task docs)) k j = kw (jsc_definitions (sd_task docs)) k j"
    using assms(2) unfolding self_contained_def by metis
qed

end
