(* ===== verification/GoUrl.thy ===== *)
theory GoUrl
  imports GoError
begin

text \<open>
  \<open>url.Parse\<close> of Go's standard library (as of Go 1.25.0), as far as the gateway reads its result:
  the lower-cased scheme, the host, and the error. The query is not checked by \<open>Parse\<close>; user
  information, path and fragment only for well-formed escapes. Patch releases after 1.25.0 also
  check that a bracketed host is an IPv6 address; that check is not modelled.
\<close>

definition is_alpha :: "char \<Rightarrow> bool" where
  "is_alpha c \<longleftrightarrow> (97 \<le> byte c \<and> byte c \<le> 122) \<or> (65 \<le> byte c \<and> byte c \<le> 90)"

definition is_hex :: "char \<Rightarrow> bool" where
  "is_hex c \<longleftrightarrow> is_digit c \<or> (97 \<le> byte c \<and> byte c \<le> 102) \<or> (65 \<le> byte c \<and> byte c \<le> 70)"

definition unhex :: "char \<Rightarrow> nat" where
  "unhex c = (if is_digit c then byte c - 48 else if 97 \<le> byte c then byte c - 87 else byte c - 55)"

text \<open>\<open>strings.Cut\<close> at a one-byte separator, and at the last occurrence of one.\<close>

definition cut_at :: "char \<Rightarrow> string \<Rightarrow> string \<times> string" where
  "cut_at c s = (takeWhile (\<lambda>x. x \<noteq> c) s, tl (dropWhile (\<lambda>x. x \<noteq> c) s))"

definition before_last :: "char \<Rightarrow> string \<Rightarrow> string" where
  "before_last c s = rev (tl (dropWhile (\<lambda>x. x \<noteq> c) (rev s)))"

definition after_last :: "char \<Rightarrow> string \<Rightarrow> string" where
  "after_last c s = rev (takeWhile (\<lambda>x. x \<noteq> c) (rev s))"

datatype unescape_mode = EncPath | EncHost | EncZone

text \<open>Bytes below \<open>0x80\<close> that a host may hold unescaped.\<close>

definition host_char :: "char \<Rightarrow> bool" where
  "host_char c \<longleftrightarrow> is_alpha c \<or> is_digit c \<or> c \<in> set ''!$&()*+,;=:[]<>-_.~'' \<or> c = CHR 0x27 \<or> c = CHR 0x22"

definition escape_error :: "string \<Rightarrow> string" where
  "escape_error s = ''invalid URL escape '' @ go_quote (take 3 s)"

fun unescape :: "unescape_mode \<Rightarrow> string \<Rightarrow> string + string" where
  "unescape m [] = Inr []"
| "unescape m (c # s) =
     (if c = CHR 0x25 then
        (case s of
           h # l # r \<Rightarrow>
             if \<not> is_hex h \<or> \<not> is_hex l then Inl (escape_error (c # s))
             else if m = EncHost \<and> unhex h < 8 \<and> [h, l] \<noteq> ''25'' then Inl (escape_error (c # s))
             else if m = EncZone \<and> [h, l] \<noteq> ''25'' \<and> unhex h * 16 + unhex l \<noteq> 32
                  \<and> \<not> host_char (chr (unhex h * 16 + unhex l)) then Inl (escape_error (c # s))
             else (case unescape m r of Inl e \<Rightarrow> Inl e | Inr t \<Rightarrow> Inr (chr (unhex h * 16 + unhex l) # t))
         | _ \<Rightarrow> Inl (escape_error (c # s)))
      else if m \<noteq> EncPath \<and> byte c < 128 \<and> \<not> host_char c
           then Inl (''invalid character '' @ go_quote [c] @ '' in host name'')
      else (case unescape m s of Inl e \<Rightarrow> Inl e | Inr t \<Rightarrow> Inr (c # t)))"

definition valid_optional_port :: "string \<Rightarrow> bool" where
  "valid_optional_port p \<longleftrightarrow> (case p of [] \<Rightarrow> True | c # r \<Rightarrow> c = CHR '':'' \<and> list_all is_digit r)"

definition bad_port :: "string \<Rightarrow> string" where
  "bad_port p = ''invalid port '' @ go_quote p @ '' after host''"

definition percent25 :: string where
  "percent25 = [CHR 0x25, CHR ''2'', CHR ''5'']"

fun split_zone :: "string \<Rightarrow> (string \<times> string) option" where
  "split_zone [] = None"
| "split_zone (c # s) =
     (if has_prefix (c # s) percent25 then Some ([], c # s)
      else (case split_zone s of None \<Rightarrow> None | Some (a, b) \<Rightarrow> Some (c # a, b)))"

definition parse_host :: "string \<Rightarrow> string + string" where
  "parse_host h =
     (if has_prefix h ''['' then
        (if CHR '']'' \<notin> set h then Inl [CHR ''m'', CHR ''i'', CHR ''s'', CHR ''s'', CHR ''i'', CHR ''n'', CHR ''g'', CHR '' '', CHR 0x27, CHR '']'', CHR 0x27, CHR '' '', CHR ''i'', CHR ''n'', CHR '' '', CHR ''h'', CHR ''o'', CHR ''s'', CHR ''t'']
         else let inner = before_last (CHR '']'') h; port = after_last (CHR '']'') h in
           if \<not> valid_optional_port port then Inl (bad_port port)
           else (case split_zone inner of
              None \<Rightarrow> unescape EncHost h
            | Some (a, z) \<Rightarrow>
                (case unescape EncHost a of Inl e \<Rightarrow> Inl e | Inr h1 \<Rightarrow>
                (case unescape EncZone z of Inl e \<Rightarrow> Inl e | Inr h2 \<Rightarrow>
                (case unescape EncHost (CHR '']'' # port) of Inl e \<Rightarrow> Inl e
                 | Inr h3 \<Rightarrow> Inr (h1 @ h2 @ h3))))))
      else if CHR '':'' \<in> set h \<and> \<not> valid_optional_port (CHR '':'' # after_last (CHR '':'') h)
           then Inl (bad_port (CHR '':'' # after_last (CHR '':'') h))
      else unescape EncHost h)"

definition userinfo_char :: "char \<Rightarrow> bool" where
  "userinfo_char c \<longleftrightarrow> is_alpha c \<or> is_digit c \<or> c \<in> set ''-._:~!$&()*+,;=@'' \<or> c = CHR 0x27 \<or> c = CHR 0x25"

definition parse_authority :: "string \<Rightarrow> string + string" where
  "parse_authority a =
     (if CHR ''@'' \<notin> set a then parse_host a
      else (case parse_host (after_last (CHR ''@'') a) of
         Inl e \<Rightarrow> Inl e
       | Inr host \<Rightarrow>
           let ui = before_last (CHR ''@'') a; (user, pass) = cut_at (CHR '':'') ui in
           if \<not> list_all userinfo_char ui then Inl ''net/url: invalid userinfo''
           else (case unescape EncPath user of Inl e \<Rightarrow> Inl e
                 | Inr _ \<Rightarrow> (case unescape EncPath pass of Inl e \<Rightarrow> Inl e | Inr _ \<Rightarrow> Inr host))))"

text \<open>\<open>getScheme\<close>: the scheme before the first colon, if the characters before it allow one.\<close>

definition scheme_char :: "char \<Rightarrow> bool" where
  "scheme_char c \<longleftrightarrow> is_alpha c \<or> is_digit c \<or> c \<in> set ''+-.''"

definition get_scheme :: "string \<Rightarrow> string + (string \<times> string)" where
  "get_scheme s =
     (let sch = takeWhile scheme_char s; rest = dropWhile scheme_char s in
      case s of
        [] \<Rightarrow> Inr ([], s)
      | c # _ \<Rightarrow>
          if c = CHR '':'' then Inl ''missing protocol scheme''
          else if \<not> is_alpha c then Inr ([], s)
          else (case rest of
                  d # r \<Rightarrow> if d = CHR '':'' then Inr (sch, r) else Inr ([], s)
                | [] \<Rightarrow> Inr ([], s)))"

definition path_only :: "string \<Rightarrow> string \<Rightarrow> string \<Rightarrow> string + (string \<times> string)" where
  "path_only scheme host path =
     (case unescape EncPath path of Inl e \<Rightarrow> Inl e | Inr _ \<Rightarrow> Inr (scheme, host))"

definition parse_rest :: "string \<Rightarrow> string \<Rightarrow> string + (string \<times> string)" where
  "parse_rest scheme rest =
     (if \<not> has_prefix rest ''/'' \<and> scheme \<noteq> [] then Inr (scheme, [])
      else if \<not> has_prefix rest ''/'' \<and> CHR '':'' \<in> set (fst (cut_at (CHR ''/'') rest))
           then Inl ''first path segment in URL cannot contain colon''
      else if (scheme \<noteq> [] \<or> \<not> has_prefix rest ''///'') \<and> has_prefix rest ''//'' then
        (let a = drop 2 rest; auth = takeWhile (\<lambda>x. x \<noteq> CHR ''/'') a; path = dropWhile (\<lambda>x. x \<noteq> CHR ''/'') a in
         case parse_authority auth of Inl e \<Rightarrow> Inl e | Inr host \<Rightarrow> path_only scheme host path)
      else path_only scheme [] rest)"

definition parse_no_fragment :: "string \<Rightarrow> string + (string \<times> string)" where
  "parse_no_fragment u =
     (if list_ex (\<lambda>c. byte c < 32 \<or> byte c = 127) u
      then Inl ''net/url: invalid control character in URL''
      else if u = ''*'' then Inr ([], [])
      else (case get_scheme u of
              Inl e \<Rightarrow> Inl e
            | Inr (sch, rest) \<Rightarrow> parse_rest (map ascii_lower sch) (fst (cut_at (CHR ''?'') rest))))"

definition url_error :: "string \<Rightarrow> string \<Rightarrow> goerr" where
  "url_error u msg = errors_new (''parse '' @ go_quote u @ '': '' @ msg)"

definition url_parse :: "string \<Rightarrow> goerr + (string \<times> string)" where
  "url_parse raw =
     (case cut_at (CHR 0x23) raw of
        (u, frag) \<Rightarrow>
          (case parse_no_fragment u of
             Inl e \<Rightarrow> Inl (url_error u e)
           | Inr sh \<Rightarrow> (case unescape EncPath frag of Inl e \<Rightarrow> Inl (url_error raw e) | Inr _ \<Rightarrow> Inr sh)))"

text \<open>A parsed URL whose scheme is not empty starts with that scheme, a colon and, if a host was read, two slashes.\<close>

lemma get_scheme_prefix:
  "get_scheme s = Inr (sch, rest) \<Longrightarrow> sch \<noteq> [] \<Longrightarrow> s = sch @ CHR '':'' # rest"
  by (auto simp: get_scheme_def Let_def split: list.splits if_splits)
    (metis takeWhile_dropWhile_id)

lemma parse_rest_host:
  "parse_rest scheme rest = Inr (sch, host) \<Longrightarrow> host \<noteq> [] \<Longrightarrow> sch = scheme \<and> has_prefix rest ''//''"
  by (auto simp: parse_rest_def path_only_def Let_def split: if_splits sum.splits)

lemma parse_no_fragment_prefix:
  assumes "parse_no_fragment u = Inr (sch, host)" "sch \<noteq> []" "host \<noteq> []"
  shows "\<exists>s r. map ascii_lower s = sch \<and> u = s @ ''://'' @ r"
proof -
  from assms obtain s rest where g: "get_scheme u = Inr (s, rest)"
    and p: "parse_rest (map ascii_lower s) (fst (cut_at (CHR ''?'') rest)) = Inr (sch, host)"
    by (auto simp: parse_no_fragment_def split: if_splits sum.splits)
  from parse_rest_host [OF p assms(3)] have sch: "sch = map ascii_lower s"
    and pre: "has_prefix (fst (cut_at (CHR ''?'') rest)) ''//''" by auto
  then obtain r where "takeWhile (\<lambda>x. x \<noteq> CHR ''?'') rest = ''//'' @ r"
    by (auto simp: has_prefix_iff cut_at_def)
  then have "rest = ''//'' @ r @ dropWhile (\<lambda>x. x \<noteq> CHR ''?'') rest"
    by (metis append.assoc takeWhile_dropWhile_id)
  moreover have "u = s @ CHR '':'' # rest"
    using get_scheme_prefix [OF g] sch assms(2) by auto
  ultimately show ?thesis using sch by (metis append_Cons append_Nil append.assoc)
qed

lemma url_parse_prefix:
  assumes "url_parse raw = Inr (sch, host)" "sch \<noteq> []" "host \<noteq> []"
  shows "\<exists>s r. map ascii_lower s = sch \<and> raw = s @ ''://'' @ r"
proof -
  from assms(1) have "parse_no_fragment (takeWhile (\<lambda>x. x \<noteq> CHR 0x23) raw) = Inr (sch, host)"
    by (auto simp: url_parse_def cut_at_def split: sum.splits)
  from parse_no_fragment_prefix [OF this assms(2,3)] obtain s r where
    s: "map ascii_lower s = sch" and u: "takeWhile (\<lambda>x. x \<noteq> CHR 0x23) raw = s @ ''://'' @ r" by blast
  have "raw = (s @ ''://'' @ r) @ dropWhile (\<lambda>x. x \<noteq> CHR 0x23) raw"
    by (metis u takeWhile_dropWhile_id)
  then have "raw = s @ ''://'' @ (r @ dropWhile (\<lambda>x. x \<noteq> CHR 0x23) raw)" by simp
  with s show ?thesis by blast
qed

end
