(* ===== verification/Validate.thy ===== *)
theory Validate
  imports GoUrl
begin

text \<open>
  \<open>internal/validate/validate.go\<close>: the checks on tool inputs. Each returns Go's \<open>error\<close>:
  \<^const>\<open>None\<close> is \<open>nil\<close>. A header map is an association list; its length is \<open>len\<close>.
\<close>

type_synonym headers = "(string, string) gomap"

definition maxAliasLength :: nat where "maxAliasLength = 64"
definition maxMessageLength :: nat where "maxMessageLength = 32768"
definition maxHeaderEntries :: nat where "maxHeaderEntries = 20"
definition maxBroadcastAliases :: nat where "maxBroadcastAliases = 20"
definition minBroadcastAliases :: nat where "minBroadcastAliases = 1"
definition maxPingEndpointLength :: nat where "maxPingEndpointLength = 256"

definition isValidAliasChar :: "nat \<Rightarrow> bool" where
  "isValidAliasChar ch \<longleftrightarrow> (97 \<le> ch \<and> ch \<le> 122) \<or> (48 \<le> ch \<and> ch \<le> 57) \<or> ch = 45"

text \<open>The \<open>range\<close> loop of \<open>Alias\<close>: the first rune that is not allowed, with its byte position.\<close>

fun alias_loop :: "nat \<Rightarrow> (nat \<times> nat list) list \<Rightarrow> (nat \<times> nat) option" where
  "alias_loop i [] = None"
| "alias_loop i ((ch, bs) # rs) =
     (if isValidAliasChar ch then alias_loop (i + length bs) rs else Some (ch, i))"

text \<open>The \<open>%q\<close> verb on a rune.\<close>

definition quote_char :: "nat \<Rightarrow> string" where
  "quote_char r =
     (if r = 34 then [CHR 0x27, CHR 0x22, CHR 0x27]
      else if r = 39 then [CHR 0x27, CHR 0x5C, CHR 0x27, CHR 0x27]
      else CHR 0x27 # quote_rune (r, encode_rune_bytes r) @ [CHR 0x27])"

definition validate_Alias :: "string \<Rightarrow> goerr option" where
  "validate_Alias alias =
     (if alias = [] then Some (errors_new ''alias is required and cannot be empty'')
      else if length alias > maxAliasLength then
        Some (errors_new (''alias must be at most '' @ itoa (int maxAliasLength) @ '' characters, got ''
          @ itoa (int (length alias))))
      else (case alias_loop 0 (runes_of (map byte alias)) of
         Some (ch, i) \<Rightarrow> Some (errors_new (''alias contains invalid character '' @ quote_char ch
           @ '' at position '' @ itoa (int i)
           @ '': only lowercase letters, digits, and hyphens are allowed''))
       | None \<Rightarrow> None))"

definition validate_URL :: "string \<Rightarrow> goerr option" where
  "validate_URL rawURL =
     (if rawURL = [] then Some (errors_new ''URL is required and cannot be empty'')
      else (case url_parse rawURL of
         Inl e \<Rightarrow> Some (wrap_err ''URL is malformed: '' e)
       | Inr (scheme, host) \<Rightarrow>
           if scheme \<noteq> ''http'' \<and> scheme \<noteq> ''https''
           then Some (errors_new (''URL must have http or https scheme, got '' @ go_quote scheme))
           else if host = [] then Some (errors_new ''URL must have a non-empty host'')
           else None))"

definition validate_Message :: "string \<Rightarrow> goerr option" where
  "validate_Message message =
     (if message = [] then Some (errors_new ''message is required and cannot be empty'')
      else if length message > maxMessageLength then
        Some (errors_new (''message must be at most '' @ itoa (int maxMessageLength) @ '' characters, got ''
          @ itoa (int (length message))))
      else None)"

definition validate_Headers :: "headers \<Rightarrow> goerr option" where
  "validate_Headers h =
     (if length h > maxHeaderEntries then
        Some (errors_new (''headers must have at most '' @ itoa (int maxHeaderEntries) @ '' entries, got ''
          @ itoa (int (length h))))
      else None)"

definition validate_BroadcastAliases :: "string list \<Rightarrow> goerr option" where
  "validate_BroadcastAliases aliases =
     (if length aliases < minBroadcastAliases then
        Some (errors_new (''at least '' @ itoa (int minBroadcastAliases) @ '' target alias is required for broadcast''))
      else if length aliases > maxBroadcastAliases then
        Some (errors_new (''broadcast targets must be at most '' @ itoa (int maxBroadcastAliases)
          @ '' aliases, got '' @ itoa (int (length aliases))))
      else None)"

definition validate_PingEndpoint :: "string \<Rightarrow> goerr option" where
  "validate_PingEndpoint endpoint =
     (if endpoint = [] \<or> hd endpoint \<noteq> CHR ''/'' then
        Some (errors_new (''ping_endpoint must start with '' @ [CHR 0x27, CHR ''/'', CHR 0x27]))
      else if length endpoint > maxPingEndpointLength then
        Some (errors_new (''ping_endpoint must be at most '' @ itoa (int maxPingEndpointLength) @ '' characters''))
      else None)"

section \<open>The runes of a valid alias are its bytes\<close>

lemma decode_rune_ascii:
  assumes "decode_rune (b # bs) = (r, w)" "r < 128"
  shows "r = b \<and> w = 1"
proof -
  have n2: "194 \<le> b \<Longrightarrow> decode2 b bs = (r, w) \<Longrightarrow> False"
    using assms(2) by (auto simp: decode2_def rune_error_def cont_byte_def split: list.splits if_splits)
  have n3: "224 \<le> b \<Longrightarrow> decode3 b bs = (r, w) \<Longrightarrow> False"
    using assms(2)
    by (auto simp: decode3_def rune_error_def second_ok_def cont_byte_def split: list.splits if_splits)
  have n4: "240 \<le> b \<Longrightarrow> decode4 b bs = (r, w) \<Longrightarrow> False"
    using assms(2)
    by (auto simp: decode4_def rune_error_def second_ok_def cont_byte_def split: list.splits if_splits)
  show ?thesis
    using assms n2 n3 n4 by (auto simp: decode_rune_def rune_error_def split: if_splits)
qed

lemma alias_char_ascii: "isValidAliasChar r \<Longrightarrow> r < 128"
  by (auto simp: isValidAliasChar_def)

lemma alias_loop_None: "alias_loop i (runes_of bs) = None \<longleftrightarrow> list_all isValidAliasChar bs"
proof (induction bs arbitrary: i rule: runes_of.induct)
  case (2 b bs)
  obtain r w where rw: "decode_rune (b # bs) = (r, w)" by fastforce
  show ?case
  proof (cases "isValidAliasChar r")
    case True
    with decode_rune_ascii [OF rw alias_char_ascii] have "r = b" "w = 1" by auto
    with True rw 2 show ?thesis by simp
  next
    case False
    have "\<not> isValidAliasChar b"
    proof
      assume b: "isValidAliasChar b"
      then have "b < 128" by (rule alias_char_ascii)
      with rw have "r = b" by (simp add: decode_rune_def)
      with b False show False by simp
    qed
    with False rw show ?thesis by simp
  qed
qed simp

lemma validate_Alias_None:
  "validate_Alias alias = None \<longleftrightarrow>
     alias \<noteq> [] \<and> length alias \<le> 64 \<and> list_all (\<lambda>c. isValidAliasChar (byte c)) alias"
proof -
  have "list_all (\<lambda>c. isValidAliasChar (byte c)) alias \<longleftrightarrow> alias_loop 0 (runes_of (map byte alias)) = None"
    by (simp add: alias_loop_None list.pred_map comp_def)
  then show ?thesis
    by (cases "alias_loop 0 (runes_of (map byte alias))")
      (auto simp: validate_Alias_def maxAliasLength_def)
qed

lemma valid_alias_no_slash: "validate_Alias alias = None \<Longrightarrow> CHR ''/'' \<notin> set alias"
  by (auto simp: validate_Alias_None list_all_iff isValidAliasChar_def byte_def)

lemma validate_URL_None:
  "validate_URL raw = None \<longleftrightarrow>
     raw \<noteq> [] \<and> (\<exists>scheme host. url_parse raw = Inr (scheme, host)
       \<and> (scheme = ''http'' \<or> scheme = ''https'') \<and> host \<noteq> [])"
  by (auto simp: validate_URL_def split: sum.splits prod.splits if_splits)

lemma validate_URL_shape:
  assumes "validate_URL raw = None"
  shows "\<exists>s r. (map ascii_lower s = ''http'' \<or> map ascii_lower s = ''https'') \<and> raw = s @ ''://'' @ r"
proof -
  from assms obtain scheme host where p: "url_parse raw = Inr (scheme, host)"
    and s: "scheme = ''http'' \<or> scheme = ''https''" and h: "host \<noteq> []"
    by (auto simp: validate_URL_None)
  from s have "scheme \<noteq> []" by auto
  from url_parse_prefix [OF p this h] obtain x r
    where "map ascii_lower x = scheme" "raw = x @ ''://'' @ r" by blast
  with s show ?thesis by (intro exI [of _ x] exI [of _ r]) simp
qed

text \<open>An alias and a URL are never confused: no valid alias passes the URL check.\<close>

lemma alias_not_URL: "validate_Alias a = None \<Longrightarrow> validate_URL a \<noteq> None"
proof
  assume a: "validate_Alias a = None" and u: "validate_URL a = None"
  from validate_URL_shape [OF u] obtain s r where "a = s @ ''://'' @ r" by blast
  then have "CHR ''/'' \<in> set a" by simp
  with valid_alias_no_slash [OF a] show False by simp
qed

text \<open>The definitions that evaluate the check of a concrete URL.\<close>

lemmas url_eval = validate_URL_def url_parse_def cut_at_def parse_no_fragment_def get_scheme_def
  scheme_char_def is_alpha_def is_digit_def byte_def parse_rest_def has_prefix_def parse_authority_def
  parse_host_def host_char_def path_only_def ascii_lower_def after_last_def before_last_def
  valid_optional_port_def

end
