(* ===== verification/HistoryStore.thy ===== *)
theory HistoryStore
  imports Validate
begin

text \<open>
  \<open>history/history_backend.go\<close> and \<open>history/history_memory.go\<close>: the history of interactions, kept
  per alias and bounded by a depth. The contract of the \<open>Backend\<close> interface is the locale
  \<open>history_contract\<close>; the memory backend is interpreted here, the file backend in its own theory.
\<close>

record hist_entry =
  he_time :: string
  he_sent :: string
  he_response :: string
  he_context :: string
  he_task :: string
  he_error :: bool

text \<open>\<open>parse\<close> is \<open>time.Parse(time.RFC3339, _)\<close>; the zero time is 0.\<close>

definition ParseTimestamp :: "(string \<Rightarrow> int option) \<Rightarrow> hist_entry \<Rightarrow> int outcome" where
  "ParseTimestamp parse e =
     (if he_time e = [] then Return 0
      else (case parse (he_time e) of
          None \<Rightarrow> Panic ''unable to parse timestamp''
        | Some t \<Rightarrow> Return t))"

section \<open>The backend contract\<close>

definition take_last :: "nat \<Rightarrow> 'a list \<Rightarrow> 'a list" where
  "take_last n xs = drop (length xs - n) xs"

lemma take_last_length [simp]: "length (take_last n xs) = min n (length xs)"
  by (simp add: take_last_def)

lemma take_last_all: "length xs \<le> n \<Longrightarrow> take_last n xs = xs"
  by (simp add: take_last_def)

lemma take_last_snoc: "0 < n \<Longrightarrow> take_last n (take_last n xs @ [x]) = take_last n (xs @ [x])"
  by (cases "n \<le> length xs") (simp_all add: take_last_def Suc_diff_le)

lemma tl_conv_drop1: "tl xs = drop 1 xs"
  by (simp add: drop_Suc)

datatype ('k, 'e) hist_op = AppendOp 'k 'e | WipeOp 'k

text \<open>The entries appended under a key since it was last wiped.\<close>

fun appended :: "'k \<Rightarrow> ('k, 'e) hist_op list \<Rightarrow> 'e list \<Rightarrow> 'e list" where
  "appended k [] acc = acc"
| "appended k (AppendOp j e # ops) acc = appended k ops (if j = k then acc @ [e] else acc)"
| "appended k (WipeOp j # ops) acc = appended k ops (if j = k then [] else acc)"

fun op_key :: "('k, 'e) hist_op \<Rightarrow> 'k" where
  "op_key (AppendOp k _) = k"
| "op_key (WipeOp k) = k"

locale history_contract =
  fixes add :: "'k \<Rightarrow> 'e \<Rightarrow> 's \<Rightarrow> 's"
    and wipe :: "'k \<Rightarrow> 's \<Rightarrow> 's"
    and entries :: "'s \<Rightarrow> 'k \<Rightarrow> 'e list"
    and depth :: "'s \<Rightarrow> nat"
    and stored :: "'e \<Rightarrow> 'e"
    and valid :: "'k \<Rightarrow> bool"
    and good :: "'s \<Rightarrow> bool"
  assumes entries_add: "good s \<Longrightarrow> valid k \<Longrightarrow> valid j \<Longrightarrow>
      entries (add k e s) j
        = (if j = k then take_last (depth s) (entries s k @ [stored e]) else entries s j)"
    and entries_wipe: "good s \<Longrightarrow> valid k \<Longrightarrow> valid j \<Longrightarrow>
      entries (wipe k s) j = (if j = k then [] else entries s j)"
    and good_add: "good s \<Longrightarrow> valid k \<Longrightarrow> good (add k e s)"
    and good_wipe: "good s \<Longrightarrow> valid k \<Longrightarrow> good (wipe k s)"
    and depth_const: "depth (add k e s) = depth s \<and> depth (wipe k s) = depth s"
    and depth_pos: "good s \<Longrightarrow> 0 < depth s"
begin

lemma run_entries:
  assumes "good s" "valid k" "\<forall>x \<in> set ops. valid (op_key x)" "entries s k = take_last (depth s) acc"
  shows "entries (fold (\<lambda>x. case x of AppendOp j e \<Rightarrow> add j e | WipeOp j \<Rightarrow> wipe j) ops s) k
       = take_last (depth s) (appended k (map (\<lambda>x. case x of AppendOp j e \<Rightarrow> AppendOp j (stored e)
            | WipeOp j \<Rightarrow> WipeOp j) ops) acc)"
  using assms
proof (induction ops arbitrary: s acc)
  case (Cons x ops)
  show ?case
  proof (cases x)
    case (AppendOp j e)
    let ?acc = "if j = k then acc @ [stored e] else acc"
    have "entries (add j e s) k = take_last (depth (add j e s)) ?acc"
      using Cons.prems AppendOp depth_pos [OF Cons.prems(1)]
      by (auto simp: entries_add depth_const take_last_snoc)
    moreover have "good (add j e s)" using Cons.prems AppendOp by (simp add: good_add)
    ultimately show ?thesis using Cons.IH [of "add j e s" ?acc] Cons.prems AppendOp
      by (simp add: depth_const)
  next
    case (WipeOp j)
    let ?acc = "if j = k then [] else acc"
    have "entries (wipe j s) k = take_last (depth (wipe j s)) ?acc"
      using Cons.prems WipeOp by (simp add: entries_wipe depth_const take_last_def)
    moreover have "good (wipe j s)" using Cons.prems WipeOp by (simp add: good_wipe)
    ultimately show ?thesis using Cons.IH [of "wipe j s" ?acc] Cons.prems WipeOp
      by (simp add: depth_const)
  qed
qed simp

end

section \<open>The memory backend\<close>

record memory_backend =
  mb_entries :: "(string, hist_entry list) gomap"
  mb_depth :: int

definition NewMemoryBackend :: "int \<Rightarrow> memory_backend" where
  "NewMemoryBackend depth = \<lparr>mb_entries = [], mb_depth = depth\<rparr>"

definition mb_get :: "memory_backend \<Rightarrow> string \<Rightarrow> hist_entry list" where
  "mb_get m alias = (case map_of (mb_entries m) alias of None \<Rightarrow> [] | Some es \<Rightarrow> es)"

text \<open>\<open>entries[1:]\<close> of an empty slice panics: a depth below 1 cannot hold any entry.\<close>

definition mb_Append ::
  "string \<Rightarrow> hist_entry \<Rightarrow> memory_backend \<Rightarrow> goerr option outcome \<times> memory_backend" where
  "mb_Append alias entry m =
     (let es = mb_get m alias in
      if int (length es) \<ge> mb_depth m then
        (case es of
           [] \<Rightarrow> (Panic ''runtime error: slice bounds out of range [1:0]'', m)
         | _ # rest \<Rightarrow> (Return None, m\<lparr>mb_entries := AList.update alias (rest @ [entry]) (mb_entries m)\<rparr>))
      else (Return None, m\<lparr>mb_entries := AList.update alias (es @ [entry]) (mb_entries m)\<rparr>))"

definition mb_List :: "memory_backend \<Rightarrow> string \<Rightarrow> goerr + hist_entry list" where
  "mb_List m alias = Inr (mb_get m alias)"

definition mb_Delete :: "string \<Rightarrow> memory_backend \<Rightarrow> goerr option \<times> memory_backend" where
  "mb_Delete alias m = (None, m\<lparr>mb_entries := AList.delete alias (mb_entries m)\<rparr>)"

definition mb_Clear :: "string \<Rightarrow> memory_backend \<Rightarrow> goerr option \<times> memory_backend" where
  "mb_Clear alias m = (None, m\<lparr>mb_entries := AList.delete alias (mb_entries m)\<rparr>)"

definition mb_Close :: "memory_backend \<Rightarrow> goerr option" where
  "mb_Close m = None"

text \<open>No alias holds more than \<open>depth\<close> entries.\<close>

definition mb_inv :: "memory_backend \<Rightarrow> bool" where
  "mb_inv m \<longleftrightarrow> gm_wf (mb_entries m) \<and> 0 < mb_depth m \<and>
     (\<forall>a. int (length (mb_get m a)) \<le> mb_depth m)"

lemma mb_inv_new [wf_intros]: "0 < d \<Longrightarrow> mb_inv (NewMemoryBackend d)"
  by (simp add: mb_inv_def NewMemoryBackend_def mb_get_def)

lemma mb_get_append:
  assumes "mb_inv m"
  shows "mb_get (snd (mb_Append a e m)) b
       = (if b = a then take_last (nat (mb_depth m)) (mb_get m a @ [e]) else mb_get m b)"
proof (cases "int (length (mb_get m a)) \<ge> mb_depth m")
  case True
  with assms have len: "length (mb_get m a) = nat (mb_depth m)" "0 < mb_depth m"
    unfolding mb_inv_def by (metis order_antisym nat_int) (use assms in \<open>simp add: mb_inv_def\<close>)
  then obtain x xs where es: "mb_get m a = x # xs" by (cases "mb_get m a") auto
  with len have "take_last (nat (mb_depth m)) (mb_get m a @ [e]) = xs @ [e]"
    by (simp add: take_last_def)
  with es True show ?thesis
    by (simp add: mb_Append_def Let_def) (simp add: mb_get_def map_of_update)
next
  case False
  then have "take_last (nat (mb_depth m)) (mb_get m a @ [e]) = mb_get m a @ [e]"
    by (intro take_last_all) simp
  with False show ?thesis
    by (simp add: mb_Append_def Let_def) (simp add: mb_get_def map_of_update)
qed

lemma mb_append_returns: "mb_inv m \<Longrightarrow> fst (mb_Append a e m) = Return None"
  by (cases "mb_get m a") (auto simp: mb_Append_def mb_inv_def Let_def)

lemma mb_append_panics:
  "mb_depth m \<le> 0 \<Longrightarrow> mb_get m a = [] \<Longrightarrow> \<not> returns (fst (mb_Append a e m)) \<and> snd (mb_Append a e m) = m"
  by (simp add: mb_Append_def)

lemma mb_depth_const [simp]:
  "mb_depth (snd (mb_Append a e m)) = mb_depth m"
  "mb_depth (snd (mb_Delete a m)) = mb_depth m"
  "mb_depth (snd (mb_Clear a m)) = mb_depth m"
  by (auto simp: mb_Append_def mb_Delete_def mb_Clear_def Let_def split: list.splits)

lemma mb_get_wipe:
  "mb_get (snd (mb_Delete a m)) b = (if b = a then [] else mb_get m b)"
  "mb_get (snd (mb_Clear a m)) b = (if b = a then [] else mb_get m b)"
  by (simp_all add: mb_get_def mb_Delete_def mb_Clear_def map_of_delete)

lemma mb_inv_append [wf_intros]: "mb_inv m \<Longrightarrow> mb_inv (snd (mb_Append a e m))"
proof -
  assume inv: "mb_inv m"
  have "gm_wf (mb_entries (snd (mb_Append a e m)))"
    using inv by (auto simp: mb_inv_def mb_Append_def Let_def gm_wf_update split: list.splits)
  moreover have "int (length (mb_get (snd (mb_Append a e m)) b)) \<le> mb_depth m" for b
    using inv by (auto simp: mb_get_append) (auto simp: mb_inv_def)
  ultimately show ?thesis using inv by (simp add: mb_inv_def)
qed

lemma mb_inv_wipe [wf_intros]:
  "mb_inv m \<Longrightarrow> mb_inv (snd (mb_Delete a m))"
  "mb_inv m \<Longrightarrow> mb_inv (snd (mb_Clear a m))"
  by (simp_all add: mb_inv_def mb_get_wipe) (simp_all add: mb_Delete_def mb_Clear_def gm_wf_delete)

text \<open>One operation on the backend.\<close>

definition mb_step :: "(string, hist_entry) hist_op \<Rightarrow> memory_backend \<Rightarrow> memory_backend" where
  "mb_step x = (case x of AppendOp a e \<Rightarrow> \<lambda>m. snd (mb_Append a e m) | WipeOp a \<Rightarrow> \<lambda>m. snd (mb_Clear a m))"

interpretation memory_history: history_contract
  "\<lambda>a e m. snd (mb_Append a e m)" "\<lambda>a m. snd (mb_Clear a m)" mb_get "\<lambda>m. nat (mb_depth m)"
  "\<lambda>e. e" "\<lambda>_. True" mb_inv
  by unfold_locales (auto simp: mb_get_append mb_get_wipe wf_intros mb_inv_def [THEN iffD1])

end
