(* ===== verification/KeyedStore.thy ===== *)
theory KeyedStore
  imports Prelude
begin

text \<open>
  The interface several components offer: a store of values under keys with lookup, insertion and
  deletion. The agent registry, the context store, the rate limiters, the client cache and the
  directory's card registry provide it; each is interpreted in its own theory. The laws are those
  of a finite map: \<open>store_get\<close> is the abstraction, and \<open>store_size\<close> counts its domain.
\<close>

datatype ('k, 'v) store_op = Put 'k 'v | Del 'k

fun spec_op :: "('k, 'v) store_op \<Rightarrow> ('k \<Rightarrow> 'v option) \<Rightarrow> ('k \<Rightarrow> 'v option)" where
  "spec_op (Put k v) f = f(k \<mapsto> v)"
| "spec_op (Del k) f = f(k := None)"

locale keyed_store =
  fixes store_get :: "'s \<Rightarrow> 'k \<Rightarrow> 'v option"
    and store_put :: "'k \<Rightarrow> 'v \<Rightarrow> 's \<Rightarrow> 's"
    and store_del :: "'k \<Rightarrow> 's \<Rightarrow> 's"
    and store_wf :: "'s \<Rightarrow> bool"
    and store_size :: "'s \<Rightarrow> nat"
  assumes get_put: "store_wf s \<Longrightarrow> store_get (store_put k v s) = (store_get s)(k \<mapsto> v)"
    and get_del: "store_wf s \<Longrightarrow> store_get (store_del k s) = (store_get s)(k := None)"
    and wf_put: "store_wf s \<Longrightarrow> store_wf (store_put k v s)"
    and wf_del: "store_wf s \<Longrightarrow> store_wf (store_del k s)"
    and size_dom: "store_wf s \<Longrightarrow> store_size s = card (dom (store_get s))"
    and finite_dom: "store_wf s \<Longrightarrow> finite (dom (store_get s))"
begin

lemma get_put_same: "store_wf s \<Longrightarrow> store_get (store_put k v s) k = Some v"
  by (simp add: get_put)

lemma get_put_other: "store_wf s \<Longrightarrow> j \<noteq> k \<Longrightarrow> store_get (store_put k v s) j = store_get s j"
  by (simp add: get_put)

lemma get_del_other: "store_wf s \<Longrightarrow> j \<noteq> k \<Longrightarrow> store_get (store_del k s) j = store_get s j"
  by (simp add: get_del)

lemma del_put: "store_wf s \<Longrightarrow> store_get (store_del k (store_put k v s)) = (store_get s)(k := None)"
  by (simp add: get_del get_put wf_put)

lemma size_put:
  "store_wf s \<Longrightarrow> store_size (store_put k v s)
     = (if store_get s k = None then Suc (store_size s) else store_size s)"
  by (simp add: size_dom wf_put get_put finite_dom card_insert_if domIff)

lemma size_del:
  assumes "store_wf s" "store_get s k = Some v"
  shows "Suc (store_size (store_del k s)) = store_size s"
proof -
  have "k \<in> dom (store_get s)" using assms(2) by blast
  then have "Suc (card (dom (store_get s) - {k})) = card (dom (store_get s))"
    using finite_dom [OF assms(1)] by (intro card_Suc_Diff1)
  then show ?thesis using assms(1) by (simp add: size_dom wf_del get_del)
qed

text \<open>Any sequence of insertions and deletions refines the same sequence on the abstract map.\<close>

lemma run_refines:
  assumes "store_wf s"
  shows "store_get (fold (\<lambda>x s. case x of Put k v \<Rightarrow> store_put k v s | Del k \<Rightarrow> store_del k s) ops s)
           = fold spec_op ops (store_get s)"
  using assms
proof (induction ops arbitrary: s)
  case (Cons x ops)
  then show ?case by (cases x) (simp_all add: wf_put wf_del get_put get_del fun_upd_def)
qed simp

end

text \<open>Association lists with distinct keys are such a store.\<close>

lemma gm_size_dom: "gm_wf m \<Longrightarrow> length m = card (dom (map_of m))"
  by (simp add: gm_wf_def dom_map_of_conv_image_fst distinct_card flip: set_map)

lemma keyed_store_gomap: "keyed_store map_of AList.update AList.delete gm_wf length"
  by unfold_locales
    (simp_all add: map_of_update map_of_delete gm_wf_update gm_wf_delete gm_size_dom finite_dom_map_of)

end
