(* ===== verification/A2ATypes.thy ===== *)
theory A2ATypes
  imports GoJson GoError
begin

text \<open>
  The A2A protocol values the gateway handles, with the fields it reads or writes. The Go types
  come from the a2a SDK; identifiers the SDK makes up (message ids) are not read by the gateway
  and are left out. The texts of the task states are those of the embedded schema
  \<open>internal/specification/schema/a2a_task.json\<close>. A pointer that may be \<open>nil\<close> is an
  \<^typ>\<open>'a option\<close>.
\<close>

datatype task_state = TS_Unspecified | TS_Submitted | TS_Working | TS_Completed | TS_Failed
  | TS_Canceled | TS_InputRequired | TS_Rejected | TS_AuthRequired | TS_Other string

fun task_state_text :: "task_state \<Rightarrow> string" where
  "task_state_text TS_Unspecified = ''TASK_STATE_UNSPECIFIED''"
| "task_state_text TS_Submitted = ''TASK_STATE_SUBMITTED''"
| "task_state_text TS_Working = ''TASK_STATE_WORKING''"
| "task_state_text TS_Completed = ''TASK_STATE_COMPLETED''"
| "task_state_text TS_Failed = ''TASK_STATE_FAILED''"
| "task_state_text TS_Canceled = ''TASK_STATE_CANCELED''"
| "task_state_text TS_InputRequired = ''TASK_STATE_INPUT_REQUIRED''"
| "task_state_text TS_Rejected = ''TASK_STATE_REJECTED''"
| "task_state_text TS_AuthRequired = ''TASK_STATE_AUTH_REQUIRED''"
| "task_state_text (TS_Other s) = s"

datatype part_content = TextC string | DataC jval | UrlC string | RawC string | OtherC

type_synonym parts = "part_content option list"

datatype msg_role = RoleUser | RoleAgent

record a2a_message =
  msg_role_of :: msg_role
  msg_parts :: parts
  msg_context :: string
  msg_task :: string

record task_status =
  st_state :: task_state
  st_message :: "a2a_message option"

record artifact =
  art_name :: string
  art_parts :: parts

record a2a_task =
  tk_id :: string
  tk_context :: string
  tk_status :: task_status
  tk_artifacts :: "artifact option list"

text \<open>The zero value of a task status.\<close>

definition zero_status :: task_status where
  "zero_status = \<lparr>st_state = TS_Other [], st_message = None\<rparr>"

text \<open>What \<open>SendMessage\<close> may return, and the events of a stream.\<close>

datatype send_result = ResTask a2a_task | ResMessage a2a_message | ResOther

datatype a2a_event =
    EvTask a2a_task
  | EvMessage a2a_message
  | EvStatus string string task_status    \<comment> \<open>task id, context id, status\<close>
  | EvArtifact string string artifact     \<comment> \<open>task id, context id, artifact\<close>
  | EvOther

datatype transport = JsonRpc | HttpJson | OtherTransport string

record agent_interface =
  ai_url :: string
  ai_binding :: transport

record agent_skill =
  sk_id :: string
  sk_name :: string
  sk_description :: string
  sk_tags :: "string list"
  sk_examples :: "string list"

record agent_card =
  ac_name :: string
  ac_description :: string
  ac_version :: string
  ac_interfaces :: "agent_interface list"
  ac_input_modes :: "string list"
  ac_output_modes :: "string list"
  ac_streaming :: bool
  ac_skills :: "agent_skill list"

definition text_part :: "string \<Rightarrow> part_content option" where
  "text_part s = Some (TextC s)"

end
