(* ===== verification/AgentRegistry.thy ===== *)
theory AgentRegistry
  imports KeyedStore A2ATypes Validate "HOL-Library.Multiset"
begin

text \<open>
  \<open>registry/agent_registry.go\<close> and \<open>registry/resolve_result.go\<close>: the in-memory map from aliases
  to agents. The mutex makes each method one atomic step on the map.
\<close>

record registered_agent =
  ra_alias :: string
  ra_url :: string
  ra_headers :: headers
  ra_card :: "agent_card option"
  ra_ping :: string

type_synonym agent_registry = "(string, registered_agent) gomap"

record resolve_result =
  rr_url :: string
  rr_headers :: headers
  rr_is_alias :: bool
  rr_alias :: string

definition NewAgentRegistry :: agent_registry where
  "NewAgentRegistry = []"

definition reg_Connect ::
  "string \<Rightarrow> string \<Rightarrow> headers \<Rightarrow> string \<Rightarrow> agent_registry \<Rightarrow> bool \<times> agent_registry" where
  "reg_Connect alias url headers pingEndpoint r =
     (map_of r alias \<noteq> None,
      AList.update alias \<lparr>ra_alias = alias, ra_url = url, ra_headers = headers, ra_card = None,
        ra_ping = pingEndpoint\<rparr> r)"

definition reg_Disconnect :: "string \<Rightarrow> agent_registry \<Rightarrow> registered_agent option \<times> agent_registry" where
  "reg_Disconnect alias r =
     (case map_of r alias of
        None \<Rightarrow> (None, r)
      | Some entry \<Rightarrow> (Some entry, AList.delete alias r))"

definition reg_Lookup :: "agent_registry \<Rightarrow> string \<Rightarrow> registered_agent option" where
  "reg_Lookup r alias = map_of r alias"

definition reg_List :: "agent_registry \<Rightarrow> registered_agent list" where
  "reg_List r = sort_key ra_alias (map snd r)"

definition reg_SetCard :: "string \<Rightarrow> agent_card \<Rightarrow> agent_registry \<Rightarrow> bool \<times> agent_registry" where
  "reg_SetCard alias c r =
     (case map_of r alias of
        None \<Rightarrow> (False, r)
      | Some entry \<Rightarrow> (True, AList.update alias (entry\<lparr>ra_card := Some c\<rparr>) r))"

definition reg_Len :: "agent_registry \<Rightarrow> nat" where
  "reg_Len r = length r"

section \<open>The registry invariant\<close>

text \<open>Keys are distinct and every entry is filed under its own alias.\<close>

definition reg_inv :: "agent_registry \<Rightarrow> bool" where
  "reg_inv r \<longleftrightarrow> gm_wf r \<and> (\<forall>k a. map_of r k = Some a \<longrightarrow> ra_alias a = k)"

lemma reg_inv_new [wf_intros]: "reg_inv NewAgentRegistry"
  by (simp add: reg_inv_def NewAgentRegistry_def)

lemma reg_inv_connect [wf_intros]: "reg_inv r \<Longrightarrow> reg_inv (snd (reg_Connect a u h p r))"
  by (auto simp: reg_inv_def reg_Connect_def gm_wf_update map_of_update)

lemma reg_inv_disconnect [wf_intros]: "reg_inv r \<Longrightarrow> reg_inv (snd (reg_Disconnect a r))"
  by (auto simp: reg_inv_def reg_Disconnect_def gm_wf_delete map_of_delete split: option.splits if_splits)

lemma reg_inv_setcard [wf_intros]: "reg_inv r \<Longrightarrow> reg_inv (snd (reg_SetCard a c r))"
  by (auto simp: reg_inv_def reg_SetCard_def gm_wf_update map_of_update split: option.splits if_splits)

section \<open>Lookups after updates\<close>

lemma lookup_connect:
  "reg_Lookup (snd (reg_Connect a u h p r)) =
     (reg_Lookup r)(a \<mapsto> \<lparr>ra_alias = a, ra_url = u, ra_headers = h, ra_card = None, ra_ping = p\<rparr>)"
  by (auto simp: reg_Lookup_def reg_Connect_def map_of_update)

lemma lookup_disconnect: "reg_Lookup (snd (reg_Disconnect a r)) = (reg_Lookup r)(a := None)"
  by (auto simp: reg_Lookup_def reg_Disconnect_def map_of_delete fun_eq_iff split: option.splits)

lemma lookup_setcard:
  "reg_Lookup (snd (reg_SetCard a c r)) b =
     (if b = a then map_option (\<lambda>e. e\<lparr>ra_card := Some c\<rparr>) (reg_Lookup r a) else reg_Lookup r b)"
  by (auto simp: reg_Lookup_def reg_SetCard_def map_of_update split: option.splits)

lemma connect_updated: "fst (reg_Connect a u h p r) \<longleftrightarrow> reg_Lookup r a \<noteq> None"
  by (simp add: reg_Connect_def reg_Lookup_def)

lemma disconnect_entry: "fst (reg_Disconnect a r) = reg_Lookup r a"
  by (simp add: reg_Disconnect_def reg_Lookup_def split: option.splits)

text \<open>The registry is a keyed store: \<open>Connect\<close> inserts, \<open>Disconnect\<close> deletes.\<close>

interpretation agents: keyed_store reg_Lookup
  "\<lambda>a e. AList.update a e" "\<lambda>a r. snd (reg_Disconnect a r)" gm_wf reg_Len
proof unfold_locales
  fix s :: agent_registry and k
  show "gm_wf s \<Longrightarrow> gm_wf (snd (reg_Disconnect k s))"
    by (auto simp: reg_Disconnect_def gm_wf_delete split: option.splits)
next
  fix s :: agent_registry and k
  show "reg_Lookup (snd (reg_Disconnect k s)) = (reg_Lookup s)(k := None)" by (rule lookup_disconnect)
qed (auto simp: reg_Lookup_def [abs_def] map_of_update gm_wf_update gm_size_dom
      reg_Len_def finite_dom_map_of)

lemma reg_Len_connect:
  "gm_wf r \<Longrightarrow> reg_Len (snd (reg_Connect a u h p r))
     = (if reg_Lookup r a = None then Suc (reg_Len r) else reg_Len r)"
  using agents.size_put [of r a] by (simp add: reg_Connect_def)

section \<open>Listing\<close>

lemma reg_List_sorted: "sorted (map ra_alias (reg_List r))"
  by (simp add: reg_List_def)

lemma reg_inv_ran: "reg_inv r \<Longrightarrow> a \<in> snd ` set r \<longleftrightarrow> map_of r (ra_alias a) = Some a"
proof
  assume inv: "reg_inv r" and "a \<in> snd ` set r"
  then obtain k where "(k, a) \<in> set r" by force
  with inv have "map_of r k = Some a" by (simp add: reg_inv_def gm_wf_def)
  moreover from this inv have "ra_alias a = k" by (simp add: reg_inv_def)
  ultimately show "map_of r (ra_alias a) = Some a" by simp
next
  assume "reg_inv r" "map_of r (ra_alias a) = Some a"
  then show "a \<in> snd ` set r" by (metis image_eqI map_of_SomeD snd_conv)
qed

lemma reg_List_set: "reg_inv r \<Longrightarrow> a \<in> set (reg_List r) \<longleftrightarrow> reg_Lookup r (ra_alias a) = Some a"
  using reg_inv_ran [of r a] by (simp add: reg_List_def reg_Lookup_def)

lemma reg_inv_aliases: "reg_inv r \<Longrightarrow> map ra_alias (map snd r) = map fst r"
  by (auto simp: reg_inv_def gm_wf_def)

lemma reg_List_distinct: "reg_inv r \<Longrightarrow> distinct (map ra_alias (reg_List r))"
proof -
  assume inv: "reg_inv r"
  have "mset (map ra_alias (reg_List r)) = mset (map fst r)"
    by (simp only: reg_List_def mset_map mset_sort) (metis inv mset_map reg_inv_aliases)
  then have "distinct (map ra_alias (reg_List r)) = distinct (map fst r)"
    by (rule mset_eq_imp_distinct_iff)
  with inv show ?thesis by (simp add: reg_inv_def gm_wf_def)
qed

text \<open>
  The list depends on the contents only, not on the order in which Go visits the map: a sorted
  list without duplicates is determined by its elements.
\<close>

lemma reg_List_canonical:
  assumes "reg_inv r" "reg_inv r'" "reg_Lookup r = reg_Lookup r'"
  shows "reg_List r = reg_List r'"
proof -
  have els: "set (reg_List r) = set (reg_List r')"
    by (simp add: set_eq_iff reg_List_set [OF assms(1)] reg_List_set [OF assms(2)] assms(3))
  then have "set (map ra_alias (reg_List r)) = set (map ra_alias (reg_List r'))" by simp
  then have "map ra_alias (reg_List r) = map ra_alias (reg_List r')"
    by (intro sorted_distinct_set_unique reg_List_sorted reg_List_distinct assms(1,2))
  moreover have "inj_on ra_alias (set (reg_List r) \<union> set (reg_List r'))"
    using els assms(1) reg_List_distinct [OF assms(1)] by (simp add: distinct_map)
  ultimately show ?thesis by (rule map_inj_on)
qed

end
