(* ===== verification/CallerCards.thy ===== *)
theory CallerCards
  imports KeyedStore GoJson
begin

text \<open>
  \<open>registry/caller_card.go\<close> and \<open>registry/caller_card_store.go\<close>: the caller's own agent card
  and its injection into the metadata of outgoing requests. A metadata map is \<^const>\<open>None\<close> when it
  is \<open>nil\<close>.
\<close>

record caller_skill =
  cs_name :: string
  cs_description :: string

record caller_capabilities =
  cc_streaming :: bool
  cc_push :: bool

record caller_card =
  cd_name :: string
  cd_description :: string
  cd_url :: string
  cd_skills :: "caller_skill list"
  cd_capabilities :: "caller_capabilities option"

datatype meta_value = MetaJson jval | MetaCard caller_card

type_synonym metadata = "(string, meta_value) gomap option"

definition defaultCallerCardKey :: string where
  "defaultCallerCardKey = ''caller_agent_card''"

record caller_card_store =
  cst_card :: "caller_card option"
  cst_key :: string

definition NewCallerCardStore :: caller_card_store where
  "NewCallerCardStore = \<lparr>cst_card = None, cst_key = []\<rparr>"

definition cc_Set :: "caller_card \<Rightarrow> string \<Rightarrow> caller_card_store \<Rightarrow> caller_card_store" where
  "cc_Set c metadataKey s =
     s\<lparr>cst_card := Some c, cst_key := (if metadataKey \<noteq> [] then metadataKey else defaultCallerCardKey)\<rparr>"

definition cc_Get :: "caller_card_store \<Rightarrow> caller_card option" where
  "cc_Get s = cst_card s"

definition cc_Remove :: "caller_card_store \<Rightarrow> bool \<times> caller_card_store" where
  "cc_Remove s =
     (case cst_card s of
        None \<Rightarrow> (False, s)
      | Some _ \<Rightarrow> (True, s\<lparr>cst_card := None, cst_key := []\<rparr>))"

definition InjectCallerCard :: "caller_card_store \<Rightarrow> metadata \<Rightarrow> metadata" where
  "InjectCallerCard s md =
     (case cst_card s of
        None \<Rightarrow> md
      | Some c \<Rightarrow>
          let key = (if cst_key s = [] then defaultCallerCardKey else cst_key s) in
          (case md of
             Some m \<Rightarrow> if map_of m key \<noteq> None then md else Some (AList.update key (MetaCard c) m)
           | None \<Rightarrow> Some (AList.update key (MetaCard c) [])))"

text \<open>A stored card always has a key, and no key is left behind without a card.\<close>

definition cc_inv :: "caller_card_store \<Rightarrow> bool" where
  "cc_inv s \<longleftrightarrow> (cst_card s = None \<longleftrightarrow> cst_key s = [])"

lemma cc_inv_new [wf_intros]: "cc_inv NewCallerCardStore"
  by (simp add: cc_inv_def NewCallerCardStore_def)

lemma cc_inv_set [wf_intros]: "cc_inv (cc_Set c k s)"
  by (simp add: cc_inv_def cc_Set_def defaultCallerCardKey_def)

lemma cc_inv_remove [wf_intros]: "cc_inv s \<Longrightarrow> cc_inv (snd (cc_Remove s))"
  by (auto simp: cc_inv_def cc_Remove_def split: option.splits)

definition meta_lookup :: "metadata \<Rightarrow> string \<Rightarrow> meta_value option" where
  "meta_lookup md k = (case md of None \<Rightarrow> None | Some m \<Rightarrow> map_of m k)"

lemma inject_lookup:
  assumes "cst_card s = Some c" "cst_key s \<noteq> []"
  shows "meta_lookup (InjectCallerCard s md) k =
    (if k = cst_key s \<and> meta_lookup md k = None then Some (MetaCard c) else meta_lookup md k)"
  using assms by (cases md) (auto simp: InjectCallerCard_def meta_lookup_def map_of_update Let_def)

lemma inject_none: "cst_card s = None \<Longrightarrow> InjectCallerCard s md = md"
  by (simp add: InjectCallerCard_def)

lemma inject_idem: "InjectCallerCard s (InjectCallerCard s md) = InjectCallerCard s md"
  by (cases "cst_card s"; cases md) (auto simp: InjectCallerCard_def Let_def map_of_update)

text \<open>The JSON form of a card: the struct tags with their \<open>omitempty\<close>.\<close>

definition skill_json :: "caller_skill \<Rightarrow> jval" where
  "skill_json k = JObj ((''name'', JStr (cs_name k)) #
     (if cs_description k = [] then [] else [(''description'', JStr (cs_description k))]))"

definition capabilities_json :: "caller_capabilities \<Rightarrow> jval" where
  "capabilities_json c = JObj
     ((if cc_streaming c then [(''streaming'', JBool True)] else []) @
      (if cc_push c then [(''pushNotifications'', JBool True)] else []))"

definition card_json :: "caller_card \<Rightarrow> jval" where
  "card_json c = JObj
     ([(''name'', JStr (cd_name c)), (''description'', JStr (cd_description c))] @
      (if cd_url c = [] then [] else [(''url'', JStr (cd_url c))]) @
      (if cd_skills c = [] then [] else [(''skills'', JArr (map skill_json (cd_skills c)))]) @
      (case cd_capabilities c of None \<Rightarrow> [] | Some p \<Rightarrow> [(''capabilities'', capabilities_json p)]))"

lemma find_concat_None: "(\<And>x. x \<in> set xs \<Longrightarrow> f x = []) \<Longrightarrow> List.find (\<lambda>_. True) (concat (map f xs)) = None"
  by (induction xs) auto

lemma skill_json_good: "json_bad (skill_json k) = None"
  by (simp add: skill_json_def)

lemma card_json_good: "json_bad (card_json c) = None"
proof -
  have "List.find (\<lambda>_. True) (concat (map ((\<lambda>v. case json_bad v of None \<Rightarrow> [] | Some e \<Rightarrow> [e]) \<circ> skill_json) ks)) = None"
    for ks by (rule find_concat_None) (simp add: skill_json_good)
  then show ?thesis
    by (simp add: card_json_def capabilities_json_def split: option.splits)
qed

end
