(* ===== verification/GoTime.thy ===== *)
theory GoTime
  imports GoUtf8 Complex_Main
begin

text \<open>
  Durations and instants as nanosecond counts, the text of a \<open>time.Duration\<close>, rounding, and the
  part of \<open>float64\<close> the gateway uses: comparisons with zero and the \<open>%.2f\<close> verb.
\<close>

definition second :: int where
  "second = 1000000000"

definition millisecond :: int where
  "millisecond = 1000000"

text \<open>\<open>time.Duration(n) * time.Second\<close>: a 64-bit product, which wraps around.\<close>

definition seconds_to_duration :: "int \<Rightarrow> int" where
  "seconds_to_duration n = wrap64 (n * second)"

lemma seconds_to_duration_exact:
  "\<bar>n\<bar> \<le> 9223372036 \<Longrightarrow> seconds_to_duration n = n * second"
  unfolding seconds_to_duration_def by (rule wrap64_id) (auto simp: in_int64_def second_def)

definition max_int64 :: int where
  "max_int64 = 9223372036854775807"

text \<open>\<open>Duration.Round\<close> for a non-negative duration: half away from zero, clamped.\<close>

definition duration_round :: "int \<Rightarrow> int \<Rightarrow> int" where
  "duration_round d m =
     (if m \<le> 0 then d
      else let r = d mod m in
        if 2 * r < m then d - r else min (d + m - r) max_int64)"

fun pad_digits :: "nat \<Rightarrow> nat \<Rightarrow> string" where
  "pad_digits 0 v = []"
| "pad_digits (Suc p) v = pad_digits p (v div 10) @ [digit_chr (v mod 10)]"

text \<open>\<open>v / 10^p\<close> in decimal, without trailing zeros.\<close>

definition frac_text :: "nat \<Rightarrow> nat \<Rightarrow> string" where
  "frac_text v p =
     (let f = trim_right (CHR ''0'') (pad_digits p (v mod 10 ^ p))
      in nat_digits (v div 10 ^ p) @ (if f = [] then [] else CHR ''.'' # f))"

definition nat_duration_text :: "nat \<Rightarrow> string" where
  "nat_duration_text u =
     (if u = 0 then ''0s''
      else if u < 1000 then nat_digits u @ ''ns''
      else if u < 1000000 then frac_text u 3 @ [CHR 0xC2, CHR 0xB5, CHR ''s'']
      else if u < 1000000000 then frac_text u 6 @ ''ms''
      else let w = u div 1000000000; m = w div 60; h = m div 60;
             s = frac_text (w mod 60 * 1000000000 + u mod 1000000000) 9 @ ''s''
           in if m = 0 then s
              else if h = 0 then nat_digits m @ ''m'' @ s
              else nat_digits h @ ''h'' @ nat_digits (m mod 60) @ ''m'' @ s)"

definition duration_text :: "int \<Rightarrow> string" where
  "duration_text d = (if d < 0 then CHR ''-'' # nat_duration_text (nat (- d)) else nat_duration_text (nat d))"

section \<open>Calendar\<close>

text \<open>
  An instant is the number of nanoseconds since Go's zero time, the start of year 1; the text is
  the RFC 3339 layout in the zone \<open>off\<close> seconds east of UTC, for instants in years 1 to 9999.
\<close>

definition leap_year :: "nat \<Rightarrow> bool" where
  "leap_year y \<longleftrightarrow> y mod 4 = 0 \<and> (y mod 100 \<noteq> 0 \<or> y mod 400 = 0)"

definition month_lengths :: "bool \<Rightarrow> nat list" where
  "month_lengths leap = [31, if leap then 29 else 28, 31, 30, 31, 30, 31, 31, 30, 31, 30, 31]"

fun find_month :: "nat \<Rightarrow> nat list \<Rightarrow> nat \<Rightarrow> nat \<times> nat" where
  "find_month m [] d = (m, Suc d)"
| "find_month m (l # ls) d = (if d < l then (m, Suc d) else find_month (Suc m) ls (d - l))"

definition civil :: "nat \<Rightarrow> nat \<times> nat \<times> nat" where
  "civil d =
     (let n400 = d div 146097; d1 = d mod 146097;
          n100 = min 3 (d1 div 36524); d2 = d1 - n100 * 36524;
          n4 = d2 div 1461; d3 = d2 mod 1461;
          n1 = min 3 (d3 div 365); d4 = d3 - n1 * 365;
          y = 400 * n400 + 100 * n100 + 4 * n4 + n1 + 1
      in (y, find_month 1 (month_lengths (leap_year y)) d4))"

definition zone_text :: "int \<Rightarrow> string" where
  "zone_text off =
     (if off = 0 then ''Z''
      else let m = nat \<bar>off\<bar> div 60 in
        (if off < 0 then ''-'' else ''+'') @ pad_digits 2 (m div 60) @ '':'' @ pad_digits 2 (m mod 60))"

definition rfc3339 :: "int \<Rightarrow> int \<Rightarrow> string" where
  "rfc3339 off t =
     (let s = nat (t div second + off) in
      case civil (s div 86400) of (y, m, d) \<Rightarrow>
        let r = s mod 86400 in
        pad_digits 4 y @ ''-'' @ pad_digits 2 m @ ''-'' @ pad_digits 2 d @ ''T'' @
        pad_digits 2 (r div 3600) @ '':'' @ pad_digits 2 (r div 60 mod 60) @ '':'' @ pad_digits 2 (r mod 60) @
        zone_text off)"

lemma civil_epoch: "civil 719162 = (1970, 1, 1)" "civil 0 = (1, 1, 1)" "civil 738944 = (2024, 2, 29)"
  by (code_simp)+

section \<open>float64\<close>

datatype f64 = Fin rat | PosInf | NegInf | NotANumber

fun f64_le0 :: "f64 \<Rightarrow> bool" where
  "f64_le0 (Fin r) = (r \<le> 0)"
| "f64_le0 PosInf = False"
| "f64_le0 NegInf = True"
| "f64_le0 NotANumber = False"

fun f64_lt0 :: "f64 \<Rightarrow> bool" where
  "f64_lt0 (Fin r) = (r < 0)"
| "f64_lt0 PosInf = False"
| "f64_lt0 NegInf = True"
| "f64_lt0 NotANumber = False"

fun f64_gt0 :: "f64 \<Rightarrow> bool" where
  "f64_gt0 (Fin r) = (r > 0)"
| "f64_gt0 PosInf = True"
| "f64_gt0 NegInf = False"
| "f64_gt0 NotANumber = False"

lemma f64_le0_gt0: "f64_gt0 x \<Longrightarrow> \<not> f64_le0 x"
  by (cases x) auto

text \<open>Rounding half to even, and two decimals of a float.\<close>

definition round_half_even :: "rat \<Rightarrow> int" where
  "round_half_even r =
     (let f = \<lfloor>r\<rfloor>; d = r - of_int f in
      if d < 1 / 2 then f else if d > 1 / 2 then f + 1 else if even f then f else f + 1)"

fun f64_text2 :: "f64 \<Rightarrow> string" where
  "f64_text2 (Fin r) =
     (let n = round_half_even (\<bar>r\<bar> * 100) in
      (if r < 0 then ''-'' else []) @ nat_digits (nat n div 100) @ ''.'' @ pad_digits 2 (nat n mod 100))"
| "f64_text2 PosInf = ''+Inf''"
| "f64_text2 NegInf = ''-Inf''"
| "f64_text2 NotANumber = ''NaN''"

end
