(* ===== verification/GoBase64.thy ===== *)
theory GoBase64
  imports GoStrings
begin

text \<open>
  \<open>base64.StdEncoding\<close> of Go's standard library: encoding with padding, and decoding with its
  rules (line breaks are skipped, padding must be complete, nothing may follow it). A decoding
  error is the byte offset that \<open>CorruptInputError\<close> carries.
\<close>

definition b64_char :: "nat \<Rightarrow> char" where
  "b64_char n =
     (if n < 26 then chr (65 + n) else if n < 52 then chr (71 + n)
      else if n < 62 then chr (n - 4) else if n = 62 then CHR ''+'' else CHR ''/'')"

definition b64_val :: "char \<Rightarrow> nat option" where
  "b64_val c =
     (let b = byte c in
      if 65 \<le> b \<and> b \<le> 90 then Some (b - 65)
      else if 97 \<le> b \<and> b \<le> 122 then Some (b - 71)
      else if 48 \<le> b \<and> b \<le> 57 then Some (b + 4)
      else if b = 43 then Some 62 else if b = 47 then Some 63 else None)"

lemma b64_val_char [simp]: "n < 64 \<Longrightarrow> b64_val (b64_char n) = Some n"
  unfolding b64_val_def b64_char_def Let_def
  by (cases "n < 26"; cases "n < 52"; cases "n < 62"; cases "n = 62") (auto simp: byte_def chr_def)

definition pad_char :: char where
  "pad_char = CHR ''=''"

fun b64_encode_bytes :: "nat list \<Rightarrow> string" where
  "b64_encode_bytes [] = []"
| "b64_encode_bytes [a] = [b64_char (a div 4), b64_char (a mod 4 * 16), pad_char, pad_char]"
| "b64_encode_bytes [a, b] =
     [b64_char (a div 4), b64_char (a mod 4 * 16 + b div 16), b64_char (b mod 16 * 4), pad_char]"
| "b64_encode_bytes (a # b # c # r) =
     b64_char (a div 4) # b64_char (a mod 4 * 16 + b div 16)
       # b64_char (b mod 16 * 4 + c div 64) # b64_char (c mod 64) # b64_encode_bytes r"

definition b64_encode :: "string \<Rightarrow> string" where
  "b64_encode s = b64_encode_bytes (map byte s)"

text \<open>
  The decoder works on the characters left after dropping line breaks, each with its offset in
  the input; \<open>n\<close> is the length of the input.
\<close>

definition b64_significant :: "string \<Rightarrow> (nat \<times> char) list" where
  "b64_significant s = filter (\<lambda>(_, c). c \<noteq> CHR 0x0A \<and> c \<noteq> CHR 0x0D) (enumerate 0 s)"

text \<open>After the first padding character at position \<open>j\<close> of a quantum.\<close>

definition b64_pad_end :: "nat \<Rightarrow> nat \<Rightarrow> (nat \<times> char) list \<Rightarrow> nat option" where
  "b64_pad_end n j r =
     (if j = 2 then
        (case r of
           [] \<Rightarrow> Some n
         | (i, c) # r' \<Rightarrow> if c \<noteq> pad_char then Some (i - 1)
             else (case r' of [] \<Rightarrow> None | (i', _) # _ \<Rightarrow> Some i'))
      else (case r of [] \<Rightarrow> None | (i, _) # _ \<Rightarrow> Some i))"

fun b64_quanta :: "nat \<Rightarrow> nat list \<Rightarrow> (nat \<times> char) list \<Rightarrow> nat + nat list" where
  "b64_quanta n acc [] =
     (if acc = [] then Inr [] else Inl (n - length acc))"
| "b64_quanta n acc ((i, c) # r) =
     (case b64_val c of
        Some v \<Rightarrow>
          (case acc of
             [x, y, z] \<Rightarrow>
               (case b64_quanta n [] r of
                  Inl e \<Rightarrow> Inl e
                | Inr bs \<Rightarrow> Inr ((x * 4 + y div 16) # (y mod 16 * 16 + z div 4) # (z mod 4 * 64 + v) # bs))
           | _ \<Rightarrow> b64_quanta n (acc @ [v]) r)
      | None \<Rightarrow>
          if c \<noteq> pad_char then Inl i
          else (case acc of
             [x, y] \<Rightarrow> (case b64_pad_end n 2 r of Some e \<Rightarrow> Inl e | None \<Rightarrow> Inr [x * 4 + y div 16])
           | [x, y, z] \<Rightarrow> (case b64_pad_end n 3 r of Some e \<Rightarrow> Inl e
               | None \<Rightarrow> Inr [x * 4 + y div 16, y mod 16 * 16 + z div 4])
           | _ \<Rightarrow> Inl i))"

definition b64_decode :: "string \<Rightarrow> nat + string" where
  "b64_decode s =
     (case b64_quanta (length s) [] (b64_significant s) of
        Inl e \<Rightarrow> Inl e | Inr bs \<Rightarrow> Inr (map chr bs))"

lemma b64_val_plain:
  "b64_val c = Some v \<Longrightarrow> c \<noteq> CHR 0x0A \<and> c \<noteq> CHR 0x0D \<and> c \<noteq> pad_char"
  by (auto simp: b64_val_def byte_def pad_char_def)

lemma b64_char_plain: "n < 64 \<Longrightarrow> b64_char n \<noteq> CHR 0x0A \<and> b64_char n \<noteq> CHR 0x0D"
  using b64_val_plain [OF b64_val_char] by blast

lemma b64_pad_val [simp]: "b64_val pad_char = None"
  by (simp add: b64_val_def pad_char_def byte_def)

lemma b64_encode_no_breaks:
  "list_all (\<lambda>b. b < 256) bs \<Longrightarrow>
   list_all (\<lambda>c. c \<noteq> CHR 0x0A \<and> c \<noteq> CHR 0x0D) (b64_encode_bytes bs)"
proof (induction bs rule: b64_encode_bytes.induct)
  case (2 a)
  then have "a div 4 < 64" "a mod 4 * 16 < 64" by simp_all
  then show ?case by (simp add: b64_char_plain pad_char_def)
next
  case (3 a b)
  then have "a div 4 < 64" "a mod 4 * 16 + b div 16 < 64" "b mod 16 * 4 < 64" by auto
  then show ?case by (simp add: b64_char_plain pad_char_def)
next
  case (4 a b c r)
  then have "a div 4 < 64" "a mod 4 * 16 + b div 16 < 64" "b mod 16 * 4 + c div 64 < 64"
    "c mod 64 < 64" by auto
  with 4 show ?case by (simp add: b64_char_plain)
qed simp

text \<open>One full quantum, and the arithmetic that splits three bytes into four digits and back.\<close>

lemma b64_quantum:
  "x < 64 \<Longrightarrow> y < 64 \<Longrightarrow> z < 64 \<Longrightarrow> v < 64 \<Longrightarrow> b64_quanta n [] r = Inr bs \<Longrightarrow>
   b64_quanta n [] ((i1, b64_char x) # (i2, b64_char y) # (i3, b64_char z) # (i4, b64_char v) # r)
     = Inr ((x * 4 + y div 16) # (y mod 16 * 16 + z div 4) # (z mod 4 * 64 + v) # bs)"
  by simp

lemma b64_split2:
  fixes a b :: nat
  assumes "a < 256" "b < 256"
  shows "a div 4 < 64" "a mod 4 * 16 + b div 16 < 64" "b mod 16 * 4 < 64"
    "a div 4 * 4 + (a mod 4 * 16 + b div 16) div 16 = a"
    "(a mod 4 * 16 + b div 16) mod 16 * 16 + b mod 16 * 4 div 4 = b"
  using assms by auto

lemma b64_split3:
  fixes b c :: nat
  assumes "b < 256" "c < 256"
  shows "b mod 16 * 4 + c div 64 < 64" "c mod 64 < 64"
    "(b mod 16 * 4 + c div 64) mod 4 * 64 + c mod 64 = c"
    "(b mod 16 * 4 + c div 64) div 4 = b mod 16"
  using assms by auto

lemma b64_quanta_encode:
  "list_all (\<lambda>b. b < 256) bs \<Longrightarrow> b64_quanta n [] (enumerate k (b64_encode_bytes bs)) = Inr bs"
proof (induction bs arbitrary: k rule: b64_encode_bytes.induct)
  case (2 a)
  then have "a div 4 < 64" "a mod 4 * 16 < 64" by auto
  with 2 show ?case by (simp add: b64_pad_end_def)
next
  case (3 a b)
  then have "a < 256" "b < 256" by auto
  from b64_split2 [OF this] show ?case by (simp add: b64_pad_end_def)
next
  case (4 a b c r)
  then have lt: "a < 256" "b < 256" "c < 256" and r: "list_all (\<lambda>b. b < 256) r" by auto
  note s2 = b64_split2 [OF lt(1,2)] and s3 = b64_split3 [OF lt(2,3)]
  have "(a mod 4 * 16 + b div 16) mod 16 * 16 + (b mod 16 * 4 + c div 64) div 4 = b"
    using s2(5) s3(4) by simp
  with b64_quantum [OF s2(1,2) s3(1,2) 4(1) [OF r]] s2(4) s3(3)
  show ?case by (simp only: b64_encode_bytes.simps enumerate_simps)
qed simp

lemma filter_enumerate_all: "list_all P xs \<Longrightarrow> filter (\<lambda>(_, c). P c) (enumerate k xs) = enumerate k xs"
  by (induction xs arbitrary: k) auto

lemma b64_roundtrip: "b64_decode (b64_encode s) = Inr s"
proof -
  have lt: "list_all (\<lambda>b. b < 256) (map byte s)" by (simp add: list_all_iff)
  have "b64_significant (b64_encode s) = enumerate 0 (b64_encode s)"
    unfolding b64_significant_def b64_encode_def
    by (rule filter_enumerate_all [OF b64_encode_no_breaks [OF lt]])
  then show ?thesis
    using b64_quanta_encode [OF lt]
    by (simp add: b64_decode_def b64_encode_def comp_def)
qed

end
