(* ===== verification/Directory.thy ===== *)
theory Directory
  imports KeyedStore A2ATypes GoBase64 "HOL-Library.Multiset"
begin

text \<open>
  The \<open>directory\<close> package. The in-memory registry is a Go map keyed by card name; the order in
  which \<open>List\<close> visits it is a parameter \<open>visit\<close>, which Go leaves open and may change from call to
  call. A registry of the embedder is a state of an abstract type \<open>'r\<close> with the operations of a
  \<open>registry_ops\<close> record; the optional interfaces it implements are the \<^const>\<open>Some\<close> fields.
\<close>

section \<open>Registries and resolvers (registry.go, resolver.go)\<close>

record filter_example =
  fx_filter :: string
  fx_description :: string

record filter_help =
  fh_description :: string
  fh_syntax :: string
  fh_examples :: "filter_example list"
  fh_fields :: "string list"

definition DefaultFilterHelp :: filter_help where
  "DefaultFilterHelp = \<lparr>
     fh_description = ''Filters agent cards using case-insensitive substring matching.'',
     fh_syntax = ''Pass a plain text string as the filter parameter. Cards whose name, description, or skill tags contain the string (case-insensitive) are returned.'',
     fh_examples =
       [\<lparr>fx_filter = ''weather'', fx_description = ''Agents related to weather''\<rparr>,
        \<lparr>fx_filter = ''code review'', fx_description = ''Agents that handle code review''\<rparr>],
     fh_fields = []\<rparr>"

type_synonym card_map = "(string, agent_card) gomap"

definition NewMemoryRegistry :: card_map where
  "NewMemoryRegistry = []"

definition mr_Register :: "agent_card \<Rightarrow> card_map \<Rightarrow> card_map" where
  "mr_Register c r = AList.update (ac_name c) c r"

definition mr_Unregister :: "string \<Rightarrow> card_map \<Rightarrow> bool \<times> card_map" where
  "mr_Unregister name r =
     (case map_of r name of None \<Rightarrow> (False, r) | Some _ \<Rightarrow> (True, AList.delete name r))"

definition mr_List :: "(agent_card list \<Rightarrow> agent_card list) \<Rightarrow> card_map \<Rightarrow> agent_card list" where
  "mr_List visit r = visit (map snd r)"

definition mr_Len :: "card_map \<Rightarrow> nat" where
  "mr_Len r = length r"

text \<open>\<open>q\<close> is the lower-cased filter; \<open>ulow\<close> lower-cases the code points beyond ASCII.\<close>

definition matchesCard :: "(nat \<Rightarrow> nat) \<Rightarrow> string \<Rightarrow> agent_card \<Rightarrow> bool" where
  "matchesCard ulow q c \<longleftrightarrow>
     contains (to_lower ulow (ac_name c)) q
     \<or> contains (to_lower ulow (ac_description c)) q
     \<or> list_ex (\<lambda>s. list_ex (\<lambda>t. contains (to_lower ulow t) q) (sk_tags s)) (ac_skills c)"

definition default_Resolve :: "(nat \<Rightarrow> nat) \<Rightarrow> string \<Rightarrow> agent_card list \<Rightarrow> agent_card list" where
  "default_Resolve ulow flt cs = filter (matchesCard ulow (to_lower ulow flt)) cs"

record 'r registry_ops =
  rg_register :: "agent_card \<Rightarrow> 'r \<Rightarrow> goerr option \<times> 'r"
  rg_unregister :: "string \<Rightarrow> 'r \<Rightarrow> (goerr + bool) \<times> 'r"
  rg_list :: "'r \<Rightarrow> goerr + agent_card list"
  rg_filter :: "('r \<Rightarrow> string \<Rightarrow> goerr + agent_card list) option"
  rg_query :: "('r \<Rightarrow> string \<Rightarrow> int \<Rightarrow> string \<Rightarrow> goerr + (agent_card list \<times> string)) option"
  rg_help :: "filter_help option"

datatype 'r dir_registry = MemoryReg card_map | CustomReg 'r

datatype filter_resolver =
    DefaultResolver
  | CustomResolver "string \<Rightarrow> agent_card list \<Rightarrow> agent_card list" "filter_help option"

record 'r directory =
  dy_registry :: "'r dir_registry"
  dy_resolver :: filter_resolver

text \<open>The options of \<open>directory.New\<close>, applied in order.\<close>

datatype 'r dir_option = WithRegistry "'r dir_registry" | WithFilterResolver filter_resolver

fun apply_dir_option :: "'r dir_option \<Rightarrow> 'r directory \<Rightarrow> 'r directory" where
  "apply_dir_option (WithRegistry r) d = d\<lparr>dy_registry := r\<rparr>"
| "apply_dir_option (WithFilterResolver r) d = d\<lparr>dy_resolver := r\<rparr>"

definition NewDirectory :: "'r dir_option list \<Rightarrow> 'r directory" where
  "NewDirectory opts = fold apply_dir_option opts
     \<lparr>dy_registry = MemoryReg NewMemoryRegistry, dy_resolver = DefaultResolver\<rparr>"

definition dir_Register :: "'r registry_ops \<Rightarrow> agent_card \<Rightarrow> 'r directory \<Rightarrow> goerr option \<times> 'r directory" where
  "dir_Register ops c d =
     (case dy_registry d of
        MemoryReg r \<Rightarrow> (None, d\<lparr>dy_registry := MemoryReg (mr_Register c r)\<rparr>)
      | CustomReg r \<Rightarrow> (case rg_register ops c r of (e, r') \<Rightarrow> (e, d\<lparr>dy_registry := CustomReg r'\<rparr>)))"

definition dir_Unregister ::
  "'r registry_ops \<Rightarrow> string \<Rightarrow> 'r directory \<Rightarrow> (goerr + bool) \<times> 'r directory" where
  "dir_Unregister ops name d =
     (case dy_registry d of
        MemoryReg r \<Rightarrow>
          (case mr_Unregister name r of (ok, r') \<Rightarrow> (Inr ok, d\<lparr>dy_registry := MemoryReg r'\<rparr>))
      | CustomReg r \<Rightarrow> (case rg_unregister ops name r of (e, r') \<Rightarrow> (e, d\<lparr>dy_registry := CustomReg r'\<rparr>)))"

definition dir_List ::
  "'r registry_ops \<Rightarrow> (agent_card list \<Rightarrow> agent_card list) \<Rightarrow> 'r directory \<Rightarrow> goerr + agent_card list" where
  "dir_List ops visit d =
     (case dy_registry d of MemoryReg r \<Rightarrow> Inr (mr_List visit r) | CustomReg r \<Rightarrow> rg_list ops r)"

definition resolver_Resolve ::
  "(nat \<Rightarrow> nat) \<Rightarrow> filter_resolver \<Rightarrow> string \<Rightarrow> agent_card list \<Rightarrow> agent_card list" where
  "resolver_Resolve ulow r flt cs =
     (case r of DefaultResolver \<Rightarrow> default_Resolve ulow flt cs | CustomResolver f _ \<Rightarrow> f flt cs)"

interpretation cards: keyed_store map_of "\<lambda>k c. AList.update k c" "\<lambda>k r. snd (mr_Unregister k r)" gm_wf mr_Len
proof unfold_locales
  fix s :: card_map and k
  show "map_of (snd (mr_Unregister k s)) = (map_of s)(k := None)"
    by (simp add: mr_Unregister_def map_of_delete fun_upd_idem split: option.splits)
  show "gm_wf s \<Longrightarrow> gm_wf (snd (mr_Unregister k s))"
    by (simp add: mr_Unregister_def gm_wf_delete split: option.splits)
qed (simp_all add: map_of_update gm_wf_update gm_size_dom mr_Len_def finite_dom_map_of)

text \<open>Every card is filed under its own name.\<close>

definition mr_inv :: "card_map \<Rightarrow> bool" where
  "mr_inv r \<longleftrightarrow> gm_wf r \<and> (\<forall>k c. map_of r k = Some c \<longrightarrow> ac_name c = k)"

lemma mr_inv_steps [wf_intros]:
  "mr_inv NewMemoryRegistry"
  "mr_inv r \<Longrightarrow> mr_inv (mr_Register c r)"
  "mr_inv r \<Longrightarrow> mr_inv (snd (mr_Unregister k r))"
  by (auto simp: mr_inv_def NewMemoryRegistry_def mr_Register_def mr_Unregister_def gm_wf_update
      gm_wf_delete map_of_update map_of_delete split: option.splits)

section \<open>Cursors (handler.go)\<close>

definition encodeCursor :: "int \<Rightarrow> string" where
  "encodeCursor offset = b64_encode (''offset:'' @ itoa offset)"

text \<open>
  \<open>fmt.Sscanf(data, "offset:%d", &offset)\<close> on the runes of the data: the literal, spaces but no
  newline, a sign, digits; what follows the digits is not read.
\<close>

fun skip_spaces :: "nat list \<Rightarrow> nat list option" where
  "skip_spaces [] = Some []"
| "skip_spaces (r # rs) =
     (if r = 10 then None else if is_space_rune r then skip_spaces rs else Some (r # rs))"

definition is_digit_rune :: "nat \<Rightarrow> bool" where
  "is_digit_rune r \<longleftrightarrow> 48 \<le> r \<and> r \<le> 57"

definition scan_int :: "nat list \<Rightarrow> int option" where
  "scan_int rs =
     (case skip_spaces rs of
        None \<Rightarrow> None
      | Some rs' \<Rightarrow>
          (let (neg, ds) = (case rs' of
               r # t \<Rightarrow> if r = 45 then (True, t) else if r = 43 then (False, t) else (False, rs')
             | [] \<Rightarrow> (False, []))
           in signed_val neg (map chr (takeWhile is_digit_rune ds))))"

definition sscanf_offset :: "string \<Rightarrow> int option" where
  "sscanf_offset data =
     (let rs = runes data; lit = map byte ''offset:'' in
      if take (length lit) rs = lit then scan_int (drop (length lit) rs) else None)"

definition decodeCursor :: "string \<Rightarrow> goerr + int" where
  "decodeCursor cursor =
     (if cursor = [] then Inr 0
      else (case b64_decode cursor of
          Inl _ \<Rightarrow> Inl (errors_new ''invalid cursor'')
        | Inr data \<Rightarrow>
            (case sscanf_offset data of
               None \<Rightarrow> Inl (errors_new ''invalid cursor'')
             | Some offset \<Rightarrow> if offset < 0 then Inl (errors_new ''invalid cursor'') else Inr offset)))"

section \<open>The handler\<close>

record dir_request =
  dq_method :: string
  dq_get :: "string \<Rightarrow> string"

record query_result =
  qr_cards :: "agent_card list"
  qr_next :: string
  qr_help :: "filter_help option"

datatype dir_body = ErrorBody string | ResultBody query_result

record dir_response =
  ds_status :: int
  ds_allow :: "string option"
  ds_body :: dir_body

definition error_response :: "int \<Rightarrow> string \<Rightarrow> dir_response" where
  "error_response status msg = \<lparr>ds_status = status, ds_allow = None, ds_body = ErrorBody msg\<rparr>"

definition ok_response :: "query_result \<Rightarrow> dir_response" where
  "ok_response q = \<lparr>ds_status = 200, ds_allow = None, ds_body = ResultBody q\<rparr>"

definition registry_help :: "'r registry_ops \<Rightarrow> 'r directory \<Rightarrow> filter_help option" where
  "registry_help ops d = (case dy_registry d of MemoryReg _ \<Rightarrow> None | CustomReg _ \<Rightarrow> rg_help ops)"

definition registry_query ::
  "'r registry_ops \<Rightarrow> 'r directory \<Rightarrow> (string \<Rightarrow> int \<Rightarrow> string \<Rightarrow> goerr + (agent_card list \<times> string)) option" where
  "registry_query ops d =
     (case dy_registry d of MemoryReg _ \<Rightarrow> None
      | CustomReg r \<Rightarrow> map_option (\<lambda>f. f r) (rg_query ops))"

definition registry_filter ::
  "'r registry_ops \<Rightarrow> 'r directory \<Rightarrow> (string \<Rightarrow> goerr + agent_card list) option" where
  "registry_filter ops d =
     (case dy_registry d of MemoryReg _ \<Rightarrow> None
      | CustomReg r \<Rightarrow> map_option (\<lambda>f. f r) (rg_filter ops))"

definition help_response :: "'r registry_ops \<Rightarrow> 'r directory \<Rightarrow> dir_response" where
  "help_response ops d =
     (let h = (case registry_help ops d of
          Some h \<Rightarrow> h
        | None \<Rightarrow> (case dy_resolver d of CustomResolver _ (Some h) \<Rightarrow> h | _ \<Rightarrow> DefaultFilterHelp))
      in ok_response \<lparr>qr_cards = [], qr_next = [], qr_help = Some h\<rparr>)"

definition query_response ::
  "(string \<Rightarrow> int \<Rightarrow> string \<Rightarrow> goerr + (agent_card list \<times> string)) \<Rightarrow> dir_request \<Rightarrow> dir_response" where
  "query_response querier r =
     (let limitStr = dq_get r ''limit'' in
      case (if limitStr = [] then Some 0 else atoi limitStr) of
        None \<Rightarrow> error_response 400 ''limit must be a positive integer''
      | Some limit \<Rightarrow>
          (case querier (dq_get r ''filter'') limit (dq_get r ''cursor'') of
             Inl e \<Rightarrow> if err_is e InvalidCursorErr then error_response 400 ''invalid cursor''
               else error_response 500 ''internal server error''
           | Inr (cs, nextCursor) \<Rightarrow> ok_response \<lparr>qr_cards = cs, qr_next = nextCursor, qr_help = None\<rparr>))"

definition selected_cards ::
  "'r registry_ops \<Rightarrow> (nat \<Rightarrow> nat) \<Rightarrow> (agent_card list \<Rightarrow> agent_card list) \<Rightarrow> 'r directory \<Rightarrow> string
    \<Rightarrow> goerr + agent_card list" where
  "selected_cards ops ulow visit d query =
     (if query \<noteq> [] then
        (case registry_filter ops d of
           Some f \<Rightarrow> f query
         | None \<Rightarrow>
             (case dir_List ops visit d of
                Inl e \<Rightarrow> Inl e
              | Inr cs \<Rightarrow> Inr (resolver_Resolve ulow (dy_resolver d) query cs)))
      else dir_List ops visit d)"

text \<open>The offset and the limit applied to the selected cards, with the cursor of the next page.\<close>

definition page_of :: "int \<Rightarrow> int option \<Rightarrow> 'a list \<Rightarrow> 'a list \<times> string" where
  "page_of offset0 limit cs0 =
     (let offset = (if offset0 > int (length cs0) then int (length cs0) else offset0);
          cs = drop (nat offset) cs0
      in case limit of
           Some l \<Rightarrow> if int (length cs) > l then (take (nat l) cs, encodeCursor (offset + l)) else (cs, [])
         | None \<Rightarrow> (cs, []))"

definition list_response ::
  "'r registry_ops \<Rightarrow> (nat \<Rightarrow> nat) \<Rightarrow> (agent_card list \<Rightarrow> agent_card list) \<Rightarrow> 'r directory
    \<Rightarrow> dir_request \<Rightarrow> dir_response" where
  "list_response ops ulow visit d r =
     (case decodeCursor (dq_get r ''cursor'') of
        Inl _ \<Rightarrow> error_response 400 ''invalid cursor''
      | Inr offset \<Rightarrow>
          let limitStr = dq_get r ''limit'';
              parsed = (if limitStr = [] then Some None
                else (case atoi limitStr of
                    None \<Rightarrow> None | Some l \<Rightarrow> if l \<le> 0 then None else Some (Some l)))
          in (case parsed of
                None \<Rightarrow> error_response 400 ''limit must be a positive integer''
              | Some limit \<Rightarrow>
                  (case selected_cards ops ulow visit d (dq_get r ''filter'') of
                     Inl _ \<Rightarrow> error_response 500 ''internal server error''
                   | Inr cs \<Rightarrow>
                       (case page_of offset limit cs of (page, next_token) \<Rightarrow>
                          ok_response \<lparr>qr_cards = page, qr_next = next_token, qr_help = None\<rparr>))))"

definition ServeHTTP ::
  "'r registry_ops \<Rightarrow> (nat \<Rightarrow> nat) \<Rightarrow> (agent_card list \<Rightarrow> agent_card list) \<Rightarrow> 'r directory
    \<Rightarrow> dir_request \<Rightarrow> dir_response" where
  "ServeHTTP ops ulow visit d r =
     (if dq_method r \<noteq> ''GET'' then
        \<lparr>ds_status = 405, ds_allow = Some ''GET'', ds_body = ErrorBody ''method not allowed''\<rparr>
      else if dq_get r ''help'' = ''true'' then help_response ops d
      else (case registry_query ops d of
          Some querier \<Rightarrow> query_response querier r
        | None \<Rightarrow> list_response ops ulow visit d r))"

section \<open>The server (server.go)\<close>

text \<open>
  What \<open>select\<close> sees first: the cancelled context, with what the shutdown and then the server
  return, or the server returning on its own.
\<close>

datatype serve_event = CtxDone "goerr option" "goerr option" | ServeReturned "goerr option"

definition closed_ok :: "goerr option \<Rightarrow> goerr option" where
  "closed_ok e = (case e of None \<Rightarrow> None | Some x \<Rightarrow> if err_is x ServerClosed then None else Some x)"

fun dir_ListenAndServe :: "serve_event \<Rightarrow> goerr option" where
  "dir_ListenAndServe (CtxDone shutdownErr serverErr) =
     (case shutdownErr of Some e \<Rightarrow> Some e | None \<Rightarrow> closed_ok serverErr)"
| "dir_ListenAndServe (ServeReturned err) = closed_ok err"

end
