(* ===== verification/Inbox.thy ===== *)
theory Inbox
  imports A2ATypes "HOL-Library.Multiset"
begin

text \<open>
  \<open>registry/inbox.go\<close>: the queue of asynchronous responses. Instants are nanosecond counts and 0
  is Go's zero time. The mutex makes each method one atomic step; \<open>now\<close> is what \<open>time.Now\<close>
  answers inside it. \<open>Pop\<close> with a negative length slices out of range, which panics.
\<close>

record inbox_entry =
  ie_alias :: string
  ie_task_id :: string
  ie_context :: string
  ie_state :: string
  ie_time :: int
  ie_task :: "a2a_task option"
  ie_message :: "a2a_message option"
  ie_error :: string

record memory_inbox =
  mi_entries :: "inbox_entry list"
  mi_ttl :: int

record pop_options =
  po_alias :: string
  po_length :: "int option"
  po_latest :: bool

definition NewMemoryInbox :: "int \<Rightarrow> memory_inbox" where
  "NewMemoryInbox ttl = \<lparr>mi_entries = [], mi_ttl = ttl\<rparr>"

definition stamp_entry :: "int \<Rightarrow> inbox_entry \<Rightarrow> inbox_entry" where
  "stamp_entry now e = (if ie_time e = 0 then e\<lparr>ie_time := now\<rparr> else e)"

definition ib_Deposit :: "int \<Rightarrow> inbox_entry \<Rightarrow> memory_inbox \<Rightarrow> memory_inbox" where
  "ib_Deposit now e m = m\<lparr>mi_entries := mi_entries m @ [stamp_entry now e]\<rparr>"

definition ib_prune :: "int \<Rightarrow> memory_inbox \<Rightarrow> memory_inbox" where
  "ib_prune now m =
     (if mi_ttl m \<le> 0 then m
      else m\<lparr>mi_entries := filter (\<lambda>e. \<not> ie_time e < now - mi_ttl m) (mi_entries m)\<rparr>)"

definition ib_Peek :: "int \<Rightarrow> string \<Rightarrow> memory_inbox \<Rightarrow> inbox_entry list \<times> memory_inbox" where
  "ib_Peek now alias m =
     (let m' = ib_prune now m
      in (filter (\<lambda>e. alias = [] \<or> ie_alias e = alias) (mi_entries m'), m'))"

text \<open>The loop that puts the kept entries back among the others.\<close>

fun merge_entries :: "inbox_entry list \<Rightarrow> inbox_entry list \<Rightarrow> inbox_entry list" where
  "merge_entries [] kept = kept"
| "merge_entries (r # rs) [] = r # rs"
| "merge_entries (r # rs) (k # ks) =
     (if \<not> ie_time r > ie_time k then r # merge_entries rs (k # ks)
      else k # merge_entries (r # rs) ks)"

definition ib_Pop :: "int \<Rightarrow> pop_options \<Rightarrow> memory_inbox \<Rightarrow> inbox_entry list outcome \<times> memory_inbox" where
  "ib_Pop now opts m0 =
     (let m = ib_prune now m0;
          matched = filter (\<lambda>e. ie_alias e = po_alias opts) (mi_entries m);
          remaining = filter (\<lambda>e. ie_alias e \<noteq> po_alias opts) (mi_entries m)
      in if matched = [] then (Return [], m)
         else if po_latest opts then (Return [last matched], m\<lparr>mi_entries := remaining\<rparr>)
         else (case po_length opts of
             Some n0 \<Rightarrow>
               let n = (if n0 > int (length matched) then int (length matched) else n0) in
               if n < 0 then (Panic (''runtime error: slice bounds out of range [:'' @ itoa n @ '']''), m)
               else (Return (take (nat n) matched),
                     m\<lparr>mi_entries := merge_entries remaining (drop (nat n) matched)\<rparr>)
           | None \<Rightarrow> (Return matched, m\<lparr>mi_entries := remaining\<rparr>)))"

section \<open>What a pop returns and what it leaves\<close>

definition from_alias :: "string \<Rightarrow> memory_inbox \<Rightarrow> inbox_entry list" where
  "from_alias a m = filter (\<lambda>e. ie_alias e = a) (mi_entries m)"

definition from_others :: "string \<Rightarrow> memory_inbox \<Rightarrow> inbox_entry list" where
  "from_others a m = filter (\<lambda>e. ie_alias e \<noteq> a) (mi_entries m)"

lemma merge_mset: "mset (merge_entries rs ks) = mset rs + mset ks"
  by (induction rs ks rule: merge_entries.induct) auto

lemma merge_filter_kept:
  "list_all (\<lambda>e. \<not> P e) rs \<Longrightarrow> list_all P ks \<Longrightarrow> filter P (merge_entries rs ks) = ks"
  by (induction rs ks rule: merge_entries.induct)
    (auto simp: list_all_iff filter_empty_conv filter_id_conv)

lemma merge_filter_remaining:
  "list_all (\<lambda>e. \<not> P e) rs \<Longrightarrow> list_all P ks \<Longrightarrow> filter (\<lambda>e. \<not> P e) (merge_entries rs ks) = rs"
  by (induction rs ks rule: merge_entries.induct)
    (auto simp: list_all_iff filter_empty_conv filter_id_conv)

lemma merge_sorted:
  "sorted (map ie_time rs) \<Longrightarrow> sorted (map ie_time ks) \<Longrightarrow> sorted (map ie_time (merge_entries rs ks))"
proof (induction rs ks rule: merge_entries.induct)
  case (3 r rs k ks)
  have set: "set (merge_entries xs ys) = set xs \<union> set ys" for xs ys
    using merge_mset [of xs ys] by (metis set_mset_mset set_mset_union)
  from 3 show ?case by (auto simp: set)
qed auto

lemma sorted_map_filter: "sorted (map f xs) \<Longrightarrow> sorted (map f (filter P xs))"
  by (induction xs) auto

lemma sorted_map_drop: "sorted (map f xs) \<Longrightarrow> sorted (map f (drop n xs))"
  by (simp add: drop_map [symmetric] sorted_wrt_drop)

lemma prune_ttl [simp]: "mi_ttl (ib_prune now m) = mi_ttl m"
  by (simp add: ib_prune_def)

lemma prune_subset: "mset (mi_entries (ib_prune now m)) \<subseteq># mset (mi_entries m)"
  by (simp add: ib_prune_def mset_filter multiset_filter_subset)

lemma prune_idem: "ib_prune now (ib_prune now m) = ib_prune now m"
  by (simp add: ib_prune_def)

lemma prune_no_ttl: "mi_ttl m \<le> 0 \<Longrightarrow> ib_prune now m = m"
  by (simp add: ib_prune_def)

lemma partition_mset: "mset (from_alias a m) + mset (from_others a m) = mset (mi_entries m)"
  by (simp add: from_alias_def from_others_def mset_filter flip: multiset_partition)

text \<open>The three branches of \<open>Pop\<close>, over the live entries of the alias.\<close>

lemma pop_latest:
  "po_latest opts \<Longrightarrow> from_alias (po_alias opts) (ib_prune now m) = ms \<Longrightarrow> ms \<noteq> [] \<Longrightarrow>
   ib_Pop now opts m = (Return [last ms],
     (ib_prune now m)\<lparr>mi_entries := from_others (po_alias opts) (ib_prune now m)\<rparr>)"
  by (auto simp: ib_Pop_def from_alias_def from_others_def Let_def)

lemma pop_all:
  "\<not> po_latest opts \<Longrightarrow> po_length opts = None \<Longrightarrow>
   ib_Pop now opts m = (Return (from_alias (po_alias opts) (ib_prune now m)),
     (ib_prune now m)\<lparr>mi_entries := from_others (po_alias opts) (ib_prune now m)\<rparr>)"
  by (auto simp: ib_Pop_def from_alias_def from_others_def filter_empty_conv Let_def
      filter_id_conv intro: sym)

lemma merge_nil [simp]: "merge_entries rs [] = rs"
  by (cases rs) auto

lemma filter_id_none: "filter P xs = [] \<Longrightarrow> filter (\<lambda>x. \<not> P x) xs = xs"
  by (simp add: filter_empty_conv filter_id_conv)

lemma pop_length:
  assumes "\<not> po_latest opts" "po_length opts = Some n" "0 \<le> n"
  shows "ib_Pop now opts m = (Return (take (nat n) (from_alias (po_alias opts) (ib_prune now m))),
     (ib_prune now m)\<lparr>mi_entries := merge_entries (from_others (po_alias opts) (ib_prune now m))
        (drop (nat n) (from_alias (po_alias opts) (ib_prune now m)))\<rparr>)"
proof (cases "filter (\<lambda>e. ie_alias e = po_alias opts) (mi_entries (ib_prune now m)) = []")
  case True
  from filter_id_none [OF this] True assms show ?thesis
    by (simp add: ib_Pop_def from_alias_def from_others_def Let_def)
next
  case False
  with assms show ?thesis
    by (simp add: ib_Pop_def from_alias_def from_others_def Let_def)
qed

lemma pop_panics:
  assumes "\<not> po_latest opts" "po_length opts = Some n" "n < 0"
    "from_alias (po_alias opts) (ib_prune now m) \<noteq> []"
  shows "\<not> returns (fst (ib_Pop now opts m))"
  using assms by (simp add: ib_Pop_def from_alias_def Let_def)

lemma pop_returns:
  "po_latest opts \<or> (\<forall>n. po_length opts = Some n \<longrightarrow> 0 \<le> n) \<Longrightarrow> returns (fst (ib_Pop now opts m))"
  by (auto simp: ib_Pop_def Let_def split: option.splits)

section \<open>The inbox contract\<close>

text \<open>
  The interface \<open>tool.Inbox\<close>: what is held is what was put and not taken, and a take delivers
  held entries only. Runs of such a store deliver no entry twice, and lose none as long as every
  take is lossless.
\<close>

datatype ('d, 'q) inbox_op = PutOp 'd | TakeOp 'q

fun inbox_run ::
  "('d \<Rightarrow> 's \<Rightarrow> 's) \<Rightarrow> ('q \<Rightarrow> 's \<Rightarrow> 'e list \<times> 's) \<Rightarrow> ('d, 'q) inbox_op list \<Rightarrow> 's \<Rightarrow> 'e list \<times> 's" where
  "inbox_run put take_some [] s = ([], s)"
| "inbox_run put take_some (PutOp d # ops) s = inbox_run put take_some ops (put d s)"
| "inbox_run put take_some (TakeOp q # ops) s =
     (case take_some q s of (es, s') \<Rightarrow>
        case inbox_run put take_some ops s' of (fs, s'') \<Rightarrow> (es @ fs, s''))"

definition puts :: "('d \<Rightarrow> 'e) \<Rightarrow> ('d, 'q) inbox_op list \<Rightarrow> 'e multiset" where
  "puts item ops = mset (concat (map (\<lambda>x. case x of PutOp d \<Rightarrow> [item d] | TakeOp _ \<Rightarrow> []) ops))"

lemma puts_simps [simp]:
  "puts item [] = {#}"
  "puts item (PutOp d # ops) = add_mset (item d) (puts item ops)"
  "puts item (TakeOp q # ops) = puts item ops"
  by (simp_all add: puts_def)

locale async_inbox =
  fixes put :: "'d \<Rightarrow> 's \<Rightarrow> 's"
    and take_some :: "'q \<Rightarrow> 's \<Rightarrow> 'e list \<times> 's"
    and item :: "'d \<Rightarrow> 'e"
    and held :: "'s \<Rightarrow> 'e multiset"
    and lossless :: "'q \<Rightarrow> bool"
    and keeps :: "'s \<Rightarrow> bool"
  assumes held_put: "held (put d s) = add_mset (item d) (held s)"
    and held_take: "mset (fst (take_some q s)) + held (snd (take_some q s)) \<subseteq># held s"
    and held_lossless: "keeps s \<Longrightarrow> lossless q \<Longrightarrow>
      mset (fst (take_some q s)) + held (snd (take_some q s)) = held s"
    and keeps_put: "keeps s \<Longrightarrow> keeps (put d s)"
    and keeps_take: "keeps s \<Longrightarrow> keeps (snd (take_some q s))"
begin

lemma at_most_once:
  "mset (fst (inbox_run put take_some ops s)) + held (snd (inbox_run put take_some ops s))
     \<subseteq># held s + puts item ops"
proof (induction ops arbitrary: s)
  case (Cons x ops)
  show ?case
  proof (cases x)
    case (PutOp d)
    with Cons.IH [of "put d s"] show ?thesis by (simp add: held_put)
  next
    case (TakeOp q)
    let ?r = "inbox_run put take_some ops (snd (take_some q s))"
    have "mset (fst (take_some q s)) + (mset (fst ?r) + held (snd ?r))
        \<subseteq># mset (fst (take_some q s)) + (held (snd (take_some q s)) + puts item ops)"
      using Cons.IH by (rule subset_mset.add_left_mono)
    also have "\<dots> \<subseteq># held s + puts item ops"
      using subset_mset.add_right_mono [OF held_take, of q s "puts item ops"]
      by (simp add: add.assoc)
    finally show ?thesis using TakeOp by (simp add: split_beta add.assoc)
  qed
qed simp

lemma exactly_once:
  assumes "keeps s" "\<forall>q. TakeOp q \<in> set ops \<longrightarrow> lossless q"
  shows "mset (fst (inbox_run put take_some ops s)) + held (snd (inbox_run put take_some ops s))
     = held s + puts item ops"
  using assms
proof (induction ops arbitrary: s)
  case (Cons x ops)
  show ?case
  proof (cases x)
    case (PutOp d)
    have "keeps (put d s)" using Cons.prems(1) by (rule keeps_put)
    from Cons.IH [OF this] Cons.prems(2) PutOp show ?thesis by (simp add: held_put)
  next
    case (TakeOp q)
    let ?r = "inbox_run put take_some ops (snd (take_some q s))"
    have "keeps (snd (take_some q s))" using Cons.prems(1) by (rule keeps_take)
    from Cons.IH [OF this] Cons.prems(2)
    have "mset (fst ?r) + held (snd ?r) = held (snd (take_some q s)) + puts item ops" by simp
    moreover have "mset (fst (take_some q s)) + held (snd (take_some q s)) = held s"
      using Cons.prems TakeOp by (intro held_lossless) auto
    ultimately show ?thesis using TakeOp by (simp add: split_beta add.assoc [symmetric])
      (simp add: add.assoc)
  qed
qed simp

end

text \<open>
  \<open>MemoryInbox\<close> keeps the contract. A request carries the instant it is served at. A pop loses
  nothing when it is not a \<open>latest\<close> pop and entries do not expire.
\<close>

definition mi_put :: "int \<times> inbox_entry \<Rightarrow> memory_inbox \<Rightarrow> memory_inbox" where
  "mi_put d m = ib_Deposit (fst d) (snd d) m"

definition mi_take :: "int \<times> pop_options \<Rightarrow> memory_inbox \<Rightarrow> inbox_entry list \<times> memory_inbox" where
  "mi_take q m =
     (case ib_Pop (fst q) (snd q) m of
        (Return es, m') \<Rightarrow> (es, m') | (Panic _, m') \<Rightarrow> ([], m'))"

lemma take_exact:
  assumes "\<not> po_latest (snd q)"
  shows "mset (fst (mi_take q m)) + mset (mi_entries (snd (mi_take q m)))
       = mset (mi_entries (ib_prune (fst q) m))"
proof (cases "po_length (snd q)")
  case None
  with assms show ?thesis by (simp add: mi_take_def pop_all partition_mset)
next
  case (Some n)
  let ?a = "po_alias (snd q)" and ?m = "ib_prune (fst q) m"
  show ?thesis
  proof (cases "0 \<le> n")
    case True
    have "mset (take (nat n) (from_alias ?a ?m)) + mset (drop (nat n) (from_alias ?a ?m))
        = mset (from_alias ?a ?m)"
      by (metis append_take_drop_id mset_append)
    with assms Some True partition_mset [of ?a ?m] show ?thesis
      by (simp add: mi_take_def pop_length merge_mset ac_simps)
  next
    case False
    with assms Some show ?thesis by (auto simp: mi_take_def ib_Pop_def Let_def)
  qed
qed

lemma take_subset: "mset (fst (mi_take q m)) + mset (mi_entries (snd (mi_take q m))) \<subseteq># mset (mi_entries m)"
proof (cases "po_latest (snd q)")
  case True
  let ?a = "po_alias (snd q)" and ?m = "ib_prune (fst q) m"
  have "mset (fst (mi_take q m)) + mset (mi_entries (snd (mi_take q m))) \<subseteq># mset (mi_entries ?m)"
  proof (cases "from_alias ?a ?m = []")
    case True
    then show ?thesis by (simp add: mi_take_def ib_Pop_def from_alias_def Let_def)
  next
    case False
    then have "{#last (from_alias ?a ?m)#} \<subseteq># mset (from_alias ?a ?m)"
      by (simp add: last_in_set)
    then have "{#last (from_alias ?a ?m)#} + mset (from_others ?a ?m) \<subseteq># mset (mi_entries ?m)"
      unfolding partition_mset [of ?a ?m, symmetric] by (rule subset_mset.add_right_mono)
    with False True show ?thesis by (simp add: mi_take_def pop_latest)
  qed
  with prune_subset show ?thesis by (rule subset_mset.order_trans [rotated])
next
  case False
  then show ?thesis by (simp add: take_exact prune_subset)
qed

lemma take_ttl: "mi_ttl (snd (mi_take q m)) = mi_ttl m"
  by (auto simp: mi_take_def ib_Pop_def Let_def split: option.splits)

interpretation mem_inbox: async_inbox mi_put mi_take
  "\<lambda>d. stamp_entry (fst d) (snd d)" "\<lambda>m. mset (mi_entries m)"
  "\<lambda>q. \<not> po_latest (snd q)" "\<lambda>m. mi_ttl m \<le> 0"
proof unfold_locales
  fix s :: memory_inbox and q d
  show "mset (fst (mi_take q s)) + mset (mi_entries (snd (mi_take q s))) \<subseteq># mset (mi_entries s)"
    by (rule take_subset)
  show "mi_ttl s \<le> 0 \<Longrightarrow> \<not> po_latest (snd q) \<Longrightarrow>
      mset (fst (mi_take q s)) + mset (mi_entries (snd (mi_take q s))) = mset (mi_entries s)"
    by (simp add: take_exact prune_no_ttl)
qed (simp_all add: mi_put_def ib_Deposit_def take_ttl)

text \<open>Entries stay in order of time as long as each deposit is stamped no earlier than the last.\<close>

definition ib_sorted :: "memory_inbox \<Rightarrow> bool" where
  "ib_sorted m \<longleftrightarrow> sorted (map ie_time (mi_entries m))"

lemma sorted_prune: "ib_sorted m \<Longrightarrow> ib_sorted (ib_prune now m)"
  by (simp add: ib_sorted_def ib_prune_def sorted_map_filter)

lemma sorted_pop: "ib_sorted m \<Longrightarrow> ib_sorted (snd (ib_Pop now opts m))"
proof -
  assume "ib_sorted m"
  then have s: "sorted (map ie_time (mi_entries (ib_prune now m)))"
    using sorted_prune by (simp add: ib_sorted_def)
  then show ?thesis
    by (auto simp: ib_Pop_def ib_sorted_def Let_def sorted_map_filter merge_sorted sorted_map_drop
        split: option.splits)
qed

lemma sorted_deposit:
  "ib_sorted m \<Longrightarrow> \<forall>e \<in> set (mi_entries m). ie_time e \<le> ie_time (stamp_entry now d) \<Longrightarrow>
   ib_sorted (ib_Deposit now d m)"
  by (auto simp: ib_sorted_def ib_Deposit_def sorted_append)

end
