(* ===== verification/ApiTypes.thy ===== *)
theory ApiTypes
  imports HistoryStore AgentRegistry CallerCards GoTime Directory Inbox
begin

text \<open>
  \<open>gateway/api/types.go\<close> (re-exported by \<open>internal/tool/api_aliases.go\<close>): the inputs and outputs
  of the tools. A pointer field is an option; a JSON value of an input is a \<^typ>\<open>jval\<close>.
\<close>

record input_part =
  ip_text :: "string option"
  ip_data :: "jval option"
  ip_url :: "string option"
  ip_raw :: "string option"

record connect_input =
  ci_alias :: string
  ci_url :: string
  ci_headers :: headers
  ci_rps :: "f64 option"
  ci_burst :: "int option"
  ci_ping :: "string option"

record connect_output =
  co_message :: string

record disconnect_input =
  di_alias :: string

record disconnect_output =
  do_message :: string

record send_input =
  si_agent :: string
  si_message :: string
  si_parts :: "input_part list"
  si_context :: string
  si_task :: string
  si_metadata :: metadata
  si_poll :: "int option"
  si_async :: "bool option"

record async_output =
  ao_alias :: string
  ao_status :: string
  ao_error :: string

record send_output =
  so_message :: "a2a_message option"
  so_task :: "a2a_task option"
  so_async :: "async_output option"

record broadcast_input =
  bi_aliases :: "string list"
  bi_message :: string
  bi_parts :: "input_part list"
  bi_timeout :: "int option"
  bi_metadata :: metadata
  bi_async :: "bool option"

record task_input =
  ti_agent :: string
  ti_task :: string

record cancel_output =
  ca_message :: string

record discover_input =
  dc_url :: string
  dc_filter :: string
  dc_limit :: "int option"
  dc_cursor :: string
  dc_headers :: headers
  dc_help :: bool

record discover_output =
  dco_agents :: "agent_card list"
  dco_next :: string

record card_input =
  gc_agent :: string

record card_output =
  go_name :: string
  go_description :: string
  go_url :: string
  go_version :: string
  go_skills :: "jval list"
  go_capabilities :: "jval option"
  go_provider :: "jval option"
  go_input_modes :: "string list"
  go_output_modes :: "string list"

record ping_input =
  pi_alias :: string

record ping_output =
  po_reachable :: bool
  po_health :: string
  po_response_ms :: "int option"

record list_entry =
  le_alias :: string
  le_url :: string
  le_rate_limit :: string
  le_health :: string
  le_failures :: "int option"

record list_output =
  lo_agents :: "list_entry list"

record get_history_input =
  gh_agent :: string
  gh_limit :: "int option"

record get_history_output =
  gh_entries :: "hist_entry list"

record clear_history_input =
  ch_agent :: string

record clear_history_output =
  ch_message :: string

record create_card_input =
  cr_name :: string
  cr_description :: string
  cr_url :: string
  cr_skills :: "caller_skill list"
  cr_capabilities :: "caller_capabilities option"
  cr_key :: string

record create_card_output =
  cr_message :: string

record remove_card_output =
  rm_message :: string

record check_inbox_input =
  cb_alias :: string

record inbox_summary =
  is_alias :: string
  is_task :: string
  is_context :: string
  is_state :: string
  is_time :: string

record check_inbox_output =
  cb_entries :: "inbox_summary list"

record read_inbox_input =
  ib_alias :: string
  ib_length :: "int option"
  ib_latest :: bool

record read_inbox_output =
  ib_messages :: "send_output list"

text \<open>What the agents receive: \<open>a2a.SendMessageRequest\<close>.\<close>

record send_request =
  sq_parts :: parts
  sq_context :: string
  sq_task :: string
  sq_metadata :: metadata

end
