(* ===== verification/Rendering.thy ===== *)
theory Rendering
  imports ApiTypes GoBase64
begin

text \<open>
  The pure functions of \<open>internal/tool/helpers.go\<close> and \<open>internal/tool/tool_send.go\<close>: rendering
  the parts of messages and tasks as text, and building the parts of an outgoing message.
\<close>

section \<open>Rendering\<close>

definition renderPart :: "part_content option \<Rightarrow> string option" where
  "renderPart part =
     (case part of
        None \<Rightarrow> None
      | Some (TextC s) \<Rightarrow> Some s
      | Some (DataC v) \<Rightarrow>
          (case json_marshal v of
             Inl e \<Rightarrow> Some (''[unserializable data: '' @ e @ '']'')
           | Inr t \<Rightarrow> Some t)
      | Some (UrlC s) \<Rightarrow> Some s
      | Some (RawC s) \<Rightarrow> Some (b64_encode s)
      | Some OtherC \<Rightarrow> None)"

fun rendered_parts :: "parts \<Rightarrow> string list" where
  "rendered_parts [] = []"
| "rendered_parts (p # ps) =
     (case renderPart p of None \<Rightarrow> rendered_parts ps | Some s \<Rightarrow> s # rendered_parts ps)"

definition extractContentFromMessageParts :: "parts \<Rightarrow> string" where
  "extractContentFromMessageParts ps = join [] (rendered_parts ps)"

definition extractStatusMessageText :: "a2a_message \<Rightarrow> string" where
  "extractStatusMessageText msg = join [] (rendered_parts (msg_parts msg))"

fun artifact_texts :: "artifact option list \<Rightarrow> string list" where
  "artifact_texts [] = []"
| "artifact_texts (None # as) = artifact_texts as"
| "artifact_texts (Some a # as) =
     (let ps = rendered_parts (art_parts a) in
      if length ps > 0 then join [] ps # artifact_texts as else artifact_texts as)"

definition extractContentFromArtifacts :: "artifact option list \<Rightarrow> string" where
  "extractContentFromArtifacts as = join [CHR 0x0A] (artifact_texts as)"

definition extractTaskResponseText :: "a2a_task \<Rightarrow> string" where
  "extractTaskResponseText task =
     (case st_message (tk_status task) of
        Some m \<Rightarrow>
          if extractStatusMessageText m \<noteq> [] then extractStatusMessageText m
          else extractContentFromArtifacts (tk_artifacts task)
      | None \<Rightarrow> extractContentFromArtifacts (tk_artifacts task))"

text \<open>The message of a failed task: the text of its status, if it has one.\<close>

definition fail_message :: "a2a_task \<Rightarrow> string" where
  "fail_message task =
     (case st_message (tk_status task) of
        Some m \<Rightarrow> if extractStatusMessageText m \<noteq> [] then extractStatusMessageText m else ''task failed''
      | None \<Rightarrow> ''task failed'')"

fun segments :: "input_part list \<Rightarrow> string list" where
  "segments [] = []"
| "segments (p # ps) =
     (case ip_text p of Some s \<Rightarrow> s # segments ps
      | None \<Rightarrow> (case ip_data p of Some _ \<Rightarrow> ''[data]'' # segments ps
        | None \<Rightarrow> (case ip_url p of Some s \<Rightarrow> s # segments ps
          | None \<Rightarrow> (case ip_raw p of Some _ \<Rightarrow> ''[binary]'' # segments ps
            | None \<Rightarrow> segments ps))))"

definition summarizeMessage :: "string \<Rightarrow> input_part list \<Rightarrow> string" where
  "summarizeMessage message ps = (if message \<noteq> [] then message else join [] (segments ps))"

definition toolDescription :: "string list \<Rightarrow> string" where
  "toolDescription ls = join '' '' ls"

section \<open>States\<close>

definition isTerminalOrInterrupted :: "task_state \<Rightarrow> bool" where
  "isTerminalOrInterrupted s \<longleftrightarrow>
     (case s of TS_Completed \<Rightarrow> True | TS_Failed \<Rightarrow> True | TS_Canceled \<Rightarrow> True
      | TS_InputRequired \<Rightarrow> True | TS_AuthRequired \<Rightarrow> True | TS_Rejected \<Rightarrow> True | _ \<Rightarrow> False)"

definition handleA2AError :: "goerr \<Rightarrow> goerr" where
  "handleA2AError e =
     (if err_is e TaskNotFound then errors_new ''task not found''
      else if err_is e TaskNotCancelable then errors_new ''task is not cancelable''
      else e)"

definition isAuthError :: "goerr \<Rightarrow> bool" where
  "isAuthError e \<longleftrightarrow> err_is e Unauthenticated \<or> err_is e Unauthorized"

lemma handleA2AError_idem: "handleA2AError (handleA2AError e) = handleA2AError e"
  by (simp add: handleA2AError_def)

section \<open>Outgoing parts\<close>

definition set_count :: "input_part \<Rightarrow> nat" where
  "set_count p = (if ip_text p \<noteq> None then 1 else 0) + (if ip_data p \<noteq> None then 1 else 0)
     + (if ip_url p \<noteq> None then 1 else 0) + (if ip_raw p \<noteq> None then 1 else 0)"

definition corrupt_input :: "nat \<Rightarrow> string" where
  "corrupt_input off = ''illegal base64 data at input byte '' @ itoa (int off)"

definition convert_part :: "nat \<Rightarrow> input_part \<Rightarrow> goerr + part_content" where
  "convert_part i p =
     (if set_count p = 0 then
        Inl (errors_new (''part at index '' @ itoa (int i)
          @ '' has no content (set exactly one of text, data, url, or raw)''))
      else if set_count p > 1 then
        Inl (errors_new (''part at index '' @ itoa (int i)
          @ '' has multiple content types (set exactly one of text, data, url, or raw)''))
      else (case ip_text p of Some s \<Rightarrow> Inr (TextC s)
        | None \<Rightarrow> (case ip_data p of Some v \<Rightarrow> Inr (DataC v)
          | None \<Rightarrow> (case ip_url p of Some s \<Rightarrow> Inr (UrlC s)
            | None \<Rightarrow> (case ip_raw p of
                Some s \<Rightarrow>
                  (case b64_decode s of
                     Inl off \<Rightarrow> Inl (errors_new (''part at index '' @ itoa (int i)
                       @ '' has invalid base64 in 'raw' field: '' @ corrupt_input off))
                   | Inr bs \<Rightarrow> Inr (RawC bs))
              | None \<Rightarrow> Inr OtherC)))))"

fun convert_loop :: "nat \<Rightarrow> input_part list \<Rightarrow> parts \<Rightarrow> goerr + parts" where
  "convert_loop i [] acc = Inr acc"
| "convert_loop i (p # ps) acc =
     (case convert_part i p of
        Inl e \<Rightarrow> Inl e
      | Inr c \<Rightarrow> convert_loop (Suc i) ps (acc @ [Some c]))"

definition convertInputParts :: "input_part list \<Rightarrow> goerr + parts" where
  "convertInputParts ps =
     (case convert_loop 0 ps [] of
        Inl e \<Rightarrow> Inl e
      | Inr r \<Rightarrow>
          if length r = 0 then Inl (errors_new '''parts' must contain at least one element'')
          else Inr r)"

definition buildMessageParts :: "string \<Rightarrow> input_part list \<Rightarrow> goerr + parts" where
  "buildMessageParts message ps =
     (if length ps > 0 then convertInputParts ps
      else if message \<noteq> [] then Inr [text_part message]
      else Inl (errors_new ''either 'message' or 'parts' is required''))"

text \<open>A part is acceptable when exactly one field is set and binary data decodes.\<close>

definition part_valid :: "input_part \<Rightarrow> bool" where
  "part_valid p \<longleftrightarrow> set_count p = 1 \<and>
     (case ip_raw p of None \<Rightarrow> True | Some s \<Rightarrow> (case b64_decode s of Inl _ \<Rightarrow> False | Inr _ \<Rightarrow> True))"

lemma set_count_one:
  "set_count p = 1 \<longleftrightarrow>
     (ip_text p \<noteq> None \<and> ip_data p = None \<and> ip_url p = None \<and> ip_raw p = None) \<or>
     (ip_text p = None \<and> ip_data p \<noteq> None \<and> ip_url p = None \<and> ip_raw p = None) \<or>
     (ip_text p = None \<and> ip_data p = None \<and> ip_url p \<noteq> None \<and> ip_raw p = None) \<or>
     (ip_text p = None \<and> ip_data p = None \<and> ip_url p = None \<and> ip_raw p \<noteq> None)"
  by (simp add: set_count_def)

text \<open>The content of an acceptable part.\<close>

definition part_content_of :: "input_part \<Rightarrow> part_content" where
  "part_content_of p =
     (case (ip_text p, ip_data p, ip_url p, ip_raw p) of
        (Some s, _, _, _) \<Rightarrow> TextC s
      | (_, Some v, _, _) \<Rightarrow> DataC v
      | (_, _, Some s, _) \<Rightarrow> UrlC s
      | (_, _, _, Some s) \<Rightarrow> RawC (case b64_decode s of Inr bs \<Rightarrow> bs | Inl _ \<Rightarrow> [])
      | _ \<Rightarrow> OtherC)"

lemma convert_part_valid: "part_valid p \<Longrightarrow> convert_part i p = Inr (part_content_of p)"
  unfolding part_valid_def
  by (auto simp: convert_part_def part_content_of_def set_count_one split: option.splits sum.splits)

lemma convert_part_invalid: "\<not> part_valid p \<Longrightarrow> \<exists>e. convert_part i p = Inl e"
proof (cases "set_count p = 1")
  case True
  moreover assume "\<not> part_valid p"
  moreover from True have "set_count p = Suc 0" by simp
  ultimately show ?thesis using True [unfolded set_count_one]
    by (elim disjE conjE) (auto simp: part_valid_def convert_part_def split: option.splits sum.splits)
next
  case False
  then show ?thesis by (cases "set_count p = 0") (simp_all add: convert_part_def)
qed

lemma convert_loop_valid:
  "list_all part_valid ps \<Longrightarrow> convert_loop i ps acc = Inr (acc @ map (Some \<circ> part_content_of) ps)"
  by (induction ps arbitrary: i acc) (auto simp: convert_part_valid)

lemma convert_loop_invalid:
  "\<not> list_all part_valid ps \<Longrightarrow>
   \<exists>j < length ps. list_all part_valid (take j ps) \<and> \<not> part_valid (ps ! j) \<and>
     (\<exists>e. convert_part (i + j) (ps ! j) = Inl e \<and> convert_loop i ps acc = Inl e)"
proof (induction ps arbitrary: i acc)
  case (Cons p ps)
  show ?case
  proof (cases "part_valid p")
    case True
    with Cons.prems have "\<not> list_all part_valid ps" by simp
    from Cons.IH [OF this, of "Suc i" "acc @ [Some (part_content_of p)]"] obtain j e where
      "j < length ps" "list_all part_valid (take j ps)" "\<not> part_valid (ps ! j)"
      "convert_part (Suc i + j) (ps ! j) = Inl e"
      "convert_loop (Suc i) ps (acc @ [Some (part_content_of p)]) = Inl e" by blast
    with True show ?thesis
      by (intro exI [of _ "Suc j"]) (simp add: convert_part_valid)
  next
    case False
    from convert_part_invalid [OF this, of i] False show ?thesis
      by (intro exI [of _ 0]) auto
  qed
qed simp

lemma build_parts_valid:
  "ps \<noteq> [] \<Longrightarrow> list_all part_valid ps \<Longrightarrow> buildMessageParts msg ps = Inr (map (Some \<circ> part_content_of) ps)"
  by (simp add: buildMessageParts_def convertInputParts_def convert_loop_valid)

lemma build_parts_ok_iff:
  "(\<exists>r. buildMessageParts msg ps = Inr r) \<longleftrightarrow> (if ps = [] then msg \<noteq> [] else list_all part_valid ps)"
proof (cases "ps = []")
  case False
  then show ?thesis
  proof (cases "list_all part_valid ps")
    case invalid: False
    from convert_loop_invalid [OF invalid, of 0 "[]"] obtain e where "convert_loop 0 ps [] = Inl e" by blast
    with False invalid show ?thesis by (simp add: buildMessageParts_def convertInputParts_def)
  qed (simp add: build_parts_valid)
qed (simp add: buildMessageParts_def)

end
