(* ===== verification/ContextStore.thy ===== *)
theory ContextStore
  imports KeyedStore
begin

text \<open>
  \<open>registry/context_store.go\<close>: the map from aliases to conversation ids. An absent entry reads
  as the empty string, and \<open>Set\<close> ignores the empty string.
\<close>

type_synonym context_store = "(string, string) gomap"

definition NewContextStore :: context_store where
  "NewContextStore = []"

definition ctx_Get :: "context_store \<Rightarrow> string \<Rightarrow> string" where
  "ctx_Get cs alias = (case map_of cs alias of None \<Rightarrow> [] | Some c \<Rightarrow> c)"

definition ctx_Set :: "string \<Rightarrow> string \<Rightarrow> context_store \<Rightarrow> context_store" where
  "ctx_Set alias contextID cs = (if contextID = [] then cs else AList.update alias contextID cs)"

definition ctx_Delete :: "string \<Rightarrow> context_store \<Rightarrow> context_store" where
  "ctx_Delete alias cs = AList.delete alias cs"

text \<open>Stored ids are never empty, so reading the empty string means the alias has no conversation.\<close>

definition ctx_inv :: "context_store \<Rightarrow> bool" where
  "ctx_inv cs \<longleftrightarrow> gm_wf cs \<and> (\<forall>a. map_of cs a \<noteq> Some [])"

lemma ctx_inv_new [wf_intros]: "ctx_inv NewContextStore"
  by (simp add: ctx_inv_def NewContextStore_def)

lemma ctx_inv_set [wf_intros]: "ctx_inv cs \<Longrightarrow> ctx_inv (ctx_Set a c cs)"
  by (auto simp: ctx_inv_def ctx_Set_def gm_wf_update map_of_update)

lemma ctx_inv_delete [wf_intros]: "ctx_inv cs \<Longrightarrow> ctx_inv (ctx_Delete a cs)"
  by (auto simp: ctx_inv_def ctx_Delete_def gm_wf_delete map_of_delete)

lemma ctx_get_set [gomap_simps]:
  "ctx_Get (ctx_Set a c cs) b = (if b = a \<and> c \<noteq> [] then c else ctx_Get cs b)"
  by (simp add: ctx_Get_def ctx_Set_def map_of_update)

lemma ctx_get_delete [gomap_simps]: "ctx_Get (ctx_Delete a cs) b = (if b = a then [] else ctx_Get cs b)"
  by (simp add: ctx_Get_def ctx_Delete_def map_of_delete)

lemma ctx_get_absent: "ctx_inv cs \<Longrightarrow> ctx_Get cs a = [] \<longleftrightarrow> map_of cs a = None"
  by (auto simp: ctx_inv_def ctx_Get_def split: option.splits)

interpretation contexts: keyed_store map_of AList.update ctx_Delete gm_wf length
  unfolding ctx_Delete_def [abs_def] by (rule keyed_store_gomap)

end
