(* ===== verification/HttpHeaders.thy ===== *)
theory HttpHeaders
  imports AgentRegistry GoTime
begin

text \<open>
  \<open>registry/http.go\<close> and \<open>registry/fetch_agent_card.go\<close>: which headers an outgoing request
  carries. An HTTP client is the base client, or a client wrapped in a round tripper that asks a
  header provider on every request; a provider is the closure the code builds, either over a fixed
  map or over the live registry. What the network answers is a parameter.
\<close>

definition token_char :: "char \<Rightarrow> bool" where
  "token_char c \<longleftrightarrow> is_alpha c \<or> is_digit c \<or> c \<in> set ''!#$%&*+-.^_`|~'' \<or> c = CHR 0x27"

fun canon_loop :: "bool \<Rightarrow> string \<Rightarrow> string" where
  "canon_loop upper [] = []"
| "canon_loop upper (c # s) =
     (if upper then ascii_upper c else ascii_lower c) # canon_loop (c = CHR ''-'') s"

text \<open>\<open>textproto.CanonicalMIMEHeaderKey\<close>: a name with a byte no header name may hold is kept.\<close>

definition canonical_key :: "string \<Rightarrow> string" where
  "canonical_key k = (if list_all token_char k then canon_loop True k else k)"

definition header_Set :: "string \<Rightarrow> string \<Rightarrow> headers \<Rightarrow> headers" where
  "header_Set k v h = AList.update (canonical_key k) v h"

definition isProtocolHeader :: "string \<Rightarrow> bool" where
  "isProtocolHeader name \<longleftrightarrow> equal_fold name ''Content-Type'' \<or> equal_fold name ''Accept''"

datatype header_provider = StaticHeaders headers | LiveHeaders string

datatype http_client = BaseClient | ProviderClient http_client header_provider

definition provider_headers :: "agent_registry \<Rightarrow> header_provider \<Rightarrow> headers" where
  "provider_headers reg p =
     (case p of
        StaticHeaders h \<Rightarrow> h
      | LiveHeaders alias \<Rightarrow> (case reg_Lookup reg alias of None \<Rightarrow> [] | Some e \<Rightarrow> ra_headers e))"

text \<open>\<open>RoundTrip\<close>: the provider's headers go onto the clone of the request, but the reserved ones.\<close>

fun inject_headers :: "headers \<Rightarrow> headers \<Rightarrow> headers" where
  "inject_headers [] req = req"
| "inject_headers ((k, v) # hs) req =
     (if isProtocolHeader k then inject_headers hs req else inject_headers hs (header_Set k v req))"

fun client_headers :: "agent_registry \<Rightarrow> http_client \<Rightarrow> headers \<Rightarrow> headers" where
  "client_headers reg BaseClient req = req"
| "client_headers reg (ProviderClient base p) req =
     client_headers reg base (inject_headers (provider_headers reg p) req)"

definition HTTPClientWithHeaderProvider :: "http_client \<Rightarrow> header_provider \<Rightarrow> http_client" where
  "HTTPClientWithHeaderProvider base provider = ProviderClient base provider"

definition HTTPClientForAgent :: "http_client \<Rightarrow> registered_agent \<Rightarrow> http_client" where
  "HTTPClientForAgent base entry =
     (if ra_headers entry = [] then base
      else HTTPClientWithHeaderProvider base (StaticHeaders (ra_headers entry)))"

text \<open>What a GET may come back with: a transport error, or a status and a body that can be read or not.\<close>

datatype http_outcome = HttpError goerr | HttpResponse int "goerr + string"

definition card_url :: "string \<Rightarrow> string" where
  "card_url agentURL = trim_right (CHR ''/'') agentURL @ ''/.well-known/agent-card.json''"

definition FetchAgentCard ::
  "(string \<Rightarrow> headers \<Rightarrow> http_outcome) \<Rightarrow> (string \<Rightarrow> agent_card option) \<Rightarrow> agent_registry
    \<Rightarrow> http_client \<Rightarrow> string \<Rightarrow> headers \<Rightarrow> agent_card option" where
  "FetchAgentCard net parse_card reg httpClient agentURL hdrs =
     (let cardURL = card_url agentURL;
          client = (if hdrs \<noteq> []
            then HTTPClientForAgent httpClient
              \<lparr>ra_alias = [], ra_url = [], ra_headers = hdrs, ra_card = None, ra_ping = []\<rparr>
            else httpClient)
      in case url_parse cardURL of
           Inl _ \<Rightarrow> None
         | Inr _ \<Rightarrow>
             (case net cardURL (client_headers reg client []) of
                HttpError _ \<Rightarrow> None
              | HttpResponse status body \<Rightarrow>
                  if status \<noteq> 200 then None
                  else (case body of Inl _ \<Rightarrow> None | Inr b \<Rightarrow> parse_card b)))"

section \<open>Injected headers\<close>

lemma protocol_key_canonical:
  "isProtocolHeader k \<longleftrightarrow> isProtocolHeader (map ascii_lower k)"
  by (simp add: isProtocolHeader_def equal_fold_def comp_def)

lemma lower_upper [simp]: "ascii_lower (ascii_upper c) = ascii_lower c"
proof -
  have "97 \<le> byte c \<Longrightarrow> byte c \<le> 122 \<Longrightarrow> byte (chr (byte c - 32)) = byte c - 32" by simp
  then show ?thesis by (auto simp: ascii_lower_def ascii_upper_def)
qed

lemma canon_loop_lower: "map ascii_lower (canon_loop u k) = map ascii_lower k"
  by (induction u k rule: canon_loop.induct) auto

lemma canonical_key_lower: "map ascii_lower (canonical_key k) = map ascii_lower k"
  by (simp add: canonical_key_def canon_loop_lower)

lemma protocol_canonical [simp]: "isProtocolHeader (canonical_key k) = isProtocolHeader k"
  by (metis canonical_key_lower protocol_key_canonical)

text \<open>A reserved header of the request is never changed, whatever the provider supplies.\<close>

lemma inject_keeps_protocol:
  "isProtocolHeader k \<Longrightarrow> map_of (inject_headers hs req) k = map_of req k"
  by (induction hs req rule: inject_headers.induct)
    (auto simp: header_Set_def map_of_update)

lemma client_keeps_protocol:
  "isProtocolHeader k \<Longrightarrow> map_of (client_headers reg c req) k = map_of req k"
  by (induction reg c req rule: client_headers.induct) (auto simp: inject_keeps_protocol)

text \<open>A header of the provider that is not reserved arrives, under its canonical name.\<close>

lemma inject_other:
  "k \<notin> canonical_key ` fst ` set hs \<Longrightarrow> map_of (inject_headers hs req) k = map_of req k"
  by (induction hs req rule: inject_headers.induct) (auto simp: header_Set_def map_of_update)

lemma inject_delivers:
  assumes "distinct (map (canonical_key \<circ> fst) hs)" "(k, v) \<in> set hs" "\<not> isProtocolHeader k"
  shows "map_of (inject_headers hs req) (canonical_key k) = Some v"
  using assms
proof (induction hs req rule: inject_headers.induct)
  case (2 k' v' hs req)
  show ?case
  proof (cases "(k', v') = (k, v)")
    case True
    with 2 have "canonical_key k \<notin> canonical_key ` fst ` set hs" by auto
    with True 2 show ?thesis by (simp add: inject_other header_Set_def map_of_update)
  next
    case False
    with 2 show ?thesis by (auto split: if_splits)
  qed
qed simp

text \<open>A live provider always reads the headers the registry holds at the time of the request.\<close>

lemma live_provider:
  "reg_Lookup reg alias = Some e \<Longrightarrow>
   client_headers reg (ProviderClient BaseClient (LiveHeaders alias)) req = inject_headers (ra_headers e) req"
  by (simp add: provider_headers_def)

end
