(* ===== verification/ClientResolver.thy ===== *)
theory ClientResolver
  imports HttpHeaders
begin

text \<open>
  \<open>registry/client_resolver.go\<close>: the cache of A2A clients, keyed by agent URL. A client of the
  SDK is determined by what it was built from: a card, a transport and an HTTP client, or an
  endpoint and an HTTP client. Whether the SDK can build it is a parameter.
\<close>

datatype a2a_client =
    ClientFromCard agent_card transport http_client
  | ClientFromEndpoint string http_client

fun client_http :: "a2a_client \<Rightarrow> http_client" where
  "client_http (ClientFromCard _ _ h) = h"
| "client_http (ClientFromEndpoint _ h) = h"

type_synonym client_cache = "(string, a2a_client) gomap"

record client_factory =
  cf_from_card :: "agent_card \<Rightarrow> transport \<Rightarrow> goerr option"
  cf_from_endpoint :: "string \<Rightarrow> goerr option"

definition cr_httpClientForResolved :: "resolve_result \<Rightarrow> http_client" where
  "cr_httpClientForResolved resolved =
     (if rr_headers resolved = [] then BaseClient
      else if rr_is_alias resolved
        then HTTPClientWithHeaderProvider BaseClient (LiveHeaders (rr_alias resolved))
      else HTTPClientWithHeaderProvider BaseClient (StaticHeaders (rr_headers resolved)))"

definition cr_findCard :: "agent_registry \<Rightarrow> resolve_result \<Rightarrow> agent_card option" where
  "cr_findCard reg resolved =
     (case List.find (\<lambda>e. ra_url e = rr_url resolved \<and> ra_card e \<noteq> None) (reg_List reg) of
        None \<Rightarrow> None | Some e \<Rightarrow> ra_card e)"

definition transport_for :: "transport \<Rightarrow> transport" where
  "transport_for b = (case b of JsonRpc \<Rightarrow> JsonRpc | HttpJson \<Rightarrow> HttpJson | _ \<Rightarrow> JsonRpc)"

definition endpoint_client ::
  "client_factory \<Rightarrow> resolve_result \<Rightarrow> http_client \<Rightarrow> goerr + a2a_client" where
  "endpoint_client cf resolved hc =
     (case cf_from_endpoint cf (rr_url resolved) of
        Some e \<Rightarrow> Inl e
      | None \<Rightarrow> Inr (ClientFromEndpoint (rr_url resolved) hc))"

definition cr_createClient ::
  "client_factory \<Rightarrow> resolve_result \<Rightarrow> agent_card option \<Rightarrow> http_client \<Rightarrow> goerr + a2a_client" where
  "cr_createClient cf resolved c hc =
     (case c of
        Some cd \<Rightarrow>
          (case ac_interfaces cd of
             i # _ \<Rightarrow>
               (case cf_from_card cf cd (transport_for (ai_binding i)) of
                  None \<Rightarrow> Inr (ClientFromCard cd (transport_for (ai_binding i)) hc)
                | Some _ \<Rightarrow> endpoint_client cf resolved hc)
           | [] \<Rightarrow> endpoint_client cf resolved hc)
      | None \<Rightarrow> endpoint_client cf resolved hc)"

definition cr_Resolve ::
  "client_factory \<Rightarrow> agent_registry \<Rightarrow> resolve_result \<Rightarrow> client_cache
    \<Rightarrow> (goerr + a2a_client) \<times> client_cache" where
  "cr_Resolve cf reg resolved clients =
     (case map_of clients (rr_url resolved) of
        Some c \<Rightarrow> (Inr c, clients)
      | None \<Rightarrow>
          (case cr_createClient cf resolved
                  (if rr_is_alias resolved then cr_findCard reg resolved else None)
                  (cr_httpClientForResolved resolved) of
             Inl e \<Rightarrow> (Inl e, clients)
           | Inr c \<Rightarrow> (Inr c, AList.update (rr_url resolved) c clients)))"

definition cr_Evict :: "string \<Rightarrow> client_cache \<Rightarrow> client_cache" where
  "cr_Evict url clients = AList.delete url clients"

interpretation clients: keyed_store map_of AList.update cr_Evict gm_wf length
  unfolding cr_Evict_def [abs_def] by (rule keyed_store_gomap)

section \<open>Caching\<close>

lemma resolve_wf [wf_intros]: "gm_wf cl \<Longrightarrow> gm_wf (snd (cr_Resolve cf reg r cl))"
  by (auto simp: cr_Resolve_def gm_wf_update split: option.splits sum.splits)

lemma evict_wf [wf_intros]: "gm_wf cl \<Longrightarrow> gm_wf (cr_Evict u cl)"
  by (simp add: cr_Evict_def gm_wf_delete)

lemma resolve_caches:
  "cr_Resolve cf reg r cl = (Inr c, cl') \<Longrightarrow> map_of cl' (rr_url r) = Some c"
  by (auto simp: cr_Resolve_def map_of_update split: option.splits sum.splits)

lemma resolve_hit: "map_of cl (rr_url r) = Some c \<Longrightarrow> cr_Resolve cf reg r cl = (Inr c, cl)"
  by (simp add: cr_Resolve_def)

lemma resolve_other:
  "u \<noteq> rr_url r \<Longrightarrow> map_of (snd (cr_Resolve cf reg r cl)) u = map_of cl u"
  by (auto simp: cr_Resolve_def map_of_update split: option.splits sum.splits)

lemma create_http: "cr_createClient cf r c hc = Inr cl \<Longrightarrow> client_http cl = hc"
  by (auto simp: cr_createClient_def endpoint_client_def split: option.splits list.splits)

text \<open>
  Resolving again, even for another identifier with the same URL, returns the cached client with
  the HTTP client of the first one: the cache is keyed by URL alone.
\<close>

lemma resolve_shared:
  assumes "cr_Resolve cf reg r cl = (Inr c, cl')" "rr_url r' = rr_url r"
  shows "cr_Resolve cf' reg' r' cl' = (Inr c, cl')"
  using resolve_hit resolve_caches [OF assms(1)] assms(2) by simp

text \<open>After an eviction the next client is built from the identifier at hand.\<close>

lemma resolve_after_evict:
  assumes "cr_Resolve cf reg r (cr_Evict (rr_url r) cl) = (Inr c, cl')"
  shows "client_http c = cr_httpClientForResolved r"
proof -
  have "map_of (cr_Evict (rr_url r) cl) (rr_url r) = None"
    by (simp add: cr_Evict_def map_of_delete)
  with assms show ?thesis
    by (auto simp: cr_Resolve_def split: sum.splits dest: create_http)
qed

lemma resolve_same_error:
  "cr_Resolve cf reg r cl = (Inl e, cl') \<Longrightarrow> cl' = cl"
  by (auto simp: cr_Resolve_def split: option.splits sum.splits)

end
