(* ===== verification/RateLimits.thy ===== *)
theory RateLimits
  imports KeyedStore GoTime GoError
begin

text \<open>
  \<open>registry/rate_limiter.go\<close>. The token bucket itself is \<open>golang.org/x/time/rate\<close>, which is
  not part of the repository: a limiter is a value of an abstract type \<open>'l\<close> and its methods are
  the fields of a \<open>limiter_ops\<close> record, a parameter of the operations. A reservation is the delay
  it reports, as a function of the time of asking.
\<close>

record rate_limit_config =
  rl_rps :: f64
  rl_burst :: int

definition rlc_IsDisabled :: "rate_limit_config \<Rightarrow> bool" where
  "rlc_IsDisabled c \<longleftrightarrow> f64_le0 (rl_rps c) \<or> rl_burst c \<le> 0"

record 'l limiter_ops =
  lo_new :: "f64 \<Rightarrow> int \<Rightarrow> 'l"
  lo_allow :: "int \<Rightarrow> 'l \<Rightarrow> bool \<times> 'l"
  lo_reserve :: "int \<Rightarrow> 'l \<Rightarrow> (int \<Rightarrow> int) \<times> 'l"
  lo_cancel :: "int \<Rightarrow> (int \<Rightarrow> int) \<Rightarrow> 'l \<Rightarrow> 'l"
  lo_limit :: "'l \<Rightarrow> f64"
  lo_burst :: "'l \<Rightarrow> int"

type_synonym 'l limiters = "(string, 'l) gomap"

definition NewRateLimiterRegistry :: "'l limiters" where
  "NewRateLimiterRegistry = []"

definition rl_Set :: "'l limiter_ops \<Rightarrow> string \<Rightarrow> f64 \<Rightarrow> int \<Rightarrow> 'l limiters \<Rightarrow> 'l limiters" where
  "rl_Set ops alias rps burst r =
     (if f64_le0 rps \<or> burst \<le> 0 then AList.delete alias r
      else AList.update alias (lo_new ops rps burst) r)"

definition rl_Remove :: "string \<Rightarrow> 'l limiters \<Rightarrow> 'l limiters" where
  "rl_Remove alias r = AList.delete alias r"

definition rl_Allow :: "'l limiter_ops \<Rightarrow> int \<Rightarrow> string \<Rightarrow> 'l limiters \<Rightarrow> bool \<times> 'l limiters" where
  "rl_Allow ops now alias r =
     (case map_of r alias of
        None \<Rightarrow> (True, r)
      | Some l \<Rightarrow> (case lo_allow ops now l of (ok, l') \<Rightarrow> (ok, AList.update alias l' r)))"

definition rl_Get :: "'l limiter_ops \<Rightarrow> string \<Rightarrow> 'l limiters \<Rightarrow> f64 \<times> int \<times> bool" where
  "rl_Get ops alias r =
     (case map_of r alias of
        None \<Rightarrow> (Fin 0, 0, False)
      | Some l \<Rightarrow> (lo_limit ops l, lo_burst ops l, True))"

definition rl_Len :: "'l limiters \<Rightarrow> nat" where
  "rl_Len r = length r"

text \<open>
  \<open>CheckRateLimit\<close> reads the clock up to four times: to reserve, to ask for the delay, to cancel
  and to report the delay. \<open>clk\<close> is the clock from the call on.
\<close>

definition rl_CheckRateLimit ::
  "'l limiter_ops \<Rightarrow> (nat \<Rightarrow> int) \<Rightarrow> string \<Rightarrow> 'l limiters \<Rightarrow> goerr option \<times> 'l limiters" where
  "rl_CheckRateLimit ops clk alias r =
     (case map_of r alias of
        None \<Rightarrow> (None, r)
      | Some l \<Rightarrow>
          (case lo_reserve ops (clk 0) l of (rsv, l') \<Rightarrow>
             if rsv (clk 1) = 0 then (None, AList.update alias l' r)
             else (Some (errors_new (''agent '' @ go_quote alias @ '' has exceeded its rate limit; retry after ''
                     @ duration_text (duration_round (rsv (clk 3)) millisecond))),
                   AList.update alias (lo_cancel ops (clk 2) rsv l') r)))"

interpretation limiters: keyed_store map_of AList.update rl_Remove gm_wf rl_Len
  unfolding rl_Remove_def [abs_def] rl_Len_def [abs_def] by (rule keyed_store_gomap)

text \<open>An operation on one alias leaves the limiter of every other alias as it is.\<close>

lemma rl_Set_other: "b \<noteq> a \<Longrightarrow> map_of (rl_Set ops a rps n r) b = map_of r b"
  by (simp add: rl_Set_def map_of_delete map_of_update)

lemma rl_Allow_other: "b \<noteq> a \<Longrightarrow> map_of (snd (rl_Allow ops now a r)) b = map_of r b"
  by (simp add: rl_Allow_def map_of_update split: option.splits prod.splits)

lemma rl_Check_other: "b \<noteq> a \<Longrightarrow> map_of (snd (rl_CheckRateLimit ops clk a r)) b = map_of r b"
  by (simp add: rl_CheckRateLimit_def map_of_update split: option.splits prod.splits)

lemma rl_Set_disabled: "rlc_IsDisabled c \<Longrightarrow> map_of (rl_Set ops a (rl_rps c) (rl_burst c) r) a = None"
  by (simp add: rlc_IsDisabled_def rl_Set_def map_of_delete)

lemma rl_Set_enabled:
  "\<not> rlc_IsDisabled c \<Longrightarrow>
   map_of (rl_Set ops a (rl_rps c) (rl_burst c) r) a = Some (lo_new ops (rl_rps c) (rl_burst c))"
  by (simp add: rlc_IsDisabled_def rl_Set_def map_of_update)

lemma rl_unlimited:
  "map_of r a = None \<Longrightarrow> rl_Allow ops now a r = (True, r) \<and> rl_CheckRateLimit ops clk a r = (None, r)"
  by (simp add: rl_Allow_def rl_CheckRateLimit_def)

lemma rl_wf [wf_intros]:
  "gm_wf r \<Longrightarrow> gm_wf (rl_Set ops a rps n r)"
  "gm_wf r \<Longrightarrow> gm_wf (rl_Remove a r)"
  "gm_wf r \<Longrightarrow> gm_wf (snd (rl_Allow ops now a r))"
  "gm_wf r \<Longrightarrow> gm_wf (snd (rl_CheckRateLimit ops clk a r))"
  by (auto simp: rl_Set_def rl_Remove_def rl_Allow_def rl_CheckRateLimit_def gm_wf_update gm_wf_delete
      split: option.splits prod.splits)

lemma rl_dom:
  "map_of (snd (rl_Allow ops now a r)) b = None \<longleftrightarrow> map_of r b = None"
  "map_of (snd (rl_CheckRateLimit ops clk a r)) b = None \<longleftrightarrow> map_of r b = None"
  by (auto simp: rl_Allow_def rl_CheckRateLimit_def map_of_update split: option.splits prod.splits)

end
