(* ===== verification/Health.thy ===== *)
theory Health
  imports HttpHeaders
begin

text \<open>
  \<open>health/health_classify.go\<close>, \<open>health/health_tracker.go\<close> and \<open>health/ping.go\<close>. The tracker is
  a map from aliases to a status and a count of consecutive failures; its mutex makes each method
  one atomic step. Failure counts stay far below \<open>2 ^ 63\<close> and are plain integers.
\<close>

section \<open>Classification of errors\<close>

datatype connection_outcome = OutcomeSuccess | OutcomeConnectionError | OutcomeContextCanceled

definition ClassifyError :: "goerr option \<Rightarrow> connection_outcome" where
  "ClassifyError err =
     (case err of
        None \<Rightarrow> OutcomeSuccess
      | Some e \<Rightarrow>
          if err_is e ContextCanceled \<and> \<not> err_is e DeadlineExceeded then OutcomeContextCanceled
          else if err_is e DeadlineExceeded then OutcomeConnectionError
          else if err_is e NetOpError then OutcomeConnectionError
          else if err_is e TlsCertError then OutcomeConnectionError
          else if err_is e NetError then OutcomeConnectionError
          else if err_is e IoEOF \<or> err_is e IoUnexpectedEOF then OutcomeConnectionError
          else OutcomeConnectionError)"

lemma classify_iff:
  "ClassifyError err = OutcomeSuccess \<longleftrightarrow> err = None"
  "ClassifyError (Some e) = OutcomeContextCanceled \<longleftrightarrow> err_is e ContextCanceled \<and> \<not> err_is e DeadlineExceeded"
  "ClassifyError (Some e) = OutcomeConnectionError \<longleftrightarrow> \<not> (err_is e ContextCanceled \<and> \<not> err_is e DeadlineExceeded)"
  by (auto simp: ClassifyError_def split: option.splits)

section \<open>The tracker\<close>

datatype health_status = HealthStatusHealthy | HealthStatusUnhealthy | HealthStatusUnknown

fun health_status_text :: "health_status \<Rightarrow> string" where
  "health_status_text HealthStatusHealthy = ''healthy''"
| "health_status_text HealthStatusUnhealthy = ''unhealthy''"
| "health_status_text HealthStatusUnknown = ''unknown''"

record health_state =
  hs_status :: health_status
  hs_failures :: int

record health_tracker =
  ht_agents :: "(string, health_state) gomap"
  ht_threshold :: int

definition NewHealthTracker :: "int \<Rightarrow> health_tracker" where
  "NewHealthTracker threshold = \<lparr>ht_agents = [], ht_threshold = threshold\<rparr>"

definition ht_RecordSuccess :: "string \<Rightarrow> health_tracker \<Rightarrow> health_tracker" where
  "ht_RecordSuccess alias h =
     (if ht_threshold h = 0 then h
      else (case map_of (ht_agents h) alias of
          None \<Rightarrow> h
        | Some s \<Rightarrow> h\<lparr>ht_agents := AList.update alias
            (s\<lparr>hs_failures := 0, hs_status := HealthStatusHealthy\<rparr>) (ht_agents h)\<rparr>))"

definition ht_RecordFailure :: "string \<Rightarrow> health_tracker \<Rightarrow> health_tracker" where
  "ht_RecordFailure alias h =
     (if ht_threshold h = 0 then h
      else (case map_of (ht_agents h) alias of
          None \<Rightarrow> h
        | Some s \<Rightarrow>
            let s' = s\<lparr>hs_failures := hs_failures s + 1\<rparr>;
                s'' = (if hs_failures s' \<ge> ht_threshold h
                       then s'\<lparr>hs_status := HealthStatusUnhealthy\<rparr> else s')
            in h\<lparr>ht_agents := AList.update alias s'' (ht_agents h)\<rparr>))"

definition ht_Get :: "health_tracker \<Rightarrow> string \<Rightarrow> health_state" where
  "ht_Get h alias =
     (case map_of (ht_agents h) alias of
        None \<Rightarrow> \<lparr>hs_status = HealthStatusUnknown, hs_failures = 0\<rparr>
      | Some s \<Rightarrow> s)"

definition ht_Reset :: "string \<Rightarrow> health_tracker \<Rightarrow> health_tracker" where
  "ht_Reset alias h =
     (if ht_threshold h = 0 then h
      else h\<lparr>ht_agents := AList.update alias
        \<lparr>hs_status = HealthStatusUnknown, hs_failures = 0\<rparr> (ht_agents h)\<rparr>)"

definition ht_Delete :: "string \<Rightarrow> health_tracker \<Rightarrow> health_tracker" where
  "ht_Delete alias h =
     (if ht_threshold h = 0 then h
      else h\<lparr>ht_agents := AList.delete alias (ht_agents h)\<rparr>)"

definition ht_IsEnabled :: "health_tracker \<Rightarrow> bool" where
  "ht_IsEnabled h \<longleftrightarrow> ht_threshold h > 0"

definition ht_IsHealthy :: "health_tracker \<Rightarrow> string \<Rightarrow> bool" where
  "ht_IsHealthy h alias \<longleftrightarrow> hs_status (ht_Get h alias) \<noteq> HealthStatusUnhealthy"

definition ht_GetStatus :: "health_tracker \<Rightarrow> string \<Rightarrow> string" where
  "ht_GetStatus h alias = health_status_text (hs_status (ht_Get h alias))"

definition ht_GetFailures :: "health_tracker \<Rightarrow> string \<Rightarrow> int \<times> bool" where
  "ht_GetFailures h alias =
     (hs_failures (ht_Get h alias), hs_status (ht_Get h alias) = HealthStatusUnhealthy)"

text \<open>An agent is unhealthy exactly when its failures have reached the threshold.\<close>

definition ht_inv :: "health_tracker \<Rightarrow> bool" where
  "ht_inv h \<longleftrightarrow> gm_wf (ht_agents h) \<and> 0 \<le> ht_threshold h \<and>
     (ht_threshold h = 0 \<longrightarrow> ht_agents h = []) \<and>
     (\<forall>a s. map_of (ht_agents h) a = Some s \<longrightarrow>
        0 \<le> hs_failures s \<and>
        (hs_status s = HealthStatusUnhealthy \<longleftrightarrow> ht_threshold h \<le> hs_failures s) \<and>
        (hs_status s = HealthStatusHealthy \<longrightarrow> hs_failures s < ht_threshold h))"

lemma ht_inv_new [wf_intros]: "0 \<le> t \<Longrightarrow> ht_inv (NewHealthTracker t)"
  by (simp add: ht_inv_def NewHealthTracker_def)

lemma ht_inv_success [wf_intros]: "ht_inv h \<Longrightarrow> ht_inv (ht_RecordSuccess a h)"
  by (auto simp: ht_inv_def ht_RecordSuccess_def gm_wf_update map_of_update split: option.splits)

lemma ht_inv_failure [wf_intros]: "ht_inv h \<Longrightarrow> ht_inv (ht_RecordFailure a h)"
  by (auto simp: ht_inv_def ht_RecordFailure_def gm_wf_update map_of_update Let_def
      split: option.splits)

lemma ht_inv_reset [wf_intros]: "ht_inv h \<Longrightarrow> ht_inv (ht_Reset a h)"
  by (auto simp: ht_inv_def ht_Reset_def gm_wf_update map_of_update)

lemma ht_inv_delete [wf_intros]: "ht_inv h \<Longrightarrow> ht_inv (ht_Delete a h)"
  by (auto simp: ht_inv_def ht_Delete_def gm_wf_delete map_of_delete)

lemma ht_threshold_const [simp]:
  "ht_threshold (ht_RecordSuccess a h) = ht_threshold h"
  "ht_threshold (ht_RecordFailure a h) = ht_threshold h"
  "ht_threshold (ht_Reset a h) = ht_threshold h"
  "ht_threshold (ht_Delete a h) = ht_threshold h"
  by (auto simp: ht_RecordSuccess_def ht_RecordFailure_def ht_Reset_def ht_Delete_def Let_def
      split: option.splits)

lemma ht_frame:
  "b \<noteq> a \<Longrightarrow> ht_Get (ht_RecordSuccess a h) b = ht_Get h b"
  "b \<noteq> a \<Longrightarrow> ht_Get (ht_RecordFailure a h) b = ht_Get h b"
  "b \<noteq> a \<Longrightarrow> ht_Get (ht_Reset a h) b = ht_Get h b"
  "b \<noteq> a \<Longrightarrow> ht_Get (ht_Delete a h) b = ht_Get h b"
  by (auto simp: ht_Get_def ht_RecordSuccess_def ht_RecordFailure_def ht_Reset_def ht_Delete_def
      Let_def map_of_update map_of_delete split: option.splits)

section \<open>The contract of a health tracker\<close>

text \<open>
  The interface \<open>tool.HealthTracker\<close>: a count of consecutive failures per agent. The client's
  fact is about any history of outcomes: the count is the number of failures since the last
  success or reset.
\<close>

datatype 'a health_event = Succeeded 'a | Failed 'a | WasReset 'a

fun event_agent :: "'a health_event \<Rightarrow> 'a" where
  "event_agent (Succeeded a) = a"
| "event_agent (Failed a) = a"
| "event_agent (WasReset a) = a"

definition trailing_failures :: "'a \<Rightarrow> 'a health_event list \<Rightarrow> nat" where
  "trailing_failures a evs =
     length (takeWhile (\<lambda>e. e = Failed a) (rev (filter (\<lambda>e. event_agent e = a) evs)))"

lemma trailing_snoc:
  "trailing_failures a (evs @ [e]) =
     (if event_agent e \<noteq> a then trailing_failures a evs
      else if e = Failed a then Suc (trailing_failures a evs) else 0)"
  by (simp add: trailing_failures_def)

locale failure_tracking =
  fixes success :: "'a \<Rightarrow> 's \<Rightarrow> 's"
    and failure :: "'a \<Rightarrow> 's \<Rightarrow> 's"
    and restart :: "'a \<Rightarrow> 's \<Rightarrow> 's"
    and failures :: "'s \<Rightarrow> 'a \<Rightarrow> int option"
    and unhealthy :: "'s \<Rightarrow> 'a \<Rightarrow> bool"
    and limit :: "'s \<Rightarrow> int"
    and good :: "'s \<Rightarrow> bool"
  assumes count_success: "good s \<Longrightarrow>
      failures (success a s) b = (if b = a then map_option (\<lambda>_. 0) (failures s a) else failures s b)"
    and count_failure: "good s \<Longrightarrow>
      failures (failure a s) b = (if b = a then map_option (\<lambda>n. n + 1) (failures s a) else failures s b)"
    and count_restart: "good s \<Longrightarrow> failures (restart a s) b = (if b = a then Some 0 else failures s b)"
    and good_step: "good s \<Longrightarrow> good (success a s) \<and> good (failure a s) \<and> good (restart a s)"
    and limit_step: "limit (success a s) = limit s \<and> limit (failure a s) = limit s \<and> limit (restart a s) = limit s"
    and unhealthy_iff: "good s \<Longrightarrow> unhealthy s a \<longleftrightarrow> (\<exists>n. failures s a = Some n \<and> limit s \<le> n)"
begin

lemma run_events:
  assumes "good s" "failures s a = Some 0"
  defines "run \<equiv> fold (\<lambda>e. case e of Succeeded b \<Rightarrow> success b | Failed b \<Rightarrow> failure b | WasReset b \<Rightarrow> restart b)"
  shows "good (run evs s) \<and> limit (run evs s) = limit s \<and>
         failures (run evs s) a = Some (int (trailing_failures a evs))"
proof (induction evs rule: rev_induct)
  case Nil
  from assms show ?case by (simp add: trailing_failures_def)
next
  case (snoc e evs)
  then show ?case
    by (cases e) (auto simp: run_def trailing_snoc good_step limit_step count_success count_failure count_restart)
qed

lemma unhealthy_after:
  assumes "good s" "failures s a = Some 0"
  shows "unhealthy (fold (\<lambda>e. case e of Succeeded b \<Rightarrow> success b | Failed b \<Rightarrow> failure b
            | WasReset b \<Rightarrow> restart b) evs s) a
         \<longleftrightarrow> limit s \<le> int (trailing_failures a evs)"
  using run_events [OF assms, of evs] by (simp add: unhealthy_iff)

end

definition ht_count :: "health_tracker \<Rightarrow> string \<Rightarrow> int option" where
  "ht_count h a = map_option hs_failures (map_of (ht_agents h) a)"

text \<open>One event on the tracker.\<close>

definition ht_event :: "string health_event \<Rightarrow> health_tracker \<Rightarrow> health_tracker" where
  "ht_event e = (case e of Succeeded b \<Rightarrow> ht_RecordSuccess b | Failed b \<Rightarrow> ht_RecordFailure b
     | WasReset b \<Rightarrow> ht_Reset b)"

interpretation tracker: failure_tracking ht_RecordSuccess ht_RecordFailure ht_Reset ht_count
  "\<lambda>h a. \<not> ht_IsHealthy h a" ht_threshold "\<lambda>h. ht_inv h \<and> 0 < ht_threshold h"
proof unfold_locales
  fix s :: health_tracker and a b
  show "ht_inv s \<and> 0 < ht_threshold s \<Longrightarrow>
    (\<not> ht_IsHealthy s a) = (\<exists>n. ht_count s a = Some n \<and> ht_threshold s \<le> n)"
    by (auto simp: ht_inv_def ht_IsHealthy_def ht_count_def ht_Get_def split: option.splits)
qed (auto simp: ht_count_def ht_RecordSuccess_def ht_RecordFailure_def ht_Reset_def map_of_update
      Let_def wf_intros [unfolded ht_RecordSuccess_def] split: option.splits
      dest: ht_inv_success ht_inv_failure ht_inv_reset
      simp: ht_inv_def gm_wf_update)

section \<open>Pings\<close>

record ping_target =
  pt_alias :: string
  pt_url :: string
  pt_headers :: headers
  pt_ping :: string

record ping_result =
  pr_reachable :: bool
  pr_time :: int
  pr_err :: "goerr option"

definition buildPingURL :: "string \<Rightarrow> string \<Rightarrow> string" where
  "buildPingURL baseURL pingEndpoint =
     (let base = trim_right (CHR ''/'') baseURL in
      if pingEndpoint \<noteq> [] then
        (if \<not> has_prefix pingEndpoint ''/'' then base @ ''/'' @ pingEndpoint
         else base @ pingEndpoint)
      else base @ ''/.well-known/agent-card.json'')"

text \<open>\<open>elapsed\<close> is the difference of the two readings of the clock around the request.\<close>

definition default_Ping :: "(string \<Rightarrow> headers \<Rightarrow> http_outcome) \<Rightarrow> int \<Rightarrow> ping_target \<Rightarrow> ping_result" where
  "default_Ping net elapsed target =
     (let pingURL = buildPingURL (pt_url target) (pt_ping target) in
      case url_parse pingURL of
        Inl e \<Rightarrow> \<lparr>pr_reachable = False, pr_time = 0, pr_err = Some e\<rparr>
      | Inr _ \<Rightarrow>
          (case net pingURL (fold (\<lambda>(k, v). header_Set k v) (pt_headers target) []) of
             HttpError e \<Rightarrow> \<lparr>pr_reachable = False, pr_time = 0, pr_err = Some e\<rparr>
           | HttpResponse _ _ \<Rightarrow> \<lparr>pr_reachable = True, pr_time = elapsed, pr_err = None\<rparr>))"

lemma ping_reachable_no_err: "pr_reachable (default_Ping net el t) \<longleftrightarrow> pr_err (default_Ping net el t) = None"
  by (auto simp: default_Ping_def Let_def split: sum.splits http_outcome.splits)

lemma trim_right_snoc [simp]: "trim_right c (s @ [c]) = trim_right c s"
  by (simp add: trim_right_def)

lemma ping_url_trailing_slash: "buildPingURL (u @ ''/'') e = buildPingURL u e"
  by (simp add: buildPingURL_def)

lemma ping_url_default: "buildPingURL u [] = card_url u"
  by (simp add: buildPingURL_def card_url_def)

lemma ping_url_leading_slash:
  "e \<noteq> [] \<Longrightarrow> \<not> has_prefix e ''/'' \<Longrightarrow> buildPingURL u (''/'' @ e) = buildPingURL u e"
  by (simp add: buildPingURL_def has_prefix_def)

end
