(* ===== verification/GoPath.thy ===== *)
theory GoPath
  imports Validate
begin

text \<open>
  \<open>filepath.Join\<close> and \<open>filepath.Clean\<close> on Unix. A cleaned path is whether it is rooted and its
  elements; two paths name the same file when their cleaned forms are equal.
\<close>

type_synonym path = "bool \<times> string list"

fun split_slash :: "string \<Rightarrow> string list" where
  "split_slash [] = [[]]"
| "split_slash (c # s) =
     (if c = CHR ''/'' then [] # split_slash s
      else (case split_slash s of [] \<Rightarrow> [[c]] | e # es \<Rightarrow> (c # e) # es))"

text \<open>The elements kept so far are a stack, the last one first.\<close>

fun clean_elems :: "bool \<Rightarrow> string list \<Rightarrow> string list \<Rightarrow> string list" where
  "clean_elems rooted stack [] = rev stack"
| "clean_elems rooted stack (e # es) =
     (if e = [] \<or> e = ''.'' then clean_elems rooted stack es
      else if e = ''..'' then
        (case stack of
           x # xs \<Rightarrow> if x = ''..'' then clean_elems rooted (e # stack) es else clean_elems rooted xs es
         | [] \<Rightarrow> if rooted then clean_elems rooted [] es else clean_elems rooted [e] es)
      else clean_elems rooted (e # stack) es)"

definition clean_path :: "string \<Rightarrow> path" where
  "clean_path s = (has_prefix s ''/'', clean_elems (has_prefix s ''/'') [] (split_slash s))"

definition path_join :: "string \<Rightarrow> string \<Rightarrow> path" where
  "path_join a b =
     (if a = [] then clean_path b else if b = [] then clean_path a else clean_path (a @ ''/'' @ b))"

definition plain_elem :: "string \<Rightarrow> bool" where
  "plain_elem e \<longleftrightarrow> e \<noteq> [] \<and> e \<noteq> ''.'' \<and> e \<noteq> ''..'' \<and> CHR ''/'' \<notin> set e"

lemma split_slash_nonempty [simp]: "split_slash s \<noteq> []"
  by (cases s) (auto split: list.splits)

lemma split_slash_plain: "CHR ''/'' \<notin> set e \<Longrightarrow> split_slash e = [e]"
  by (induction e) auto

lemma split_slash_append:
  "CHR ''/'' \<notin> set e \<Longrightarrow> split_slash (s @ CHR ''/'' # e) = split_slash s @ [e]"
proof (induction s)
  case (Cons c s)
  then show ?case by (cases "split_slash s") auto
qed (simp add: split_slash_plain)

lemma clean_elems_snoc:
  "plain_elem e \<Longrightarrow> clean_elems rooted stack (es @ [e]) = clean_elems rooted stack es @ [e]"
  by (induction rooted stack es rule: clean_elems.induct)
    (auto simp: plain_elem_def split: list.splits)

lemma clean_path_snoc:
  assumes "plain_elem e" "s \<noteq> []"
  shows "clean_path (s @ CHR ''/'' # e) = (fst (clean_path s), snd (clean_path s) @ [e])"
proof -
  have "has_prefix (s @ CHR ''/'' # e) ''/'' = has_prefix s ''/''"
    using assms(2) by (cases s) (simp_all add: has_prefix_def)
  with assms show ?thesis
    by (simp add: clean_path_def split_slash_append clean_elems_snoc plain_elem_def)
qed

lemma clean_plain: "plain_elem e \<Longrightarrow> clean_path e = (False, [e])"
  by (cases e) (auto simp: clean_path_def split_slash_plain plain_elem_def has_prefix_def)

text \<open>Joining a directory with one plain element names a file directly in that directory.\<close>

lemma path_join_plain:
  assumes "plain_elem e"
  shows "path_join d e = (fst (clean_path d), snd (clean_path d) @ [e])"
proof (cases "d = []")
  case True
  with assms show ?thesis
    by (simp add: path_join_def clean_plain) (simp add: clean_path_def has_prefix_def)
next
  case False
  with assms show ?thesis
    by (simp add: path_join_def clean_path_snoc) (simp add: plain_elem_def)
qed

end
