(* ===== verification/HistoryFile.thy ===== *)
theory HistoryFile
  imports HistoryStore GoPath GoTime
begin

text \<open>
  \<open>history/history_file.go\<close> and \<open>history/history_record.go\<close>. The file system maps cleaned paths to
  files; a file is what \<open>json.Unmarshal\<close> makes of its bytes, entries or an error. Marshalling
  replaces what is not UTF-8 by the replacement character, so an entry is read back normalised.
  The failures of the operating system are the fields of \<open>fs_env\<close>; a write that fails may leave
  anything behind. The per-alias locks make each method one atomic step.
\<close>

datatype hist_file = JsonFile "hist_entry list" | BadFile goerr

type_synonym file_system = "(path, hist_file) gomap"

record fs_env =
  fe_mkdir :: "string \<Rightarrow> goerr option"
  fe_read :: "path \<Rightarrow> goerr option"
  fe_write :: "path \<Rightarrow> (goerr \<times> hist_file option) option"
  fe_remove :: "path \<Rightarrow> goerr option"

definition no_faults :: fs_env where
  "no_faults = \<lparr>fe_mkdir = (\<lambda>_. None), fe_read = (\<lambda>_. None), fe_write = (\<lambda>_. None), fe_remove = (\<lambda>_. None)\<rparr>"

record file_backend =
  fb_dir :: string
  fb_depth :: int

definition NewFileBackend :: "string \<Rightarrow> int \<Rightarrow> goerr + file_backend" where
  "NewFileBackend dir depth =
     (if depth < 1 then Inl (errors_new (''file backend depth must be at least 1, got '' @ itoa depth))
      else Inr \<lparr>fb_dir = dir, fb_depth = depth\<rparr>)"

definition aliasPath :: "file_backend \<Rightarrow> string \<Rightarrow> path" where
  "aliasPath f alias = path_join (fb_dir f) (alias @ ''.json'')"

definition normal_entry :: "hist_entry \<Rightarrow> hist_entry" where
  "normal_entry e = \<lparr>he_time = to_valid_utf8 (he_time e), he_sent = to_valid_utf8 (he_sent e),
     he_response = to_valid_utf8 (he_response e), he_context = to_valid_utf8 (he_context e),
     he_task = to_valid_utf8 (he_task e), he_error = he_error e\<rparr>"

definition fb_readEntries ::
  "fs_env \<Rightarrow> file_backend \<Rightarrow> string \<Rightarrow> file_system \<Rightarrow> goerr + hist_entry list" where
  "fb_readEntries env f alias fs =
     (case fe_read env (aliasPath f alias) of
        Some e \<Rightarrow>
          if err_is e FsNotExist then Inr []
          else Inl (wrap_err (''reading history file for '' @ go_quote alias @ '': '') e)
      | None \<Rightarrow>
          (case map_of fs (aliasPath f alias) of
             None \<Rightarrow> Inr []
           | Some (JsonFile es) \<Rightarrow> Inr es
           | Some (BadFile e) \<Rightarrow> Inl (wrap_err (''unmarshaling history for '' @ go_quote alias @ '': '') e)))"

definition fb_writeEntries ::
  "fs_env \<Rightarrow> file_backend \<Rightarrow> string \<Rightarrow> hist_entry list \<Rightarrow> file_system \<Rightarrow> goerr option \<times> file_system" where
  "fb_writeEntries env f alias es fs =
     (case fe_mkdir env (fb_dir f) of
        Some e \<Rightarrow> (Some (wrap_err ''creating history directory: '' e), fs)
      | None \<Rightarrow>
          (case fe_write env (aliasPath f alias) of
             Some (e, left) \<Rightarrow>
               (Some (wrap_err (''writing history file for '' @ go_quote alias @ '': '') e),
                (case left of None \<Rightarrow> fs | Some x \<Rightarrow> AList.update (aliasPath f alias) x fs))
           | None \<Rightarrow> (None, AList.update (aliasPath f alias) (JsonFile (map normal_entry es)) fs)))"

definition fb_Append ::
  "fs_env \<Rightarrow> file_backend \<Rightarrow> string \<Rightarrow> hist_entry \<Rightarrow> file_system \<Rightarrow> goerr option \<times> file_system" where
  "fb_Append env f alias entry fs =
     (case fb_readEntries env f alias fs of
        Inl e \<Rightarrow> (Some e, fs)
      | Inr es \<Rightarrow>
          let kept = (if int (length es) \<ge> fb_depth f
                      then drop (nat (int (length es) - fb_depth f + 1)) es else es)
          in fb_writeEntries env f alias (kept @ [entry]) fs)"

definition fb_List :: "fs_env \<Rightarrow> file_backend \<Rightarrow> string \<Rightarrow> file_system \<Rightarrow> goerr + hist_entry list" where
  "fb_List env f alias fs = fb_readEntries env f alias fs"

definition fb_remove ::
  "string \<Rightarrow> fs_env \<Rightarrow> file_backend \<Rightarrow> string \<Rightarrow> file_system \<Rightarrow> goerr option \<times> file_system" where
  "fb_remove what env f alias fs =
     (case fe_remove env (aliasPath f alias) of
        Some e \<Rightarrow>
          if err_is e FsNotExist then (None, fs)
          else (Some (wrap_err (what @ '' history file for '' @ go_quote alias @ '': '') e), fs)
      | None \<Rightarrow> (None, AList.delete (aliasPath f alias) fs))"

definition fb_Delete :: "fs_env \<Rightarrow> file_backend \<Rightarrow> string \<Rightarrow> file_system \<Rightarrow> goerr option \<times> file_system" where
  "fb_Delete = fb_remove ''deleting''"

definition fb_Clear :: "fs_env \<Rightarrow> file_backend \<Rightarrow> string \<Rightarrow> file_system \<Rightarrow> goerr option \<times> file_system" where
  "fb_Clear = fb_remove ''clearing''"

definition fb_Close :: "file_backend \<Rightarrow> goerr option" where
  "fb_Close f = None"

section \<open>Where the files are\<close>

lemma alias_file_plain:
  assumes "CHR ''/'' \<notin> set a"
  shows "plain_elem (a @ ''.json'')"
proof -
  have "a @ ''.json'' \<noteq> ''.''" "a @ ''.json'' \<noteq> ''..''"
    by (auto dest!: arg_cong [where f = length])
  with assms show ?thesis by (auto simp: plain_elem_def)
qed

lemma aliasPath_plain:
  "CHR ''/'' \<notin> set a \<Longrightarrow>
   aliasPath f a = (fst (clean_path (fb_dir f)), snd (clean_path (fb_dir f)) @ [a @ ''.json''])"
  by (simp add: aliasPath_def path_join_plain alias_file_plain)

lemma aliasPath_inject:
  "CHR ''/'' \<notin> set a \<Longrightarrow> CHR ''/'' \<notin> set b \<Longrightarrow> aliasPath f a = aliasPath f b \<longleftrightarrow> a = b"
  by (auto simp: aliasPath_plain)

section \<open>The file backend keeps the contract\<close>

lemma normal_entry_idem [simp]: "normal_entry (normal_entry e) = normal_entry e"
  by (simp add: normal_entry_def to_valid_utf8_idem)

text \<open>The state of the interpretation is a backend and the file system it works on.\<close>

type_synonym file_store = "file_backend \<times> file_system"

definition fs_entries :: "file_store \<Rightarrow> string \<Rightarrow> hist_entry list" where
  "fs_entries s a = (case map_of (snd s) (aliasPath (fst s) a) of Some (JsonFile es) \<Rightarrow> es | _ \<Rightarrow> [])"

definition fs_good :: "file_store \<Rightarrow> bool" where
  "fs_good s \<longleftrightarrow> 1 \<le> fb_depth (fst s) \<and> gm_wf (snd s) \<and>
     (\<forall>a. CHR ''/'' \<notin> set a \<longrightarrow> (case map_of (snd s) (aliasPath (fst s) a) of
        None \<Rightarrow> True | Some (JsonFile es) \<Rightarrow> list_all (\<lambda>e. normal_entry e = e) es | Some (BadFile _) \<Rightarrow> False))"

definition fs_add :: "string \<Rightarrow> hist_entry \<Rightarrow> file_store \<Rightarrow> file_store" where
  "fs_add a e s = (fst s, snd (fb_Append no_faults (fst s) a e (snd s)))"

definition fs_wipe :: "string \<Rightarrow> file_store \<Rightarrow> file_store" where
  "fs_wipe a s = (fst s, snd (fb_Clear no_faults (fst s) a (snd s)))"

lemma fs_read: "fs_good s \<Longrightarrow> CHR ''/'' \<notin> set a \<Longrightarrow>
    fb_readEntries no_faults (fst s) a (snd s) = Inr (fs_entries s a)"
  by (auto simp: fs_good_def fb_readEntries_def no_faults_def fs_entries_def
      split: option.splits hist_file.splits)

lemma fs_normal: "fs_good s \<Longrightarrow> CHR ''/'' \<notin> set a \<Longrightarrow> list_all (\<lambda>e. normal_entry e = e) (fs_entries s a)"
  by (auto simp: fs_good_def fs_entries_def split: option.splits hist_file.splits)

lemma map_normal: "list_all (\<lambda>e. normal_entry e = e) es \<Longrightarrow> map normal_entry es = es"
  by (induction es) auto

lemma take_last_append1: "0 < n \<Longrightarrow> take_last n (xs @ [x]) = drop (Suc (length xs) - n) xs @ [x]"
  by (simp add: take_last_def)

lemma keep_depth:
  "1 \<le> d \<Longrightarrow> (if int (length es) \<ge> d then drop (nat (int (length es) - d + 1)) es else es) @ [x]
     = take_last (nat d) (es @ [x])"
proof -
  assume d: "1 \<le> d"
  have "int (length es) \<ge> d \<Longrightarrow> nat (int (length es) - d + 1) = Suc (length es) - nat d"
    using d by linarith
  moreover have "int (length es) \<ge> d \<Longrightarrow> Suc (length es) - nat d \<le> length es" using d by linarith
  moreover have "\<not> int (length es) \<ge> d \<Longrightarrow> Suc (length es) - nat d = 0" by linarith
  ultimately show ?thesis using d by (simp add: take_last_append1)
qed

lemma fs_add_file:
  assumes "fs_good s" "CHR ''/'' \<notin> set a"
  shows "snd (fs_add a e s) = AList.update (aliasPath (fst s) a)
      (JsonFile (take_last (nat (fb_depth (fst s))) (fs_entries s a @ [normal_entry e]))) (snd s)"
proof -
  let ?d = "fb_depth (fst s)" and ?es = "fs_entries s a"
  have "map normal_entry (take_last (nat ?d) (?es @ [e])) = take_last (nat ?d) (map normal_entry (?es @ [e]))"
    by (simp add: take_last_def drop_map [symmetric] del: drop_append)
  also have "\<dots> = take_last (nat ?d) (?es @ [normal_entry e])"
    using fs_normal [OF assms] by (simp add: map_normal)
  finally have normal: "map normal_entry (take_last (nat ?d) (?es @ [e])) = take_last (nat ?d) (?es @ [normal_entry e])" .
  have d: "1 \<le> ?d" using assms(1) by (simp add: fs_good_def)
  have "fb_Append no_faults (fst s) a e (snd s) = fb_writeEntries no_faults (fst s) a
      ((if int (length ?es) \<ge> ?d then drop (nat (int (length ?es) - ?d + 1)) ?es else ?es) @ [e]) (snd s)"
    by (simp only: fb_Append_def fs_read [OF assms] sum.case Let_def)
  then show ?thesis
    unfolding keep_depth [OF d] fb_writeEntries_def normal
    by (simp add: fs_add_def no_faults_def)
qed

lemma fs_wipe_file: "snd (fs_wipe a s) = AList.delete (aliasPath (fst s) a) (snd s)"
  by (simp add: fs_wipe_def fb_Clear_def fb_remove_def no_faults_def)

lemma fst_fs [simp]: "fst (fs_add a e s) = fst s" "fst (fs_wipe a s) = fst s"
  by (simp_all add: fs_add_def fs_wipe_def)

lemma list_all_take_last: "list_all P xs \<Longrightarrow> list_all P (take_last n xs)"
  by (auto simp: take_last_def list_all_iff dest: in_set_dropD)

lemma fs_entries_add:
  "fs_good s \<Longrightarrow> CHR ''/'' \<notin> set a \<Longrightarrow> CHR ''/'' \<notin> set b \<Longrightarrow>
   fs_entries (fs_add a e s) b = (if b = a
     then take_last (nat (fb_depth (fst s))) (fs_entries s a @ [normal_entry e]) else fs_entries s b)"
  unfolding fs_entries_def [of "fs_add a e s"]
  by (simp add: fs_add_file map_of_update aliasPath_inject) (simp add: fs_entries_def)

lemma fs_entries_wipe:
  "CHR ''/'' \<notin> set a \<Longrightarrow> CHR ''/'' \<notin> set b \<Longrightarrow>
   fs_entries (fs_wipe a s) b = (if b = a then [] else fs_entries s b)"
  by (simp add: fs_entries_def fs_wipe_file map_of_delete aliasPath_inject)

lemma fs_good_add: "fs_good s \<Longrightarrow> CHR ''/'' \<notin> set a \<Longrightarrow> fs_good (fs_add a e s)"
  using fs_normal [of s a]
  by (auto simp: fs_good_def fs_add_file map_of_update aliasPath_inject gm_wf_update list_all_take_last
      fs_add_file [unfolded fs_good_def])

lemma fs_good_wipe: "fs_good s \<Longrightarrow> CHR ''/'' \<notin> set a \<Longrightarrow> fs_good (fs_wipe a s)"
  by (auto simp: fs_good_def fs_wipe_file map_of_delete aliasPath_inject gm_wf_delete)

text \<open>One operation on the files of a backend.\<close>

definition fb_step :: "file_backend \<Rightarrow> (string, hist_entry) hist_op \<Rightarrow> file_system \<Rightarrow> file_system" where
  "fb_step f x = (case x of AppendOp a e \<Rightarrow> \<lambda>fs. snd (fb_Append no_faults f a e fs)
     | WipeOp a \<Rightarrow> \<lambda>fs. snd (fb_Clear no_faults f a fs))"

lemma fb_run:
  "fold (\<lambda>x. case x of AppendOp j e \<Rightarrow> fs_add j e | WipeOp j \<Rightarrow> fs_wipe j) ops (f, fs) = (f, fold (fb_step f) ops fs)"
  by (induction ops arbitrary: fs) (auto simp: fs_add_def fs_wipe_def fb_step_def split: hist_op.split)

lemma fs_good_run:
  "fs_good s \<Longrightarrow> list_all (\<lambda>x. CHR ''/'' \<notin> set (op_key x)) ops \<Longrightarrow>
   fs_good (fold (\<lambda>x. case x of AppendOp j e \<Rightarrow> fs_add j e | WipeOp j \<Rightarrow> fs_wipe j) ops s)"
proof (induction ops arbitrary: s)
  case (Cons x ops)
  then show ?case by (cases x) (simp_all add: fs_good_add fs_good_wipe)
qed simp

lemma appended_map:
  "appended a (map (\<lambda>x. case x of AppendOp j e \<Rightarrow> AppendOp j (f e) | WipeOp j \<Rightarrow> WipeOp j) ops) (map f acc)
     = map f (appended a ops acc)"
  by (induction a ops acc rule: appended.induct) auto

interpretation file_history: history_contract
  fs_add fs_wipe fs_entries "\<lambda>s. nat (fb_depth (fst s))" normal_entry "\<lambda>a. CHR ''/'' \<notin> set a" fs_good
  by unfold_locales
    (simp_all add: fs_entries_add fs_entries_wipe fs_good_add fs_good_wipe, simp add: fs_good_def)

end
