(* ===== verification/Recorder.thy ===== *)
theory Recorder
  imports HistoryFile
begin

text \<open>
  \<open>history/history_record.go\<close>, and the dispatch of the \<open>Backend\<close> interface to the two backends
  of the repository. A backend is \<^const>\<open>None\<close> when it is \<open>nil\<close>, and then calling it panics. The
  file system is the part of the state that outlives a backend.
\<close>

datatype hist_backend = MemoryB memory_backend | FileB file_backend

record hist_state =
  hb_backend :: "hist_backend option"
  hb_files :: file_system

definition nil_panic :: string where
  "nil_panic = ''runtime error: invalid memory address or nil pointer dereference''"

definition be_Append ::
  "fs_env \<Rightarrow> string \<Rightarrow> hist_entry \<Rightarrow> hist_state \<Rightarrow> goerr option outcome \<times> hist_state" where
  "be_Append env alias e h =
     (case hb_backend h of
        None \<Rightarrow> (Panic nil_panic, h)
      | Some (MemoryB m) \<Rightarrow>
          (case mb_Append alias e m of (r, m') \<Rightarrow> (r, h\<lparr>hb_backend := Some (MemoryB m')\<rparr>))
      | Some (FileB f) \<Rightarrow>
          (case fb_Append env f alias e (hb_files h) of (r, fs) \<Rightarrow> (Return r, h\<lparr>hb_files := fs\<rparr>)))"

definition be_List :: "fs_env \<Rightarrow> string \<Rightarrow> hist_state \<Rightarrow> (goerr + hist_entry list) outcome" where
  "be_List env alias h =
     (case hb_backend h of
        None \<Rightarrow> Panic nil_panic
      | Some (MemoryB m) \<Rightarrow> Return (mb_List m alias)
      | Some (FileB f) \<Rightarrow> Return (fb_List env f alias (hb_files h)))"

definition be_Delete :: "fs_env \<Rightarrow> string \<Rightarrow> hist_state \<Rightarrow> goerr option outcome \<times> hist_state" where
  "be_Delete env alias h =
     (case hb_backend h of
        None \<Rightarrow> (Panic nil_panic, h)
      | Some (MemoryB m) \<Rightarrow>
          (case mb_Delete alias m of (r, m') \<Rightarrow> (Return r, h\<lparr>hb_backend := Some (MemoryB m')\<rparr>))
      | Some (FileB f) \<Rightarrow>
          (case fb_Delete env f alias (hb_files h) of (r, fs) \<Rightarrow> (Return r, h\<lparr>hb_files := fs\<rparr>)))"

definition be_Clear :: "fs_env \<Rightarrow> string \<Rightarrow> hist_state \<Rightarrow> goerr option outcome \<times> hist_state" where
  "be_Clear env alias h =
     (case hb_backend h of
        None \<Rightarrow> (Panic nil_panic, h)
      | Some (MemoryB m) \<Rightarrow>
          (case mb_Clear alias m of (r, m') \<Rightarrow> (Return r, h\<lparr>hb_backend := Some (MemoryB m')\<rparr>))
      | Some (FileB f) \<Rightarrow>
          (case fb_Clear env f alias (hb_files h) of (r, fs) \<Rightarrow> (Return r, h\<lparr>hb_files := fs\<rparr>)))"

section \<open>Recording\<close>

record recorder =
  rec_enabled :: bool
  rec_max :: int

record record_input =
  ri_alias :: string
  ri_sent :: string
  ri_response :: string
  ri_context :: string
  ri_task :: string
  ri_error :: bool

definition ellipsis :: nat where
  "ellipsis = 8230"

definition truncateText :: "string \<Rightarrow> int \<Rightarrow> string" where
  "truncateText text maxLen =
     (if maxLen \<le> 0 then text
      else let rs = runes text in
        if int (length rs) \<le> maxLen then text
        else string_of_runes (take (nat maxLen) rs) @ string_of_runes [ellipsis])"

definition history_entry :: "recorder \<Rightarrow> int \<Rightarrow> record_input \<Rightarrow> hist_entry" where
  "history_entry r now i =
     \<lparr>he_time = rfc3339 0 now, he_sent = truncateText (ri_sent i) (rec_max r),
      he_response = truncateText (ri_response i) (rec_max r), he_context = ri_context i,
      he_task = ri_task i, he_error = ri_error i\<rparr>"

text \<open>An error of the backend is logged and dropped; a panic of it is a panic of \<open>Record\<close>.\<close>

definition hist_Record ::
  "fs_env \<Rightarrow> recorder \<Rightarrow> int \<Rightarrow> record_input \<Rightarrow> hist_state \<Rightarrow> unit outcome \<times> hist_state" where
  "hist_Record env r now i h =
     (if \<not> rec_enabled r then (Return (), h)
      else (case be_Append env (ri_alias i) (history_entry r now i) h of
          (Panic p, h') \<Rightarrow> (Panic p, h')
        | (Return _, h') \<Rightarrow> (Return (), h')))"

lemma ellipsis_valid [simp]: "valid_rune ellipsis"
  by (simp add: valid_rune_def ellipsis_def)

lemma runes_take_valid: "list_all valid_rune (take n (runes t))"
  using runes_valid [of t] by (auto simp: list_all_iff dest: in_set_takeD)

lemma truncate_runes:
  assumes "0 < n"
  shows "runes (truncateText t n)
       = (if int (length (runes t)) \<le> n then runes t else take (nat n) (runes t) @ [ellipsis])"
proof -
  have "runes (string_of_runes (take (nat n) (runes t)) @ string_of_runes [ellipsis])
      = take (nat n) (runes t) @ [ellipsis]"
    using runes_take_valid [of "nat n" t]
    by (simp add: runes_string_of_runes_append runes_string_of_runes)
  with assms show ?thesis by (simp add: truncateText_def Let_def)
qed

text \<open>A truncated text has one rune more than the maximum: the ellipsis comes on top.\<close>

lemma truncate_length:
  "0 < n \<Longrightarrow> int (length (runes (truncateText t n))) = min (int (length (runes t))) (n + 1)"
  by (auto simp: truncate_runes)

lemma truncate_idem: "truncateText (truncateText t n) n = truncateText t n"
proof (cases "0 < n \<and> \<not> int (length (runes t)) \<le> n")
  case True
  then have "runes (truncateText t n) = take (nat n) (runes t) @ [ellipsis]"
    by (simp add: truncate_runes)
  moreover from True have "length (take (nat n) (runes t)) = nat n" by (simp add: min_def) linarith
  ultimately show ?thesis using True
    by (simp add: truncateText_def [of "truncateText t n"]) (simp add: truncateText_def Let_def)
next
  case False
  then have "truncateText t n = t" by (auto simp: truncateText_def Let_def)
  then show ?thesis by simp
qed

lemma record_disabled: "\<not> rec_enabled r \<Longrightarrow> hist_Record env r now i h = (Return (), h)"
  by (simp add: hist_Record_def)

text \<open>A backend that can record: a memory backend that keeps its bound, or a file backend.\<close>

definition backend_ok :: "hist_state \<Rightarrow> bool" where
  "backend_ok h = (case hb_backend h of
     None \<Rightarrow> False | Some (MemoryB m) \<Rightarrow> mb_inv m | Some (FileB f) \<Rightarrow> 1 \<le> fb_depth f)"

definition recorder_ok :: "recorder \<Rightarrow> hist_state \<Rightarrow> bool" where
  "recorder_ok r h \<longleftrightarrow> rec_enabled r \<longrightarrow> backend_ok h"

lemma backend_ok_append:
  "backend_ok h \<Longrightarrow> returns (fst (be_Append env a e h)) \<and> backend_ok (snd (be_Append env a e h))"
  using mb_append_returns [of _ a e] mb_inv_append [of _ a e]
  by (auto simp: backend_ok_def be_Append_def split_beta split: option.splits hist_backend.splits)

lemma backend_ok_clear:
  "backend_ok h \<Longrightarrow> backend_ok (snd (be_Clear env a h)) \<and> backend_ok (snd (be_Delete env a h))"
  using mb_inv_wipe [of _ a]
  by (auto simp: backend_ok_def be_Clear_def be_Delete_def split_beta split: option.splits hist_backend.splits)

lemma record_ok:
  assumes "recorder_ok r h"
  shows "fst (hist_Record env r now i h) = Return () \<and> recorder_ok r (snd (hist_Record env r now i h))"
proof (cases "rec_enabled r")
  case True
  with assms have "backend_ok h" by (simp add: recorder_ok_def)
  from backend_ok_append [OF this, of env "ri_alias i" "history_entry r now i"] True show ?thesis
    by (auto simp: hist_Record_def recorder_ok_def split: prod.splits outcome.splits)
qed (simp add: hist_Record_def recorder_ok_def)

lemma record_memory:
  assumes "hb_backend h = Some (MemoryB m)" "mb_inv m" "rec_enabled r"
  shows "hb_backend (snd (hist_Record env r now i h))
       = Some (MemoryB (snd (mb_Append (ri_alias i) (history_entry r now i) m)))"
  using assms mb_append_returns [OF assms(2), of "ri_alias i" "history_entry r now i"]
  by (auto simp: hist_Record_def be_Append_def split: prod.splits)

text \<open>The invariant of the history: a backend that is present can record.\<close>

definition hist_inv :: "hist_state \<Rightarrow> bool" where
  "hist_inv h \<longleftrightarrow> hb_backend h = None \<or> backend_ok h"

lemma hist_inv_append: "hist_inv h \<Longrightarrow> hist_inv (snd (be_Append env a e h))"
  using backend_ok_append [of h env a e] by (auto simp: hist_inv_def be_Append_def)

lemma hist_inv_record [wf_intros]: "hist_inv h \<Longrightarrow> hist_inv (snd (hist_Record env r now i h))"
  using hist_inv_append [of h env "ri_alias i" "history_entry r now i"]
  by (auto simp: hist_Record_def split: prod.splits outcome.splits)

lemma hist_inv_wipe [wf_intros]:
  "hist_inv h \<Longrightarrow> hist_inv (snd (be_Delete env a h))"
  "hist_inv h \<Longrightarrow> hist_inv (snd (be_Clear env a h))"
  using backend_ok_clear [of h env a] by (auto simp: hist_inv_def be_Clear_def be_Delete_def)

text \<open>A backend never appears or disappears.\<close>

lemma backend_present:
  "hb_backend (snd (be_Append env a e h)) = None \<longleftrightarrow> hb_backend h = None"
  "hb_backend (snd (be_Delete env a h)) = None \<longleftrightarrow> hb_backend h = None"
  "hb_backend (snd (be_Clear env a h)) = None \<longleftrightarrow> hb_backend h = None"
  by (auto simp: be_Append_def be_Delete_def be_Clear_def split_beta split: option.splits hist_backend.splits)

lemma record_returns:
  "hist_inv h \<Longrightarrow> (rec_enabled r \<Longrightarrow> hb_backend h \<noteq> None) \<Longrightarrow> fst (hist_Record env r now i h) = Return ()"
  using record_ok [of r h env now i] record_disabled [of r env now i h]
  by (cases "rec_enabled r") (auto simp: hist_inv_def recorder_ok_def)

lemma record_present:
  "hb_backend (snd (hist_Record env r now i h)) = None \<longleftrightarrow> hb_backend h = None"
  using backend_present(1) [of env "ri_alias i" "history_entry r now i" h]
  by (auto simp: hist_Record_def split: prod.splits outcome.splits)

text \<open>An operation of a memory backend on one alias leaves the entries of another as they are.\<close>

lemma mb_append_other: "b \<noteq> a \<Longrightarrow> mb_get (snd (mb_Append a e m)) b = mb_get m b"
  by (auto simp: mb_Append_def Let_def split: list.splits) (simp_all add: mb_get_def map_of_update)

lemma be_append_other:
  "b \<noteq> a \<Longrightarrow> (case hb_backend (snd (be_Append env a e h)) of Some (MemoryB m) \<Rightarrow> mb_get m b | _ \<Rightarrow> [])
     = (case hb_backend h of Some (MemoryB m) \<Rightarrow> mb_get m b | _ \<Rightarrow> [])"
  by (simp add: be_Append_def mb_append_other split_beta split: option.split hist_backend.split)

lemma record_other:
  "ri_alias i \<noteq> b \<Longrightarrow> (case hb_backend (snd (hist_Record env r now i h)) of Some (MemoryB m) \<Rightarrow> mb_get m b | _ \<Rightarrow> [])
     = (case hb_backend h of Some (MemoryB m) \<Rightarrow> mb_get m b | _ \<Rightarrow> [])"
  using be_append_other [of b "ri_alias i" env "history_entry r now i" h]
  by (cases "be_Append env (ri_alias i) (history_entry r now i) h") (auto simp: hist_Record_def split: outcome.splits)

lemma be_wipe_other:
  "b \<noteq> a \<Longrightarrow> (case hb_backend (snd (be_Delete env a h)) of Some (MemoryB m) \<Rightarrow> mb_get m b | _ \<Rightarrow> [])
     = (case hb_backend h of Some (MemoryB m) \<Rightarrow> mb_get m b | _ \<Rightarrow> [])"
  "b \<noteq> a \<Longrightarrow> (case hb_backend (snd (be_Clear env a h)) of Some (MemoryB m) \<Rightarrow> mb_get m b | _ \<Rightarrow> [])
     = (case hb_backend h of Some (MemoryB m) \<Rightarrow> mb_get m b | _ \<Rightarrow> [])"
  by (simp_all add: be_Delete_def be_Clear_def mb_get_wipe split_beta split: option.split hist_backend.split)

end
