(* ===== verification/ToolEnv.thy ===== *)
theory ToolEnv
  imports Rendering ContextStore ClientResolver RateLimits Health Recorder
begin

text \<open>
  The environment of the tools (\<open>internal/tool/tool.go\<close>) and the adapters that wire it
  (\<open>gateway/tools.go\<close>). A handler is a function from the shared state \<open>'l gw\<close> to a reply and a
  new state. The world outside the gateway is a record of functions \<open>'l ext\<close>, each indexed by the
  \<open>tick\<close> of the call: the number of calls made before it. So an agent may answer the same request
  differently each time, and the clock, the network and the file system are arbitrary.

  Each method of a component is one atomic step, and the handler of one call is the sequence of
  its steps; other calls that run between them are not modelled.
\<close>

section \<open>State and world\<close>

text \<open>
  What a goroutine started with \<open>go\<close> has still to do: the background part of an asynchronous send
  or broadcast. It runs after the handler that spawned it has replied.
\<close>

record prepared_send =
  pq_resolved :: resolve_result
  pq_client :: a2a_client
  pq_request :: send_request

datatype job = SendJob prepared_send send_input | BroadcastJob string broadcast_input int

record 'l gw =
  g_registry :: agent_registry
  g_health :: health_tracker
  g_limiters :: "'l limiters"
  g_history :: hist_state
  g_clients :: client_cache
  g_card :: caller_card_store
  g_contexts :: context_store
  g_inbox :: memory_inbox
  g_jobs :: "job list"
  g_tick :: nat

text \<open>What a stream delivers: its events and errors, and whether it then blocks for ever.\<close>

type_synonym event_stream = "(goerr + a2a_event) list \<times> bool"

text \<open>
  An agent is reached with a client, the headers its HTTP client puts on the request, and the
  deadline of the context as a duration, 0 for none. \<open>x_query\<close> is a GET on a URL whose query
  parameters are set as listed; \<open>x_schedule\<close> is the order in which concurrent goroutines run. The \<open>x_parse\<close> fields are \<open>json.Unmarshal\<close> into the type at hand
  and \<open>x_json_valid\<close> is \<open>json.Valid\<close>.
\<close>

record 'l ext =
  x_now :: "nat \<Rightarrow> int"
  x_send :: "nat \<Rightarrow> a2a_client \<Rightarrow> headers \<Rightarrow> int \<Rightarrow> send_request \<Rightarrow> goerr + send_result"
  x_stream :: "nat \<Rightarrow> a2a_client \<Rightarrow> headers \<Rightarrow> int \<Rightarrow> send_request \<Rightarrow> event_stream"
  x_get_task :: "nat \<Rightarrow> a2a_client \<Rightarrow> headers \<Rightarrow> string \<Rightarrow> goerr + a2a_task"
  x_cancel_task :: "nat \<Rightarrow> a2a_client \<Rightarrow> headers \<Rightarrow> string \<Rightarrow> goerr option"
  x_http :: "nat \<Rightarrow> string \<Rightarrow> headers \<Rightarrow> http_outcome"
  x_cancelled :: "nat \<Rightarrow> bool"
  x_schedule :: "nat \<Rightarrow> string list \<Rightarrow> string list"
  x_zone :: int
  x_fs :: "nat \<Rightarrow> fs_env"
  x_factory :: client_factory
  x_limiter :: "'l limiter_ops"
  x_parse_card :: "string \<Rightarrow> agent_card option"
  x_parse_output :: "string \<Rightarrow> goerr + card_output"
  x_query :: "nat \<Rightarrow> string \<Rightarrow> (string \<times> string) list \<Rightarrow> headers \<Rightarrow> http_outcome"
  x_json_valid :: "string \<Rightarrow> bool"
  x_parse_query :: "string \<Rightarrow> goerr + (agent_card list \<times> string)"

text \<open>The fixed part of \<open>tool.Env\<close>. A \<^const>\<open>None\<close> ping strategy is the default one.\<close>

record tool_env =
  te_recorder :: recorder
  te_poll :: "int option \<Rightarrow> int"
  te_stream :: "int option \<Rightarrow> int"
  te_default_rate :: rate_limit_config
  te_ping :: "(nat \<Rightarrow> ping_target \<Rightarrow> ping_result) option"
  te_dir_url :: string
  te_dir_err :: "goerr option"
  te_directory :: "(string \<Rightarrow> int \<Rightarrow> string \<Rightarrow> bool \<Rightarrow> goerr + query_result) option"

section \<open>Replies\<close>

text \<open>\<open>mcp.CallToolResult\<close>, of which the tools only build text contents.\<close>

record call_result =
  cr_is_error :: bool
  cr_texts :: "string list"

datatype 'o reply = Panicked string | Hangs | Reply "call_result option" "'o option" "goerr option"

definition fails_with :: "goerr \<Rightarrow> 'o reply" where
  "fails_with e = Reply None None (Some e)"

definition gives :: "'o \<Rightarrow> 'o reply" where
  "gives x = Reply None (Some x) None"

fun answers :: "'o reply \<Rightarrow> bool" where
  "answers (Reply _ _ _) = True"
| "answers _ = False"

section \<open>Steps on the shared state\<close>

definition tick :: "'l gw \<Rightarrow> 'l gw" where
  "tick g = g\<lparr>g_tick := Suc (g_tick g)\<rparr>"

definition env_record :: "'l ext \<Rightarrow> tool_env \<Rightarrow> record_input \<Rightarrow> 'l gw \<Rightarrow> unit outcome \<times> 'l gw" where
  "env_record x env i g =
     (case hist_Record (x_fs x (g_tick g)) (te_recorder env) (x_now x (g_tick g)) i (g_history g) of
        (r, h) \<Rightarrow> (r, tick (g\<lparr>g_history := h\<rparr>)))"

definition env_Resolve :: "'l ext \<Rightarrow> resolve_result \<Rightarrow> 'l gw \<Rightarrow> (goerr + a2a_client) \<times> 'l gw" where
  "env_Resolve x resolved g =
     (case cr_Resolve (x_factory x) (g_registry g) resolved (g_clients g) of
        (r, cs) \<Rightarrow> (r, g\<lparr>g_clients := cs\<rparr>))"

definition env_Evict :: "string \<Rightarrow> 'l gw \<Rightarrow> 'l gw" where
  "env_Evict url g = g\<lparr>g_clients := cr_Evict url (g_clients g)\<rparr>"

definition env_SetContext :: "string \<Rightarrow> string \<Rightarrow> 'l gw \<Rightarrow> 'l gw" where
  "env_SetContext alias c g = g\<lparr>g_contexts := ctx_Set alias c (g_contexts g)\<rparr>"

definition env_success :: "string \<Rightarrow> 'l gw \<Rightarrow> 'l gw" where
  "env_success alias g = g\<lparr>g_health := ht_RecordSuccess alias (g_health g)\<rparr>"

definition env_failure :: "string \<Rightarrow> 'l gw \<Rightarrow> 'l gw" where
  "env_failure alias g = g\<lparr>g_health := ht_RecordFailure alias (g_health g)\<rparr>"

definition env_Deposit :: "'l ext \<Rightarrow> inbox_entry \<Rightarrow> 'l gw \<Rightarrow> 'l gw" where
  "env_Deposit x e g = tick (g\<lparr>g_inbox := ib_Deposit (x_now x (g_tick g)) e (g_inbox g)\<rparr>)"

definition env_CheckRateLimit :: "'l ext \<Rightarrow> string \<Rightarrow> 'l gw \<Rightarrow> goerr option \<times> 'l gw" where
  "env_CheckRateLimit x alias g =
     (case rl_CheckRateLimit (x_limiter x) (\<lambda>k. x_now x (g_tick g + k)) alias (g_limiters g) of
        (e, ls) \<Rightarrow> (e, g\<lparr>g_limiters := ls, g_tick := g_tick g + 4\<rparr>))"

definition env_Allow :: "'l ext \<Rightarrow> string \<Rightarrow> 'l gw \<Rightarrow> bool \<times> 'l gw" where
  "env_Allow x alias g =
     (case rl_Allow (x_limiter x) (x_now x (g_tick g)) alias (g_limiters g) of
        (ok, ls) \<Rightarrow> (ok, tick (g\<lparr>g_limiters := ls\<rparr>)))"

definition env_spawn :: "job \<Rightarrow> 'l gw \<Rightarrow> 'l gw" where
  "env_spawn j g = g\<lparr>g_jobs := g_jobs g @ [j]\<rparr>"

text \<open>Calls on an agent through a client, with the headers its HTTP client supplies.\<close>

definition wire_headers :: "'l gw \<Rightarrow> a2a_client \<Rightarrow> headers" where
  "wire_headers g c = client_headers (g_registry g) (client_http c) []"

definition call_send :: "'l ext \<Rightarrow> a2a_client \<Rightarrow> int \<Rightarrow> send_request \<Rightarrow> 'l gw \<Rightarrow> (goerr + send_result) \<times> 'l gw" where
  "call_send x c deadline rq g = (x_send x (g_tick g) c (wire_headers g c) deadline rq, tick g)"

definition call_stream :: "'l ext \<Rightarrow> a2a_client \<Rightarrow> int \<Rightarrow> send_request \<Rightarrow> 'l gw \<Rightarrow> event_stream \<times> 'l gw" where
  "call_stream x c deadline rq g = (x_stream x (g_tick g) c (wire_headers g c) deadline rq, tick g)"

definition call_get_task :: "'l ext \<Rightarrow> a2a_client \<Rightarrow> string \<Rightarrow> 'l gw \<Rightarrow> (goerr + a2a_task) \<times> 'l gw" where
  "call_get_task x c tid g = (x_get_task x (g_tick g) c (wire_headers g c) tid, tick g)"

definition call_cancel_task :: "'l ext \<Rightarrow> a2a_client \<Rightarrow> string \<Rightarrow> 'l gw \<Rightarrow> (goerr + unit) \<times> 'l gw" where
  "call_cancel_task x c tid g =
     ((case x_cancel_task x (g_tick g) c (wire_headers g c) tid of Some e \<Rightarrow> Inl e | None \<Rightarrow> Inr ()), tick g)"

section \<open>The registry adapter\<close>

definition ResolveAgent :: "agent_registry \<Rightarrow> string \<Rightarrow> goerr + resolve_result" where
  "ResolveAgent r identifier =
     (case reg_Lookup r identifier of
        Some entry \<Rightarrow> Inr \<lparr>rr_url = ra_url entry, rr_headers = ra_headers entry, rr_is_alias = True,
          rr_alias = identifier\<rparr>
      | None \<Rightarrow>
          (case validate_URL identifier of
             None \<Rightarrow> Inr \<lparr>rr_url = identifier, rr_headers = [], rr_is_alias = False, rr_alias = []\<rparr>
           | Some _ \<Rightarrow>
               Inl (errors_new ''agent alias not registered and identifier is not a valid URL'')))"

definition SupportsStreaming :: "agent_registry \<Rightarrow> resolve_result \<Rightarrow> bool" where
  "SupportsStreaming r resolved =
     (if \<not> rr_is_alias resolved then False
      else (case reg_Lookup r (rr_alias resolved) of
          None \<Rightarrow> False
        | Some entry \<Rightarrow> (case ra_card entry of None \<Rightarrow> False | Some c \<Rightarrow> ac_streaming c)))"

lemma resolve_agent_alias:
  "ResolveAgent r a = Inr res \<Longrightarrow> rr_is_alias res \<Longrightarrow> rr_alias res = a \<and>
     (\<exists>e. reg_Lookup r a = Some e \<and> rr_url res = ra_url e \<and> rr_headers res = ra_headers e)"
  by (auto simp: ResolveAgent_def split: option.splits)

lemma resolve_agent_url:
  "ResolveAgent r a = Inr res \<Longrightarrow> \<not> rr_is_alias res \<Longrightarrow>
     rr_url res = a \<and> rr_headers res = [] \<and> validate_URL a = None \<and> reg_Lookup r a = None"
  by (auto simp: ResolveAgent_def split: option.splits)

section \<open>Retry on authentication failure (auth_retry.go)\<close>

text \<open>\<open>fn\<close> is one call on the agent; what it returns is an error or a value.\<close>

definition resolveClientWithAuthRetry ::
  "'l ext \<Rightarrow> resolve_result \<Rightarrow> (a2a_client \<Rightarrow> 'l gw \<Rightarrow> (goerr + 'v) \<times> 'l gw) \<Rightarrow> 'l gw
    \<Rightarrow> (goerr + 'v) \<times> 'l gw" where
  "resolveClientWithAuthRetry x resolved fn g =
     (case env_Resolve x resolved g of
        (Inl e, g1) \<Rightarrow> (Inl (handleA2AError e), g1)
      | (Inr client, g1) \<Rightarrow>
          (case fn client g1 of
             (Inr v, g2) \<Rightarrow> (Inr v, g2)
           | (Inl e, g2) \<Rightarrow>
               if \<not> isAuthError e then (Inl e, g2)
               else (case env_Resolve x resolved (env_Evict (rr_url resolved) g2) of
                   (Inl e', g3) \<Rightarrow> (Inl (handleA2AError e'), g3)
                 | (Inr client', g3) \<Rightarrow> fn client' g3)))"

lemma auth_retry_no_auth_error:
  assumes "env_Resolve x r g = (Inr c, g1)" "fn c g1 = (v, g2)" "\<And>e. v = Inl e \<Longrightarrow> \<not> isAuthError e"
  shows "resolveClientWithAuthRetry x r fn g = (v, g2)"
  using assms by (auto simp: resolveClientWithAuthRetry_def split: sum.splits)

text \<open>After an authentication failure the second attempt uses a client built anew.\<close>

lemma auth_retry_fresh:
  assumes "env_Resolve x r g = (Inr c, g1)" "fn c g1 = (Inl e, g2)" "isAuthError e"
    "env_Resolve x r (env_Evict (rr_url r) g2) = (Inr c', g3)"
  shows "resolveClientWithAuthRetry x r fn g = fn c' g3 \<and> client_http c' = cr_httpClientForResolved r"
proof
  show "resolveClientWithAuthRetry x r fn g = fn c' g3"
    using assms by (simp add: resolveClientWithAuthRetry_def)
  from assms(4) obtain cs where
    "cr_Resolve (x_factory x) (g_registry g2) r (cr_Evict (rr_url r) (g_clients g2)) = (Inr c', cs)"
    by (auto simp: env_Resolve_def env_Evict_def split: prod.splits)
  then show "client_http c' = cr_httpClientForResolved r" by (rule resolve_after_evict)
qed

section \<open>Properties every step keeps\<close>

text \<open>
  The contract between the components and the tools: a property of the shared state that every
  operation of a component keeps, as long as it is done for an agent in \<open>on\<close>. Each tool keeps it
  then too when the agents it is asked for are in \<open>on\<close>; that is proved once, in the theory of the
  tool, for any such property. An agent only comes into the registry under a checked alias and URL.
\<close>

locale gw_closed =
  fixes I :: "'l gw \<Rightarrow> bool" and on :: "string \<Rightarrow> bool"
  assumes I_tick: "I g \<Longrightarrow> I (g\<lparr>g_tick := k\<rparr>)"
    and I_jobs: "I g \<Longrightarrow> I (g\<lparr>g_jobs := js\<rparr>)"
    and I_evict: "I g \<Longrightarrow> I (g\<lparr>g_clients := cr_Evict u (g_clients g)\<rparr>)"
    and I_resolve: "I g \<Longrightarrow> I (g\<lparr>g_clients := snd (cr_Resolve cf (g_registry g) r (g_clients g))\<rparr>)"
    and I_card: "I g \<Longrightarrow> I (g\<lparr>g_card := cc_Set cd key (g_card g)\<rparr>)"
    and I_card_remove: "I g \<Longrightarrow> I (g\<lparr>g_card := snd (cc_Remove (g_card g))\<rparr>)"
    and I_connect: "on a \<Longrightarrow> validate_Alias a = None \<Longrightarrow> validate_URL u = None \<Longrightarrow> I g \<Longrightarrow>
      I (g\<lparr>g_registry := snd (reg_Connect a u h p (g_registry g))\<rparr>)"
    and I_disconnect: "on a \<Longrightarrow> I g \<Longrightarrow> I (g\<lparr>g_registry := snd (reg_Disconnect a (g_registry g))\<rparr>)"
    and I_setcard: "on a \<Longrightarrow> I g \<Longrightarrow> I (g\<lparr>g_registry := snd (reg_SetCard a c (g_registry g))\<rparr>)"
    and I_limit_set: "on a \<Longrightarrow> I g \<Longrightarrow> I (g\<lparr>g_limiters := rl_Set ops a rps n (g_limiters g)\<rparr>)"
    and I_limit_remove: "on a \<Longrightarrow> I g \<Longrightarrow> I (g\<lparr>g_limiters := rl_Remove a (g_limiters g)\<rparr>)"
    and I_limit_check: "on a \<Longrightarrow> I g \<Longrightarrow>
      I (g\<lparr>g_limiters := snd (rl_CheckRateLimit ops clk a (g_limiters g))\<rparr>)"
    and I_limit_allow: "on a \<Longrightarrow> I g \<Longrightarrow> I (g\<lparr>g_limiters := snd (rl_Allow ops now a (g_limiters g))\<rparr>)"
    and I_success: "on a \<Longrightarrow> I g \<Longrightarrow> I (g\<lparr>g_health := ht_RecordSuccess a (g_health g)\<rparr>)"
    and I_failure: "on a \<Longrightarrow> I g \<Longrightarrow> I (g\<lparr>g_health := ht_RecordFailure a (g_health g)\<rparr>)"
    and I_reset: "on a \<Longrightarrow> I g \<Longrightarrow> I (g\<lparr>g_health := ht_Reset a (g_health g)\<rparr>)"
    and I_context: "on a \<Longrightarrow> I g \<Longrightarrow> I (g\<lparr>g_contexts := ctx_Set a c2 (g_contexts g)\<rparr>)"
    and I_context_delete: "on a \<Longrightarrow> I g \<Longrightarrow> I (g\<lparr>g_contexts := ctx_Delete a (g_contexts g)\<rparr>)"
    and I_record: "on (ri_alias i) \<Longrightarrow> I g \<Longrightarrow>
      I (g\<lparr>g_history := snd (hist_Record fenv rc now i (g_history g))\<rparr>)"
    and I_delete: "on a \<Longrightarrow> I g \<Longrightarrow> I (g\<lparr>g_history := snd (be_Delete fenv a (g_history g))\<rparr>)"
    and I_clear: "on a \<Longrightarrow> I g \<Longrightarrow> I (g\<lparr>g_history := snd (be_Clear fenv a (g_history g))\<rparr>)"
    and I_deposit: "on (ie_alias e) \<Longrightarrow> I g \<Longrightarrow> I (g\<lparr>g_inbox := ib_Deposit now e (g_inbox g)\<rparr>)"
    and I_peek: "I g \<Longrightarrow> I (g\<lparr>g_inbox := snd (ib_Peek now a (g_inbox g))\<rparr>)"
    and I_pop: "on (po_alias opts) \<Longrightarrow> I g \<Longrightarrow> I (g\<lparr>g_inbox := snd (ib_Pop now opts (g_inbox g))\<rparr>)"
begin

lemma keeps_steps:
  "I g \<Longrightarrow> I (tick g)"
  "I g \<Longrightarrow> I (env_Evict u g)"
  "on a \<Longrightarrow> I g \<Longrightarrow> I (env_SetContext a c2 g)"
  "on a \<Longrightarrow> I g \<Longrightarrow> I (env_success a g)"
  "on a \<Longrightarrow> I g \<Longrightarrow> I (env_failure a g)"
  "I g \<Longrightarrow> I (env_spawn j g)"
  by (simp_all add: tick_def env_Evict_def env_SetContext_def env_success_def env_failure_def
      env_spawn_def I_tick I_evict I_context I_success I_failure I_jobs)

lemma keeps_deposit: "on (ie_alias e) \<Longrightarrow> I g \<Longrightarrow> I (env_Deposit x e g)"
  by (simp add: env_Deposit_def keeps_steps(1) I_deposit)

lemma keeps_resolve: "I g \<Longrightarrow> I (snd (env_Resolve x r g))"
  by (simp add: env_Resolve_def split_beta I_resolve)

lemma keeps_record: "on (ri_alias i) \<Longrightarrow> I g \<Longrightarrow> I (snd (env_record x env i g))"
  by (simp add: env_record_def split_beta keeps_steps(1) I_record)

lemma keeps_check_limit: "on a \<Longrightarrow> I g \<Longrightarrow> I (snd (env_CheckRateLimit x a g))"
  unfolding env_CheckRateLimit_def split_beta snd_conv by (intro I_tick I_limit_check)

lemma keeps_allow: "on a \<Longrightarrow> I g \<Longrightarrow> I (snd (env_Allow x a g))"
  by (simp add: env_Allow_def split_beta keeps_steps(1) I_limit_allow)

lemma keeps_calls:
  "I g \<Longrightarrow> I (snd (call_send x c d rq g))"
  "I g \<Longrightarrow> I (snd (call_stream x c d rq g))"
  "I g \<Longrightarrow> I (snd (call_get_task x c t g))"
  "I g \<Longrightarrow> I (snd (call_cancel_task x c t g))"
  by (simp_all add: call_send_def call_stream_def call_get_task_def call_cancel_task_def keeps_steps)

lemma keeps_auth_retry:
  assumes "I g" "\<And>c h. I h \<Longrightarrow> I (snd (fn c h))"
  shows "I (snd (resolveClientWithAuthRetry x r fn g))"
proof -
  have r1: "env_Resolve x r h = (v, h') \<Longrightarrow> I h \<Longrightarrow> I h'" for h v h'
    using keeps_resolve [of h x r] by simp
  have f1: "fn c h = (v, h') \<Longrightarrow> I h \<Longrightarrow> I h'" for c h v h'
    using assms(2) [of h c] by simp
  have r2: "env_Resolve x r (env_Evict u h) = (v, h') \<Longrightarrow> I h \<Longrightarrow> I h'" for h v h' u
    using r1 keeps_steps(2) by blast
  show ?thesis
    using assms(1)
    by (auto simp: resolveClientWithAuthRetry_def split: prod.splits sum.splits
        intro!: assms(2))
      (meson r1 f1 r2)+
qed

lemma keeps_pair: "p = (v, g1) \<Longrightarrow> I (snd p) \<Longrightarrow> I g1"
  by simp

end

text \<open>The first such property: every component's own invariant.\<close>

definition gw_inv :: "'l gw \<Rightarrow> bool" where
  "gw_inv g \<longleftrightarrow> reg_inv (g_registry g) \<and> ht_inv (g_health g) \<and> gm_wf (g_limiters g) \<and>
     gm_wf (g_clients g) \<and> cc_inv (g_card g) \<and> ctx_inv (g_contexts g) \<and> hist_inv (g_history g)"

interpretation shared: gw_closed gw_inv "\<lambda>_. True"
  by unfold_locales (simp_all add: gw_inv_def wf_intros)

text \<open>Others: a history backend that is there stays, and one that is absent stays absent.\<close>

interpretation backed: gw_closed "\<lambda>g. hb_backend (g_history g) \<noteq> None" "\<lambda>_. True"
  by unfold_locales (simp_all add: backend_present record_present)

interpretation unbacked: gw_closed "\<lambda>g. hb_backend (g_history g) = None" "\<lambda>_. True"
  by unfold_locales (simp_all add: backend_present record_present)

text \<open>Every registered agent has a valid alias and a valid URL.\<close>

definition checked_agents :: "'l gw \<Rightarrow> bool" where
  "checked_agents g \<longleftrightarrow> (\<forall>a e. reg_Lookup (g_registry g) a = Some e \<longrightarrow>
     validate_Alias a = None \<and> validate_URL (ra_url e) = None)"

interpretation checked: gw_closed checked_agents "\<lambda>_. True"
  by unfold_locales
    (auto simp: checked_agents_def lookup_connect lookup_disconnect lookup_setcard split: if_splits)

text \<open>
  What the gateway holds for one agent, in the components that are not shared between agents. The
  history is that of a memory backend.
\<close>

definition agent_view ::
  "'l gw \<Rightarrow> string \<Rightarrow> registered_agent option \<times> string \<times> health_state \<times> 'l option \<times> hist_entry list" where
  "agent_view g b = (reg_Lookup (g_registry g) b, ctx_Get (g_contexts g) b, ht_Get (g_health g) b,
     map_of (g_limiters g) b,
     case hb_backend (g_history g) of Some (MemoryB m) \<Rightarrow> mb_get m b | _ \<Rightarrow> [])"

text \<open>No operation for other agents changes it.\<close>

interpretation apart: gw_closed "\<lambda>g. agent_view g b = v" "\<lambda>a. a \<noteq> b" for b v
  by unfold_locales
    (auto simp: agent_view_def lookup_connect lookup_disconnect lookup_setcard ht_frame rl_Set_other
      rl_Allow_other rl_Check_other rl_Remove_def map_of_delete ctx_get_set ctx_get_delete
      record_other be_wipe_other)

text \<open>The steps that touch one component only leave the others as they are.\<close>

lemma tick_fields [simp]:
  "g_registry (tick g) = g_registry g" "g_health (tick g) = g_health g"
  "g_limiters (tick g) = g_limiters g" "g_history (tick g) = g_history g"
  "g_clients (tick g) = g_clients g" "g_card (tick g) = g_card g"
  "g_contexts (tick g) = g_contexts g" "g_inbox (tick g) = g_inbox g" "g_jobs (tick g) = g_jobs g"
  "g_tick (tick g) = Suc (g_tick g)"
  by (simp_all add: tick_def)

named_theorems gw_frames \<open>what a step on the shared state leaves as it was\<close>

lemma env_Resolve_frame [gw_frames]:
  "g_registry (snd (env_Resolve x r g)) = g_registry g"
  "g_health (snd (env_Resolve x r g)) = g_health g"
  "g_limiters (snd (env_Resolve x r g)) = g_limiters g"
  "g_history (snd (env_Resolve x r g)) = g_history g"
  "g_card (snd (env_Resolve x r g)) = g_card g"
  "g_contexts (snd (env_Resolve x r g)) = g_contexts g"
  "g_inbox (snd (env_Resolve x r g)) = g_inbox g"
  "g_jobs (snd (env_Resolve x r g)) = g_jobs g"
  "g_tick (snd (env_Resolve x r g)) = g_tick g"
  by (simp_all add: env_Resolve_def split_beta)

lemma env_Evict_frame [gw_frames]:
  "g_registry (env_Evict u g) = g_registry g"
  "g_health (env_Evict u g) = g_health g"
  "g_limiters (env_Evict u g) = g_limiters g"
  "g_history (env_Evict u g) = g_history g"
  "g_card (env_Evict u g) = g_card g"
  "g_contexts (env_Evict u g) = g_contexts g"
  "g_inbox (env_Evict u g) = g_inbox g"
  "g_jobs (env_Evict u g) = g_jobs g"
  "g_tick (env_Evict u g) = g_tick g"
  by (simp_all add: env_Evict_def)

lemma env_SetContext_frame [gw_frames]:
  "g_registry (env_SetContext a c g) = g_registry g"
  "g_health (env_SetContext a c g) = g_health g"
  "g_limiters (env_SetContext a c g) = g_limiters g"
  "g_history (env_SetContext a c g) = g_history g"
  "g_clients (env_SetContext a c g) = g_clients g"
  "g_card (env_SetContext a c g) = g_card g"
  "g_inbox (env_SetContext a c g) = g_inbox g"
  "g_jobs (env_SetContext a c g) = g_jobs g"
  "g_tick (env_SetContext a c g) = g_tick g"
  by (simp_all add: env_SetContext_def)

lemma env_success_frame [gw_frames]:
  "g_registry (env_success a g) = g_registry g"
  "g_limiters (env_success a g) = g_limiters g"
  "g_history (env_success a g) = g_history g"
  "g_clients (env_success a g) = g_clients g"
  "g_card (env_success a g) = g_card g"
  "g_contexts (env_success a g) = g_contexts g"
  "g_inbox (env_success a g) = g_inbox g"
  "g_jobs (env_success a g) = g_jobs g"
  "g_tick (env_success a g) = g_tick g"
  by (simp_all add: env_success_def)

lemma env_failure_frame [gw_frames]:
  "g_registry (env_failure a g) = g_registry g"
  "g_limiters (env_failure a g) = g_limiters g"
  "g_history (env_failure a g) = g_history g"
  "g_clients (env_failure a g) = g_clients g"
  "g_card (env_failure a g) = g_card g"
  "g_contexts (env_failure a g) = g_contexts g"
  "g_inbox (env_failure a g) = g_inbox g"
  "g_jobs (env_failure a g) = g_jobs g"
  "g_tick (env_failure a g) = g_tick g"
  by (simp_all add: env_failure_def)

lemma env_record_frame [gw_frames]:
  "g_registry (snd (env_record x env i g)) = g_registry g"
  "g_health (snd (env_record x env i g)) = g_health g"
  "g_limiters (snd (env_record x env i g)) = g_limiters g"
  "g_clients (snd (env_record x env i g)) = g_clients g"
  "g_card (snd (env_record x env i g)) = g_card g"
  "g_contexts (snd (env_record x env i g)) = g_contexts g"
  "g_inbox (snd (env_record x env i g)) = g_inbox g"
  "g_jobs (snd (env_record x env i g)) = g_jobs g"
  by (simp_all add: env_record_def split_beta)

lemma env_Deposit_frame [gw_frames]:
  "g_registry (env_Deposit x e g) = g_registry g"
  "g_health (env_Deposit x e g) = g_health g"
  "g_limiters (env_Deposit x e g) = g_limiters g"
  "g_history (env_Deposit x e g) = g_history g"
  "g_clients (env_Deposit x e g) = g_clients g"
  "g_card (env_Deposit x e g) = g_card g"
  "g_contexts (env_Deposit x e g) = g_contexts g"
  "g_jobs (env_Deposit x e g) = g_jobs g"
  by (simp_all add: env_Deposit_def)

lemma env_CheckRateLimit_frame [gw_frames]:
  "g_registry (snd (env_CheckRateLimit x a g)) = g_registry g"
  "g_health (snd (env_CheckRateLimit x a g)) = g_health g"
  "g_history (snd (env_CheckRateLimit x a g)) = g_history g"
  "g_clients (snd (env_CheckRateLimit x a g)) = g_clients g"
  "g_card (snd (env_CheckRateLimit x a g)) = g_card g"
  "g_contexts (snd (env_CheckRateLimit x a g)) = g_contexts g"
  "g_inbox (snd (env_CheckRateLimit x a g)) = g_inbox g"
  "g_jobs (snd (env_CheckRateLimit x a g)) = g_jobs g"
  by (simp_all add: env_CheckRateLimit_def split_beta)

lemma env_Allow_frame [gw_frames]:
  "g_registry (snd (env_Allow x a g)) = g_registry g"
  "g_health (snd (env_Allow x a g)) = g_health g"
  "g_history (snd (env_Allow x a g)) = g_history g"
  "g_clients (snd (env_Allow x a g)) = g_clients g"
  "g_card (snd (env_Allow x a g)) = g_card g"
  "g_contexts (snd (env_Allow x a g)) = g_contexts g"
  "g_inbox (snd (env_Allow x a g)) = g_inbox g"
  "g_jobs (snd (env_Allow x a g)) = g_jobs g"
  by (simp_all add: env_Allow_def split_beta)

lemma env_spawn_frame [gw_frames]:
  "g_registry (env_spawn j g) = g_registry g"
  "g_health (env_spawn j g) = g_health g"
  "g_limiters (env_spawn j g) = g_limiters g"
  "g_history (env_spawn j g) = g_history g"
  "g_clients (env_spawn j g) = g_clients g"
  "g_card (env_spawn j g) = g_card g"
  "g_contexts (env_spawn j g) = g_contexts g"
  "g_inbox (env_spawn j g) = g_inbox g"
  "g_tick (env_spawn j g) = g_tick g"
  by (simp_all add: env_spawn_def)

lemma calls_state [gw_frames]:
  "snd (call_send x c d rq g) = tick g" "snd (call_stream x c d rq g) = tick g"
  "snd (call_get_task x c t g) = tick g" "snd (call_cancel_task x c t g) = tick g"
  by (simp_all add: call_send_def call_stream_def call_get_task_def call_cancel_task_def)

text \<open>A retried call changes the clients and the tick only, when the call itself does.\<close>

lemma auth_retry_frame:
  assumes "\<And>c h. f (snd (fn c h)) = f h" "\<And>h. f (snd (env_Resolve x r h)) = f h"
    "\<And>u h. f (env_Evict u h) = f h"
  shows "f (snd (resolveClientWithAuthRetry x r fn g)) = f g"
proof -
  have r1: "env_Resolve x r h = (v, h') \<Longrightarrow> f h' = f h" for h v h' using assms(2) [of h] by simp
  have f1: "fn c h = (v, h') \<Longrightarrow> f h' = f h" for c h v h' using assms(1) [of c h] by simp
  show ?thesis
    by (auto simp: resolveClientWithAuthRetry_def assms(1) split: prod.splits sum.splits)
      (metis r1 f1 assms(3))+
qed

end
