(* ===== verification/Streaming.thy ===== *)
theory Streaming
  imports ToolEnv
begin

text \<open>
  Streaming in \<open>internal/tool/helpers.go\<close>: consuming an event stream until a terminal event, and
  the streaming path of a message. The progress notifications sent on the way are collected in
  \<open>ss_notes\<close>; a failure or panic of the notification is ignored by the code.
\<close>

record stream_state =
  ss_artifacts :: "artifact option list"
  ss_status :: "task_status option"
  ss_task :: string
  ss_context :: string
  ss_received :: bool
  ss_notes :: "(task_state \<times> string) list"

definition empty_stream :: stream_state where
  "empty_stream = \<lparr>ss_artifacts = [], ss_status = None, ss_task = [], ss_context = [],
     ss_received = False, ss_notes = []\<rparr>"

datatype stream_result = StreamTask a2a_task | StreamMessage a2a_message | StreamStatus

definition buildTaskFromState :: "stream_state \<Rightarrow> a2a_task" where
  "buildTaskFromState s =
     \<lparr>tk_id = ss_task s, tk_context = ss_context s,
      tk_status = (case ss_status s of None \<Rightarrow> zero_status | Some st \<Rightarrow> st),
      tk_artifacts = ss_artifacts s\<rparr>"

definition ErrStreamTimeout :: goerr where
  "ErrStreamTimeout = \<lparr>err_text = ''stream timeout'', err_chain = [StreamTimeoutErr]\<rparr>"

definition ErrStreamConnectionTimeout :: goerr where
  "ErrStreamConnectionTimeout =
     \<lparr>err_text = ''stream connection timeout'', err_chain = [StreamConnectionTimeoutErr]\<rparr>"

definition stream_error :: "stream_state \<Rightarrow> goerr \<Rightarrow> goerr" where
  "stream_error s e =
     (if err_is e DeadlineExceeded then
        (if ss_received s then ErrStreamTimeout else ErrStreamConnectionTimeout)
      else if ss_received s then wrap_err ''stream interrupted: '' e
      else wrap_err ''stream connection failed: '' e)"

definition note_info :: "string \<Rightarrow> string \<Rightarrow> stream_state \<Rightarrow> stream_state" where
  "note_info tid ctx s =
     (let s1 = (if ss_task s = [] then s\<lparr>ss_task := tid\<rparr> else s)
      in if ss_context s1 = [] \<and> ctx \<noteq> [] then s1\<lparr>ss_context := ctx\<rparr> else s1)"

definition emit_progress :: "bool \<Rightarrow> task_status \<Rightarrow> stream_state \<Rightarrow> stream_state" where
  "emit_progress progress st s =
     (if progress then
        s\<lparr>ss_notes := ss_notes s @ [(st_state st,
           case st_message st of None \<Rightarrow> [] | Some m \<Rightarrow> extractStatusMessageText m)]\<rparr>
      else s)"

text \<open>
  The loop over the events: an error or a terminal event ends it; \<^const>\<open>None\<close> means that the
  events ran out.
\<close>

fun stream_loop ::
  "bool \<Rightarrow> (goerr + a2a_event) list \<Rightarrow> stream_state \<Rightarrow> (goerr + stream_result) option \<times> stream_state" where
  "stream_loop progress [] s = (None, s)"
| "stream_loop progress (Inl e # evs) s = (Some (Inl (stream_error s e)), s)"
| "stream_loop progress (Inr ev # evs) s0 =
     (let s = s0\<lparr>ss_received := True\<rparr> in
      case ev of
        EvTask t \<Rightarrow> (Some (Inr (StreamTask t)), s)
      | EvMessage m \<Rightarrow> (Some (Inr (StreamMessage m)), s)
      | EvStatus tid ctx st \<Rightarrow>
          let s1 = (note_info tid ctx s)\<lparr>ss_status := Some st\<rparr> in
          if isTerminalOrInterrupted (st_state st) then (Some (Inr StreamStatus), s1)
          else stream_loop progress evs (emit_progress progress st s1)
      | EvArtifact tid ctx a \<Rightarrow>
          let s1 = note_info tid ctx s in
          stream_loop progress evs (s1\<lparr>ss_artifacts := ss_artifacts s1 @ [Some a]\<rparr>)
      | EvOther \<Rightarrow> stream_loop progress evs s)"

text \<open>The outcome of a stream; \<^const>\<open>None\<close> when it neither ends nor yields anything more.\<close>

definition consumeStream ::
  "bool \<Rightarrow> event_stream \<Rightarrow> stream_state \<Rightarrow> (goerr + stream_result) option \<times> stream_state" where
  "consumeStream progress events s =
     (case stream_loop progress (fst events) s of
        (Some r, s') \<Rightarrow> (Some r, s')
      | (None, s') \<Rightarrow>
          (if snd events then None else Some (Inl (errors_new ''stream ended without terminal event'')), s'))"

definition task_output :: "a2a_task \<Rightarrow> send_output" where
  "task_output t = \<lparr>so_message = None, so_task = Some t, so_async = None\<rparr>"

definition formatMessageResponse :: "a2a_message \<Rightarrow> send_output" where
  "formatMessageResponse m = \<lparr>so_message = Some m, so_task = None, so_async = None\<rparr>"

definition formatTaskResponse :: "a2a_task \<Rightarrow> send_output" where
  "formatTaskResponse = task_output"

definition formatInterruptedResponse :: "a2a_task \<Rightarrow> string \<Rightarrow> send_output" where
  "formatInterruptedResponse t stateName = task_output t"

definition formatInputRequiredResponse :: "a2a_task \<Rightarrow> send_output" where
  "formatInputRequiredResponse t = formatInterruptedResponse t ''input-required''"

definition formatStreamTask :: "a2a_task \<Rightarrow> send_output" where
  "formatStreamTask t =
     (case st_state (tk_status t) of
        TS_Completed \<Rightarrow> formatTaskResponse t
      | TS_InputRequired \<Rightarrow> formatInputRequiredResponse t
      | TS_AuthRequired \<Rightarrow> formatInterruptedResponse t ''auth-required''
      | TS_Failed \<Rightarrow> task_output t
      | TS_Canceled \<Rightarrow> task_output t
      | TS_Rejected \<Rightarrow> task_output t
      | _ \<Rightarrow> task_output t)"

definition stream_error_text :: "int \<Rightarrow> goerr \<Rightarrow> string" where
  "stream_error_text timeout e =
     (if err_is e StreamTimeoutErr then
        ''timeout waiting for streaming response to complete (timed out after '' @ duration_text timeout @ '')''
      else if err_is e StreamConnectionTimeoutErr then
        ''stream connection timed out after '' @ duration_text timeout
      else err_text e)"

definition error_result :: "string \<Rightarrow> call_result" where
  "error_result t = \<lparr>cr_is_error = True, cr_texts = [t]\<rparr>"

definition stream_outcome :: "stream_result \<Rightarrow> stream_state \<Rightarrow> send_output \<times> string" where
  "stream_outcome r s =
     (let (out, ctx) = (case r of
          StreamTask t \<Rightarrow> (formatStreamTask t, tk_context t)
        | StreamMessage m \<Rightarrow> (formatMessageResponse m, msg_context m)
        | StreamStatus \<Rightarrow> (formatStreamTask (buildTaskFromState s), tk_context (buildTaskFromState s)))
      in (out, if ctx = [] then ss_context s else ctx))"

text \<open>
  A failed stream is an error result and not a Go error; a stream that blocks for ever never
  returns.
\<close>

definition handleStreamingMessage ::
  "'l ext \<Rightarrow> bool \<Rightarrow> a2a_client \<Rightarrow> send_request \<Rightarrow> resolve_result \<Rightarrow> string \<Rightarrow> int \<Rightarrow> 'l gw
    \<Rightarrow> send_output reply \<times> 'l gw" where
  "handleStreamingMessage x progress client rq resolved agent timeout g =
     (case call_stream x client (if timeout > 0 then timeout else 0) rq g of
        (events, g1) \<Rightarrow>
          (case consumeStream progress events empty_stream of
             (None, _) \<Rightarrow> (Hangs, g1)
           | (Some (Inl e), _) \<Rightarrow> (Reply (Some (error_result (stream_error_text timeout e))) None None, g1)
           | (Some (Inr r), s) \<Rightarrow>
               (case stream_outcome r s of
                  (out, ctx) \<Rightarrow>
                    (Reply None (Some out) None,
                     if rr_is_alias resolved \<and> ctx \<noteq> [] then env_SetContext agent ctx g1 else g1))))"

section \<open>What a stream yields\<close>

fun terminal_event :: "goerr + a2a_event \<Rightarrow> bool" where
  "terminal_event (Inl _) = True"
| "terminal_event (Inr (EvTask _)) = True"
| "terminal_event (Inr (EvMessage _)) = True"
| "terminal_event (Inr (EvStatus _ _ st)) = isTerminalOrInterrupted (st_state st)"
| "terminal_event (Inr (EvArtifact _ _ _)) = False"
| "terminal_event (Inr EvOther) = False"

fun event_artifacts :: "(goerr + a2a_event) list \<Rightarrow> artifact option list" where
  "event_artifacts [] = []"
| "event_artifacts (Inr (EvArtifact _ _ a) # evs) = Some a # event_artifacts evs"
| "event_artifacts (_ # evs) = event_artifacts evs"

text \<open>The task ids and the context ids the events carry, in order.\<close>

fun event_ids :: "(goerr + a2a_event) list \<Rightarrow> (string \<times> string) list" where
  "event_ids [] = []"
| "event_ids (Inr (EvStatus t c _) # evs) = (t, c) # event_ids evs"
| "event_ids (Inr (EvArtifact t c _) # evs) = (t, c) # event_ids evs"
| "event_ids (_ # evs) = event_ids evs"

fun event_notes :: "(goerr + a2a_event) list \<Rightarrow> (task_state \<times> string) list" where
  "event_notes [] = []"
| "event_notes (Inr (EvStatus _ _ st) # evs) =
     (st_state st, case st_message st of None \<Rightarrow> [] | Some m \<Rightarrow> extractStatusMessageText m) # event_notes evs"
| "event_notes (_ # evs) = event_notes evs"

text \<open>The first string of a list that is not empty.\<close>

fun first_nonempty :: "string list \<Rightarrow> string" where
  "first_nonempty [] = []"
| "first_nonempty (s # ss) = (if s = [] then first_nonempty ss else s)"

lemma note_info_fields [simp]:
  "ss_artifacts (note_info t c s) = ss_artifacts s" "ss_status (note_info t c s) = ss_status s"
  "ss_received (note_info t c s) = ss_received s" "ss_notes (note_info t c s) = ss_notes s"
  "ss_task (note_info t c s) = (if ss_task s = [] then t else ss_task s)"
  "ss_context (note_info t c s) = (if ss_context s = [] then c else ss_context s)"
  by (auto simp: note_info_def Let_def)

lemma emit_fields [simp]:
  "ss_artifacts (emit_progress p st s) = ss_artifacts s" "ss_status (emit_progress p st s) = ss_status s"
  "ss_received (emit_progress p st s) = ss_received s" "ss_task (emit_progress p st s) = ss_task s"
  "ss_context (emit_progress p st s) = ss_context s"
  by (simp_all add: emit_progress_def)

text \<open>
  Non-terminal events are consumed to the last, and the state gathers their artifacts in order,
  the first task id and context id that are not empty, and one note for each status.
\<close>

lemma stream_loop_prefix:
  assumes "list_all (\<lambda>e. \<not> terminal_event e) evs"
  shows "\<exists>s'. stream_loop p (evs @ rest) s = stream_loop p rest s' \<and>
     ss_artifacts s' = ss_artifacts s @ event_artifacts evs \<and>
     ss_task s' = first_nonempty (ss_task s # map fst (event_ids evs)) \<and>
     ss_context s' = first_nonempty (ss_context s # map snd (event_ids evs)) \<and>
     ss_notes s' = ss_notes s @ (if p then event_notes evs else []) \<and>
     ss_received s' = (ss_received s \<or> evs \<noteq> [])"
  using assms
proof (induction evs arbitrary: s)
  case Nil
  then show ?case by (intro exI [of _ s]) simp
next
  case (Cons e evs)
  then obtain ev where e: "e = Inr ev" by (cases e) auto
  let ?s = "s\<lparr>ss_received := True\<rparr>"
  have rest: "list_all (\<lambda>e. \<not> terminal_event e) evs" using Cons.prems by simp
  show ?case
  proof (cases ev)
    case (EvStatus t c st)
    from Cons.prems e EvStatus have nt: "\<not> isTerminalOrInterrupted (st_state st)" by simp
    let ?s1 = "emit_progress p st ((note_info t c ?s)\<lparr>ss_status := Some st\<rparr>)"
    have step: "stream_loop p ((e # evs) @ rest') s = stream_loop p (evs @ rest') ?s1" for rest'
      using e EvStatus nt by simp
    have nts: "ss_notes ?s1 = ss_notes s @ (if p then event_notes [e] else [])"
      using e EvStatus by (simp add: emit_progress_def)
    from Cons.IH [OF rest, of ?s1] step nts e EvStatus show ?thesis by auto
  next
    case (EvArtifact t c a)
    let ?n = "note_info t c ?s"
    from Cons.IH [OF rest, of "?n\<lparr>ss_artifacts := ss_artifacts ?n @ [Some a]\<rparr>"] e EvArtifact
    show ?thesis by auto
  next
    case EvOther
    from Cons.IH [OF rest, of ?s] e EvOther show ?thesis by auto
  qed (use Cons.prems e in auto)
qed

text \<open>A terminal event decides the outcome, whatever follows it.\<close>

lemma stream_loop_terminal:
  "terminal_event e \<Longrightarrow> stream_loop p (e # evs) s = stream_loop p [e] s \<and> fst (stream_loop p [e] s) \<noteq> None"
  by (cases e rule: terminal_event.cases) (auto simp: Let_def)

lemma consume_ends:
  assumes "\<exists>e \<in> set (fst events). terminal_event e"
  shows "fst (consumeStream p events s) \<noteq> None"
proof -
  obtain ys e zs where split: "fst events = ys @ e # zs" "terminal_event e"
    "\<forall>y \<in> set ys. \<not> terminal_event y"
    using split_list_first_prop [OF assms] by blast
  then obtain s' where "stream_loop p (fst events) s = stream_loop p (e # zs) s'"
    using stream_loop_prefix [of ys p "e # zs" s] by (auto simp: list_all_iff)
  with stream_loop_terminal [OF split(2), of p zs s'] show ?thesis
    by (auto simp: consumeStream_def split: prod.splits option.splits)
qed

lemma streaming_never_errs:
  "fst (handleStreamingMessage x p c rq r a t g) = Reply res out err \<Longrightarrow> err = None"
  by (auto simp: handleStreamingMessage_def split: prod.splits option.splits sum.splits)

context gw_closed
begin

lemma keeps_streaming: "on a \<Longrightarrow> I g \<Longrightarrow> I (snd (handleStreamingMessage x p c rq r a t g))"
  by (auto simp: handleStreamingMessage_def call_stream_def split: prod.splits option.splits sum.splits
      intro: keeps_steps)

end

end
