(* ===== verification/ToolSend.thy ===== *)
theory ToolSend
  imports Streaming
begin

text \<open>
  \<open>internal/tool/tool_send.go\<close>: the \<open>send_message\<close> tool. Its paths are the streaming one, the
  direct one with polling, and the asynchronous one, whose background part is a job of its own.
\<close>

section \<open>Preparing a request\<close>

definition buildSendRequest ::
  "'l ext \<Rightarrow> send_input \<Rightarrow> 'l gw \<Rightarrow> (goerr + prepared_send) \<times> 'l gw" where
  "buildSendRequest x i g =
     (if si_agent i = [] then (Inl (errors_new ''agent identifier is required''), g)
      else (case buildMessageParts (si_message i) (si_parts i) of
          Inl e \<Rightarrow> (Inl e, g)
        | Inr contentParts \<Rightarrow>
            (case ResolveAgent (g_registry g) (si_agent i) of
               Inl e \<Rightarrow> (Inl e, g)
             | Inr resolved \<Rightarrow>
                 (case (if rr_is_alias resolved then env_CheckRateLimit x (rr_alias resolved) g else (None, g)) of
                    (Some e, g1) \<Rightarrow> (Inl (wrap_err ''rate limited: '' e), g1)
                  | (None, g1) \<Rightarrow>
                      let contextID = (if si_context i = [] \<and> rr_is_alias resolved
                            then ctx_Get (g_contexts g1) (si_agent i) else si_context i);
                          md = (case si_metadata i of
                            Some m \<Rightarrow> if length m > 0 then Some m else None | None \<Rightarrow> None);
                          request = \<lparr>sq_parts = contentParts, sq_context = contextID,
                            sq_task = si_task i, sq_metadata = InjectCallerCard (g_card g1) md\<rparr>
                      in (case env_Resolve x resolved g1 of
                            (Inl e, g2) \<Rightarrow> (Inl (handleA2AError e), g2)
                          | (Inr client, g2) \<Rightarrow>
                              (Inr \<lparr>pq_resolved = resolved, pq_client = client, pq_request = request\<rparr>, g2))))))"

section \<open>Recording outcomes\<close>

definition send_recordHealthOutcome :: "resolve_result \<Rightarrow> goerr \<Rightarrow> 'l gw \<Rightarrow> 'l gw" where
  "send_recordHealthOutcome resolved e g =
     (if \<not> rr_is_alias resolved then g
      else if ClassifyError (Some e) = OutcomeConnectionError then env_failure (rr_alias resolved) g
      else g)"

definition record_success :: "resolve_result \<Rightarrow> 'l gw \<Rightarrow> 'l gw" where
  "record_success resolved g = (if rr_is_alias resolved then env_success (rr_alias resolved) g else g)"

definition extractResultText :: "call_result option \<Rightarrow> string" where
  "extractResultText r =
     (case r of None \<Rightarrow> [] | Some c \<Rightarrow> (case cr_texts c of [] \<Rightarrow> [] | t # _ \<Rightarrow> t))"

definition extractResponseContextID :: "send_output option \<Rightarrow> string" where
  "extractResponseContextID resp =
     (case resp of
        None \<Rightarrow> []
      | Some r \<Rightarrow>
          (case so_task r of
             Some t \<Rightarrow> tk_context t
           | None \<Rightarrow> (case so_message r of Some m \<Rightarrow> msg_context m | None \<Rightarrow> [])))"

definition extractResponseTaskID :: "send_output option \<Rightarrow> string" where
  "extractResponseTaskID resp =
     (case resp of
        None \<Rightarrow> []
      | Some r \<Rightarrow> (case so_task r of Some t \<Rightarrow> tk_id t | None \<Rightarrow> []))"

definition send_recordHistory ::
  "'l ext \<Rightarrow> tool_env \<Rightarrow> send_input \<Rightarrow> call_result option \<Rightarrow> send_output option \<Rightarrow> 'l gw
    \<Rightarrow> unit outcome \<times> 'l gw" where
  "send_recordHistory x env i result structured g =
     env_record x env
       \<lparr>ri_alias = si_agent i, ri_sent = summarizeMessage (si_message i) (si_parts i),
        ri_response = extractResultText result, ri_context = extractResponseContextID structured,
        ri_task = extractResponseTaskID structured,
        ri_error = (case result of None \<Rightarrow> False | Some r \<Rightarrow> cr_is_error r)\<rparr> g"

text \<open>A panic of the recorder is a panic of the handler; otherwise the handler replies.\<close>

definition finish :: "unit outcome \<times> 'l gw \<Rightarrow> 'o reply \<Rightarrow> 'o reply \<times> 'l gw" where
  "finish r reply = (case r of (Panic p, g) \<Rightarrow> (Panicked p, g) | (Return _, g) \<Rightarrow> (reply, g))"

section \<open>Polling\<close>

definition taskPollInterval :: int where
  "taskPollInterval = 2 * second"

definition poll_stops :: "task_state \<Rightarrow> bool" where
  "poll_stops s \<longleftrightarrow> (case s of TS_Completed \<Rightarrow> True | TS_Failed \<Rightarrow> True | TS_Canceled \<Rightarrow> True
      | TS_InputRequired \<Rightarrow> True | TS_AuthRequired \<Rightarrow> True | _ \<Rightarrow> False)"

text \<open>
  One round of the loop waits for the context or the ticker; \<open>cancellable\<close> is false for a context
  made with \<open>WithoutCancel\<close>. The result is an error with the last task polled, or a task. The
  loop may run for ever: then there is no result.
\<close>

partial_function (option) poll_loop ::
  "'l ext \<Rightarrow> bool \<Rightarrow> a2a_client \<Rightarrow> string \<Rightarrow> int \<Rightarrow> int option \<Rightarrow> a2a_task option \<Rightarrow> 'l gw
    \<Rightarrow> ((a2a_task option \<times> goerr + a2a_task) \<times> 'l gw) option" where
  "poll_loop x cancellable client tid timeout deadline lastTask g =
     (if cancellable \<and> x_cancelled x (g_tick g)
      then Some (Inl (lastTask, errors_new ''timeout waiting for task completion: context canceled''), g)
      else if (case deadline of None \<Rightarrow> False | Some d \<Rightarrow> x_now x (g_tick g) > d)
      then Some (Inl (lastTask, errors_new (''timeout waiting for task completion after '' @ duration_text timeout)), tick g)
      else (case call_get_task x client tid (tick g) of
          (Inl e, g1) \<Rightarrow> Some (Inl (lastTask, errors_new (''failed to poll task status: '' @ err_text e)), g1)
        | (Inr task, g1) \<Rightarrow>
            if poll_stops (st_state (tk_status task)) then Some (Inr task, g1)
            else poll_loop x cancellable client tid timeout deadline (Some task) g1))"

definition pollTaskCompletion ::
  "'l ext \<Rightarrow> bool \<Rightarrow> a2a_client \<Rightarrow> string \<Rightarrow> int \<Rightarrow> 'l gw
    \<Rightarrow> ((a2a_task option \<times> goerr + a2a_task) \<times> 'l gw) option" where
  "pollTaskCompletion x cancellable client tid timeout g =
     (if timeout > 0 then
        poll_loop x cancellable client tid timeout (Some (x_now x (g_tick g) + timeout)) None (tick g)
      else poll_loop x cancellable client tid timeout None None g)"

section \<open>The direct path\<close>

definition store_context :: "resolve_result \<Rightarrow> string \<Rightarrow> a2a_task \<Rightarrow> 'l gw \<Rightarrow> 'l gw" where
  "store_context resolved agent t g =
     (if rr_is_alias resolved \<and> tk_context t \<noteq> [] then env_SetContext agent (tk_context t) g else g)"

definition non_terminal_text :: "task_state \<Rightarrow> string" where
  "non_terminal_text s = ''agent returned non-terminal state '' @ go_quote (task_state_text s)
     @ '' without a task ID; cannot poll for completion''"

text \<open>The dash in this message is U+2014.\<close>

definition unrecognized_text :: "task_state \<Rightarrow> string" where
  "unrecognized_text s = ''agent returned unrecognized task state '' @ go_quote (task_state_text s)
     @ '' '' @ string_of_runes [8212] @ '' ensure the agent supports A2A protocol v1.0 or later''"

definition polled_reply :: "a2a_task \<Rightarrow> send_output reply" where
  "polled_reply t =
     (case st_state (tk_status t) of
        TS_Completed \<Rightarrow> gives (formatTaskResponse t)
      | TS_InputRequired \<Rightarrow> gives (formatInputRequiredResponse t)
      | TS_AuthRequired \<Rightarrow> gives (formatInterruptedResponse t ''auth-required'')
      | TS_Failed \<Rightarrow> Reply None (Some (task_output t)) (Some (errors_new (fail_message t)))
      | TS_Canceled \<Rightarrow> Reply None (Some (task_output t)) (Some (errors_new ''task was canceled by the agent''))
      | s \<Rightarrow> Reply None (Some (task_output t))
               (Some (errors_new (''timeout waiting for task completion (state: '' @ task_state_text s @ '')''))))"

definition poll_task_result ::
  "'l ext \<Rightarrow> a2a_client \<Rightarrow> a2a_task \<Rightarrow> resolve_result \<Rightarrow> string \<Rightarrow> int \<Rightarrow> 'l gw
    \<Rightarrow> send_output reply \<times> 'l gw" where
  "poll_task_result x client t resolved agent pollTimeout g =
     (if tk_id t = [] then
        (fails_with (errors_new (non_terminal_text (st_state (tk_status t)))), store_context resolved agent t g)
      else (case pollTaskCompletion x True client (tk_id t) pollTimeout g of
          None \<Rightarrow> (Hangs, g)
        | Some (Inl (polled, e), g1) \<Rightarrow>
            (Reply None (Some (task_output (case polled of None \<Rightarrow> t | Some p \<Rightarrow> p))) (Some e), g1)
        | Some (Inr polled, g1) \<Rightarrow> (polled_reply polled, store_context resolved agent polled g1)))"

definition handleTaskResult ::
  "'l ext \<Rightarrow> a2a_client \<Rightarrow> a2a_task \<Rightarrow> resolve_result \<Rightarrow> string \<Rightarrow> int \<Rightarrow> 'l gw
    \<Rightarrow> send_output reply \<times> 'l gw" where
  "handleTaskResult x client t resolved agent pollTimeout g =
     (case st_state (tk_status t) of
        TS_Completed \<Rightarrow> (gives (formatTaskResponse t), store_context resolved agent t g)
      | TS_InputRequired \<Rightarrow> (gives (formatInputRequiredResponse t), store_context resolved agent t g)
      | TS_AuthRequired \<Rightarrow> (gives (formatInterruptedResponse t ''auth-required''), store_context resolved agent t g)
      | TS_Failed \<Rightarrow> (Reply None (Some (task_output t)) (Some (errors_new (fail_message t))), store_context resolved agent t g)
      | TS_Canceled \<Rightarrow> (Reply None (Some (task_output t)) (Some (errors_new ''task was canceled by the agent'')),
                     store_context resolved agent t g)
      | TS_Working \<Rightarrow> poll_task_result x client t resolved agent pollTimeout g
      | TS_Submitted \<Rightarrow> poll_task_result x client t resolved agent pollTimeout g
      | s \<Rightarrow> (fails_with (errors_new (unrecognized_text s)), store_context resolved agent t g))"

definition processResponse ::
  "'l ext \<Rightarrow> tool_env \<Rightarrow> send_input \<Rightarrow> prepared_send \<Rightarrow> send_result \<Rightarrow> 'l gw
    \<Rightarrow> send_output reply \<times> 'l gw" where
  "processResponse x env i sr response g =
     (case response of
        ResTask t \<Rightarrow>
          (case handleTaskResult x (pq_client sr) t (pq_resolved sr) (si_agent i) (te_poll env (si_poll i)) g of
             (Reply res out err, g1) \<Rightarrow> finish (send_recordHistory x env i res out g1) (Reply res out err)
           | (r, g1) \<Rightarrow> (r, g1))
      | ResMessage m \<Rightarrow>
          let g1 = (if rr_is_alias (pq_resolved sr) \<and> msg_context m \<noteq> []
                    then env_SetContext (si_agent i) (msg_context m) g else g);
              structured = formatMessageResponse m
          in finish (send_recordHistory x env i None (Some structured) g1) (gives structured)
      | ResOther \<Rightarrow>
          finish (send_recordHistory x env i None None g)
            (fails_with (errors_new ''unrecognized response format: expected Task or Message'')))"

definition sendDirect ::
  "'l ext \<Rightarrow> tool_env \<Rightarrow> send_input \<Rightarrow> prepared_send \<Rightarrow> 'l gw \<Rightarrow> send_output reply \<times> 'l gw" where
  "sendDirect x env i sr g =
     (case resolveClientWithAuthRetry x (pq_resolved sr)
              (\<lambda>client. call_send x client 0 (pq_request sr)) g of
        (Inl e, g1) \<Rightarrow>
          finish (send_recordHistory x env i None None (send_recordHealthOutcome (pq_resolved sr) e g1))
            (fails_with (handleA2AError e))
      | (Inr response, g1) \<Rightarrow> processResponse x env i sr response (record_success (pq_resolved sr) g1))"

section \<open>The streaming path\<close>

definition sendViaStreaming ::
  "'l ext \<Rightarrow> tool_env \<Rightarrow> bool \<Rightarrow> send_input \<Rightarrow> prepared_send \<Rightarrow> 'l gw \<Rightarrow> send_output reply \<times> 'l gw" where
  "sendViaStreaming x env progress i sr g =
     (let run = (\<lambda>client. handleStreamingMessage x progress client (pq_request sr) (pq_resolved sr)
             (si_agent i) (te_stream env (si_poll i)));
          attempt = (case run (pq_client sr) g of
             (Reply res out (Some e), g1) \<Rightarrow>
               if isAuthError e then
                 (case env_Resolve x (pq_resolved sr) (env_Evict (rr_url (pq_resolved sr)) g1) of
                    (Inl _, g2) \<Rightarrow> (Reply res out (Some e), g2)
                  | (Inr retryClient, g2) \<Rightarrow> run retryClient g2)
               else (Reply res out (Some e), g1)
           | other \<Rightarrow> other)
      in (case attempt of
            (Reply _ _ (Some e), g1) \<Rightarrow>
              finish (send_recordHistory x env i None None (send_recordHealthOutcome (pq_resolved sr) e g1))
                (fails_with e)
          | (Reply res out None, g1) \<Rightarrow>
              finish (send_recordHistory x env i res out (record_success (pq_resolved sr) g1))
                (Reply res out None)
          | (r, g1) \<Rightarrow> (r, g1)))"

section \<open>The asynchronous path\<close>

definition sendAsync :: "send_input \<Rightarrow> prepared_send \<Rightarrow> 'l gw \<Rightarrow> send_output reply \<times> 'l gw" where
  "sendAsync i sr g =
     (gives \<lparr>so_message = None, so_task = None,
        so_async = Some \<lparr>ao_alias = si_agent i, ao_status = ''dispatched'', ao_error = []\<rparr>\<rparr>,
      env_spawn (SendJob sr i) g)"

definition empty_entry :: "string \<Rightarrow> inbox_entry" where
  "empty_entry alias = \<lparr>ie_alias = alias, ie_task_id = [], ie_context = [], ie_state = [], ie_time = 0,
     ie_task = None, ie_message = None, ie_error = []\<rparr>"

definition entryFromTask :: "string \<Rightarrow> a2a_task \<Rightarrow> inbox_entry" where
  "entryFromTask alias t = (empty_entry alias)\<lparr>ie_task_id := tk_id t, ie_context := tk_context t,
     ie_state := task_state_text (st_state (tk_status t)), ie_task := Some t\<rparr>"

definition entryFromMessage :: "string \<Rightarrow> a2a_message \<Rightarrow> inbox_entry" where
  "entryFromMessage alias m = (empty_entry alias)\<lparr>ie_context := msg_context m,
     ie_state := ''completed'', ie_message := Some m\<rparr>"

text \<open>The goroutine; \<^const>\<open>None\<close> when it polls for ever.\<close>

definition backgroundSendAndPoll ::
  "'l ext \<Rightarrow> tool_env \<Rightarrow> prepared_send \<Rightarrow> send_input \<Rightarrow> 'l gw \<Rightarrow> 'l gw option" where
  "backgroundSendAndPoll x env sr i g =
     (case call_send x (pq_client sr) 0 (pq_request sr) g of
        (Inl e, g1) \<Rightarrow>
          Some (env_Deposit x ((empty_entry (si_agent i))\<lparr>ie_state := ''error'', ie_error := err_text e\<rparr>) g1)
      | (Inr (ResTask t), g1) \<Rightarrow>
          if isTerminalOrInterrupted (st_state (tk_status t))
          then Some (env_Deposit x (entryFromTask (si_agent i) t) g1)
          else (case pollTaskCompletion x False (pq_client sr) (tk_id t) (te_poll env None) g1 of
              None \<Rightarrow> None
            | Some (Inl (polled, e), g2) \<Rightarrow>
                let d = (case polled of None \<Rightarrow> t | Some p \<Rightarrow> p) in
                Some (env_Deposit x ((entryFromTask (si_agent i) d)\<lparr>ie_error := err_text e\<rparr>) g2)
            | Some (Inr polled, g2) \<Rightarrow> Some (env_Deposit x (entryFromTask (si_agent i) polled) g2))
      | (Inr (ResMessage m), g1) \<Rightarrow> Some (env_Deposit x (entryFromMessage (si_agent i) m) g1)
      | (Inr ResOther, g1) \<Rightarrow> Some g1)"

section \<open>The handler\<close>

definition send_Handle ::
  "'l ext \<Rightarrow> tool_env \<Rightarrow> bool \<Rightarrow> send_input \<Rightarrow> 'l gw \<Rightarrow> send_output reply \<times> 'l gw" where
  "send_Handle x env progress i g =
     (case buildSendRequest x i g of
        (Inl e, g1) \<Rightarrow> (fails_with e, g1)
      | (Inr sr, g1) \<Rightarrow>
          if si_async i = Some True then sendAsync i sr g1
          else if SupportsStreaming (g_registry g1) (pq_resolved sr)
          then sendViaStreaming x env progress i sr g1
          else sendDirect x env i sr g1)"

end
