(* ===== verification/SendFacts.thy ===== *)
theory SendFacts
  imports ToolSend
begin

text \<open>
  Lemmas about \<open>send_message\<close>: when polling returns, what each path changes in the shared state,
  and that the invariant of the state is kept.
\<close>

section \<open>Polling\<close>

lemma call_get_task_state [simp]: "snd (call_get_task x c t g) = tick g"
  by (simp add: call_get_task_def)

text \<open>A loop with a deadline returns as soon as the clock has passed it.\<close>

lemma poll_loop_deadline:
  assumes clock: "\<And>t. x_now x t < x_now x (Suc t)"
  shows "\<exists>r. poll_loop x canc c tid to (Some d) lt g = Some r"
proof (induction "nat (d + 1 - x_now x (g_tick g))" arbitrary: lt g rule: less_induct)
  case less
  show ?case
  proof (cases "(canc \<and> x_cancelled x (g_tick g)) \<or> x_now x (g_tick g) > d")
    case True
    then show ?thesis by (subst poll_loop.simps) auto
  next
    case False
    then have before: "x_now x (g_tick g) \<le> d" by simp
    have "x_now x (g_tick g) < x_now x (Suc (g_tick g))" by (rule clock)
    also have "\<dots> < x_now x (Suc (Suc (g_tick g)))" by (rule clock)
    finally have "nat (d + 1 - x_now x (g_tick (tick (tick g)))) < nat (d + 1 - x_now x (g_tick g))"
      using before by simp
    from less.hyps [OF this] have rec: "\<exists>r. poll_loop x canc c tid to (Some d) l (tick (tick g)) = Some r" for l .
    obtain v where v: "call_get_task x c tid (tick g) = (v, tick (tick g))"
      using call_get_task_state [of x c tid "tick g"] by (cases "call_get_task x c tid (tick g)") auto
    show ?thesis
      using False rec v by (subst poll_loop.simps) (auto split: sum.splits)
  qed
qed

text \<open>So does a loop whose context is cancelled at some point for good.\<close>

lemma poll_loop_cancelled:
  assumes "\<And>t. n \<le> t \<Longrightarrow> x_cancelled x t"
  shows "\<exists>r. poll_loop x True c tid to d lt g = Some r"
proof (induction "n - g_tick g" arbitrary: lt g rule: less_induct)
  case less
  show ?case
  proof (cases "x_cancelled x (g_tick g)")
    case True
    then show ?thesis by (subst poll_loop.simps) simp
  next
    case False
    with assms have "g_tick g < n" by (meson not_less)
    then have "n - g_tick (tick (tick g)) < n - g_tick g" by simp
    from less.hyps [OF this] have rec: "\<exists>r. poll_loop x True c tid to d l (tick (tick g)) = Some r" for l .
    obtain v where v: "call_get_task x c tid (tick g) = (v, tick (tick g))"
      using call_get_task_state [of x c tid "tick g"] by (cases "call_get_task x c tid (tick g)") auto
    show ?thesis using False rec v by (subst poll_loop.simps) (auto split: sum.splits)
  qed
qed

lemmas poll_loop_induct =
  poll_loop.raw_induct [where xa = "(((((((x, canc), c), tid), to), d), lt), g)" for x canc c tid to d lt g,
    unfolded prod.case]

text \<open>The loop changes nothing but the tick, and a task it returns is in a state that stops it.\<close>

lemma poll_loop_result:
  assumes "poll_loop x canc c tid to d lt g = Some r"
  shows "(\<exists>k. snd r = g\<lparr>g_tick := k\<rparr>) \<and>
         (\<forall>t. fst r = Inr t \<longrightarrow> poll_stops (st_state (tk_status t))) \<and>
         (\<forall>l e. fst r = Inl (l, e) \<longrightarrow> err_text e \<noteq> [])"
proof (rule poll_loop_induct [OF _ assms, where P = "\<lambda>x canc c tid to d lt g r.
    (\<exists>k. snd r = g\<lparr>g_tick := k\<rparr>) \<and> (\<forall>t. fst r = Inr t \<longrightarrow> poll_stops (st_state (tk_status t))) \<and>
         (\<forall>l e. fst r = Inl (l, e) \<longrightarrow> err_text e \<noteq> [])"])
  fix pl :: "'l ext \<Rightarrow> bool \<Rightarrow> a2a_client \<Rightarrow> string \<Rightarrow> int \<Rightarrow> int option \<Rightarrow> a2a_task option \<Rightarrow> 'l gw
    \<Rightarrow> ((a2a_task option \<times> goerr + a2a_task) \<times> 'l gw) option"
    and x :: "'l ext" and canc c tid to d lt and g :: "'l gw" and r
  let ?Q = "\<lambda>(g :: 'l gw) r. (\<exists>k. snd r = g\<lparr>g_tick := k\<rparr>) \<and> (\<forall>t. fst r = Inr t \<longrightarrow> poll_stops (st_state (tk_status t))) \<and>
         (\<forall>l e. fst r = Inl (l, e) \<longrightarrow> err_text e \<noteq> [])"
  assume IH: "\<And>x canc c tid to d lt g r. pl x canc c tid to d lt g = Some r \<Longrightarrow> ?Q g r"
  assume step: "(if canc \<and> x_cancelled x (g_tick g)
      then Some (Inl (lt, errors_new ''timeout waiting for task completion: context canceled''), g)
      else if (case d of None \<Rightarrow> False | Some dd \<Rightarrow> x_now x (g_tick g) > dd)
      then Some (Inl (lt, errors_new (''timeout waiting for task completion after '' @ duration_text to)), tick g)
      else (case call_get_task x c tid (tick g) of
          (Inl e, g1) \<Rightarrow> Some (Inl (lt, errors_new (''failed to poll task status: '' @ err_text e)), g1)
        | (Inr task, g1) \<Rightarrow>
            if poll_stops (st_state (tk_status task)) then Some (Inr task, g1)
            else pl x canc c tid to d (Some task) g1)) = Some r"
  have same: "\<exists>k. g = g\<lparr>g_tick := k\<rparr>" by (rule exI [of _ "g_tick g"]) simp
  obtain v where v: "call_get_task x c tid (tick g) = (v, tick (tick g))"
    using call_get_task_state [of x c tid "tick g"] by (cases "call_get_task x c tid (tick g)") auto
  show "?Q g r"
    using step v same
    by (auto simp: tick_def split: if_splits sum.splits dest!: IH)
qed

lemma poll_terminates:
  "(\<And>t. x_now x t < x_now x (Suc t)) \<Longrightarrow> 0 < timeout \<Longrightarrow>
   \<exists>r. pollTaskCompletion x canc c tid timeout g = Some r"
  unfolding pollTaskCompletion_def by (simp add: poll_loop_deadline del: split_paired_Ex)

lemma poll_terminates_cancelled:
  "(\<And>t. n \<le> t \<Longrightarrow> x_cancelled x t) \<Longrightarrow> \<exists>r. pollTaskCompletion x True c tid timeout g = Some r"
  unfolding pollTaskCompletion_def using poll_loop_cancelled [of n x] by auto

lemma poll_result:
  assumes "pollTaskCompletion x canc c tid timeout g = Some r"
  shows "(\<exists>k. snd r = g\<lparr>g_tick := k\<rparr>) \<and>
         (\<forall>t. fst r = Inr t \<longrightarrow> poll_stops (st_state (tk_status t))) \<and>
         (\<forall>l e. fst r = Inl (l, e) \<longrightarrow> err_text e \<noteq> [])"
proof (cases "timeout > 0")
  case True
  with assms have "poll_loop x canc c tid timeout (Some (x_now x (g_tick g) + timeout)) None (tick g) = Some r"
    by (simp add: pollTaskCompletion_def)
  from poll_loop_result [OF this] show ?thesis by (auto simp: tick_def)
next
  case False
  with assms have "poll_loop x canc c tid timeout None None g = Some r"
    by (simp add: pollTaskCompletion_def)
  from poll_loop_result [OF this] show ?thesis .
qed

text \<open>A stream never ends in a Go error, so the retry of the streaming path is never taken.\<close>

lemma via_streaming:
  "sendViaStreaming x env p i sr g =
     (case handleStreamingMessage x p (pq_client sr) (pq_request sr) (pq_resolved sr) (si_agent i)
             (te_stream env (si_poll i)) g of
        (Reply res out err, g1) \<Rightarrow>
          finish (send_recordHistory x env i res out (record_success (pq_resolved sr) g1)) (Reply res out None)
      | (r, g1) \<Rightarrow> (r, g1))"
  using streaming_never_errs [of x p "pq_client sr" "pq_request sr" "pq_resolved sr" "si_agent i"
      "te_stream env (si_poll i)" g]
  by (auto simp: sendViaStreaming_def Let_def split: prod.splits reply.splits option.splits)

section \<open>What the tool keeps\<close>

lemma build_resolved:
  "buildSendRequest x i g = (Inr sr, g1) \<Longrightarrow> ResolveAgent (g_registry g) (si_agent i) = Inr (pq_resolved sr)"
  by (auto simp: buildSendRequest_def Let_def split: sum.splits prod.splits option.splits if_splits)

lemma build_alias:
  "buildSendRequest x i g = (Inr sr, g1) \<Longrightarrow> rr_is_alias (pq_resolved sr) \<Longrightarrow> rr_alias (pq_resolved sr) = si_agent i"
  using resolve_agent_alias [OF build_resolved] by blast

text \<open>Every entry the background part deposits is filed under the agent it was sent to.\<close>

lemma entry_aliases [simp]:
  "ie_alias (empty_entry a) = a" "ie_alias (entryFromTask a t) = a" "ie_alias (entryFromMessage a m) = a"
  by (simp_all add: empty_entry_def entryFromTask_def entryFromMessage_def)

context gw_closed
begin

lemma keeps_build: "on (si_agent i) \<Longrightarrow> I g \<Longrightarrow> I (snd (buildSendRequest x i g))"
  unfolding buildSendRequest_def
  by (auto simp: Let_def split: sum.splits prod.splits option.splits if_splits)
    (metis keeps_pair keeps_resolve keeps_check_limit resolve_agent_alias)+

lemma keeps_finish: "I (snd r) \<Longrightarrow> I (snd (finish r reply))"
  by (auto simp: finish_def split: prod.splits outcome.splits)

lemma keeps_send_history: "on (si_agent i) \<Longrightarrow> I g \<Longrightarrow> I (snd (send_recordHistory x env i res out g))"
  by (simp add: send_recordHistory_def keeps_record)

lemma keeps_send_health: "(rr_is_alias r \<Longrightarrow> on (rr_alias r)) \<Longrightarrow> I g \<Longrightarrow> I (send_recordHealthOutcome r e g)"
  by (simp add: send_recordHealthOutcome_def keeps_steps)

lemma keeps_record_success: "(rr_is_alias r \<Longrightarrow> on (rr_alias r)) \<Longrightarrow> I g \<Longrightarrow> I (record_success r g)"
  by (simp add: record_success_def keeps_steps)

lemma keeps_store_context: "on a \<Longrightarrow> I g \<Longrightarrow> I (store_context r a t g)"
  by (simp add: store_context_def keeps_steps)

lemma keeps_poll_task: "on a \<Longrightarrow> I g \<Longrightarrow> I (snd (poll_task_result x c t r a to g))"
proof -
  assume a: "on a" and g: "I g"
  have p: "I g2" if "pollTaskCompletion x True c (tk_id t) to g = Some (v, g2)" for v g2
    using poll_result [OF that] I_tick [OF g] by auto
  show ?thesis
    by (auto simp: poll_task_result_def g a intro!: keeps_store_context dest: p
        split: option.splits prod.splits sum.splits)
qed

lemma keeps_task_result: "on a \<Longrightarrow> I g \<Longrightarrow> I (snd (handleTaskResult x c t r a to g))"
  by (auto simp: handleTaskResult_def split: task_state.splits intro: keeps_store_context keeps_poll_task)

lemma keeps_process: "on (si_agent i) \<Longrightarrow> I g \<Longrightarrow> I (snd (processResponse x env i sr resp g))"
  by (auto simp: processResponse_def Let_def split: send_result.splits prod.splits reply.splits
      intro!: keeps_finish keeps_send_history keeps_steps intro: keeps_pair [OF _ keeps_task_result])

lemma keeps_direct:
  assumes a: "on (si_agent i)" "rr_is_alias (pq_resolved sr) \<Longrightarrow> on (rr_alias (pq_resolved sr))" and g: "I g"
  shows "I (snd (sendDirect x env i sr g))"
proof -
  have "I (snd (resolveClientWithAuthRetry x (pq_resolved sr) (\<lambda>c. call_send x c 0 (pq_request sr)) g))"
    using g keeps_calls(1) by (intro keeps_auth_retry) auto
  with a show ?thesis
    by (auto simp: sendDirect_def split: prod.splits sum.splits
        intro!: keeps_finish keeps_send_history keeps_send_health keeps_process keeps_record_success)
qed

lemma keeps_via_streaming:
  "on (si_agent i) \<Longrightarrow> (rr_is_alias (pq_resolved sr) \<Longrightarrow> on (rr_alias (pq_resolved sr))) \<Longrightarrow> I g \<Longrightarrow> I (snd (sendViaStreaming x env p i sr g))"
  by (auto simp: via_streaming split: prod.splits reply.splits
      intro!: keeps_finish keeps_send_history keeps_record_success
      intro: keeps_pair [OF _ keeps_streaming])

lemma keeps_send: "on (si_agent i) \<Longrightarrow> I g \<Longrightarrow> I (snd (send_Handle x env p i g))"
  using build_alias [of x i g]
  by (auto simp: send_Handle_def sendAsync_def split: prod.splits sum.splits
      intro!: keeps_steps keeps_via_streaming keeps_direct intro: keeps_pair [OF _ keeps_build])

lemma keeps_background:
  assumes "on (si_agent i)" "I g" "backgroundSendAndPoll x env sr i g = Some g'"
  shows "I g'"
proof -
  have g: "I (tick g)" using assms(2) by (rule keeps_steps)
  have p: "I g2" if "pollTaskCompletion x False c tid to (tick g) = Some (v, g2)" for c tid to v g2
    using poll_result [OF that] I_tick [OF g] by auto
  obtain v where v: "call_send x (pq_client sr) 0 (pq_request sr) g = (v, tick g)"
    by (simp add: call_send_def)
  show ?thesis
    using assms(1,3) g
    by (auto simp: backgroundSendAndPoll_def v Let_def
        split: prod.splits sum.splits send_result.splits option.splits if_splits
        intro!: keeps_steps keeps_deposit dest: p)
qed

end

end
