(* ===== verification/ToolBroadcast.thy ===== *)
theory ToolBroadcast
  imports SendFacts
begin

text \<open>
  \<open>internal/tool/tool_broadcast.go\<close>. The goroutines of a fan-out run one after the other in an
  order the environment chooses; they share the metadata map of the input, into which the caller
  card is injected in place. The goroutines of an asynchronous broadcast are jobs of their own.
\<close>

definition defaultBroadcastTimeout :: int where "defaultBroadcastTimeout = 30"
definition minBroadcastTimeout :: int where "minBroadcastTimeout = 1"
definition maxBroadcastTimeout :: int where "maxBroadcastTimeout = 120"

record broadcast_result =
  br_status :: string
  br_response :: string
  br_error :: string
  br_task :: "a2a_task option"
  br_message :: "a2a_message option"

record agent_outcome =
  oc_result :: broadcast_result
  oc_response :: "send_output option"

definition broadcast_validateInput :: "broadcast_input \<Rightarrow> goerr option" where
  "broadcast_validateInput i =
     (if length (bi_aliases i) = 0 then Some (errors_new ''at least one alias is required'')
      else if length (bi_aliases i) > 20 then
        Some (errors_new (''maximum 20 aliases allowed, got '' @ itoa (int (length (bi_aliases i)))))
      else if bi_message i = [] \<and> length (bi_parts i) = 0 then
        Some (errors_new ''either 'message' or 'parts' is required'')
      else None)"

definition resolveTimeout :: "int option \<Rightarrow> goerr + int" where
  "resolveTimeout requestSeconds =
     (case requestSeconds of
        None \<Rightarrow> Inr defaultBroadcastTimeout
      | Some v \<Rightarrow>
          if v < minBroadcastTimeout \<or> v > maxBroadcastTimeout then
            Inl (errors_new (''timeout_seconds must be between '' @ itoa minBroadcastTimeout @ '' and ''
              @ itoa maxBroadcastTimeout @ '', got '' @ itoa v))
          else Inr v)"

section \<open>One agent\<close>

definition error_br :: "string \<Rightarrow> string \<Rightarrow> broadcast_result" where
  "error_br status e = \<lparr>br_status = status, br_response = [], br_error = e, br_task = None, br_message = None\<rparr>"

definition task_br :: "string \<Rightarrow> string \<Rightarrow> a2a_task \<Rightarrow> broadcast_result" where
  "task_br status text t = \<lparr>br_status = status, br_response = text, br_error = [], br_task = Some t, br_message = None\<rparr>"

definition handleBroadcastTaskResult :: "a2a_task \<Rightarrow> agent_outcome" where
  "handleBroadcastTaskResult t =
     (case st_state (tk_status t) of
        TS_Completed \<Rightarrow> \<lparr>oc_result = task_br ''success'' (extractContentFromArtifacts (tk_artifacts t)) t,
          oc_response = Some (task_output t)\<rparr>
      | TS_InputRequired \<Rightarrow> \<lparr>oc_result = task_br ''input-required'' (extractTaskResponseText t) t,
          oc_response = Some (task_output t)\<rparr>
      | TS_AuthRequired \<Rightarrow> \<lparr>oc_result = task_br ''auth-required'' (extractTaskResponseText t) t,
          oc_response = Some (task_output t)\<rparr>
      | TS_Failed \<Rightarrow> \<lparr>oc_result = error_br ''error'' (fail_message t), oc_response = None\<rparr>
      | TS_Canceled \<Rightarrow> \<lparr>oc_result = error_br ''error'' ''task was canceled by the agent'', oc_response = None\<rparr>
      | s \<Rightarrow> \<lparr>oc_result = error_br ''error''
            (''timeout waiting for task completion (state: '' @ task_state_text s @ '')''), oc_response = None\<rparr>)"

definition message_outcome :: "a2a_message \<Rightarrow> agent_outcome" where
  "message_outcome m =
     \<lparr>oc_result = \<lparr>br_status = ''success'', br_response = extractContentFromMessageParts (msg_parts m),
        br_error = [], br_task = None, br_message = Some m\<rparr>,
      oc_response = Some (formatMessageResponse m)\<rparr>"

definition broadcast_recordHistory ::
  "'l ext \<Rightarrow> tool_env \<Rightarrow> string \<Rightarrow> broadcast_input \<Rightarrow> broadcast_result \<Rightarrow> 'l gw \<Rightarrow> unit outcome \<times> 'l gw" where
  "broadcast_recordHistory x env alias i r g =
     env_record x env
       \<lparr>ri_alias = alias, ri_sent = summarizeMessage (bi_message i) (bi_parts i),
        ri_response = (if br_response r = [] \<and> br_error r \<noteq> [] then br_error r else br_response r),
        ri_context = [], ri_task = [],
        ri_error = (br_status r = ''error'' \<or> br_status r = ''skipped'')\<rparr> g"

definition recordBroadcastHealthOutcome :: "string \<Rightarrow> goerr option \<Rightarrow> 'l gw \<Rightarrow> 'l gw" where
  "recordBroadcastHealthOutcome alias err g =
     (case ClassifyError err of
        OutcomeConnectionError \<Rightarrow> env_failure alias g
      | OutcomeSuccess \<Rightarrow> env_success alias g
      | OutcomeContextCanceled \<Rightarrow> g)"

text \<open>An outcome is recorded in the history and then returned.\<close>

definition conclude ::
  "'l ext \<Rightarrow> tool_env \<Rightarrow> string \<Rightarrow> broadcast_input \<Rightarrow> agent_outcome \<Rightarrow> 'l gw \<Rightarrow> agent_outcome reply \<times> 'l gw" where
  "conclude x env alias i oc g = finish (broadcast_recordHistory x env alias i (oc_result oc) g) (gives oc)"

definition no_response :: "broadcast_result \<Rightarrow> agent_outcome" where
  "no_response r = \<lparr>oc_result = r, oc_response = None\<rparr>"

definition broadcastDirect ::
  "'l ext \<Rightarrow> tool_env \<Rightarrow> a2a_client \<Rightarrow> int \<Rightarrow> send_request \<Rightarrow> string \<Rightarrow> broadcast_input \<Rightarrow> resolve_result
    \<Rightarrow> 'l gw \<Rightarrow> agent_outcome reply \<times> 'l gw" where
  "broadcastDirect x env client deadline rq alias i resolved g =
     (let attempt = (case call_send x client deadline rq g of
            (Inl e, g1) \<Rightarrow>
              if isAuthError e then
                (case env_Resolve x resolved (env_Evict (rr_url resolved) g1) of
                   (Inl _, g2) \<Rightarrow> (Inl e, g2)
                 | (Inr retryClient, g2) \<Rightarrow> call_send x retryClient deadline rq g2)
              else (Inl e, g1)
          | ok \<Rightarrow> ok)
      in (case attempt of
            (Inl e, g1) \<Rightarrow>
              conclude x env alias i (no_response (error_br ''error'' (err_text e)))
                (recordBroadcastHealthOutcome alias (Some e) g1)
          | (Inr r, g1) \<Rightarrow>
              conclude x env alias i
                (case r of
                   ResMessage m \<Rightarrow> message_outcome m
                 | ResTask t \<Rightarrow> handleBroadcastTaskResult t
                 | ResOther \<Rightarrow> no_response (error_br ''error'' ''unrecognized response format''))
                (env_success alias g1)))"

text \<open>The health of a failed stream is judged on an error made from its text alone.\<close>

definition broadcastViaStreaming ::
  "'l ext \<Rightarrow> tool_env \<Rightarrow> a2a_client \<Rightarrow> int \<Rightarrow> send_request \<Rightarrow> string \<Rightarrow> broadcast_input \<Rightarrow> resolve_result
    \<Rightarrow> 'l gw \<Rightarrow> agent_outcome reply \<times> 'l gw" where
  "broadcastViaStreaming x env client deadline rq alias i resolved g =
     (let run = (\<lambda>c h. case call_stream x c deadline rq h of
            (events, h1) \<Rightarrow> (consumeStream False events empty_stream, h1));
          attempt = (case run client g of
            ((Some (Inl e), s), g1) \<Rightarrow>
              if isAuthError e then
                (case env_Resolve x resolved (env_Evict (rr_url resolved) g1) of
                   (Inl _, g2) \<Rightarrow> ((Some (Inl e), s), g2)
                 | (Inr retryClient, g2) \<Rightarrow> run retryClient g2)
              else ((Some (Inl e), s), g1)
          | other \<Rightarrow> other)
      in (case attempt of
            ((None, _), g1) \<Rightarrow> (Hangs, g1)
          | ((Some (Inl e), _), g1) \<Rightarrow>
              conclude x env alias i (no_response (error_br ''error'' (err_text e)))
                (recordBroadcastHealthOutcome alias (Some (errors_new (err_text e))) g1)
          | ((Some (Inr r), s), g1) \<Rightarrow>
              conclude x env alias i
                (case r of
                   StreamTask t \<Rightarrow> handleBroadcastTaskResult t
                 | StreamMessage m \<Rightarrow> message_outcome m
                 | StreamStatus \<Rightarrow> handleBroadcastTaskResult (buildTaskFromState s))
                (env_success alias g1)))"

text \<open>The metadata of the request, and what injecting into the shared map leaves in the input.\<close>

definition broadcast_metadata :: "caller_card_store \<Rightarrow> broadcast_input \<Rightarrow> metadata \<times> broadcast_input" where
  "broadcast_metadata c i =
     (case bi_metadata i of
        Some m \<Rightarrow>
          if length m > 0 then
            (let md = InjectCallerCard c (Some m) in (md, i\<lparr>bi_metadata := md\<rparr>))
          else (InjectCallerCard c None, i)
      | None \<Rightarrow> (InjectCallerCard c None, i))"

definition broadcastToAgent ::
  "'l ext \<Rightarrow> tool_env \<Rightarrow> string \<Rightarrow> broadcast_input \<Rightarrow> int \<Rightarrow> 'l gw
    \<Rightarrow> (agent_outcome reply \<times> broadcast_input) \<times> 'l gw" where
  "broadcastToAgent x env alias i timeoutSeconds g =
     (let stop = (\<lambda>r g'. case conclude x env alias i (no_response r) g' of (rep, g'') \<Rightarrow> ((rep, i), g'')) in
      case reg_Lookup (g_registry g) alias of
        None \<Rightarrow> stop (error_br ''error'' (''alias '' @ go_quote alias @ '' is not registered'')) g
      | Some entry \<Rightarrow>
          if ht_IsEnabled (g_health g) \<and> \<not> ht_IsHealthy (g_health g) alias
          then stop (error_br ''skipped'' ''agent is unhealthy'') g
          else (case env_Allow x alias g of
              (False, g1) \<Rightarrow>
                stop (error_br ''error'' (''rate limited: agent '' @ go_quote alias @ '' has exceeded its rate limit'')) g1
            | (True, g1) \<Rightarrow>
                let resolved = \<lparr>rr_url = ra_url entry, rr_headers = ra_headers entry, rr_is_alias = True,
                      rr_alias = alias\<rparr>;
                    deadline = seconds_to_duration timeoutSeconds
                in (case env_Resolve x resolved g1 of
                      (Inl e, g2) \<Rightarrow> stop (error_br ''error'' (''failed to resolve client: '' @ err_text e)) g2
                    | (Inr client, g2) \<Rightarrow>
                        (case buildMessageParts (bi_message i) (bi_parts i) of
                           Inl e \<Rightarrow> stop (error_br ''error'' (err_text e)) g2
                         | Inr contentParts \<Rightarrow>
                             (case broadcast_metadata (g_card g2) i of
                                (md, i') \<Rightarrow>
                                  let rq = \<lparr>sq_parts = contentParts, sq_context = [], sq_task = [], sq_metadata = md\<rparr>
                                  in (case (if SupportsStreaming (g_registry g2) resolved
                                            then broadcastViaStreaming x env client deadline rq alias i resolved g2
                                            else broadcastDirect x env client deadline rq alias i resolved g2) of
                                        (rep, g3) \<Rightarrow> ((rep, i'), g3)))))))"

section \<open>All agents\<close>

fun fanOut_loop ::
  "'l ext \<Rightarrow> tool_env \<Rightarrow> string list \<Rightarrow> broadcast_input \<Rightarrow> int \<Rightarrow> (string, agent_outcome) gomap \<Rightarrow> 'l gw
    \<Rightarrow> (string, agent_outcome) gomap reply \<times> 'l gw" where
  "fanOut_loop x env [] i timeoutSeconds outcomes g = (gives outcomes, g)"
| "fanOut_loop x env (alias # rest) i timeoutSeconds outcomes g =
     (case broadcastToAgent x env alias i timeoutSeconds g of
        ((Reply _ (Some oc) _, i'), g1) \<Rightarrow>
          fanOut_loop x env rest i' timeoutSeconds (AList.update alias oc outcomes) g1
      | ((Panicked p, _), g1) \<Rightarrow> (Panicked p, g1)
      | ((_, _), g1) \<Rightarrow> (Hangs, g1))"

definition fanOut ::
  "'l ext \<Rightarrow> tool_env \<Rightarrow> broadcast_input \<Rightarrow> int \<Rightarrow> 'l gw \<Rightarrow> (string, agent_outcome) gomap reply \<times> 'l gw" where
  "fanOut x env i timeoutSeconds g =
     fanOut_loop x env (x_schedule x (g_tick g) (bi_aliases i)) i timeoutSeconds [] (tick g)"

fun buildResponse :: "(string, agent_outcome) gomap \<Rightarrow> (string, send_output) gomap" where
  "buildResponse [] = []"
| "buildResponse ((alias, oc) # os) =
     (case oc_response oc of Some r \<Rightarrow> (alias, r) # buildResponse os | None \<Rightarrow> buildResponse os)"

definition async_reply :: "string \<Rightarrow> string \<Rightarrow> string \<Rightarrow> send_output" where
  "async_reply alias status e = \<lparr>so_message = None, so_task = None,
     so_async = Some \<lparr>ao_alias = alias, ao_status = status, ao_error = e\<rparr>\<rparr>"

fun broadcastAsync ::
  "'l ext \<Rightarrow> string list \<Rightarrow> broadcast_input \<Rightarrow> int \<Rightarrow> (string, send_output) gomap \<Rightarrow> 'l gw
    \<Rightarrow> (string, send_output) gomap \<times> 'l gw" where
  "broadcastAsync x [] i timeoutSeconds results g = (results, g)"
| "broadcastAsync x (alias # rest) i timeoutSeconds results g =
     (case reg_Lookup (g_registry g) alias of
        None \<Rightarrow>
          broadcastAsync x rest i timeoutSeconds (AList.update alias
            (async_reply alias ''error'' (''alias '' @ go_quote alias @ '' is not registered'')) results) g
      | Some _ \<Rightarrow>
          (case env_CheckRateLimit x alias g of
             (Some e, g1) \<Rightarrow>
               broadcastAsync x rest i timeoutSeconds (AList.update alias
                 (async_reply alias ''error'' (''rate limited: '' @ err_text e)) results) g1
           | (None, g1) \<Rightarrow>
               broadcastAsync x rest i timeoutSeconds
                 (AList.update alias (async_reply alias ''dispatched'' []) results)
                 (env_spawn (BroadcastJob alias i timeoutSeconds) g1)))"

definition broadcast_entry :: "string \<Rightarrow> agent_outcome \<Rightarrow> inbox_entry" where
  "broadcast_entry alias oc =
     (if br_status (oc_result oc) = ''error'' then
        (empty_entry alias)\<lparr>ie_state := ''error'', ie_error := br_error (oc_result oc)\<rparr>
      else (case oc_response oc of
          None \<Rightarrow> empty_entry alias
        | Some r \<Rightarrow>
            (case so_task r of
               Some t \<Rightarrow> (empty_entry alias)\<lparr>ie_task_id := tk_id t, ie_context := tk_context t,
                 ie_state := task_state_text (st_state (tk_status t)), ie_task := Some t\<rparr>
             | None \<Rightarrow>
                 (case so_message r of
                    Some m \<Rightarrow> (empty_entry alias)\<lparr>ie_context := msg_context m,
                      ie_state := ''completed'', ie_message := Some m\<rparr>
                  | None \<Rightarrow> empty_entry alias))))"

definition backgroundBroadcastToAgent ::
  "'l ext \<Rightarrow> tool_env \<Rightarrow> string \<Rightarrow> broadcast_input \<Rightarrow> int \<Rightarrow> 'l gw \<Rightarrow> unit reply \<times> 'l gw" where
  "backgroundBroadcastToAgent x env alias i timeoutSeconds g =
     (case broadcastToAgent x env alias i timeoutSeconds g of
        ((Reply _ (Some oc) _, _), g1) \<Rightarrow> (gives (), env_Deposit x (broadcast_entry alias oc) g1)
      | ((Panicked p, _), g1) \<Rightarrow> (Panicked p, g1)
      | ((_, _), g1) \<Rightarrow> (Hangs, g1))"

definition broadcast_Handle ::
  "'l ext \<Rightarrow> tool_env \<Rightarrow> broadcast_input \<Rightarrow> 'l gw \<Rightarrow> (string, send_output) gomap reply \<times> 'l gw" where
  "broadcast_Handle x env i g =
     (case broadcast_validateInput i of
        Some e \<Rightarrow> (fails_with e, g)
      | None \<Rightarrow>
          (case resolveTimeout (bi_timeout i) of
             Inl e \<Rightarrow> (fails_with e, g)
           | Inr timeoutSeconds \<Rightarrow>
               if bi_async i = Some True then
                 (case broadcastAsync x (bi_aliases i) i timeoutSeconds [] g of (rs, g1) \<Rightarrow> (gives rs, g1))
               else (case fanOut x env i timeoutSeconds g of
                   (Reply _ (Some os) _, g1) \<Rightarrow> (gives (buildResponse os), g1)
                 | (Panicked p, g1) \<Rightarrow> (Panicked p, g1)
                 | (_, g1) \<Rightarrow> (Hangs, g1))))"

section \<open>Background jobs\<close>

text \<open>The agent a job is for, and running it: what the goroutine does until it ends.\<close>

fun job_alias :: "job \<Rightarrow> string" where
  "job_alias (SendJob sr i) = si_agent i"
| "job_alias (BroadcastJob alias i t) = alias"

definition run_job :: "'l ext \<Rightarrow> tool_env \<Rightarrow> job \<Rightarrow> 'l gw \<Rightarrow> unit reply \<times> 'l gw" where
  "run_job x env j g =
     (case j of
        SendJob sr i \<Rightarrow>
          (case backgroundSendAndPoll x env sr i g of None \<Rightarrow> (Hangs, g) | Some g1 \<Rightarrow> (gives (), g1))
      | BroadcastJob alias i timeoutSeconds \<Rightarrow> backgroundBroadcastToAgent x env alias i timeoutSeconds g)"

section \<open>What the tool and its jobs keep\<close>

lemma broadcast_entry_alias [simp]: "ie_alias (broadcast_entry a oc) = a"
  by (auto simp: broadcast_entry_def split: option.splits)

context gw_closed
begin

lemma keeps_conclude: "on a \<Longrightarrow> I g \<Longrightarrow> I (snd (conclude x env a i oc g))"
  by (simp add: conclude_def broadcast_recordHistory_def keeps_finish keeps_record)

lemma keeps_broadcast_health: "on a \<Longrightarrow> I g \<Longrightarrow> I (recordBroadcastHealthOutcome a e g)"
  by (auto simp: recordBroadcastHealthOutcome_def keeps_steps split: connection_outcome.splits)

lemma keeps_retry:
  assumes "I g" "env_Resolve x r (env_Evict u (tick g)) = (v, h)"
  shows "I h"
  using keeps_resolve [OF keeps_steps(2) [OF keeps_steps(1) [OF assms(1)]], of x r u] assms(2) by simp

lemma keeps_bdirect: "on a \<Longrightarrow> I g \<Longrightarrow> I (snd (broadcastDirect x env c d rq a i r g))"
  by (auto simp: broadcastDirect_def call_send_def Let_def split: prod.splits sum.splits if_splits
      intro!: keeps_conclude keeps_broadcast_health keeps_steps intro: keeps_retry)

lemma keeps_bstream: "on a \<Longrightarrow> I g \<Longrightarrow> I (snd (broadcastViaStreaming x env c d rq a i r g))"
  by (auto simp: broadcastViaStreaming_def call_stream_def Let_def
      split: prod.splits sum.splits option.splits if_splits
      intro!: keeps_conclude keeps_broadcast_health keeps_steps intro: keeps_retry)

lemma keeps_to_agent: "on a \<Longrightarrow> I g \<Longrightarrow> I (snd (broadcastToAgent x env a i t g))"
proof -
  assume a: "on a" and g: "I g"
  have al: "env_Allow x a g = (ok, g1) \<Longrightarrow> I g1" for ok g1
    using keeps_allow [OF a g, of x] by simp
  have rs: "I g1 \<Longrightarrow> env_Resolve x r g1 = (v, g2) \<Longrightarrow> I g2" for r g1 v g2
    using keeps_resolve [of g1 x r] by simp
  have cn: "I g1 \<Longrightarrow> conclude x env a i oc g1 = (v, g2) \<Longrightarrow> I g2" for oc g1 v g2
    using keeps_conclude [OF a, of g1 x env i oc] by simp
  have d: "I g1 \<Longrightarrow> broadcastDirect x env c dl rq a i r g1 = (v, g2) \<Longrightarrow> I g2" for c dl rq r g1 v g2
    using keeps_bdirect [OF a, of g1 x env c dl rq i r] by simp
  have s: "I g1 \<Longrightarrow> broadcastViaStreaming x env c dl rq a i r g1 = (v, g2) \<Longrightarrow> I g2" for c dl rq r g1 v g2
    using keeps_bstream [OF a, of g1 x env c dl rq i r] by simp
  show ?thesis
    unfolding broadcastToAgent_def Let_def
    by (auto split: option.splits prod.splits sum.splits bool.splits if_splits)
      (meson g al rs cn d s)+
qed

lemma keeps_fanOut_loop: "list_all on as \<Longrightarrow> I g \<Longrightarrow> I (snd (fanOut_loop x env as i t os g))"
proof (induction as arbitrary: i os g)
  case (Cons a as)
  show ?case
    using Cons keeps_to_agent [of a g x env i t]
    by (auto split: prod.splits reply.splits option.splits)
qed (simp add: gives_def)

lemma keeps_broadcastAsync: "list_all on as \<Longrightarrow> I g \<Longrightarrow> I (snd (broadcastAsync x as i t rs g))"
proof (induction as arbitrary: rs g)
  case (Cons a as)
  show ?case
    using Cons keeps_check_limit [of a g x]
    by (auto intro!: Cons.IH keeps_steps split: prod.splits option.splits)
qed simp

lemma keeps_broadcast:
  assumes as: "list_all on (bi_aliases i)" "list_all on (x_schedule x (g_tick g) (bi_aliases i))" and g: "I g"
  shows "I (snd (broadcast_Handle x env i g))"
proof -
  have f: "fanOut x env i t g = (v, g1) \<Longrightarrow> I g1" for t v g1
    using keeps_fanOut_loop [OF as(2) keeps_steps(1) [OF g]] by (metis fanOut_def snd_conv)
  have a: "broadcastAsync x (bi_aliases i) i t rs g = (v, g1) \<Longrightarrow> I g1" for t rs v g1
    using keeps_broadcastAsync [OF as(1) g] by (metis snd_conv)
  show ?thesis
    by (auto simp: broadcast_Handle_def g dest: f a split: option.splits sum.splits prod.splits reply.splits)
qed

lemma keeps_run_job: "on (job_alias j) \<Longrightarrow> I g \<Longrightarrow> I (snd (run_job x env j g))"
proof (cases j)
  case (SendJob sr i)
  assume "on (job_alias j)" "I g"
  with SendJob keeps_background [of i g x env sr] show ?thesis
    by (auto simp: run_job_def split: option.splits)
next
  case (BroadcastJob a i t)
  assume "on (job_alias j)" "I g"
  with BroadcastJob keeps_to_agent [of a g x env i t] show ?thesis
    by (auto simp: run_job_def backgroundBroadcastToAgent_def
        split: prod.splits reply.splits option.splits intro: keeps_steps keeps_deposit)
qed

end

end
