(* ===== verification/ToolConnect.thy ===== *)
theory ToolConnect
  imports ToolEnv "HOL-Library.Signed_Division"
begin

text \<open>
  \<open>tool_connect.go\<close>, \<open>tool_disconnect.go\<close>, \<open>tool_list.go\<close> and \<open>tool_ping.go\<close>: the tools that
  manage the registry, and what connecting and disconnecting do to every other component.
\<close>

section \<open>Connect\<close>

text \<open>The tool keeps a default rate limit of its own; the constructor leaves it at its zero value.\<close>

record connect_tool =
  ct_default_rate :: rate_limit_config

definition NewConnectAgentTool :: "tool_env \<Rightarrow> connect_tool" where
  "NewConnectAgentTool env = \<lparr>ct_default_rate = \<lparr>rl_rps = Fin 0, rl_burst = 0\<rparr>\<rparr>"

definition connect_validateInput :: "connect_input \<Rightarrow> goerr option" where
  "connect_validateInput i =
     (case validate_Alias (ci_alias i) of Some e \<Rightarrow> Some e
      | None \<Rightarrow> (case validate_URL (ci_url i) of Some e \<Rightarrow> Some e
      | None \<Rightarrow> (case validate_Headers (ci_headers i) of Some e \<Rightarrow> Some e
      | None \<Rightarrow>
         (case (case ci_ping i of None \<Rightarrow> None | Some p \<Rightarrow> validate_PingEndpoint p) of Some e \<Rightarrow> Some e
          | None \<Rightarrow>
              if (ci_rps i \<noteq> None) \<noteq> (ci_burst i \<noteq> None) then
                Some (errors_new ''rate_limit_rps and rate_limit_burst must both be provided together'')
              else if (case ci_rps i of None \<Rightarrow> False | Some r \<Rightarrow> f64_lt0 r) then
                Some (errors_new ''rate_limit_rps must be non-negative'')
              else if (case ci_burst i of None \<Rightarrow> False | Some b \<Rightarrow> b < 0) then
                Some (errors_new ''rate_limit_burst must be non-negative'')
              else None))))"

definition configureRateLimit :: "connect_tool \<Rightarrow> 'l limiter_ops \<Rightarrow> connect_input \<Rightarrow> 'l limiters \<Rightarrow> 'l limiters" where
  "configureRateLimit t ops i r =
     (case (ci_rps i, ci_burst i) of
        (Some rps, Some burst) \<Rightarrow>
          if rlc_IsDisabled \<lparr>rl_rps = rps, rl_burst = burst\<rparr> then rl_Remove (ci_alias i) r
          else rl_Set ops (ci_alias i) rps burst r
      | _ \<Rightarrow>
          if \<not> rlc_IsDisabled (ct_default_rate t)
          then rl_Set ops (ci_alias i) (rl_rps (ct_default_rate t)) (rl_burst (ct_default_rate t)) r
          else r)"

definition evict_existing :: "connect_input \<Rightarrow> 'l gw \<Rightarrow> 'l gw" where
  "evict_existing i g =
     (case reg_Lookup (g_registry g) (ci_alias i) of
        None \<Rightarrow> g
      | Some existing \<Rightarrow>
          let g1 = env_Evict (ra_url existing) g in
          if ra_url existing \<noteq> ci_url i
          then g1\<lparr>g_contexts := ctx_Delete (ci_alias i) (g_contexts g1)\<rparr> else g1)"

definition connect_Handle ::
  "'l ext \<Rightarrow> connect_tool \<Rightarrow> connect_input \<Rightarrow> 'l gw \<Rightarrow> connect_output reply \<times> 'l gw" where
  "connect_Handle x t i g0 =
     (case connect_validateInput i of
        Some e \<Rightarrow> (fails_with e, g0)
      | None \<Rightarrow>
          let g1 = evict_existing i g0;
              ping = (case ci_ping i of None \<Rightarrow> [] | Some p \<Rightarrow> p);
              g2 = g1\<lparr>g_registry := snd (reg_Connect (ci_alias i) (ci_url i) (ci_headers i) ping (g_registry g1))\<rparr>;
              g3 = g2\<lparr>g_limiters := configureRateLimit t (x_limiter x) i (g_limiters g2)\<rparr>;
              card = FetchAgentCard (x_http x (g_tick g3)) (x_parse_card x) (g_registry g3) BaseClient
                       (ci_url i) (ci_headers i);
              g4 = tick g3;
              g5 = (case card of None \<Rightarrow> g4
                | Some c \<Rightarrow> g4\<lparr>g_registry := snd (reg_SetCard (ci_alias i) c (g_registry g4))\<rparr>);
              g6 = g5\<lparr>g_health := ht_Reset (ci_alias i) (g_health g5)\<rparr>
          in (gives \<lparr>co_message = ''Connected agent '' @ go_quote (ci_alias i) @ '' at '' @ ci_url i\<rparr>, g6))"

section \<open>Disconnect\<close>

definition disconnect_Handle ::
  "'l ext \<Rightarrow> disconnect_input \<Rightarrow> 'l gw \<Rightarrow> disconnect_output reply \<times> 'l gw" where
  "disconnect_Handle x i g0 =
     (case validate_Alias (di_alias i) of
        Some e \<Rightarrow> (fails_with e, g0)
      | None \<Rightarrow>
          (case reg_Disconnect (di_alias i) (g_registry g0) of
             (None, r) \<Rightarrow>
               (fails_with (errors_new (''agent '' @ go_quote (di_alias i) @ '' not found in registry'')),
                g0\<lparr>g_registry := r\<rparr>)
           | (Some entry, r) \<Rightarrow>
               let g1 = env_Evict (ra_url entry) (g0\<lparr>g_registry := r\<rparr>);
                   g2 = g1\<lparr>g_limiters := rl_Remove (di_alias i) (g_limiters g1)\<rparr>;
                   g3 = g2\<lparr>g_health := ht_Reset (di_alias i) (g_health g2)\<rparr>;
                   g4 = g3\<lparr>g_contexts := ctx_Delete (di_alias i) (g_contexts g3)\<rparr>;
                   g5 = (if hb_backend (g_history g4) \<noteq> None
                         then tick (g4\<lparr>g_history :=
                           snd (be_Delete (x_fs x (g_tick g4)) (di_alias i) (g_history g4))\<rparr>)
                         else g4)
               in (gives \<lparr>do_message = ''Disconnected agent '' @ go_quote (di_alias i)\<rparr>, g5)))"

section \<open>List\<close>

definition list_agent_entry :: "'l ext \<Rightarrow> 'l gw \<Rightarrow> registered_agent \<Rightarrow> list_entry" where
  "list_agent_entry x g entry =
     (let rateLimit = (case rl_Get (x_limiter x) (ra_alias entry) (g_limiters g) of
            (rps, burst, exists) \<Rightarrow>
              if exists then f64_text2 rps @ '' rps, burst '' @ itoa burst else ''unlimited'');
          fl = ht_GetFailures (g_health g) (ra_alias entry)
      in \<lparr>le_alias = ra_alias entry, le_url = ra_url entry, le_rate_limit = rateLimit,
          le_health = ht_GetStatus (g_health g) (ra_alias entry),
          le_failures = (if snd fl then Some (fst fl) else None)\<rparr>)"

definition list_Handle :: "'l ext \<Rightarrow> 'l gw \<Rightarrow> list_output reply" where
  "list_Handle x g = gives \<lparr>lo_agents = map (list_agent_entry x g) (reg_List (g_registry g))\<rparr>"

section \<open>Ping\<close>

text \<open>A nil map is copied to nil, any other entry by entry: the copy has the same contents.\<close>

definition copyHeaders :: "headers \<Rightarrow> headers" where
  "copyHeaders h = fold (\<lambda>(k, v) out. AList.update k v out) h []"

definition ping_updateHealth :: "string \<Rightarrow> ping_result \<Rightarrow> health_tracker \<Rightarrow> health_tracker" where
  "ping_updateHealth alias r h =
     (if \<not> ht_IsEnabled h then h
      else if pr_reachable r then ht_RecordSuccess alias h
      else (case ClassifyError (pr_err r) of
          OutcomeConnectionError \<Rightarrow> ht_RecordFailure alias h
        | OutcomeContextCanceled \<Rightarrow> h
        | OutcomeSuccess \<Rightarrow> ht_RecordSuccess alias h))"

definition run_ping :: "'l ext \<Rightarrow> tool_env \<Rightarrow> ping_target \<Rightarrow> 'l gw \<Rightarrow> ping_result \<times> 'l gw" where
  "run_ping x env target g =
     (case te_ping env of
        Some strategy \<Rightarrow> (strategy (g_tick g) target, tick g)
      | None \<Rightarrow>
          (default_Ping (x_http x (g_tick g))
             (x_now x (Suc (g_tick g)) - x_now x (g_tick g)) target, tick (tick g)))"

definition ping_Handle :: "'l ext \<Rightarrow> tool_env \<Rightarrow> ping_input \<Rightarrow> 'l gw \<Rightarrow> ping_output reply \<times> 'l gw" where
  "ping_Handle x env i g =
     (if pi_alias i = [] then (fails_with (errors_new ''alias is required''), g)
      else (case reg_Lookup (g_registry g) (pi_alias i) of
          None \<Rightarrow> (fails_with (errors_new (''agent '' @ go_quote (pi_alias i) @ '' not found in registry'')), g)
        | Some entry \<Rightarrow>
            (case run_ping x env \<lparr>pt_alias = pi_alias i, pt_url = ra_url entry,
                    pt_headers = copyHeaders (ra_headers entry), pt_ping = ra_ping entry\<rparr> g of
               (r, g1) \<Rightarrow>
                 let g2 = g1\<lparr>g_health := ping_updateHealth (pi_alias i) r (g_health g1)\<rparr>
                 in (gives \<lparr>po_reachable = pr_reachable r, po_health = ht_GetStatus (g_health g2) (pi_alias i),
                      po_response_ms = (if pr_reachable r then Some (pr_time r sdiv millisecond) else None)\<rparr>,
                     g2))))"

section \<open>Effects\<close>

lemma connect_checked:
  "connect_validateInput i = None \<Longrightarrow> validate_Alias (ci_alias i) = None"
  "connect_validateInput i = None \<Longrightarrow> validate_URL (ci_url i) = None"
  by (auto simp: connect_validateInput_def split: option.splits)

context gw_closed
begin

lemma keeps_evict_existing: "on (ci_alias i) \<Longrightarrow> I g \<Longrightarrow> I (evict_existing i g)"
  using I_context_delete [of "ci_alias i"]
  by (auto simp: evict_existing_def Let_def keeps_steps split: option.splits)

lemma keeps_configure: "on (ci_alias i) \<Longrightarrow> I g \<Longrightarrow> I (g\<lparr>g_limiters := configureRateLimit t ops i (g_limiters g)\<rparr>)"
  using I_tick [of g "g_tick g"]
  by (auto simp: configureRateLimit_def I_limit_set I_limit_remove split: option.splits prod.splits)

lemma keeps_connect: "on (ci_alias i) \<Longrightarrow> I g \<Longrightarrow> I (snd (connect_Handle x t i g))"
proof (cases "connect_validateInput i")
  case None
  assume a: "on (ci_alias i)" and "I g"
  then have "I (evict_existing i g)" by (rule keeps_evict_existing)
  note c = keeps_steps(1) [OF keeps_configure [OF a I_connect [OF a connect_checked [OF None] this]]]
  show ?thesis
    using None I_reset [OF a I_setcard [OF a c]] I_reset [OF a c]
    by (simp add: connect_Handle_def Let_def split: option.splits)
qed (simp add: connect_Handle_def)

lemma keeps_disconnect: "on (di_alias i) \<Longrightarrow> I g \<Longrightarrow> I (snd (disconnect_Handle x i g))"
proof -
  assume a: "on (di_alias i)" and g: "I g"
  let ?a = "di_alias i"
  have r: "reg_Disconnect ?a (g_registry g) = (v, r) \<Longrightarrow> I (g\<lparr>g_registry := r\<rparr>)" for v r
    using I_disconnect [OF a g] by simp
  show ?thesis
    unfolding disconnect_Handle_def Let_def
    by (simp only: split: option.splits prod.splits if_splits)
      (simp only: snd_conv g r, intro allI impI conjI keeps_steps(1,2) I_delete I_context_delete
        I_reset I_limit_remove a, simp_all only: snd_conv g r)
qed

lemma keeps_ping: "on (pi_alias i) \<Longrightarrow> I g \<Longrightarrow> I (snd (ping_Handle x env i g))"
proof -
  assume a: "on (pi_alias i)" and g: "I g"
  have p: "run_ping x env t g = (r, g1) \<Longrightarrow> I g1" for t r g1
    using g by (auto simp: run_ping_def keeps_steps split: option.splits)
  have "I g1 \<Longrightarrow> I (g1\<lparr>g_health := ping_updateHealth (pi_alias i) r (g_health g1)\<rparr>)" for g1 r
    using I_tick [of g1 "g_tick g1"] a
    by (auto simp: ping_updateHealth_def I_success I_failure split: connection_outcome.splits)
  with g p show ?thesis
    by (auto simp: ping_Handle_def Let_def split: option.splits prod.splits)
qed

end

lemma copy_fold_lookup:
  "map_of (fold (\<lambda>(k, v) out. AList.update k v out) h acc) = map_of acc ++ map_of (rev h)"
  by (induction h arbitrary: acc) (auto simp: map_of_update map_add_def fun_eq_iff split: option.splits)

lemma copyHeaders_lookup: "gm_wf h \<Longrightarrow> map_of (copyHeaders h) = map_of h"
proof -
  assume "gm_wf h"
  then have "map_of (rev h) = map_of h"
    by (intro map_of_inject_set [THEN iffD2]) (auto simp: gm_wf_def rev_map [symmetric])
  then show ?thesis by (simp add: copyHeaders_def copy_fold_lookup)
qed

end
