(* ===== verification/ToolTasks.thy ===== *)
theory ToolTasks
  imports ToolSend ToolConnect
begin

text \<open>
  The remaining tools that act on one agent or one component: \<open>tool_get_task.go\<close>,
  \<open>tool_cancel_task.go\<close>, \<open>tool_card.go\<close>, \<open>tool_caller_card.go\<close>, \<open>tool_history.go\<close>,
  \<open>tool_inbox.go\<close> and \<open>tool_discover.go\<close>.
\<close>

section \<open>Tasks\<close>

definition get_task_Handle :: "'l ext \<Rightarrow> task_input \<Rightarrow> 'l gw \<Rightarrow> a2a_task reply \<times> 'l gw" where
  "get_task_Handle x i g =
     (if ti_agent i = [] then (fails_with (errors_new ''agent identifier is required''), g)
      else if ti_task i = [] then (fails_with (errors_new ''task_id is required''), g)
      else (case ResolveAgent (g_registry g) (ti_agent i) of
          Inl e \<Rightarrow> (fails_with e, g)
        | Inr resolved \<Rightarrow>
            (case resolveClientWithAuthRetry x resolved (\<lambda>client. call_get_task x client (ti_task i)) g of
               (Inl e, g1) \<Rightarrow> (fails_with (handleA2AError e), g1)
             | (Inr t, g1) \<Rightarrow>
                 ((case st_state (tk_status t) of
                     TS_Failed \<Rightarrow> Reply None (Some t) (Some (errors_new (fail_message t)))
                   | TS_Canceled \<Rightarrow> Reply None (Some t) (Some (errors_new ''task was canceled''))
                   | _ \<Rightarrow> gives t), g1))))"

definition cancel_task_Handle :: "'l ext \<Rightarrow> task_input \<Rightarrow> 'l gw \<Rightarrow> cancel_output reply \<times> 'l gw" where
  "cancel_task_Handle x i g =
     (if ti_agent i = [] then (fails_with (errors_new ''agent identifier is required''), g)
      else if ti_task i = [] then (fails_with (errors_new ''task_id is required''), g)
      else (case ResolveAgent (g_registry g) (ti_agent i) of
          Inl e \<Rightarrow> (fails_with e, g)
        | Inr resolved \<Rightarrow>
            (case resolveClientWithAuthRetry x resolved (\<lambda>client. call_cancel_task x client (ti_task i)) g of
               (Inl e, g1) \<Rightarrow> (fails_with (handleA2AError e), g1)
             | (Inr _, g1) \<Rightarrow> (gives \<lparr>ca_message = ''Task '' @ ti_task i @ '' has been canceled''\<rparr>, g1))))"

section \<open>Agent cards\<close>

text \<open>Here the headers of the agent are set on the request as they are, reserved ones too.\<close>

definition get_card_Handle :: "'l ext \<Rightarrow> card_input \<Rightarrow> 'l gw \<Rightarrow> card_output reply \<times> 'l gw" where
  "get_card_Handle x i g =
     (if blank (gc_agent i) then
        (fails_with (errors_new ''agent identifier is required and cannot be empty''), g)
      else (case ResolveAgent (g_registry g) (gc_agent i) of
          Inl e \<Rightarrow> (fails_with (wrap_err ''failed to resolve agent: '' e), g)
        | Inr resolved \<Rightarrow>
            let agentCardURL = card_url (rr_url resolved) in
            (case url_parse agentCardURL of
               Inl e \<Rightarrow> (fails_with (wrap_err ''failed to create request: '' e), g)
             | Inr _ \<Rightarrow>
                 let hdrs = (if rr_is_alias resolved
                       then fold (\<lambda>(k, v). header_Set k v) (rr_headers resolved) [] else [])
                 in ((case x_http x (g_tick g) agentCardURL hdrs of
                        HttpError e \<Rightarrow> fails_with (wrap_err ''agent unreachable: '' e)
                      | HttpResponse status body \<Rightarrow>
                          if status \<noteq> 200 then
                            fails_with (errors_new (''agent returned non-200 status: '' @ itoa status))
                          else (case body of
                              Inl e \<Rightarrow> fails_with (wrap_err ''failed to read response body: '' e)
                            | Inr b \<Rightarrow>
                                (case x_parse_output x b of
                                   Inl e \<Rightarrow> fails_with (wrap_err ''failed to parse agent card JSON: '' e)
                                 | Inr out \<Rightarrow> gives out))), tick g))))"

section \<open>The caller card\<close>

definition create_card_Handle :: "create_card_input \<Rightarrow> 'l gw \<Rightarrow> create_card_output reply \<times> 'l gw" where
  "create_card_Handle i g =
     (if blank (cr_name i) then
        (fails_with (errors_new ''name must not be empty or whitespace-only''), g)
      else
        let c = \<lparr>cd_name = cr_name i, cd_description = cr_description i, cd_url = cr_url i,
                 cd_skills = cr_skills i, cd_capabilities = cr_capabilities i\<rparr>
        in (gives \<lparr>cr_message = ''Caller agent card registered for '' @ go_quote (cr_name i)\<rparr>,
            g\<lparr>g_card := cc_Set c (cr_key i) (g_card g)\<rparr>))"

text \<open>The card is returned as text content; the structured output is always nil.\<close>

definition view_card_Handle :: "'l gw \<Rightarrow> unit reply" where
  "view_card_Handle g =
     (case cc_Get (g_card g) of
        None \<Rightarrow> Reply (Some \<lparr>cr_is_error = False, cr_texts = [''no caller agent card is currently set'']\<rparr>) None None
      | Some c \<Rightarrow>
          (case json_marshal_indent (card_json c) of
             Inl e \<Rightarrow> fails_with (errors_new (''failed to serialize caller card: '' @ e))
           | Inr t \<Rightarrow> Reply (Some \<lparr>cr_is_error = False, cr_texts = [t]\<rparr>) None None))"

definition remove_card_Handle :: "'l gw \<Rightarrow> remove_card_output reply \<times> 'l gw" where
  "remove_card_Handle g =
     (case cc_Remove (g_card g) of
        (had, s) \<Rightarrow>
          (if \<not> had then fails_with (errors_new ''no caller agent card was set'')
           else gives \<lparr>rm_message = ''Caller agent card removed''\<rparr>, g\<lparr>g_card := s\<rparr>))"

section \<open>History\<close>

definition get_history_Handle :: "'l ext \<Rightarrow> get_history_input \<Rightarrow> 'l gw \<Rightarrow> get_history_output reply \<times> 'l gw" where
  "get_history_Handle x i g =
     (if gh_agent i = [] then (fails_with (errors_new ''agent alias is required''), g)
      else if reg_Lookup (g_registry g) (gh_agent i) = None
      then (fails_with (errors_new ''agent not found in registry''), g)
      else ((case be_List (x_fs x (g_tick g)) (gh_agent i) (g_history g) of
          Panic p \<Rightarrow> Panicked p
        | Return (Inl e) \<Rightarrow> fails_with e
        | Return (Inr es) \<Rightarrow>
            gives \<lparr>gh_entries = (case gh_limit i of
                Some n \<Rightarrow> if n > 0 \<and> int (length es) > n then drop (nat (int (length es) - n)) es else es
              | None \<Rightarrow> es)\<rparr>), tick g))"

definition clear_history_Handle :: "'l ext \<Rightarrow> clear_history_input \<Rightarrow> 'l gw \<Rightarrow> clear_history_output reply \<times> 'l gw" where
  "clear_history_Handle x i g =
     (if ch_agent i = [] then (fails_with (errors_new ''agent alias is required''), g)
      else if reg_Lookup (g_registry g) (ch_agent i) = None
      then (fails_with (errors_new ''agent not found in registry''), g)
      else (case be_Clear (x_fs x (g_tick g)) (ch_agent i) (g_history g) of
          (Panic p, h) \<Rightarrow> (Panicked p, tick (g\<lparr>g_history := h\<rparr>))
        | (Return (Some e), h) \<Rightarrow> (fails_with e, tick (g\<lparr>g_history := h\<rparr>))
        | (Return None, h) \<Rightarrow>
            (gives \<lparr>ch_message = ''Cleared history for agent '' @ go_quote (ch_agent i)\<rparr>,
             tick (g\<lparr>g_history := h\<rparr>))))"

section \<open>The inbox\<close>

definition summary_of :: "int \<Rightarrow> inbox_entry \<Rightarrow> inbox_summary" where
  "summary_of zone e = \<lparr>is_alias = ie_alias e, is_task = ie_task_id e, is_context = ie_context e,
     is_state = ie_state e, is_time = rfc3339 zone (ie_time e)\<rparr>"

definition check_inbox_Handle :: "'l ext \<Rightarrow> check_inbox_input \<Rightarrow> 'l gw \<Rightarrow> check_inbox_output reply \<times> 'l gw" where
  "check_inbox_Handle x i g =
     (case ib_Peek (x_now x (g_tick g)) (cb_alias i) (g_inbox g) of
        (es, m) \<Rightarrow> (gives \<lparr>cb_entries = map (summary_of (x_zone x)) es\<rparr>, tick (g\<lparr>g_inbox := m\<rparr>)))"

definition read_inbox_Handle :: "'l ext \<Rightarrow> read_inbox_input \<Rightarrow> 'l gw \<Rightarrow> read_inbox_output reply \<times> 'l gw" where
  "read_inbox_Handle x i g =
     (if ib_alias i = [] then (fails_with (errors_new ''alias is required''), g)
      else (case ib_Pop (x_now x (g_tick g))
                  \<lparr>po_alias = ib_alias i, po_length = ib_length i, po_latest = ib_latest i\<rparr> (g_inbox g) of
          (Panic p, m) \<Rightarrow> (Panicked p, tick (g\<lparr>g_inbox := m\<rparr>))
        | (Return es, m) \<Rightarrow>
            (gives \<lparr>ib_messages = map (\<lambda>e. \<lparr>so_message = ie_message e, so_task = ie_task e, so_async = None\<rparr>) es\<rparr>,
             tick (g\<lparr>g_inbox := m\<rparr>))))"

section \<open>Discovery\<close>

definition discover_params :: "discover_input \<Rightarrow> (string \<times> string) list" where
  "discover_params i =
     (if dc_help i then [(''help'', ''true'')]
      else (if dc_filter i \<noteq> [] then [(''filter'', dc_filter i)] else []) @
           (case dc_limit i of Some n \<Rightarrow> [(''limit'', itoa n)] | None \<Rightarrow> []) @
           (if dc_cursor i \<noteq> [] then [(''cursor'', dc_cursor i)] else []))"

definition discover_handleHTTP ::
  "'l ext \<Rightarrow> discover_input \<Rightarrow> string \<Rightarrow> 'l gw \<Rightarrow> discover_output reply \<times> 'l gw" where
  "discover_handleHTTP x i directoryURL g =
     (case url_parse directoryURL of
        Inl e \<Rightarrow> (fails_with (wrap_err ''invalid directory URL: '' e), g)
      | Inr _ \<Rightarrow>
          ((case x_query x (g_tick g) directoryURL (discover_params i)
                   (inject_headers (dc_headers i) (header_Set ''Accept'' ''application/json'' [])) of
              HttpError e \<Rightarrow>
                if contains (err_text e) ''context deadline exceeded''
                then fails_with (errors_new ''directory is unreachable: request timed out'')
                else fails_with (wrap_err ''directory is unreachable: '' e)
            | HttpResponse _ (Inl e) \<Rightarrow> fails_with (wrap_err ''failed to read directory response: '' e)
            | HttpResponse _ (Inr body) \<Rightarrow>
                if \<not> x_json_valid x body
                then fails_with (errors_new ''directory response is not valid JSON'')
                else if dc_help i then Reply (Some \<lparr>cr_is_error = False, cr_texts = [body]\<rparr>) None None
                else (case x_parse_query x body of
                    Inl _ \<Rightarrow> fails_with (errors_new ''directory response is not a valid query result'')
                  | Inr (cs, next_token) \<Rightarrow> gives \<lparr>dco_agents = cs, dco_next = next_token\<rparr>)), tick g))"

definition example_json :: "filter_example \<Rightarrow> jval" where
  "example_json e = JObj ((''filter'', JStr (fx_filter e)) #
     (if fx_description e = [] then [] else [(''description'', JStr (fx_description e))]))"

definition help_json :: "filter_help \<Rightarrow> jval" where
  "help_json h = JObj
     ([(''description'', JStr (fh_description h)), (''syntax'', JStr (fh_syntax h)),
       (''examples'', JArr (map example_json (fh_examples h)))] @
      (if fh_fields h = [] then [] else [(''filterable_fields'', JArr (map JStr (fh_fields h)))]))"

definition discover_handleInProcess ::
  "(string \<Rightarrow> int \<Rightarrow> string \<Rightarrow> bool \<Rightarrow> goerr + query_result) \<Rightarrow> discover_input \<Rightarrow> discover_output reply" where
  "discover_handleInProcess query i =
     (case query (dc_filter i) (case dc_limit i of None \<Rightarrow> 0 | Some n \<Rightarrow> n) (dc_cursor i) (dc_help i) of
        Inl e \<Rightarrow> fails_with (wrap_err ''directory query failed: '' e)
      | Inr r \<Rightarrow>
          (case (if dc_help i then qr_help r else None) of
             Some h \<Rightarrow>
               (case json_marshal (help_json h) of
                  Inl e \<Rightarrow> fails_with (errors_new (''failed to marshal help response: '' @ e))
                | Inr t \<Rightarrow> Reply (Some \<lparr>cr_is_error = False, cr_texts = [t]\<rparr>) None None)
           | None \<Rightarrow> gives \<lparr>dco_agents = qr_cards r, dco_next = qr_next r\<rparr>))"

definition discover_Handle ::
  "'l ext \<Rightarrow> tool_env \<Rightarrow> discover_input \<Rightarrow> 'l gw \<Rightarrow> discover_output reply \<times> 'l gw" where
  "discover_Handle x env i g =
     (if (case dc_limit i of None \<Rightarrow> False | Some n \<Rightarrow> n < 1)
      then (fails_with (errors_new ''limit must be a positive integer (>= 1)''), g)
      else (case validate_Headers (dc_headers i) of
          Some e \<Rightarrow> (fails_with e, g)
        | None \<Rightarrow>
            if dc_url i \<noteq> [] then
              (case validate_URL (dc_url i) of
                 Some e \<Rightarrow> (fails_with e, g)
               | None \<Rightarrow> discover_handleHTTP x i (dc_url i) g)
            else (case te_directory env of
                Some query \<Rightarrow> (discover_handleInProcess query i, g)
              | None \<Rightarrow>
                  if te_dir_url env \<noteq> [] then
                    (case te_dir_err env of
                       Some e \<Rightarrow> (fails_with e, g)
                     | None \<Rightarrow> discover_handleHTTP x i (te_dir_url env) g)
                  else (fails_with (errors_new
                    ''directory URL is required: no explicit URL, self-hosted directory, or default URL configured''), g))))"

section \<open>What the tools keep\<close>

context gw_closed
begin

lemma keeps_get_task: "I g \<Longrightarrow> I (snd (get_task_Handle x i g))"
proof -
  assume g: "I g"
  have "I (snd (resolveClientWithAuthRetry x r (\<lambda>c. call_get_task x c t) g))" for r t
    using g keeps_calls(3) by (intro keeps_auth_retry) auto
  with g show ?thesis
    by (auto simp: get_task_Handle_def split: prod.splits sum.splits) (metis snd_conv)+
qed

lemma keeps_cancel_task: "I g \<Longrightarrow> I (snd (cancel_task_Handle x i g))"
proof -
  assume g: "I g"
  have "I (snd (resolveClientWithAuthRetry x r (\<lambda>c. call_cancel_task x c t) g))" for r t
    using g keeps_calls(4) by (intro keeps_auth_retry) auto
  with g show ?thesis
    by (auto simp: cancel_task_Handle_def split: prod.splits sum.splits) (metis snd_conv)+
qed

lemma keeps_get_card: "I g \<Longrightarrow> I (snd (get_card_Handle x i g))"
  by (auto simp: get_card_Handle_def Let_def keeps_steps split: sum.splits)

lemma keeps_caller_cards:
  "I g \<Longrightarrow> I (snd (create_card_Handle ci g))"
  "I g \<Longrightarrow> I (snd (remove_card_Handle g))"
  using I_card_remove [of g]
  by (auto simp: create_card_Handle_def remove_card_Handle_def Let_def I_card split: prod.splits)

lemma keeps_histories:
  "I g \<Longrightarrow> I (snd (get_history_Handle x hi g))"
  "on (ch_agent ci) \<Longrightarrow> I g \<Longrightarrow> I (snd (clear_history_Handle x ci g))"
  using I_clear [of "ch_agent ci" g "x_fs x (g_tick g)"]
  by (auto simp: get_history_Handle_def clear_history_Handle_def keeps_steps
      split: prod.splits outcome.splits option.splits)

lemma keeps_inboxes:
  "I g \<Longrightarrow> I (snd (check_inbox_Handle x bi g))"
  "on (ib_alias ri) \<Longrightarrow> I g \<Longrightarrow> I (snd (read_inbox_Handle x ri g))"
  using I_peek [of g "x_now x (g_tick g)" "cb_alias bi"]
    I_pop [of "\<lparr>po_alias = ib_alias ri, po_length = ib_length ri, po_latest = ib_latest ri\<rparr>" g
      "x_now x (g_tick g)"]
  by (auto simp: check_inbox_Handle_def read_inbox_Handle_def keeps_steps
      split: prod.splits outcome.splits)

lemma keeps_discover: "I g \<Longrightarrow> I (snd (discover_Handle x env i g))"
  by (auto simp: discover_Handle_def discover_handleHTTP_def keeps_steps split: option.splits sum.splits)

end

end
