(* ===== verification/ToolCatalog.thy ===== *)
theory ToolCatalog
  imports JsonSchema ToolBroadcast ToolTasks
begin

text \<open>
  What the gateway tells its clients about the tools: the \<open>Tool\<close> methods of \<open>internal/tool\<close> with their
  names, descriptions and schemas, \<open>RegisterAll\<close>, and the JSON form of the outputs that have a schema.
  A tool without a schema of its own gets one derived from its types by the MCP library.
\<close>

section \<open>Schemas (helpers.go, tool_inbox.go, tool_discover.go)\<close>

definition sendMessageOutputSchema :: "'k spec_docs \<Rightarrow> 'k json_schema outcome" where
  "sendMessageOutputSchema docs =
     (case SendMessageResponseSchema docs of
        (_, Some e) \<Rightarrow> Panic (''sendMessageOutputSchema: '' @ err_text e)
      | (schema, None) \<Rightarrow> Return schema)"

definition broadcastMessageOutputSchema :: "'k spec_docs \<Rightarrow> 'k json_schema outcome" where
  "broadcastMessageOutputSchema docs =
     (case SendMessageResponseSchema docs of
        (_, Some e) \<Rightarrow> Panic (''broadcastMessageOutputSchema: '' @ err_text e)
      | (sendSchema, None) \<Rightarrow> Return
          (JsonSchema ''BroadcastMessageResponse'' ''object''
             ''map of agent aliases to per-agent A2A SendMessage responses'' [] [] None
             (Some (JsonSchema [] [] [] [] [] None None (jsc_one_of sendSchema) [] []))
             [] (jsc_definitions sendSchema) []))"

definition readInboxOutputSchema :: "'k json_schema" where
  "readInboxOutputSchema = JsonSchema ''ReadInboxOutput'' ''object''
     ''Contains consumed inbox messages for the requested agent.''
     [(''messages'', JsonSchema [] ''array''
        ''Array of message payloads, each containing either a task or message field.'' [] []
        (Some (typed_schema ''object'' [])) None [] [] [])]
     [''messages''] None None [] [] []"

definition discover_properties :: "(string \<times> 'k json_schema) list" where
  "discover_properties =
     [(''filter'', typed_schema ''string'' ''free-text search filter passed to the directory (max 256 chars)''),
      (''limit'', typed_schema ''integer'' ''maximum number of agent cards to return (min 1)''),
      (''cursor'', typed_schema ''string''
         ''cursor token for pagination, pass the next_token from previous response to get the next page of results''),
      (''headers'', JsonSchema [] ''object'' ''optional HTTP headers for directory authentication (max 20 entries)''
         [] [] None (Some (typed_schema ''string'' [])) [] [] []),
      (''help'', typed_schema ''boolean'' ''if true, return filter help documentation instead of agent cards'')]"

definition buildInputSchema :: "tool_env \<Rightarrow> 'k json_schema" where
  "buildInputSchema env =
     (case (if te_directory env \<noteq> None then (discover_properties, [])
            else if te_dir_url env \<noteq> [] then
              (discover_properties @ [(''directory_url'', typed_schema ''string''
                 ''HTTP or HTTPS URL of the agent directory service (uses server default when omitted)'')], [])
            else
              (discover_properties @ [(''directory_url'', typed_schema ''string''
                 ''HTTP or HTTPS URL of the agent directory service'')], [''directory_url''])) of
        (properties, required) \<Rightarrow> JsonSchema [] ''object'' [] properties required None None [] [] [])"

section \<open>The tools\<close>

record 'k mcp_tool =
  mt_name :: string
  mt_description :: string
  mt_input :: "'k json_schema option"
  mt_output :: "'k json_schema option"

definition plain_tool :: "string \<Rightarrow> string \<Rightarrow> 'k mcp_tool" where
  "plain_tool name description =
     \<lparr>mt_name = name, mt_description = description, mt_input = None, mt_output = None\<rparr>"

definition send_Tool :: "'k spec_docs \<Rightarrow> 'k mcp_tool outcome" where
  "send_Tool docs =
     (case sendMessageOutputSchema docs of
        Panic p \<Rightarrow> Panic p
      | Return schema \<Rightarrow> Return ((plain_tool ''send_message'' (toolDescription
          [''Send a message to a connected A2A agent by alias or URL.'',
           ''Use 'message' for simple plain-text messages.'',
           ''Use 'parts' when you need to send structured data (JSON objects), URLs, or multi-part content.'',
           ''Parts also support base64-encoded binary data via the 'raw' field.'',
           ''If both are provided, 'parts' takes precedence.''])) \<lparr>mt_output := Some schema\<rparr>))"

definition broadcast_Tool :: "'k spec_docs \<Rightarrow> 'k mcp_tool outcome" where
  "broadcast_Tool docs =
     (case broadcastMessageOutputSchema docs of
        Panic p \<Rightarrow> Panic p
      | Return schema \<Rightarrow> Return ((plain_tool ''broadcast_message'' (toolDescription
          [''Send the same message to multiple agents simultaneously and collect responses.'',
           ''Use 'message' for simple plain-text broadcasts.'',
           ''Use 'parts' when you need to send structured data or mixed content to all agents.'',
           ''Parts also support base64-encoded binary data via the 'raw' field.''])) \<lparr>mt_output := Some schema\<rparr>))"

definition ping_Tool :: "'k mcp_tool" where
  "ping_Tool = plain_tool ''ping_agent'' ''Perform a liveness check on a registered agent to verify reachability''"

definition connect_Tool :: "'k mcp_tool" where
  "connect_Tool = plain_tool ''connect_agent''
     ''Register a remote A2A agent with a friendly alias for subsequent operations''"

definition disconnect_Tool :: "'k mcp_tool" where
  "disconnect_Tool = plain_tool ''disconnect_agent'' ''Remove a registered agent by alias from the gateway registry''"

definition list_Tool :: "'k mcp_tool" where
  "list_Tool = plain_tool ''list_agents'' ''List all currently connected agents with their aliases and URLs''"

definition get_card_Tool :: "'k mcp_tool" where
  "get_card_Tool = plain_tool ''get_agent_card''
     ''Retrieve the agent card from an A2A agent to discover its capabilities''"

text \<open>The error of \<open>TaskSchema\<close> is dropped.\<close>

definition get_task_Tool :: "'k spec_docs \<Rightarrow> 'k mcp_tool" where
  "get_task_Tool docs =
     (plain_tool ''get_task'' ''Retrieve the current state of a previously initiated task from an A2A agent'')
       \<lparr>mt_output := Some (fst (TaskSchema docs))\<rparr>"

definition cancel_task_Tool :: "'k mcp_tool" where
  "cancel_task_Tool = plain_tool ''cancel_task'' ''Cancel a running task on an A2A agent''"

definition get_history_Tool :: "'k mcp_tool" where
  "get_history_Tool = plain_tool ''get_history''
     (''Retrieve the interaction history for a connected agent. ''
      @ ''Returns a chronological list of past interactions including sent messages and responses.'')"

definition clear_history_Tool :: "'k mcp_tool" where
  "clear_history_Tool = plain_tool ''clear_history''
     ''Clear all interaction history for a connected agent without disconnecting the agent.''"

definition create_card_Tool :: "'k mcp_tool" where
  "create_card_Tool = plain_tool ''create_caller_card'' (toolDescription
     [''Register a caller agent card that is automatically included on all outbound messages'',
      ''(send_message and broadcast_message). Calling again replaces the previous card.'',
      ''This enables target agents to discover the caller's capabilities and delegate tasks back'',
      ''without requiring a .well-known/agent-card.json endpoint.''])"

definition view_card_Tool :: "'k mcp_tool" where
  "view_card_Tool = plain_tool ''view_caller_card'' ''View the currently registered caller agent card, if any''"

definition remove_card_Tool :: "'k mcp_tool" where
  "remove_card_Tool = plain_tool ''remove_caller_card''
     ''Remove the registered caller agent card so it is no longer injected on outbound messages''"

definition discover_Tool :: "tool_env \<Rightarrow> 'k mcp_tool" where
  "discover_Tool env = (plain_tool ''discover_agents''
     ''Discover available agents from a remote agent directory service'') \<lparr>mt_input := Some (buildInputSchema env)\<rparr>"

definition check_inbox_Tool :: "'k mcp_tool" where
  "check_inbox_Tool = plain_tool ''check_inbox'' (toolDescription
     [''List inbox entries without consuming them.'',
      ''Returns lightweight summaries of pending async responses.'',
      ''Optionally filter by agent alias.''])"

definition read_inbox_Tool :: "'k mcp_tool" where
  "read_inbox_Tool = (plain_tool ''read_inbox'' (toolDescription
     [''Read and consume inbox messages for a specific agent.'',
      ''Returns full message payloads and removes entries from the inbox.'',
      ''Use 'length' to limit entries or 'latest' to get only the most recent.''])) \<lparr>mt_output := Some readInboxOutputSchema\<rparr>"

text \<open>The first two tools panic while they are registered when an embedded schema does not load.\<close>

definition RegisterAll :: "'k spec_docs \<Rightarrow> tool_env \<Rightarrow> 'k mcp_tool list outcome" where
  "RegisterAll docs env =
     (case send_Tool docs of
        Panic p \<Rightarrow> Panic p
      | Return send \<Rightarrow>
          (case broadcast_Tool docs of
             Panic p \<Rightarrow> Panic p
           | Return broadcast \<Rightarrow> Return
               [send, broadcast, ping_Tool, connect_Tool, disconnect_Tool, list_Tool, get_card_Tool,
                get_task_Tool docs, cancel_task_Tool, get_history_Tool, clear_history_Tool, create_card_Tool,
                view_card_Tool, remove_card_Tool, discover_Tool env, check_inbox_Tool, read_inbox_Tool]))"

section \<open>The outputs as JSON\<close>

text \<open>
  The struct tags of \<open>gateway/api/types.go\<close>: a pointer or an empty string with \<open>omitempty\<close> is left out. The
  encoders of a message and of a task belong to the a2a SDK. The keys of a map come in sorted order.
\<close>

record a2a_encoder =
  en_message :: "a2a_message \<Rightarrow> jval"
  en_task :: "a2a_task \<Rightarrow> jval"

definition optional :: "string \<Rightarrow> ('a \<Rightarrow> jval) \<Rightarrow> 'a option \<Rightarrow> (string \<times> jval) list" where
  "optional key f x = (case x of None \<Rightarrow> [] | Some v \<Rightarrow> [(key, f v)])"

definition async_json :: "async_output \<Rightarrow> jval" where
  "async_json a = JObj ([(''alias'', JStr (ao_alias a)), (''status'', JStr (ao_status a))] @
     (if ao_error a = [] then [] else [(''error'', JStr (ao_error a))]))"

definition send_output_json :: "a2a_encoder \<Rightarrow> send_output \<Rightarrow> jval" where
  "send_output_json en out = JObj (optional ''message'' (en_message en) (so_message out)
     @ optional ''task'' (en_task en) (so_task out) @ optional ''async'' async_json (so_async out))"

definition broadcast_json :: "a2a_encoder \<Rightarrow> (string, send_output) gomap \<Rightarrow> jval" where
  "broadcast_json en outs = JObj (map (\<lambda>p. (fst p, send_output_json en (snd p))) (sort_key fst outs))"

definition read_inbox_json :: "a2a_encoder \<Rightarrow> read_inbox_output \<Rightarrow> jval" where
  "read_inbox_json en out = JObj [(''messages'', JArr (map (send_output_json en) (ib_messages out)))]"

end
