(* ===== verification/DirectoryPages.thy ===== *)
theory DirectoryPages
  imports Directory
begin

text \<open>
  Lemmas about the directory: cursors survive encoding and decoding, and a client that follows
  \<open>next_token\<close> over an unchanging listing sees every card once, in order.
\<close>

section \<open>Cursors\<close>

lemma digits_ascii: "list_all is_digit s \<Longrightarrow> is_ascii s"
  by (auto simp: is_ascii_def is_digit_def list_all_iff)

lemma digit_rune_byte [simp]: "is_digit_rune (byte c) = is_digit c"
  by (simp add: is_digit_rune_def is_digit_def)

lemma takeWhile_digits: "list_all is_digit s \<Longrightarrow> takeWhile is_digit_rune (map byte s) = map byte s"
  by (induction s) auto

lemma map_chr_byte [simp]: "map chr (map byte s) = s"
  by (induction s) auto

lemma skip_spaces_digits:
  assumes "list_all is_digit s"
  shows "skip_spaces (map byte s) = Some (map byte s)"
proof (cases s)
  case (Cons c t)
  with assms have "48 \<le> byte c \<and> byte c \<le> 57" by (simp add: is_digit_def)
  with Cons show ?thesis by (auto simp: is_space_rune_def)
qed simp

lemma scan_digits:
  assumes "list_all is_digit s" "s \<noteq> []"
  shows "scan_int (map byte s) = signed_val False s"
proof -
  obtain c t where s: "s = c # t" using assms(2) by (cases s) auto
  with assms(1) have "48 \<le> byte c \<and> byte c \<le> 57" by (simp add: is_digit_def)
  then have c: "byte c \<noteq> 45" "byte c \<noteq> 43" by auto
  have sk: "skip_spaces (map byte s) = Some (byte c # map byte t)"
    using skip_spaces_digits [OF assms(1)] by (simp only: s list.map)
  have tw: "takeWhile is_digit_rune (byte c # map byte t) = byte c # map byte t"
    using takeWhile_digits [OF assms(1)] by (simp only: s list.map)
  have bk: "map chr (byte c # map byte t) = s" by (simp add: s comp_def)
  show ?thesis
    by (simp only: scan_int_def sk option.case list.case c if_False Let_def prod.case tw bk)
qed

lemma offset_ascii: "is_ascii ''offset:''"
  by (simp add: is_ascii_def byte_def)

lemma sscanf_encode:
  assumes "0 \<le> n" "in_int64 n"
  shows "sscanf_offset (''offset:'' @ itoa n) = Some n"
proof -
  have "is_ascii (''offset:'' @ nat_digits (nat n))"
    using offset_ascii digits_ascii [OF nat_digits_all_digits] by (simp add: is_ascii_def)
  then have "runes (''offset:'' @ nat_digits (nat n)) = map byte ''offset:'' @ map byte (nat_digits (nat n))"
    by (simp add: runes_ascii del: append_Cons)
  with assms show ?thesis
    by (simp add: sscanf_offset_def itoa_def Let_def scan_digits nat_digits_all_digits signed_val_def
        del: append_Cons list.map)
qed

lemma b64_encode_nonempty: "s \<noteq> [] \<Longrightarrow> b64_encode s \<noteq> []"
  by (cases "map byte s" rule: b64_encode_bytes.cases) (auto simp: b64_encode_def)

lemma encodeCursor_nonempty [simp]: "encodeCursor n \<noteq> []"
  by (simp add: encodeCursor_def b64_encode_nonempty)

lemma decode_encode_cursor: "0 \<le> n \<Longrightarrow> in_int64 n \<Longrightarrow> decodeCursor (encodeCursor n) = Inr n"
  using sscanf_encode [of n] encodeCursor_nonempty [of n]
  by (simp add: decodeCursor_def) (simp add: encodeCursor_def b64_roundtrip)

lemma decodeCursor_range: "decodeCursor c = Inr n \<Longrightarrow> 0 \<le> n"
  by (auto simp: decodeCursor_def split: if_splits sum.splits option.splits)

section \<open>Following the pages\<close>

text \<open>A client that asks for the page at a cursor until the next cursor is the stop mark.\<close>

fun walk_pages :: "('c \<Rightarrow> ('a list \<times> 'c) option) \<Rightarrow> 'c \<Rightarrow> nat \<Rightarrow> 'c \<Rightarrow> 'a list list option" where
  "walk_pages get stop 0 c = None"
| "walk_pages get stop (Suc n) c =
     (case get c of
        None \<Rightarrow> None
      | Some (page, next_c) \<Rightarrow>
          if next_c = stop then Some [page] else map_option (Cons page) (walk_pages get stop n next_c))"

locale paged_listing =
  fixes get :: "'s \<Rightarrow> 'c \<Rightarrow> ('a list \<times> 'c) option"
    and stop :: 'c
    and cursor_at :: "int \<Rightarrow> 'c"
    and items :: "'s \<Rightarrow> 'a list"
    and page_size :: "'s \<Rightarrow> int"
    and fine :: "'s \<Rightarrow> bool"
  assumes size_pos: "fine s \<Longrightarrow> 0 < page_size s"
    and get_at: "fine s \<Longrightarrow> 0 \<le> k \<Longrightarrow> k \<le> int (length (items s)) \<Longrightarrow>
      get s (cursor_at k) = Some (take (nat (page_size s)) (drop (nat k) (items s)),
        if k + page_size s < int (length (items s)) then cursor_at (k + page_size s) else stop)"
    and get_start: "fine s \<Longrightarrow> get s stop = get s (cursor_at 0)"
    and cursor_not_stop: "cursor_at k \<noteq> stop"
begin

lemma walk_from:
  assumes "fine s" "0 \<le> k" "k \<le> int (length (items s))" "nat (int (length (items s)) - k) < n"
    "get s c = get s (cursor_at k)"
  shows "\<exists>ps. walk_pages (get s) stop n c = Some ps \<and> concat ps = drop (nat k) (items s) \<and>
           (\<forall>p \<in> set ps. int (length p) \<le> page_size s)"
  using assms(2-)
proof (induction n arbitrary: k c)
  case (Suc n)
  let ?l = "page_size s" and ?p = "take (nat (page_size s)) (drop (nat k) (items s))"
  have l: "0 < ?l" using assms(1) by (rule size_pos)
  have g: "get s c = Some (?p, if k + ?l < int (length (items s)) then cursor_at (k + ?l) else stop)"
    using Suc.prems get_at [OF assms(1), of k] by simp
  have small: "int (length ?p) \<le> ?l" using l by simp
  show ?case
  proof (cases "k + ?l < int (length (items s))")
    case True
    have "nat (int (length (items s)) - (k + ?l)) < n" using Suc.prems l True by linarith
    then obtain ps where ps: "walk_pages (get s) stop n (cursor_at (k + ?l)) = Some ps"
      "concat ps = drop (nat (k + ?l)) (items s)" "\<forall>p \<in> set ps. int (length p) \<le> ?l"
      using Suc.IH [of "k + ?l" "cursor_at (k + ?l)"] Suc.prems l True by auto
    have "nat (k + ?l) = nat ?l + nat k" using Suc.prems(1) l by linarith
    then have "?p @ drop (nat (k + ?l)) (items s) = drop (nat k) (items s)"
      by (metis append_take_drop_id drop_drop)
    with True g ps small show ?thesis by (simp add: cursor_not_stop)
  next
    case False
    then have "?p = drop (nat k) (items s)" using Suc.prems l by simp
    with False g small show ?thesis by simp
  qed
qed simp

lemma walk_all:
  "fine s \<Longrightarrow> \<exists>ps. walk_pages (get s) stop (Suc (length (items s))) stop = Some ps \<and>
     concat ps = items s \<and> (\<forall>p \<in> set ps. int (length p) \<le> page_size s)"
  using walk_from [of s 0 "Suc (length (items s))" stop] by (simp add: get_start)

end

text \<open>The state of the interpretation is the selected cards and the limit of the request.\<close>

definition page_get :: "'a list \<times> int \<Rightarrow> string \<Rightarrow> ('a list \<times> string) option" where
  "page_get s c = (case decodeCursor c of Inl _ \<Rightarrow> None | Inr k \<Rightarrow> Some (page_of k (Some (snd s)) (fst s)))"

lemma page_of_within:
  "0 \<le> k \<Longrightarrow> k \<le> int (length cs) \<Longrightarrow> 0 < l \<Longrightarrow>
   page_of k (Some l) cs =
     (take (nat l) (drop (nat k) cs), if k + l < int (length cs) then encodeCursor (k + l) else [])"
  by (auto simp: page_of_def Let_def nat_le_iff)

definition fits :: "'a list \<times> int \<Rightarrow> bool" where
  "fits s \<longleftrightarrow> 0 < snd s \<and> in_int64 (int (length (fst s)))"

interpretation directory_pages: paged_listing page_get "[]" encodeCursor fst snd fits
proof unfold_locales
  fix s :: "'a list \<times> int" and k
  assume "fits s" "0 \<le> k" "k \<le> int (length (fst s))"
  moreover from this have "in_int64 k" by (simp add: fits_def in_int64_def)
  ultimately show "page_get s (encodeCursor k) = Some (take (nat (snd s)) (drop (nat k) (fst s)),
      if k + snd s < int (length (fst s)) then encodeCursor (k + snd s) else [])"
    by (simp add: page_get_def decode_encode_cursor page_of_within fits_def)
next
  fix s :: "'a list \<times> int"
  show "fits s \<Longrightarrow> page_get s [] = page_get s (encodeCursor 0)"
    by (simp add: page_get_def decode_encode_cursor in_int64_def) (simp add: decodeCursor_def)
qed (auto simp: fits_def)

section \<open>The handler\<close>

definition list_request :: "string \<Rightarrow> int \<Rightarrow> string \<Rightarrow> dir_request" where
  "list_request flt limit cursor = \<lparr>dq_method = ''GET'', dq_get = (\<lambda>k.
     if k = ''filter'' then flt else if k = ''limit'' then itoa limit
     else if k = ''cursor'' then cursor else [])\<rparr>"

definition dir_get ::
  "'r registry_ops \<Rightarrow> (nat \<Rightarrow> nat) \<Rightarrow> (agent_card list \<Rightarrow> agent_card list) \<Rightarrow> 'r directory \<Rightarrow> string
    \<Rightarrow> int \<Rightarrow> string \<Rightarrow> (agent_card list \<times> string) option" where
  "dir_get ops ulow visit d flt limit cursor =
     (case ds_body (ServeHTTP ops ulow visit d (list_request flt limit cursor)) of
        ErrorBody _ \<Rightarrow> None | ResultBody q \<Rightarrow> Some (qr_cards q, qr_next q))"

lemma itoa_nonempty [simp]: "itoa n \<noteq> []"
  by (simp add: itoa_def)

lemma dir_get_page:
  assumes "registry_query ops d = None" "selected_cards ops ulow visit d flt = Inr cs"
    "0 < limit" "in_int64 limit"
  shows "dir_get ops ulow visit d flt limit c = page_get (cs, limit) c"
  using assms
  by (auto simp: dir_get_def ServeHTTP_def list_response_def list_request_def Let_def page_get_def
      atoi_itoa error_response_def ok_response_def split: sum.splits prod.splits)

lemma resolve_subset: "set (default_Resolve ulow f cs) \<subseteq> set cs"
  by (auto simp: default_Resolve_def)

lemma serve_status:
  "ds_status (ServeHTTP ops ulow visit d r) \<in> {200, 400, 405, 500}"
  by (auto simp: ServeHTTP_def help_response_def query_response_def list_response_def Let_def
      error_response_def ok_response_def split: option.splits sum.splits prod.splits)

lemma serve_ok_iff_result:
  "ds_status (ServeHTTP ops ulow visit d r) = 200 \<longleftrightarrow>
   (\<exists>q. ds_body (ServeHTTP ops ulow visit d r) = ResultBody q)"
  by (auto simp: ServeHTTP_def help_response_def query_response_def list_response_def Let_def
      error_response_def ok_response_def split: option.splits sum.splits prod.splits)

end
