(* ===== verification/Server.thy ===== *)
theory Server
  imports ToolCatalog DirectoryPages
begin

text \<open>
  The \<open>gateway\<close> package: the options and the construction of a server (\<open>server.go\<close>), the wiring of
  the tools and the directory adapter (\<open>tools.go\<close>), and the programmatic operations
  (\<open>operations.go\<close>). The step relation at the end is one tool call or background job, in any world.
\<close>

section \<open>Options\<close>

record health_options =
  ho_threshold :: int
  ho_ping :: "(nat \<Rightarrow> ping_target \<Rightarrow> ping_result) option"

record history_options =
  hi_depth :: int
  hi_max :: int
  hi_backend :: "hist_backend option"

record 'r server_config =
  sc_name :: string
  sc_version :: string
  sc_poll :: int
  sc_stream :: int
  sc_rate_rps :: f64
  sc_rate_burst :: int
  sc_health_configured :: bool
  sc_health_threshold :: int
  sc_health_ping :: "(nat \<Rightarrow> ping_target \<Rightarrow> ping_result) option"
  sc_history_configured :: bool
  sc_history_depth :: int
  sc_history_max :: int
  sc_history_backend :: "hist_backend option"
  sc_inbox_ttl :: int
  sc_dir_url :: string
  sc_dir_err :: "goerr option"
  sc_directory :: "'r directory option"

text \<open>The HTTP client and the SDK options are opaque: they select code that is not modelled.\<close>

datatype 'r server_option =
    WithHTTPClient
  | WithName string
  | WithVersion string
  | WithPollTimeout int
  | WithStreamTimeout int
  | WithRateLimit f64 int
  | WithHistory history_options
  | WithHealthCheck health_options
  | WithInboxTTL int
  | WithDefaultDirectoryURL string
  | WithDirectory "'r directory option"
  | WithMCPServerOptions

fun apply_option :: "'r server_option \<Rightarrow> 'r server_config \<Rightarrow> 'r server_config" where
  "apply_option WithHTTPClient c = c"
| "apply_option (WithName n) c = c\<lparr>sc_name := n\<rparr>"
| "apply_option (WithVersion v) c = c\<lparr>sc_version := v\<rparr>"
| "apply_option (WithPollTimeout d) c = c\<lparr>sc_poll := d\<rparr>"
| "apply_option (WithStreamTimeout d) c = c\<lparr>sc_stream := d\<rparr>"
| "apply_option (WithRateLimit rps burst) c = c\<lparr>sc_rate_rps := rps, sc_rate_burst := burst\<rparr>"
| "apply_option (WithHistory o1) c = c\<lparr>sc_history_configured := True, sc_history_depth := hi_depth o1,
     sc_history_max := hi_max o1, sc_history_backend := hi_backend o1\<rparr>"
| "apply_option (WithHealthCheck o1) c = c\<lparr>sc_health_configured := True,
     sc_health_threshold := ho_threshold o1, sc_health_ping := ho_ping o1\<rparr>"
| "apply_option (WithInboxTTL d) c = c\<lparr>sc_inbox_ttl := d\<rparr>"
| "apply_option (WithDefaultDirectoryURL u) c = c\<lparr>sc_dir_url := u,
     sc_dir_err := (if u \<noteq> [] then validate_URL u else None)\<rparr>"
| "apply_option (WithDirectory d) c = c\<lparr>sc_directory := d\<rparr>"
| "apply_option WithMCPServerOptions c = c"

text \<open>The options the command takes from its two environment variables.\<close>

definition main_options :: "string \<Rightarrow> string \<Rightarrow> 'r server_option list" where
  "main_options name version =
     (if name \<noteq> [] then [WithName name] else []) @ (if version \<noteq> [] then [WithVersion version] else [])"

definition taskPollTimeout :: int where "taskPollTimeout = 60 * second"
definition defaultStreamTimeout :: int where "defaultStreamTimeout = 60 * second"
definition defaultInboxTTL :: int where "defaultInboxTTL = 30 * 60 * second"

definition default_config :: "'r server_config" where
  "default_config = \<lparr>sc_name = ''a2a-gateway-mcp'', sc_version = ''0.1.0'', sc_poll = taskPollTimeout,
     sc_stream = defaultStreamTimeout, sc_rate_rps = Fin 0, sc_rate_burst = 0,
     sc_health_configured = False, sc_health_threshold = 0, sc_health_ping = None,
     sc_history_configured = False, sc_history_depth = 0, sc_history_max = 0, sc_history_backend = None,
     sc_inbox_ttl = 0, sc_dir_url = [], sc_dir_err = None, sc_directory = None\<rparr>"

definition server_config_of :: "'r server_option list \<Rightarrow> 'r server_config" where
  "server_config_of opts = fold apply_option opts default_config"

section \<open>The server\<close>

record 'r server =
  sv_name :: string
  sv_version :: string
  sv_poll :: int
  sv_stream :: int
  sv_default_rate :: "rate_limit_config option"
  sv_history_enabled :: bool
  sv_history_depth :: int
  sv_max_entry :: int
  sv_ping :: "(nat \<Rightarrow> ping_target \<Rightarrow> ping_result) option"
  sv_dir_url :: string
  sv_dir_err :: "goerr option"
  sv_directory :: "'r directory option"

definition history_settings :: "'r server_config \<Rightarrow> bool \<times> int \<times> int \<times> hist_backend option" where
  "history_settings c =
     (if sc_history_configured c then
        (if sc_history_depth c = 0 then (False, 0, 0, None)
         else (True, sc_history_depth c,
               (if sc_history_max c \<le> 0 then 1000 else sc_history_max c),
               (case sc_history_backend c of
                  None \<Rightarrow> Some (MemoryB (NewMemoryBackend (sc_history_depth c)))
                | Some b \<Rightarrow> Some b)))
      else (True, 50, 1000, Some (MemoryB (NewMemoryBackend 50))))"

definition health_threshold :: "'r server_config \<Rightarrow> int" where
  "health_threshold c = (if sc_health_configured c then max (sc_health_threshold c) 0 else 3)"

definition inbox_ttl :: "'r server_config \<Rightarrow> int" where
  "inbox_ttl c = (if sc_inbox_ttl c \<le> 0 then defaultInboxTTL else sc_inbox_ttl c)"

text \<open>\<open>files\<close> is the file system the server starts on.\<close>

definition NewServer :: "file_system \<Rightarrow> 'r server_option list \<Rightarrow> 'r server \<times> 'l gw" where
  "NewServer files opts =
     (let c = server_config_of opts in
      case history_settings c of
        (enabled, depth, maxEntry, backend) \<Rightarrow>
          (\<lparr>sv_name = sc_name c, sv_version = sc_version c, sv_poll = sc_poll c, sv_stream = sc_stream c,
            sv_default_rate = (if f64_gt0 (sc_rate_rps c) \<and> sc_rate_burst c > 0
              then Some \<lparr>rl_rps = sc_rate_rps c, rl_burst = sc_rate_burst c\<rparr> else None),
            sv_history_enabled = enabled, sv_history_depth = depth, sv_max_entry = maxEntry,
            sv_ping = sc_health_ping c, sv_dir_url = sc_dir_url c, sv_dir_err = sc_dir_err c,
            sv_directory = sc_directory c\<rparr>,
           \<lparr>g_registry = NewAgentRegistry, g_health = NewHealthTracker (health_threshold c),
            g_limiters = NewRateLimiterRegistry, g_history = \<lparr>hb_backend = backend, hb_files = files\<rparr>,
            g_clients = [], g_card = NewCallerCardStore, g_contexts = NewContextStore,
            g_inbox = NewMemoryInbox (inbox_ttl c), g_jobs = [], g_tick = 0\<rparr>))"

definition effectivePollTimeout :: "'r server \<Rightarrow> int option \<Rightarrow> int" where
  "effectivePollTimeout s requestSeconds =
     (case requestSeconds of
        Some n \<Rightarrow> if n < 0 then 0 else if n > 0 then seconds_to_duration n else sv_poll s
      | None \<Rightarrow> sv_poll s)"

definition effectiveStreamTimeout :: "'r server \<Rightarrow> int option \<Rightarrow> int" where
  "effectiveStreamTimeout s requestSeconds =
     (case requestSeconds of
        Some n \<Rightarrow> if n < 0 then 0 else if n > 0 then seconds_to_duration n else sv_stream s
      | None \<Rightarrow> sv_stream s)"

definition toolDefaultRateLimit :: "'r server \<Rightarrow> rate_limit_config" where
  "toolDefaultRateLimit s =
     (case sv_default_rate s of None \<Rightarrow> \<lparr>rl_rps = Fin 0, rl_burst = 0\<rparr> | Some c \<Rightarrow> c)"

definition historyRecorderAdapter :: "'r server \<Rightarrow> recorder" where
  "historyRecorderAdapter s = \<lparr>rec_enabled = sv_history_enabled s, rec_max = sv_max_entry s\<rparr>"

text \<open>What \<open>Run\<close> closes when the transport ends.\<close>

definition run_closes :: "'r server \<Rightarrow> 'l gw \<Rightarrow> bool" where
  "run_closes s g \<longleftrightarrow> sv_history_enabled s \<and> hb_backend (g_history g) \<noteq> None"

section \<open>The directory adapter\<close>

text \<open>
  The world of a directory: the operations of a registry of the embedder, the lower-casing of
  non-ASCII code points, the order in which a Go map is visited, and the JSON round trip of a
  query result.
\<close>

record 'r dir_world =
  dw_ops :: "'r registry_ops"
  dw_lower :: "nat \<Rightarrow> nat"
  dw_visit :: "agent_card list \<Rightarrow> agent_card list"
  dw_recode :: "query_result \<Rightarrow> goerr + query_result"

definition adapter_params :: "string \<Rightarrow> int \<Rightarrow> string \<Rightarrow> bool \<Rightarrow> (string \<times> string) list" where
  "adapter_params flt limit cursor help =
     (if help then [(''help'', ''true'')]
      else (if flt \<noteq> [] then [(''filter'', flt)] else []) @
           (if limit > 0 then [(''limit'', itoa limit)] else []) @
           (if cursor \<noteq> [] then [(''cursor'', cursor)] else []))"

definition params_request :: "(string \<times> string) list \<Rightarrow> dir_request" where
  "params_request ps = \<lparr>dq_method = ''GET'',
     dq_get = (\<lambda>k. case map_of ps k of None \<Rightarrow> [] | Some v \<Rightarrow> v)\<rparr>"

text \<open>The body of an error response, as \<open>writeJSON\<close> encodes it.\<close>

definition error_body_text :: "string \<Rightarrow> string" where
  "error_body_text msg = json_text (JObj [(''error'', JStr msg)]) @ [CHR 0x0A]"

definition adapter_Query ::
  "'r dir_world \<Rightarrow> 'r directory \<Rightarrow> string \<Rightarrow> int \<Rightarrow> string \<Rightarrow> bool \<Rightarrow> goerr + query_result" where
  "adapter_Query w d flt limit cursor help =
     (let resp = ServeHTTP (dw_ops w) (dw_lower w) (dw_visit w) d
                   (params_request (adapter_params flt limit cursor help)) in
      case ds_body resp of
        ErrorBody msg \<Rightarrow> Inl (errors_new (''directory query failed: '' @ error_body_text msg))
      | ResultBody q \<Rightarrow>
          (case dw_recode w q of
             Inl e \<Rightarrow> Inl (wrap_err ''failed to parse directory response: '' e)
           | Inr q' \<Rightarrow> Inr q'))"

definition toolEnv :: "'r dir_world \<Rightarrow> 'r server \<Rightarrow> tool_env" where
  "toolEnv w s = \<lparr>te_recorder = historyRecorderAdapter s, te_poll = effectivePollTimeout s,
     te_stream = effectiveStreamTimeout s, te_default_rate = toolDefaultRateLimit s,
     te_ping = sv_ping s, te_dir_url = sv_dir_url s, te_dir_err = sv_dir_err s,
     te_directory = map_option (adapter_Query w) (sv_directory s)\<rparr>"

section \<open>Programmatic operations\<close>

datatype 'o api_result = ApiPanics string | ApiHangs | ApiReturns "'o option" "goerr option"

text \<open>Most operations drop the output when there is an error; some return both.\<close>

fun output_or_error :: "'o reply \<Rightarrow> 'o api_result" where
  "output_or_error (Panicked p) = ApiPanics p"
| "output_or_error Hangs = ApiHangs"
| "output_or_error (Reply _ out (Some e)) = ApiReturns None (Some e)"
| "output_or_error (Reply _ out None) = ApiReturns out None"

fun output_and_error :: "'o reply \<Rightarrow> 'o api_result" where
  "output_and_error (Panicked p) = ApiPanics p"
| "output_and_error Hangs = ApiHangs"
| "output_and_error (Reply _ out err) = ApiReturns out err"

definition srv_ConnectAgent where
  "srv_ConnectAgent x w s i g =
     (case connect_Handle x (NewConnectAgentTool (toolEnv w s)) i g of (r, g1) \<Rightarrow> (output_or_error r, g1))"

definition srv_DisconnectAgent where
  "srv_DisconnectAgent x i g = (case disconnect_Handle x i g of (r, g1) \<Rightarrow> (output_or_error r, g1))"

definition srv_SendMessage where
  "srv_SendMessage x w s i g =
     (case send_Handle x (toolEnv w s) False i g of (r, g1) \<Rightarrow> (output_and_error r, g1))"

definition srv_GetTask where
  "srv_GetTask x i g = (case get_task_Handle x i g of (r, g1) \<Rightarrow> (output_and_error r, g1))"

definition srv_CancelTask where
  "srv_CancelTask x i g = (case cancel_task_Handle x i g of (r, g1) \<Rightarrow> (output_or_error r, g1))"

definition srv_DiscoverAgents where
  "srv_DiscoverAgents x w s i g =
     (case discover_Handle x (toolEnv w s) i g of (r, g1) \<Rightarrow> (output_or_error r, g1))"

definition srv_GetAgentCard where
  "srv_GetAgentCard x i g = (case get_card_Handle x i g of (r, g1) \<Rightarrow> (output_or_error r, g1))"

definition srv_PingAgent where
  "srv_PingAgent x w s i g =
     (case ping_Handle x (toolEnv w s) i g of (r, g1) \<Rightarrow> (output_or_error r, g1))"

definition srv_BroadcastMessage where
  "srv_BroadcastMessage x w s i g =
     (case broadcast_Handle x (toolEnv w s) i g of (r, g1) \<Rightarrow> (output_and_error r, g1))"

definition srv_ListAgents where
  "srv_ListAgents x g = output_or_error (list_Handle x g)"

definition srv_GetHistory where
  "srv_GetHistory x i g = (case get_history_Handle x i g of (r, g1) \<Rightarrow> (output_or_error r, g1))"

definition srv_ClearHistory where
  "srv_ClearHistory x i g = (case clear_history_Handle x i g of (r, g1) \<Rightarrow> (output_or_error r, g1))"

definition srv_CreateCallerCard where
  "srv_CreateCallerCard i g = (case create_card_Handle i g of (r, g1) \<Rightarrow> (output_or_error r, g1))"

definition srv_ViewCallerCard where
  "srv_ViewCallerCard g = output_or_error (view_card_Handle g)"

definition srv_RemoveCallerCard where
  "srv_RemoveCallerCard g = (case remove_card_Handle g of (r, g1) \<Rightarrow> (output_or_error r, g1))"

definition srv_CheckInbox where
  "srv_CheckInbox x i g = (case check_inbox_Handle x i g of (r, g1) \<Rightarrow> (output_or_error r, g1))"

definition srv_ReadInbox where
  "srv_ReadInbox x i g = (case read_inbox_Handle x i g of (r, g1) \<Rightarrow> (output_or_error r, g1))"

section \<open>Steps of a server\<close>

text \<open>
  One step with the agents it is done for: the call of a tool, in any world in which a fan-out
  visits each alias once, or one background job.
\<close>

inductive server_step :: "'r server \<Rightarrow> string set \<Rightarrow> 'l gw \<Rightarrow> 'l gw \<Rightarrow> bool" for s where
  connect: "server_step s {ci_alias i} g (snd (srv_ConnectAgent x w s i g))"
| disconnect: "server_step s {di_alias i} g (snd (srv_DisconnectAgent x i g))"
| send: "server_step s {si_agent i} g (snd (send_Handle x (toolEnv w s) progress i g))"
| broadcast: "mset (x_schedule x (g_tick g) (bi_aliases i)) = mset (bi_aliases i) \<Longrightarrow>
    server_step s (set (bi_aliases i)) g (snd (srv_BroadcastMessage x w s i g))"
| get_task: "server_step s {ti_agent i} g (snd (srv_GetTask x i g))"
| cancel_task: "server_step s {ti_agent i} g (snd (srv_CancelTask x i g))"
| discover: "server_step s {} g (snd (srv_DiscoverAgents x w s i g))"
| get_card: "server_step s {gc_agent i} g (snd (srv_GetAgentCard x i g))"
| ping: "server_step s {pi_alias i} g (snd (srv_PingAgent x w s i g))"
| get_history: "server_step s {gh_agent i} g (snd (srv_GetHistory x i g))"
| clear_history: "server_step s {ch_agent i} g (snd (srv_ClearHistory x i g))"
| create_card: "server_step s {} g (snd (srv_CreateCallerCard i g))"
| remove_card: "server_step s {} g (snd (srv_RemoveCallerCard g))"
| check_inbox: "server_step s {} g (snd (srv_CheckInbox x i g))"
| read_inbox: "server_step s {ib_alias i} g (snd (srv_ReadInbox x i g))"
| job: "j \<in> set (g_jobs g) \<Longrightarrow>
    server_step s {job_alias j} g (snd (run_job x (toolEnv w s) j (g\<lparr>g_jobs := remove1 j (g_jobs g)\<rparr>)))"

inductive_simps server_step_iff: "server_step s A g g'"

lemma snd_output: "snd (case p of (r, g1) \<Rightarrow> (f r, g1)) = snd p"
  by (cases p) simp

context gw_closed
begin

lemma keeps_step: "server_step s A g g' \<Longrightarrow> Ball A on \<Longrightarrow> I g \<Longrightarrow> I g'"
proof (induction rule: server_step.induct)
  case (broadcast x g i w)
  from mset_eq_setD [OF broadcast.hyps] broadcast.prems show ?case
    by (simp add: srv_BroadcastMessage_def snd_output keeps_broadcast list_all_iff)
next
  case (job j g x w)
  then show ?case by (intro keeps_run_job I_jobs) auto
qed (simp_all add: srv_ConnectAgent_def srv_DisconnectAgent_def srv_GetTask_def
      srv_CancelTask_def srv_DiscoverAgents_def srv_GetAgentCard_def srv_PingAgent_def srv_GetHistory_def
      srv_ClearHistory_def srv_CreateCallerCard_def srv_RemoveCallerCard_def srv_CheckInbox_def
      srv_ReadInbox_def snd_output keeps_connect keeps_disconnect keeps_send
      keeps_get_task keeps_cancel_task keeps_discover keeps_get_card keeps_ping keeps_histories
      keeps_caller_cards keeps_inboxes)

end

lemma gw_inv_new:
  assumes "0 \<le> sc_history_depth (server_config_of opts) \<or> sc_history_backend (server_config_of opts) \<noteq> None"
    "\<forall>b. sc_history_backend (server_config_of opts) = Some b \<longrightarrow>
       backend_ok \<lparr>hb_backend = Some b, hb_files = files\<rparr>"
  shows "gw_inv (snd (NewServer files opts))"
proof -
  have "hist_inv \<lparr>hb_backend = snd (snd (snd (history_settings (server_config_of opts)))), hb_files = files\<rparr>"
    using assms
    by (auto simp: history_settings_def hist_inv_def backend_ok_def mb_inv_new split: option.splits)
  then show ?thesis
    by (auto simp: NewServer_def Let_def gw_inv_def NewRateLimiterRegistry_def health_threshold_def
        intro: wf_intros split: prod.splits)
qed

end
