(* ===== verification/StoreProperties.thy ===== *)
theory StoreProperties
  imports Recorder DirectoryPages ToolEnv
begin

text \<open>
  The properties of the components: the registry and its validation, header injection and the
  client cache, the health tracker, the inbox, the history backends, the caller card, and the
  directory. Each follows from the lemmas of the component's theory or from the interpretation of
  its contract; a property with hypotheses is followed by an instance of it.
\<close>

section \<open>Inbox\<close>

text \<open>
  C18: Over any run of deposits and pops on a fresh inbox, however long entries live, what the pops
  delivered together with what is still held never exceeds what was deposited: no response is
  delivered twice and none is made up.
\<close>

theorem inbox_at_most_once:
  "mset (fst (inbox_run mi_put mi_take ops (NewMemoryInbox ttl)))
     + mset (mi_entries (snd (inbox_run mi_put mi_take ops (NewMemoryInbox ttl))))
   \<subseteq># puts (\<lambda>d. stamp_entry (fst d) (snd d)) ops"
  using mem_inbox.at_most_once [of ops "NewMemoryInbox ttl"] by (simp add: NewMemoryInbox_def)

text \<open>
  C19: When entries do not expire and no pop asks for the latest entry only, no response is lost:
  each deposit is delivered exactly once or still held.
\<close>

theorem inbox_exactly_once:
  assumes "ttl \<le> 0" "\<forall>q. TakeOp q \<in> set ops \<longrightarrow> \<not> po_latest (snd q)"
  shows "mset (fst (inbox_run mi_put mi_take ops (NewMemoryInbox ttl)))
     + mset (mi_entries (snd (inbox_run mi_put mi_take ops (NewMemoryInbox ttl))))
   = puts (\<lambda>d. stamp_entry (fst d) (snd d)) ops"
  using mem_inbox.exactly_once [of "NewMemoryInbox ttl" ops] assms by (simp add: NewMemoryInbox_def)

definition sample_entry :: "string \<Rightarrow> int \<Rightarrow> inbox_entry" where
  "sample_entry a t = \<lparr>ie_alias = a, ie_task_id = [], ie_context = [], ie_state = ''completed'',
     ie_time = t, ie_task = None, ie_message = None, ie_error = []\<rparr>"

lemma inbox_exactly_once_witness:
  "mset (fst (inbox_run mi_put mi_take [PutOp (5, sample_entry ''a'' 0),
       TakeOp (6, \<lparr>po_alias = ''a'', po_length = Some 1, po_latest = False\<rparr>)] (NewMemoryInbox 0)))
     + mset (mi_entries (snd (inbox_run mi_put mi_take [PutOp (5, sample_entry ''a'' 0),
       TakeOp (6, \<lparr>po_alias = ''a'', po_length = Some 1, po_latest = False\<rparr>)] (NewMemoryInbox 0))))
   = {#sample_entry ''a'' 5#}"
  using inbox_exactly_once [of 0 "[PutOp (5, sample_entry ''a'' 0),
       TakeOp (6, \<lparr>po_alias = ''a'', po_length = Some 1, po_latest = False\<rparr>)]"]
  by (simp add: stamp_entry_def sample_entry_def)

text \<open>
  C20: A pop of at most \<open>n\<close> entries of an alias returns the oldest \<open>n\<close> live ones in order of
  arrival, leaves the later ones and the entries of other aliases in their order, and keeps an
  inbox that was in order of time in order of time.
\<close>

theorem pop_fifo:
  assumes "ib_sorted m" "0 \<le> n"
  shows "\<exists>m'. ib_Pop now \<lparr>po_alias = a, po_length = Some n, po_latest = False\<rparr> m
        = (Return (take (nat n) (from_alias a (ib_prune now m))), m') \<and>
      from_alias a m' = drop (nat n) (from_alias a (ib_prune now m)) \<and>
      from_others a m' = from_others a (ib_prune now m) \<and> ib_sorted m'"
proof -
  let ?m = "ib_prune now m" and ?o = "\<lparr>po_alias = a, po_length = Some n, po_latest = False\<rparr>"
  let ?kept = "drop (nat n) (from_alias a ?m)"
  have pop: "ib_Pop now ?o m = (Return (take (nat n) (from_alias a ?m)),
      ?m\<lparr>mi_entries := merge_entries (from_others a ?m) ?kept\<rparr>)"
    using pop_length [of ?o n now m] assms(2) by simp
  have rs: "list_all (\<lambda>e. \<not> ie_alias e = a) (from_others a ?m)" and ks: "list_all (\<lambda>e. ie_alias e = a) ?kept"
    by (auto simp: list_all_iff from_others_def from_alias_def dest: in_set_dropD)
  have "ib_sorted (snd (ib_Pop now ?o m))" using assms(1) by (rule sorted_pop)
  with pop merge_filter_kept [OF rs ks] merge_filter_remaining [OF rs ks] show ?thesis
    by (simp add: from_alias_def from_others_def)
qed

lemma pop_fifo_witness:
  "\<exists>m'. ib_Pop 9 \<lparr>po_alias = ''a'', po_length = Some 1, po_latest = False\<rparr>
       \<lparr>mi_entries = [sample_entry ''a'' 1, sample_entry ''b'' 2, sample_entry ''a'' 3], mi_ttl = 0\<rparr>
     = (Return [sample_entry ''a'' 1], m')"
  using pop_fifo [of "\<lparr>mi_entries = [sample_entry ''a'' 1, sample_entry ''b'' 2, sample_entry ''a'' 3],
      mi_ttl = 0\<rparr>" 1 9 "''a''"]
  by (auto simp: ib_sorted_def sample_entry_def from_alias_def ib_prune_def)

text \<open>
  A pop panics exactly when the length is negative, the latest entry is not asked for and the
  alias has a live entry; the tool passes the length of its input on unchecked.
\<close>

lemma pop_panics_iff:
  "returns (fst (ib_Pop now opts m)) \<longleftrightarrow>
     po_latest opts \<or> (case po_length opts of None \<Rightarrow> True | Some n \<Rightarrow> 0 \<le> n)
     \<or> from_alias (po_alias opts) (ib_prune now m) = []"
  by (auto simp: ib_Pop_def from_alias_def Let_def split: option.splits)

section \<open>Health\<close>

text \<open>
  C21: After any history of successes, failures and resets of any agents, an agent that was connected
  is reported unhealthy exactly when its failures since its last success or reset have reached the
  threshold.
\<close>

theorem unhealthy_iff_failures:
  assumes "0 < threshold"
  shows "ht_IsHealthy (fold ht_event evs (ht_Reset a (NewHealthTracker threshold))) a
     \<longleftrightarrow> int (trailing_failures a evs) < threshold"
proof -
  have "ht_count (ht_Reset a (NewHealthTracker threshold)) a = Some 0"
    using assms by (simp add: ht_count_def ht_Reset_def NewHealthTracker_def)
  moreover have "ht_inv (ht_Reset a (NewHealthTracker threshold))" using assms by (simp add: wf_intros)
  ultimately show ?thesis
    using tracker.unhealthy_after [of "ht_Reset a (NewHealthTracker threshold)" a evs] assms
    unfolding ht_event_def [abs_def, symmetric] by (auto simp: NewHealthTracker_def)
qed

lemma unhealthy_iff_failures_witness:
  "\<not> ht_IsHealthy (fold ht_event [Succeeded ''a'', Failed ''a'', Succeeded ''b'', Failed ''a'']
       (ht_Reset ''a'' (NewHealthTracker 2))) ''a''"
  using unhealthy_iff_failures [of 2 "[Succeeded ''a'', Failed ''a'', Succeeded ''b'', Failed ''a'']" "''a''"]
  by (simp add: trailing_failures_def)

section \<open>History\<close>

text \<open>
  C22: The memory backend holds for each alias exactly the last \<open>depth\<close> entries appended to it since
  its last clear, in order, whatever happens to other aliases in between; \<open>Append\<close> never fails.
\<close>

theorem memory_history_bounded:
  assumes "0 < depth"
  shows "mb_List (fold mb_step ops (NewMemoryBackend depth)) a
       = Inr (take_last (nat depth) (appended a ops []))"
proof -
  have keep: "(\<lambda>x. case x of AppendOp j e \<Rightarrow> AppendOp j e | WipeOp j \<Rightarrow> WipeOp j) = (\<lambda>x. x)"
    by (rule ext) (simp split: hist_op.split)
  have "mb_inv (NewMemoryBackend depth)" using assms by (simp add: wf_intros)
  from memory_history.run_entries [OF this, where k = a and ops = ops and acc = "[]", folded mb_step_def] show ?thesis
    by (simp add: keep mb_List_def take_last_def) (simp add: mb_get_def NewMemoryBackend_def)
qed

definition sample_hist :: "string \<Rightarrow> hist_entry" where
  "sample_hist s = \<lparr>he_time = [], he_sent = s, he_response = [], he_context = [], he_task = [], he_error = False\<rparr>"

lemma memory_history_bounded_witness:
  "mb_List (fold mb_step
      [AppendOp ''a'' (sample_hist ''1''), AppendOp ''b'' (sample_hist ''2''), AppendOp ''a'' (sample_hist ''3''),
       AppendOp ''a'' (sample_hist ''4'')] (NewMemoryBackend 2)) ''a''
     = Inr [sample_hist ''3'', sample_hist ''4'']"
  using memory_history_bounded [of 2 "[AppendOp ''a'' (sample_hist ''1''), AppendOp ''b'' (sample_hist ''2''),
      AppendOp ''a'' (sample_hist ''3''), AppendOp ''a'' (sample_hist ''4'')]" "''a''"]
  by (simp add: take_last_def)

text \<open>
  C23: On a file system that does not fail, the file backend holds the same: the last \<open>depth\<close> entries
  appended to an alias since its last clear, in UTF-8.
\<close>

theorem file_history_bounded:
  assumes "NewFileBackend dir depth = Inr f" "CHR ''/'' \<notin> set a" "list_all (\<lambda>x. CHR ''/'' \<notin> set (op_key x)) ops"
  shows "fb_List no_faults f a (fold (fb_step f) ops [])
       = Inr (take_last (nat depth) (map normal_entry (appended a ops [])))"
proof -
  have f: "fb_depth f = depth" "1 \<le> depth"
    using assms(1) by (auto simp: NewFileBackend_def split: if_splits)
  then have good: "fs_good (f, [])" by (simp add: fs_good_def)
  have all: "\<forall>x \<in> set ops. CHR ''/'' \<notin> set (op_key x)" using assms(3) by (simp add: list_all_iff)
  from fs_read [OF fs_good_run [OF good assms(3)] assms(2)] show ?thesis
    using file_history.run_entries [OF good assms(2) all, of "[]"] appended_map [of a normal_entry ops "[]"] f
    by (simp add: fb_run fb_List_def take_last_def) (simp add: fs_entries_def)
qed

lemma file_history_bounded_witness:
  "fb_List no_faults \<lparr>fb_dir = ''/h'', fb_depth = 1\<rparr> ''a'' (fold (fb_step \<lparr>fb_dir = ''/h'', fb_depth = 1\<rparr>)
       [AppendOp ''a'' (sample_hist ''1''), WipeOp ''b'', AppendOp ''a'' (sample_hist ''2'')] [])
     = Inr [normal_entry (sample_hist ''2'')]"
  using file_history_bounded [of "''/h''" 1 "\<lparr>fb_dir = ''/h'', fb_depth = 1\<rparr>" "''a''"
      "[AppendOp ''a'' (sample_hist ''1''), WipeOp ''b'', AppendOp ''a'' (sample_hist ''2'')]"]
  by (simp add: NewFileBackend_def take_last_def)

text \<open>
  C35: The history file of a valid alias lies directly in the history directory, and different
  aliases have different files.
\<close>

theorem history_file_of_alias:
  assumes "validate_Alias a = None" "validate_Alias b = None"
  shows "aliasPath f a = (fst (clean_path (fb_dir f)), snd (clean_path (fb_dir f)) @ [a @ ''.json''])
    \<and> (aliasPath f a = aliasPath f b \<longleftrightarrow> a = b)"
  using assms by (auto simp: aliasPath_plain valid_alias_no_slash)

lemma history_file_of_alias_witness:
  "aliasPath \<lparr>fb_dir = ''/var//h/'', fb_depth = 5\<rparr> ''a-1''
     = (True, [''var'', ''h'', ''a-1.json''])"
  using history_file_of_alias [of "''a-1''" "''b''" "\<lparr>fb_dir = ''/var//h/'', fb_depth = 5\<rparr>"]
  by (simp add: validate_Alias_None isValidAliasChar_def byte_def clean_path_def has_prefix_def)


section \<open>Recorded texts\<close>

text \<open>
  A recorded text is cut at \<open>maxLen\<close> runes and then marked with one more, so it has up to
  \<open>maxLen + 1\<close> of them; a text that is short enough is kept, and cutting twice changes nothing.
\<close>

lemma truncate_bound:
  assumes "0 < n"
  shows "int (length (runes (truncateText t n))) = min (int (length (runes t))) (n + 1)
    \<and> truncateText (truncateText t n) n = truncateText t n"
  using assms by (simp add: truncate_length truncate_idem)

lemma truncate_bound_witness: "int (length (runes (truncateText ''hello'' 3))) = 4"
  using truncate_bound [of 3 "''hello''"] by code_simp

section \<open>Registry and identifiers\<close>

text \<open>
  Listing the agents gives every registered one once, in order of alias, and depends on what is
  registered only: two registries with the same lookups list the same, in whatever order their maps
  are visited.
\<close>

lemma registry_list_canonical:
  assumes "reg_inv r" "reg_inv r'" "reg_Lookup r = reg_Lookup r'"
  shows "reg_List r = reg_List r' \<and> sorted (map ra_alias (reg_List r)) \<and> distinct (map ra_alias (reg_List r)) \<and>
    (e \<in> set (reg_List r) \<longleftrightarrow> reg_Lookup r (ra_alias e) = Some e)"
  using reg_List_canonical [OF assms] reg_List_sorted [of r] reg_List_distinct [OF assms(1)]
    reg_List_set [OF assms(1)] by blast

definition sample_agent :: "string \<Rightarrow> registered_agent" where
  "sample_agent a = \<lparr>ra_alias = a, ra_url = ''http://h'', ra_headers = [(''X-Key'', ''1'')], ra_card = None, ra_ping = []\<rparr>"

lemma registry_list_canonical_witness:
  "reg_List [(''b'', sample_agent ''b''), (''a'', sample_agent ''a'')]
     = reg_List [(''a'', sample_agent ''a''), (''b'', sample_agent ''b'')]"
  by (rule conjunct1 [OF registry_list_canonical])
    (auto simp: reg_inv_def gm_wf_def sample_agent_def reg_Lookup_def fun_eq_iff split: if_splits)

section \<open>Headers and clients\<close>

text \<open>
  Whatever headers an agent is registered with, and however the header providers of a client are
  nested, \<open>Content-Type\<close> and \<open>Accept\<close> of a request stay as they are, in any capitalisation.
\<close>

lemma reserved_headers_kept:
  assumes "isProtocolHeader k"
  shows "map_of (client_headers reg c req) k = map_of req k"
  using assms by (rule client_keeps_protocol)

lemma reserved_headers_kept_witness:
  "map_of (client_headers [(''a'', (sample_agent ''a'')\<lparr>ra_headers := [(''accept'', ''x'')]\<rparr>)]
     (ProviderClient BaseClient (LiveHeaders ''a'')) [(''Accept'', ''json'')]) ''Accept'' = Some ''json''"
  using reserved_headers_kept [of "''Accept''"]
  by (simp add: isProtocolHeader_def equal_fold_def del: client_headers.simps)

text \<open>
  A client that was built for an alias with headers sends, on every later request, the headers
  that the registry holds for the alias at that time, each under its canonical name, not the headers
  it was built with.
\<close>

lemma live_headers_sent:
  assumes "ResolveAgent r a = Inr res" "rr_is_alias res" "rr_headers res \<noteq> []"
    "cr_Resolve cf r res (cr_Evict (rr_url res) cl) = (Inr c, cl')"
    "reg_Lookup r' a = Some e" "distinct (map (canonical_key \<circ> fst) (ra_headers e))"
    "(k, v) \<in> set (ra_headers e)" "\<not> isProtocolHeader k"
  shows "map_of (client_headers r' (client_http c) req) (canonical_key k) = Some v"
proof -
  have "rr_alias res = a" using resolve_agent_alias [OF assms(1,2)] by simp
  then have "client_http c = ProviderClient BaseClient (LiveHeaders a)"
    using resolve_after_evict [OF assms(4)] assms(2,3)
    by (simp add: cr_httpClientForResolved_def HTTPClientWithHeaderProvider_def)
  with inject_delivers [OF assms(6,7,8)] show ?thesis by (simp only: live_provider [OF assms(5)])
qed

definition open_factory :: client_factory where
  "open_factory = \<lparr>cf_from_card = (\<lambda>_ _. None), cf_from_endpoint = (\<lambda>_. None)\<rparr>"

lemma live_headers_sent_witness:
  "map_of (client_headers [(''a'', (sample_agent ''a'')\<lparr>ra_headers := [(''X-Key'', ''2'')]\<rparr>)]
     (HTTPClientWithHeaderProvider BaseClient (LiveHeaders ''a'')) []) ''X-Key'' = Some ''2''"
  using live_headers_sent [of "[(''a'', sample_agent ''a'')]" "''a''"
      "\<lparr>rr_url = ''http://h'', rr_headers = [(''X-Key'', ''1'')], rr_is_alias = True, rr_alias = ''a''\<rparr>"
      open_factory "[]" "ClientFromEndpoint ''http://h'' (HTTPClientWithHeaderProvider BaseClient (LiveHeaders ''a''))"
      "[(''http://h'', ClientFromEndpoint ''http://h'' (HTTPClientWithHeaderProvider BaseClient (LiveHeaders ''a'')))]"
      "[(''a'', (sample_agent ''a'')\<lparr>ra_headers := [(''X-Key'', ''2'')]\<rparr>)]"
      "(sample_agent ''a'')\<lparr>ra_headers := [(''X-Key'', ''2'')]\<rparr>" "''X-Key''" "''2''" "[]"]
  by (simp add: ResolveAgent_def reg_Lookup_def sample_agent_def cr_Resolve_def cr_Evict_def cr_findCard_def
      reg_List_def cr_createClient_def endpoint_client_def open_factory_def cr_httpClientForResolved_def
      isProtocolHeader_def equal_fold_def ascii_lower_def canonical_key_def token_char_def is_alpha_def
      ascii_upper_def byte_def)

text \<open>
  C37: The cache is keyed by URL alone: once a message to a raw URL has built a client, an alias
  registered later with the same URL and with headers is given that client, and its requests carry
  none of the headers.
\<close>

theorem cached_client_without_headers:
  assumes "ResolveAgent r url = Inr raw" "\<not> rr_is_alias raw" "map_of cl url = None"
    "cr_Resolve cf r raw cl = (Inr c, cl')"
    "ResolveAgent r' a = Inr res" "rr_is_alias res" "rr_url res = url"
  shows "cr_Resolve cf' r' res cl' = (Inr c, cl') \<and> client_headers r' (client_http c) [] = []"
proof -
  from resolve_agent_url [OF assms(1,2)] have raw: "rr_url raw = url" "rr_headers raw = []" by auto
  with assms(3,4) have "client_http c = BaseClient"
    by (auto simp: cr_Resolve_def cr_httpClientForResolved_def split: sum.splits dest: create_http)
  moreover have "cr_Resolve cf' r' res cl' = (Inr c, cl')"
    using resolve_shared [OF assms(4), of res] assms(7) raw by simp
  ultimately show ?thesis by simp
qed

lemma cached_client_without_headers_witness:
  "client_headers [(''a'', sample_agent ''a'')]
     (client_http (ClientFromEndpoint ''http://h'' BaseClient)) [] = []"
  using cached_client_without_headers [of "[]" "''http://h''"
      "\<lparr>rr_url = ''http://h'', rr_headers = [], rr_is_alias = False, rr_alias = []\<rparr>" "[]" open_factory
      "ClientFromEndpoint ''http://h'' BaseClient" "[(''http://h'', ClientFromEndpoint ''http://h'' BaseClient)]"
      "[(''a'', sample_agent ''a'')]" "''a''"
      "\<lparr>rr_url = ''http://h'', rr_headers = [(''X-Key'', ''1'')], rr_is_alias = True, rr_alias = ''a''\<rparr>"]
  by (simp add: ResolveAgent_def reg_Lookup_def sample_agent_def cr_Resolve_def cr_createClient_def
      endpoint_client_def open_factory_def cr_httpClientForResolved_def url_eval)

section \<open>Messages\<close>

text \<open>
  The parts of a message are accepted exactly when each sets one field and its binary data
  decodes, or when there are none and there is a text; they are then sent one for one, in order.
\<close>

lemma message_parts_accepted:
  "buildMessageParts msg ps = Inr r \<longleftrightarrow>
     (if ps = [] then msg \<noteq> [] \<and> r = [text_part msg]
      else list_all part_valid ps \<and> r = map (Some \<circ> part_content_of) ps)"
proof (cases "ps = []")
  case False
  then show ?thesis
    using build_parts_ok_iff [of msg ps] build_parts_valid [of ps msg]
    by (cases "list_all part_valid ps") auto
qed (auto simp: buildMessageParts_def)

text \<open>
  The caller card goes into the metadata of a request under its key, the default one when none
  was given, unless the request has that key already; every other key keeps its value.
\<close>

lemma caller_card_injected:
  "meta_lookup (InjectCallerCard (cc_Set c k s) md) j =
     (if j = (if k = [] then ''caller_agent_card'' else k) \<and> meta_lookup md j = None
      then Some (MetaCard c) else meta_lookup md j)"
  using inject_lookup [of "cc_Set c k s" c md j]
  by (cases "k = []") (auto simp: cc_Set_def defaultCallerCardKey_def)

section \<open>Directory\<close>


definition sample_card :: "string \<Rightarrow> agent_card" where
  "sample_card n = \<lparr>ac_name = n, ac_description = [], ac_version = [], ac_interfaces = [], ac_input_modes = [],
     ac_output_modes = [], ac_streaming = False, ac_skills = []\<rparr>"

definition no_registry :: "unit registry_ops" where
  "no_registry = \<lparr>rg_register = (\<lambda>_ r. (None, r)), rg_unregister = (\<lambda>_ r. (Inr False, r)), rg_list = (\<lambda>_. Inr []),
     rg_filter = None, rg_query = None, rg_help = None\<rparr>"

definition two_cards :: "unit directory" where
  "two_cards = \<lparr>dy_registry = MemoryReg [(''a'', sample_card ''a''), (''b'', sample_card ''b'')], dy_resolver = DefaultResolver\<rparr>"


text \<open>
  The cursors the directory hands out are the offsets it reads back.
\<close>

lemma cursor_round_trip:
  assumes "0 \<le> n" "in_int64 n"
  shows "decodeCursor (encodeCursor n) = Inr n"
  using assms by (rule decode_encode_cursor)

text \<open>
  The handler answers with a result exactly when the status is 200, and with no status other than
  200, 400, 405 and 500; a method other than \<open>GET\<close> is always refused.
\<close>

lemma directory_statuses:
  "ds_status (ServeHTTP ops ulow visit d r) \<in> {200, 400, 405, 500} \<and>
   (ds_status (ServeHTTP ops ulow visit d r) = 405 \<longleftrightarrow> dq_method r \<noteq> ''GET'') \<and>
   (ds_status (ServeHTTP ops ulow visit d r) = 200 \<longleftrightarrow>
     (\<exists>q. ds_body (ServeHTTP ops ulow visit d r) = ResultBody q))"
proof -
  have "ds_status (ServeHTTP ops ulow visit d r) = 405 \<longleftrightarrow> dq_method r \<noteq> ''GET''"
    by (auto simp: ServeHTTP_def help_response_def query_response_def list_response_def Let_def
        error_response_def ok_response_def split: option.splits sum.splits prod.splits)
  then show ?thesis using serve_status [of ops ulow visit d r] serve_ok_iff_result [of ops ulow visit d r] by simp
qed

end
