(* ===== verification/SendProperties.thy ===== *)
theory SendProperties
  imports SendFacts StoreProperties
begin

text \<open>
  The properties of \<open>send_message\<close>: polling, the context of a conversation, rate limits, the retry on
  an authentication error, the health and history it records, and the asynchronous form.
\<close>

section \<open>Polling\<close>

text \<open>What a round of polling without a deadline and cancellation comes to.\<close>

definition round_ends :: "goerr + a2a_task \<Rightarrow> bool" where
  "round_ends v = (case v of Inl _ \<Rightarrow> True | Inr t \<Rightarrow> poll_stops (st_state (tk_status t)))"

definition poll_round :: "'l ext \<Rightarrow> a2a_client \<Rightarrow> string \<Rightarrow> 'l gw \<Rightarrow> nat \<Rightarrow> goerr + a2a_task" where
  "poll_round x c tid g k = x_get_task x (g_tick g + 2 * k + 1) c (wire_headers g c) tid"

lemma wire_headers_tick [simp]: "wire_headers (g\<lparr>g_tick := k\<rparr>) c = wire_headers g c"
  by (simp add: wire_headers_def)

lemma poll_loop_unfold:
  "poll_loop x False c tid to None lt g =
     (if round_ends (poll_round x c tid g 0)
      then Some (case poll_round x c tid g 0 of
          Inl e \<Rightarrow> (Inl (lt, errors_new (''failed to poll task status: '' @ err_text e)), tick (tick g))
        | Inr t \<Rightarrow> (Inr t, tick (tick g)))
      else (case poll_round x c tid g 0 of
          Inl _ \<Rightarrow> None | Inr t \<Rightarrow> poll_loop x False c tid to None (Some t) (tick (tick g))))"
  by (subst poll_loop.simps)
    (simp add: call_get_task_def poll_round_def round_ends_def wire_headers_def split: sum.split)

lemma poll_round_shift: "poll_round x c tid (tick (tick g)) k = poll_round x c tid g (Suc k)"
  by (simp add: poll_round_def tick_def wire_headers_def add.commute)

lemma poll_loop_reaches:
  "round_ends (poll_round x c tid g k) \<Longrightarrow> \<exists>r. poll_loop x False c tid to None lt g = Some r"
proof (induction k arbitrary: g lt)
  case (Suc k)
  then have "\<exists>r. poll_loop x False c tid to None l (tick (tick g)) = Some r" for l
    by (simp add: poll_round_shift)
  then show ?case
    by (subst poll_loop_unfold) (auto simp: round_ends_def split: sum.split)
qed (subst poll_loop_unfold, simp)

lemma poll_stuck:
  assumes "\<And>k. \<not> round_ends (poll_round x c tid g k)"
  shows "poll_loop x False c tid to None lt g = None"
proof (rule ccontr)
  assume "poll_loop x False c tid to None lt g \<noteq> None"
  then obtain r where r: "poll_loop x False c tid to None lt g = Some r" by blast
  have "\<not> (\<not> canc \<and> d = None \<and> (\<forall>k. \<not> round_ends (poll_round x c tid g k)))"
    if "poll_loop x canc c tid to d lt g = Some r" for canc d lt g r
  proof (rule poll_loop_induct [OF _ that, where P = "\<lambda>x canc c tid to d lt g r.
      \<not> (\<not> canc \<and> d = None \<and> (\<forall>k. \<not> round_ends (poll_round x c tid g k)))"])
    fix pl :: "'l ext \<Rightarrow> bool \<Rightarrow> a2a_client \<Rightarrow> string \<Rightarrow> int \<Rightarrow> int option \<Rightarrow> a2a_task option \<Rightarrow> 'l gw
      \<Rightarrow> ((a2a_task option \<times> goerr + a2a_task) \<times> 'l gw) option"
      and x :: "'l ext" and canc c tid to d lt and g :: "'l gw" and r
    let ?stuck = "\<lambda>x canc c tid d g. \<not> canc \<and> d = (None :: int option) \<and> (\<forall>k. \<not> round_ends (poll_round x c tid g k))"
    assume IH: "\<And>x canc c tid to d lt g r. pl x canc c tid to d lt g = Some r \<Longrightarrow> \<not> ?stuck x canc c tid d g"
    assume step: "(if canc \<and> x_cancelled x (g_tick g)
      then Some (Inl (lt, errors_new ''timeout waiting for task completion: context canceled''), g)
      else if (case d of None \<Rightarrow> False | Some dd \<Rightarrow> x_now x (g_tick g) > dd)
      then Some (Inl (lt, errors_new (''timeout waiting for task completion after '' @ duration_text to)), tick g)
      else (case call_get_task x c tid (tick g) of
          (Inl e, g1) \<Rightarrow> Some (Inl (lt, errors_new (''failed to poll task status: '' @ err_text e)), g1)
        | (Inr task, g1) \<Rightarrow>
            if poll_stops (st_state (tk_status task)) then Some (Inr task, g1)
            else pl x canc c tid to d (Some task) g1)) = Some r"
    show "\<not> ?stuck x canc c tid d g"
    proof
      assume a: "?stuck x canc c tid d g"
      then have "\<not> round_ends (poll_round x c tid g 0)" by blast
      then obtain t where "poll_round x c tid g 0 = Inr t" "\<not> poll_stops (st_state (tk_status t))"
        by (auto simp: round_ends_def split: sum.splits)
      with step a have "pl x canc c tid to d (Some t) (tick (tick g)) = Some r"
        by (simp add: call_get_task_def poll_round_def wire_headers_def)
      from IH [OF this] a show False by (simp add: poll_round_shift)
    qed
  qed
  from this [OF r] assms show False by blast
qed

text \<open>
  C25: Without a deadline and a cancellation, polling returns exactly when some round brings an error
  or a task that is completed, failed, canceled or interrupted. A task the agent has rejected is
  not among them: it is polled for ever.
\<close>

theorem poll_returns_iff:
  "((\<exists>r. pollTaskCompletion x False c tid 0 g = Some r) \<longleftrightarrow> (\<exists>k. round_ends (poll_round x c tid g k)))
   \<and> \<not> poll_stops TS_Rejected"
proof -
  have "poll_loop x False c tid 0 None None g \<noteq> None \<longleftrightarrow> (\<exists>k. round_ends (poll_round x c tid g k))"
    using poll_loop_reaches [of x c tid g _ 0 None] poll_stuck [of x c tid g 0 None]
    by (metis option.distinct(1))
  then show ?thesis by (simp add: pollTaskCompletion_def poll_stops_def del: split_paired_Ex)
qed

text \<open>
  With a positive timeout polling always returns, whatever the agent answers, as long as the clock
  advances between two calls; and polling changes nothing but the number of calls made.
\<close>

lemma poll_timeout_returns:
  assumes "\<And>t. x_now x t < x_now x (Suc t)" "0 < timeout"
  shows "\<exists>v k. pollTaskCompletion x canc c tid timeout g = Some (v, g\<lparr>g_tick := k\<rparr>)"
proof -
  obtain r where r: "pollTaskCompletion x canc c tid timeout g = Some r"
    using poll_terminates [OF assms] by blast
  from poll_result [OF r] r show ?thesis by (cases r) auto
qed

text \<open>
  A sample world: the clock counts calls, the agent answers every message with \<open>answer\<close> and every
  poll with a completed task.
\<close>

definition done_task :: a2a_task where
  "done_task = \<lparr>tk_id = ''t1'', tk_context = ''ctx'', tk_status = zero_status\<lparr>st_state := TS_Completed\<rparr>, tk_artifacts = []\<rparr>"

definition sample_world :: "(goerr + send_result) \<Rightarrow> nat ext" where
  "sample_world answer = \<lparr>x_now = int, x_send = (\<lambda>_ _ _ _ _. answer), x_stream = (\<lambda>_ _ _ _ _. ([], False)),
     x_get_task = (\<lambda>_ _ _ _. Inr done_task), x_cancel_task = (\<lambda>_ _ _ _. None),
     x_http = (\<lambda>_ _ _. HttpResponse 404 (Inr [])), x_cancelled = (\<lambda>_. False), x_schedule = (\<lambda>_ as. as),
     x_zone = 0, x_fs = (\<lambda>_. no_faults), x_factory = open_factory,
     x_limiter = \<lparr>lo_new = (\<lambda>_ n. nat n), lo_allow = (\<lambda>_ n. (0 < n, n - 1)),
       lo_reserve = (\<lambda>_ n. ((\<lambda>_. if 0 < n then 0 else 1000), n - 1)), lo_cancel = (\<lambda>_ _ n. n),
       lo_limit = (\<lambda>_. Fin 1), lo_burst = int\<rparr>,
     x_parse_card = (\<lambda>_. None), x_parse_output = (\<lambda>_. Inl (errors_new [])),
     x_query = (\<lambda>_ _ _ _. HttpResponse 404 (Inr [])), x_json_valid = (\<lambda>_. False),
     x_parse_query = (\<lambda>_. Inl (errors_new []))\<rparr>"

definition sample_gw :: "nat gw" where
  "sample_gw = \<lparr>g_registry = [(''a'', sample_agent ''a'')], g_health = ht_Reset ''a'' (NewHealthTracker 1),
     g_limiters = [], g_history = \<lparr>hb_backend = Some (MemoryB (NewMemoryBackend 5)), hb_files = []\<rparr>,
     g_clients = [], g_card = NewCallerCardStore, g_contexts = [], g_inbox = NewMemoryInbox 0, g_jobs = [],
     g_tick = 0\<rparr>"

definition sample_env :: tool_env where
  "sample_env = \<lparr>te_recorder = \<lparr>rec_enabled = True, rec_max = 10\<rparr>, te_poll = (\<lambda>_. 60), te_stream = (\<lambda>_. 60),
     te_default_rate = \<lparr>rl_rps = Fin 0, rl_burst = 0\<rparr>, te_ping = None, te_dir_url = [], te_dir_err = None,
     te_directory = None\<rparr>"

definition sample_send :: send_input where
  "sample_send = \<lparr>si_agent = ''a'', si_message = ''hi'', si_parts = [], si_context = [], si_task = [],
     si_metadata = None, si_poll = None, si_async = None\<rparr>"

section \<open>Conversations\<close>

lemma finish_reply:
  "finish r reply = (Reply cr out err, g) \<Longrightarrow> reply = Reply cr out err \<and> g = snd r"
  by (auto simp: finish_def split: prod.splits outcome.splits)

lemma send_history_contexts [simp]:
  "g_contexts (snd (send_recordHistory x env i res out g)) = g_contexts g"
  by (simp add: send_recordHistory_def gw_frames)

lemma record_success_contexts [simp]: "g_contexts (record_success r g) = g_contexts g"
  by (simp add: record_success_def gw_frames)

lemma ctx_get_store:
  "rr_is_alias r \<Longrightarrow> tk_context t \<noteq> [] \<Longrightarrow> ctx_Get (g_contexts (store_context r a t g)) a = tk_context t"
  by (simp add: store_context_def env_SetContext_def ctx_get_set)

lemma polled_reply_ok:
  "polled_reply t = Reply cr (Some out) None \<Longrightarrow> so_task out = Some t"
  by (auto simp: polled_reply_def gives_def task_output_def formatTaskResponse_def
      formatInputRequiredResponse_def formatInterruptedResponse_def split: task_state.splits)

lemma task_result_context:
  assumes "handleTaskResult x c t r a to g = (Reply cr (Some out) None, g')" "rr_is_alias r"
    "extractResponseContextID (Some out) \<noteq> []"
  shows "ctx_Get (g_contexts g') a = extractResponseContextID (Some out)"
  using assms
  by (auto simp: handleTaskResult_def poll_task_result_def gives_def fails_with_def formatTaskResponse_def
      formatInputRequiredResponse_def formatInterruptedResponse_def task_output_def
      extractResponseContextID_def ctx_get_store dest!: polled_reply_ok
      split: task_state.splits if_splits option.splits prod.splits sum.splits)

lemma process_context:
  assumes "processResponse x env i sr resp g = (Reply cr (Some out) None, g')" "rr_is_alias (pq_resolved sr)"
    "extractResponseContextID (Some out) \<noteq> []"
  shows "ctx_Get (g_contexts g') (si_agent i) = extractResponseContextID (Some out)"
  using assms task_result_context
  by (auto simp: processResponse_def Let_def gives_def fails_with_def formatMessageResponse_def
      env_SetContext_def ctx_get_set extractResponseContextID_def dest!: finish_reply
      split: send_result.splits prod.splits reply.splits) 

lemma stream_outcome_context:
  "stream_outcome r s = (out, ctx) \<Longrightarrow> extractResponseContextID (Some out) \<noteq> [] \<Longrightarrow>
     ctx = extractResponseContextID (Some out)"
  by (cases r) (auto simp: stream_outcome_def formatStreamTask_def formatTaskResponse_def
      formatInputRequiredResponse_def formatInterruptedResponse_def task_output_def
      formatMessageResponse_def extractResponseContextID_def split: if_splits task_state.splits)

lemma streaming_context:
  assumes "handleStreamingMessage x p c rq r a t g = (Reply cr (Some out) None, g')" "rr_is_alias r"
    "extractResponseContextID (Some out) \<noteq> []"
  shows "ctx_Get (g_contexts g') a = extractResponseContextID (Some out)"
  using assms stream_outcome_context
  by (fastforce simp: handleStreamingMessage_def env_SetContext_def ctx_get_set
      split: prod.splits option.splits sum.splits if_splits)

lemma resolve_registered: "reg_Lookup r a \<noteq> None \<Longrightarrow> ResolveAgent r a = Inr res \<Longrightarrow> rr_is_alias res"
  by (auto simp: ResolveAgent_def)

lemma send_stores_context:
  assumes "send_Handle x env p i g = (Reply cr (Some out) None, g')" "so_async out = None"
    "reg_Lookup (g_registry g) (si_agent i) \<noteq> None" "extractResponseContextID (Some out) \<noteq> []"
  shows "ctx_Get (g_contexts g') (si_agent i) = extractResponseContextID (Some out)"
proof -
  obtain sr g1 where b: "buildSendRequest x i g = (Inr sr, g1)"
    using assms(1) by (auto simp: send_Handle_def fails_with_def split: sum.splits prod.splits)
  have al: "rr_is_alias (pq_resolved sr)" by (rule resolve_registered [OF assms(3) build_resolved [OF b]])
  have sync: "si_async i \<noteq> Some True"
    using assms(1,2) b by (auto simp: send_Handle_def sendAsync_def gives_def)
  show ?thesis
  proof (cases "SupportsStreaming (g_registry g1) (pq_resolved sr)")
    case True
    with assms(1) b sync have "sendViaStreaming x env p i sr g1 = (Reply cr (Some out) None, g')"
      by (simp add: send_Handle_def)
    moreover have "handleStreamingMessage x p c rq r a t h = (Reply res o1 e, h') \<Longrightarrow> e = None" for c rq r a t h h' res o1 e
      using streaming_never_errs [of x p c rq r a t h] by simp
    ultimately show ?thesis
      using streaming_context [OF _ al assms(4)]
      by (fastforce simp: via_streaming dest!: finish_reply split: prod.splits reply.splits)
  next
    case False
    with assms(1) b sync have "sendDirect x env i sr g1 = (Reply cr (Some out) None, g')"
      by (simp add: send_Handle_def)
    then show ?thesis
      using process_context [OF _ al assms(4)]
      by (auto simp: sendDirect_def fails_with_def dest!: finish_reply split: prod.splits sum.splits)
  qed
qed

lemma build_uses_context:
  assumes "buildSendRequest x j g = (Inr sr, g1)" "si_context j = []" "reg_Lookup (g_registry g) (si_agent j) \<noteq> None"
  shows "sq_context (pq_request sr) = ctx_Get (g_contexts g) (si_agent j)"
proof -
  have "env_CheckRateLimit x a g = (v, h) \<Longrightarrow> g_contexts h = g_contexts g" for a v h
    using env_CheckRateLimit_frame(6) [of x a g] by simp
  moreover note resolve_registered [OF assms(3)]
  ultimately show ?thesis
    using assms(1,2)
    by (auto simp: buildSendRequest_def Let_def split: sum.splits prod.splits option.splits if_splits)
qed

text \<open>
  C10: A conversation continues: when a message to a registered agent is answered, streamed or not, with
  a task or message of some context, the next message to that agent that names no context is sent
  in that context.
\<close>

theorem conversation_continues:
  assumes "send_Handle x env p i g = (Reply cr (Some out) None, g')" "so_async out = None"
    "reg_Lookup (g_registry g) (si_agent i) \<noteq> None" "extractResponseContextID (Some out) \<noteq> []"
    "si_agent j = si_agent i" "si_context j = []" "buildSendRequest x' j g' = (Inr sr, g'')"
    "reg_Lookup (g_registry g') (si_agent j) \<noteq> None"
  shows "sq_context (pq_request sr) = extractResponseContextID (Some out)"
  using send_stores_context [OF assms(1-4)] build_uses_context [OF assms(7,6,8)] assms(5) by simp

text \<open>What evaluates a message of the sample world.\<close>

lemmas sample_eval = send_Handle_def buildSendRequest_def buildMessageParts_def ResolveAgent_def
  env_CheckRateLimit_def rl_CheckRateLimit_def env_Resolve_def cr_Resolve_def cr_findCard_def
  cr_httpClientForResolved_def cr_createClient_def endpoint_client_def open_factory_def
  SupportsStreaming_def sendDirect_def resolveClientWithAuthRetry_def call_send_def processResponse_def
  handleTaskResult_def gives_def formatTaskResponse_def store_context_def record_success_def tick_def
  env_success_def env_SetContext_def ctx_Set_def sample_world_def sample_gw_def sample_send_def sample_agent_def sample_env_def
  reg_Lookup_def reg_List_def InjectCallerCard_def NewCallerCardStore_def ctx_Get_def

lemmas sample_record = finish_def send_recordHistory_def env_record_def hist_Record_def be_Append_def
  NewMemoryBackend_def mb_Append_def mb_get_def task_output_def

lemma sample_sent:
  "\<exists>g'. send_Handle (sample_world (Inr (ResTask done_task))) sample_env False sample_send sample_gw
     = (Reply None (Some (task_output done_task)) None, g') \<and> g_registry g' = [(''a'', sample_agent ''a'')] \<and> g_limiters g' = []"
  by (simp add: sample_eval sample_record done_task_def)

lemma conversation_continues_witness:
  "\<exists>g' sr g''. send_Handle (sample_world (Inr (ResTask done_task))) sample_env False sample_send sample_gw
       = (Reply None (Some (task_output done_task)) None, g') \<and>
     buildSendRequest (sample_world (Inr ResOther)) sample_send g' = (Inr sr, g'') \<and>
     sq_context (pq_request sr) = ''ctx''"
proof -
  obtain g' where g': "send_Handle (sample_world (Inr (ResTask done_task))) sample_env False sample_send sample_gw
      = (Reply None (Some (task_output done_task)) None, g')" "g_registry g' = [(''a'', sample_agent ''a'')]"
      "g_limiters g' = []"
    using sample_sent by blast
  obtain sr g'' where "buildSendRequest (sample_world (Inr ResOther)) sample_send g' = (Inr sr, g'')"
    using g'(2,3) by (cases "map_of (g_clients g') ''http://h''") (simp_all add: sample_eval)
  with conversation_continues [OF g'(1) _ _ _ _ _ this] g' show ?thesis
    by (simp add: task_output_def extractResponseContextID_def done_task_def sample_send_def sample_gw_def reg_Lookup_def)
qed

section \<open>Rate limits\<close>

text \<open>
  C28: A message to an agent whose limiter has no token is refused with the limiter's error, and nothing
  happens but the asking: the agent is not called, and no health, history, context, inbox entry or
  client changes.
\<close>

theorem rate_limited_send_refused:
  assumes "reg_Lookup (g_registry g) (si_agent i) \<noteq> None" "si_agent i \<noteq> []"
    "buildMessageParts (si_message i) (si_parts i) = Inr ps" "map_of (g_limiters g) (si_agent i) = Some l"
    "fst (lo_reserve (x_limiter x) (x_now x (g_tick g)) l) (x_now x (g_tick g + 1)) \<noteq> 0"
  shows "\<exists>e ls. send_Handle x env p i g
     = (fails_with (wrap_err ''rate limited: '' e), g\<lparr>g_limiters := ls, g_tick := g_tick g + 4\<rparr>)"
proof -
  have "\<exists>e ls. rl_CheckRateLimit (x_limiter x) (\<lambda>k. x_now x (g_tick g + k)) (si_agent i) (g_limiters g) = (Some e, ls)"
    using assms(4,5) by (auto simp: rl_CheckRateLimit_def split: prod.split)
  then obtain e ls where
    "env_CheckRateLimit x (si_agent i) g = (Some e, g\<lparr>g_limiters := ls, g_tick := g_tick g + 4\<rparr>)"
    by (auto simp: env_CheckRateLimit_def)
  with assms(1-3) have "send_Handle x env p i g
      = (fails_with (wrap_err ''rate limited: '' e), g\<lparr>g_limiters := ls, g_tick := g_tick g + 4\<rparr>)"
    by (auto simp: send_Handle_def buildSendRequest_def ResolveAgent_def)
  then show ?thesis by blast
qed

lemma rate_limited_send_refused_witness:
  "\<exists>e ls. send_Handle (sample_world (Inr ResOther)) sample_env False sample_send
       (sample_gw\<lparr>g_limiters := [(''a'', 0)]\<rparr>)
     = (fails_with (wrap_err ''rate limited: '' e),
        sample_gw\<lparr>g_limiters := ls, g_tick := 4\<rparr>)"
  using rate_limited_send_refused [of "sample_gw\<lparr>g_limiters := [(''a'', 0)]\<rparr>" sample_send "[text_part ''hi'']" 0
      "sample_world (Inr ResOther)" sample_env False]
  by (simp add: sample_gw_def sample_send_def sample_world_def sample_agent_def reg_Lookup_def buildMessageParts_def)

section \<open>Authentication failures\<close>

text \<open>
  C16: After an authentication failure the message is sent exactly once more, through a client built
  anew, whose request carries the headers the registry holds for the agent now.
\<close>

theorem auth_failure_retried:
  assumes "ResolveAgent (g_registry g) a = Inr res" "rr_is_alias res" "rr_headers res \<noteq> []"
    "env_Resolve x res g = (Inr c, g1)"
    "x_send x (g_tick g1) c (wire_headers g1 c) d rq = Inl e" "isAuthError e"
    "env_Resolve x res (env_Evict (rr_url res) (tick g1)) = (Inr c', g2)"
  shows "resolveClientWithAuthRetry x res (\<lambda>c. call_send x c d rq) g
     = (x_send x (Suc (g_tick g)) c' (inject_headers (rr_headers res) []) d rq, tick g2)"
proof -
  have call: "call_send x c d rq g1 = (Inl e, tick g1)" using assms(5) by (simp add: call_send_def)
  note retry = auth_retry_fresh [where fn = "\<lambda>c. call_send x c d rq", OF assms(4) call assms(6,7)]
  obtain ent where ent: "rr_alias res = a" "reg_Lookup (g_registry g) a = Some ent" "rr_headers res = ra_headers ent"
    using resolve_agent_alias [OF assms(1,2)] by blast
  have "client_http c' = ProviderClient BaseClient (LiveHeaders a)"
    using retry assms(2,3) ent by (simp add: cr_httpClientForResolved_def HTTPClientWithHeaderProvider_def)
  moreover have "g_registry g2 = g_registry g" "g_tick g2 = Suc (g_tick g)"
    using env_Resolve_frame(1,9) [of x res g] assms(4)
      env_Resolve_frame(1,9) [of x res "env_Evict (rr_url res) (tick g1)"] assms(7)
    by (simp_all add: gw_frames)
  ultimately have "wire_headers g2 c' = inject_headers (rr_headers res) []" "g_tick g2 = Suc (g_tick g)"
    using ent by (simp_all add: wire_headers_def live_provider del: client_headers.simps)
  with retry show ?thesis by (simp add: call_send_def)
qed

definition auth_world :: "nat ext" where
  "auth_world = (sample_world (Inr ResOther))\<lparr>x_send := (\<lambda>t _ h _ _. if t = 0 then Inl \<lparr>err_text = ''401'', err_chain = [Unauthenticated]\<rparr> else Inr ResOther)\<rparr>"

definition stale_client :: a2a_client where
  "stale_client = ClientFromEndpoint ''http://h'' BaseClient"

definition sample_request :: send_request where
  "sample_request = \<lparr>sq_parts = [text_part ''hi''], sq_context = [], sq_task = [], sq_metadata = None\<rparr>"

lemma auth_failure_retried_witness:
  "fst (resolveClientWithAuthRetry auth_world
     \<lparr>rr_url = ''http://h'', rr_headers = [(''X-Key'', ''1'')], rr_is_alias = True, rr_alias = ''a''\<rparr>
     (\<lambda>c. call_send auth_world c 0 sample_request) (sample_gw\<lparr>g_clients := [(''http://h'', stale_client)]\<rparr>)) = Inr ResOther"
proof -
  let ?res = "\<lparr>rr_url = ''http://h'', rr_headers = [(''X-Key'', ''1'')], rr_is_alias = True, rr_alias = ''a''\<rparr>"
  let ?g = "sample_gw\<lparr>g_clients := [(''http://h'', stale_client)]\<rparr>"
  obtain c' g2 where "env_Resolve auth_world ?res (env_Evict ''http://h'' (tick ?g)) = (Inr c', g2)"
    by (simp add: auth_world_def env_Evict_def cr_Evict_def sample_eval)
  then show ?thesis
    using auth_failure_retried [of ?g "''a''" ?res auth_world stale_client ?g 0 sample_request
        "\<lparr>err_text = ''401'', err_chain = [Unauthenticated]\<rparr>" c' g2]
    by (simp add: auth_world_def isAuthError_def err_is_def stale_client_def sample_eval)
qed

section \<open>What a message records\<close>

lemma finish_state [simp]: "snd (finish r reply) = snd r"
  by (auto simp: finish_def split: prod.splits outcome.splits)

lemma send_history_health [simp]: "g_health (snd (send_recordHistory x env i res out g)) = g_health g"
  by (simp add: send_recordHistory_def gw_frames)

lemma poll_task_health [simp]: "g_health (snd (poll_task_result x c t r a to g)) = g_health g"
  using poll_result [of x True c "tk_id t" to g]
  by (auto simp: poll_task_result_def store_context_def gw_frames split: option.splits prod.splits sum.splits)

lemma process_health [simp]: "g_health (snd (processResponse x env i sr resp g)) = g_health g"
proof -
  have "g_health (snd (handleTaskResult x c t r a to g)) = g_health g" for c t r a to
    by (simp add: handleTaskResult_def store_context_def gw_frames split: task_state.split)
  then have "handleTaskResult x c t r a to g = (v, h) \<Longrightarrow> g_health h = g_health g" for c t r a to v h
    by (metis snd_conv)
  then show ?thesis
    by (auto simp: processResponse_def Let_def gw_frames split: send_result.splits prod.splits reply.splits)
qed

text \<open>
  C27: The health of an agent follows the transport of a direct message, not its content: an answer of
  any kind, a failed task included, is a success, and an error is a failure unless the client
  cancelled the call.
\<close>

theorem health_follows_transport:
  assumes "rr_is_alias (pq_resolved sr)"
  shows "g_health (snd (sendDirect x env i sr g)) =
    (case fst (resolveClientWithAuthRetry x (pq_resolved sr) (\<lambda>c. call_send x c 0 (pq_request sr)) g) of
       Inr _ \<Rightarrow> ht_RecordSuccess (rr_alias (pq_resolved sr)) (g_health g)
     | Inl e \<Rightarrow> if ClassifyError (Some e) = OutcomeConnectionError
         then ht_RecordFailure (rr_alias (pq_resolved sr)) (g_health g) else g_health g)"
proof -
  have "g_health (snd (resolveClientWithAuthRetry x (pq_resolved sr) (\<lambda>c. call_send x c 0 (pq_request sr)) g)) = g_health g"
    by (rule auth_retry_frame) (simp_all add: gw_frames)
  then show ?thesis
    using assms
    by (auto simp: sendDirect_def record_success_def send_recordHealthOutcome_def env_success_def
        env_failure_def split: prod.splits sum.splits)
qed

text \<open>
  A streamed message is always a success for the agent's health, even when the stream could not be
  opened, broke off or timed out: the failure is an error result and never a Go error.
\<close>

lemma streaming_always_healthy:
  assumes "rr_is_alias (pq_resolved sr)"
    "d = (if te_stream env (si_poll i) > 0 then te_stream env (si_poll i) else 0)"
    "\<not> snd (x_stream x (g_tick g) (pq_client sr) (wire_headers g (pq_client sr)) d (pq_request sr))"
  shows "g_health (snd (sendViaStreaming x env p i sr g)) = ht_RecordSuccess (rr_alias (pq_resolved sr)) (g_health g)"
proof -
  let ?c = "pq_client sr"
  obtain v s where v: "consumeStream p (x_stream x (g_tick g) ?c (wire_headers g ?c) d (pq_request sr)) empty_stream = (Some v, s)"
    using assms(3) by (fastforce simp: consumeStream_def split: prod.splits option.splits)
  from assms(1) show ?thesis
    by (cases v) (auto simp: via_streaming handleStreamingMessage_def call_stream_def assms(2) [symmetric] v
        record_success_def gw_frames env_success_def split: prod.split)
qed


text \<open>A prepared message to the agent of the sample state.\<close>

definition sample_prepared :: prepared_send where
  "sample_prepared = \<lparr>pq_resolved = \<lparr>rr_url = ''http://h'', rr_headers = [], rr_is_alias = True, rr_alias = ''a''\<rparr>,
     pq_client = stale_client,
     pq_request = sample_request\<rparr>"

definition refused :: goerr where
  "refused = \<lparr>err_text = ''refused'', err_chain = [NetOpError]\<rparr>"

lemma sample_refused:
  "\<exists>h. resolveClientWithAuthRetry (sample_world (Inl refused)) (pq_resolved sample_prepared)
     (\<lambda>c. call_send (sample_world (Inl refused)) c 0 rq) sample_gw = (Inl refused, h) \<and> g_history h = g_history sample_gw"
  by (simp add: sample_prepared_def refused_def isAuthError_def err_is_def sample_eval)

lemma health_follows_transport_witness:
  "g_health (snd (sendDirect (sample_world (Inl refused)) sample_env sample_send sample_prepared sample_gw))
     = ht_RecordFailure ''a'' (g_health sample_gw)"
  using health_follows_transport [of sample_prepared "sample_world (Inl refused)" sample_env sample_send sample_gw]
    sample_refused [of "pq_request sample_prepared"]
  by (auto simp: ClassifyError_def sample_prepared_def refused_def err_is_def)

lemma streaming_always_healthy_witness:
  "g_health (snd (sendViaStreaming (sample_world (Inl refused)) sample_env True sample_send sample_prepared sample_gw))
     = ht_RecordSuccess ''a'' (g_health sample_gw)"
  using streaming_always_healthy [of sample_prepared 60 sample_env sample_send "sample_world (Inl refused)" sample_gw]
  by (simp add: sample_prepared_def sample_env_def sample_world_def)

text \<open>
  C29: A direct message that fails leaves an entry in the history that looks like an empty success: no
  response text, and not marked as an error.
\<close>

theorem failed_send_recorded_as_empty:
  assumes "resolveClientWithAuthRetry x (pq_resolved sr) (\<lambda>c. call_send x c 0 (pq_request sr)) g = (Inl e, h)"
    "hb_backend (g_history h) = Some (MemoryB m)" "mb_inv m" "rec_enabled (te_recorder env)"
  shows "\<exists>m' es en. hb_backend (g_history (snd (sendDirect x env i sr g))) = Some (MemoryB m') \<and>
     mb_get m' (si_agent i) = es @ [en] \<and> he_response en = truncateText [] (rec_max (te_recorder env)) \<and> \<not> he_error en"
proof -
  let ?h = "send_recordHealthOutcome (pq_resolved sr) e h"
  have same: "g_history ?h = g_history h" by (simp add: send_recordHealthOutcome_def gw_frames)
  have last_kept: "\<exists>es. take_last (nat (mb_depth m)) (mb_get m a @ [en]) = es @ [en]" for a en
    using assms(3) by (auto simp: take_last_def mb_inv_def Suc_nat_eq_nat_zadd1)
  show ?thesis
    using assms(1,4) record_memory [OF assms(2,3,4)]
    by (simp add: sendDirect_def send_recordHistory_def env_record_def split_beta same mb_get_append [OF assms(3)]
        extractResultText_def history_entry_def) (use last_kept in \<open>fastforce\<close>)
qed

lemma failed_send_recorded_as_empty_witness:
  "\<exists>m' es en. hb_backend (g_history (snd (sendDirect (sample_world (Inl refused)) sample_env sample_send
       sample_prepared sample_gw))) = Some (MemoryB m') \<and>
     mb_get m' ''a'' = es @ [en] \<and> he_response en = [] \<and> \<not> he_error en"
proof -
  obtain h where h: "resolveClientWithAuthRetry (sample_world (Inl refused)) (pq_resolved sample_prepared)
      (\<lambda>c. call_send (sample_world (Inl refused)) c 0 (pq_request sample_prepared)) sample_gw = (Inl refused, h)"
      "g_history h = g_history sample_gw"
    using sample_refused by blast
  show ?thesis
    using failed_send_recorded_as_empty [OF h(1), of "NewMemoryBackend 5" sample_env sample_send]
    by (simp add: h(2) mb_inv_new) (simp add: sample_gw_def sample_env_def sample_send_def truncateText_def runes_def)
qed

section \<open>Asynchronous messages\<close>

lemma poll_stops_terminal: "poll_stops s \<Longrightarrow> isTerminalOrInterrupted s"
  by (cases s) (simp_all add: poll_stops_def isTerminalOrInterrupted_def)

text \<open>An answer with a task is deposited once it is settled, or with an error.\<close>

lemma background_task:
  assumes "\<And>t. x_now x t < x_now x (Suc t)" "0 < te_poll env None"
    "x_send x (g_tick g) (pq_client sr) (wire_headers g (pq_client sr)) 0 (pq_request sr) = Inr (ResTask tk)"
  shows "\<exists>e k t. backgroundSendAndPoll x env sr i g = Some (env_Deposit x e (g\<lparr>g_tick := k\<rparr>)) \<and>
    ie_alias e = si_agent i \<and> ie_task e = Some t \<and> (isTerminalOrInterrupted (st_state (tk_status t)) \<or> ie_error e \<noteq> [])"
proof (cases "isTerminalOrInterrupted (st_state (tk_status tk))")
  case True
  with assms(3) show ?thesis
    by (intro exI [of _ "entryFromTask (si_agent i) tk"] exI [of _ "Suc (g_tick g)"])
      (simp add: backgroundSendAndPoll_def call_send_def tick_def entryFromTask_def)
next
  case False
  obtain r where r: "pollTaskCompletion x False (pq_client sr) (tk_id tk) (te_poll env None) (tick g) = Some r"
    using poll_terminates [OF assms(1,2)] by blast
  note res = poll_result [OF r]
  from res obtain v k where v: "r = (v, g\<lparr>g_tick := k\<rparr>)" by (cases r) (auto simp: tick_def)
  show ?thesis
  proof (cases v)
    case (Inl p)
    with assms(3) False r v res show ?thesis
      by (intro exI [of _ "(entryFromTask (si_agent i) (case fst p of None \<Rightarrow> tk | Some q \<Rightarrow> q))\<lparr>ie_error := err_text (snd p)\<rparr>"]
          exI [of _ k]) (cases p, simp add: backgroundSendAndPoll_def call_send_def, simp add: entryFromTask_def)
  next
    case (Inr d)
    with assms(3) False r v res show ?thesis
      by (intro exI [of _ "entryFromTask (si_agent i) d"] exI [of _ k])
        (simp add: backgroundSendAndPoll_def call_send_def, simp add: entryFromTask_def poll_stops_terminal)
  qed
qed

text \<open>
  C17: The background part of an asynchronous message ends, and leaves one entry in the inbox for the
  agent it was sent to, settled or with an error, and changes nothing else; except that an answer
  which is neither a task nor a message leaves no trace.
\<close>

theorem async_send_one_entry:
  assumes "\<And>t. x_now x t < x_now x (Suc t)" "0 < te_poll env None"
  shows "if x_send x (g_tick g) (pq_client sr) (wire_headers g (pq_client sr)) 0 (pq_request sr) = Inr ResOther
     then backgroundSendAndPoll x env sr i g = Some (tick g)
     else \<exists>e now k. backgroundSendAndPoll x env sr i g = Some (g\<lparr>g_inbox := ib_Deposit now e (g_inbox g), g_tick := k\<rparr>) \<and>
       ie_alias e = si_agent i \<and>
       (case ie_task e of Some t \<Rightarrow> isTerminalOrInterrupted (st_state (tk_status t)) \<or> ie_error e \<noteq> []
        | None \<Rightarrow> ie_message e \<noteq> None \<or> ie_state e = ''error'')"
proof -
  let ?v = "x_send x (g_tick g) (pq_client sr) (wire_headers g (pq_client sr)) 0 (pq_request sr)"
  consider (err) e where "?v = Inl e" | (msg) m where "?v = Inr (ResMessage m)" | (other) "?v = Inr ResOther"
    | (task) tk where "?v = Inr (ResTask tk)"
    by (metis send_result.exhaust sum.exhaust)
  then show ?thesis
  proof cases
    case err
    then show ?thesis
      by (simp add: backgroundSendAndPoll_def call_send_def env_Deposit_def tick_def)
        (intro exI conjI, rule refl, simp_all, simp add: empty_entry_def)
  next
    case msg
    then show ?thesis
      by (simp add: backgroundSendAndPoll_def call_send_def env_Deposit_def tick_def)
        (intro exI conjI, rule refl, simp_all add: entryFromMessage_def empty_entry_def)
  next
    case other
    then show ?thesis by (simp add: backgroundSendAndPoll_def call_send_def)
  next
    case (task tk)
    obtain e k t where "backgroundSendAndPoll x env sr i g = Some (env_Deposit x e (g\<lparr>g_tick := k\<rparr>))"
        "ie_alias e = si_agent i" "ie_task e = Some t" "isTerminalOrInterrupted (st_state (tk_status t)) \<or> ie_error e \<noteq> []"
      using background_task [of x env, OF assms task, of i] by blast
    with task show ?thesis
      by (simp add: env_Deposit_def tick_def) (rule exI [of _ e], simp, intro exI, rule refl)
  qed
qed

lemma async_send_one_entry_witness:
  "\<exists>e now k. backgroundSendAndPoll (sample_world (Inl refused)) sample_env sample_prepared sample_send sample_gw
     = Some (sample_gw\<lparr>g_inbox := ib_Deposit now e (g_inbox sample_gw), g_tick := k\<rparr>) \<and> ie_alias e = ''a''"
proof -
  have "x_now (sample_world (Inl refused)) t < x_now (sample_world (Inl refused)) (Suc t)" for t
    by (simp add: sample_world_def)
  moreover have "0 < te_poll sample_env None" by (simp add: sample_env_def)
  ultimately show ?thesis
    using async_send_one_entry [of "sample_world (Inl refused)" sample_env sample_gw sample_prepared sample_send]
    by (auto simp: sample_world_def sample_send_def)
qed

section \<open>Streams\<close>

text \<open>
  C26: A stream that ends with a terminal status gives a task made of the whole stream: the artifacts of
  all its events in order, the first task id and the first context id that are not empty, and the
  last status. The context of the conversation becomes the one of the stream, if it has one.
\<close>

theorem stream_assembles_task:
  assumes "list_all (\<lambda>e. \<not> terminal_event e) evs" "isTerminalOrInterrupted (st_state st)"
    "fst (x_stream x (g_tick g) c (wire_headers g c) (if timeout > 0 then timeout else 0) rq)
       = evs @ Inr (EvStatus tid ctx st) # rest"
    "ids = event_ids evs @ [(tid, ctx)]"
  shows "handleStreamingMessage x p c rq r a timeout g =
    (Reply None (Some (task_output
       \<lparr>tk_id = first_nonempty (map fst ids), tk_context = first_nonempty (map snd ids),
        tk_status = st, tk_artifacts = event_artifacts evs\<rparr>)) None,
     if rr_is_alias r \<and> first_nonempty (map snd ids) \<noteq> []
     then env_SetContext a (first_nonempty (map snd ids)) (tick g) else tick g)"
proof -
  have fn: "first_nonempty (xs @ [y]) = (if first_nonempty xs = [] then y else first_nonempty xs)" for xs y
    by (induction xs) auto
  have fmt: "formatStreamTask t = task_output t" for t
    by (simp add: formatStreamTask_def formatTaskResponse_def formatInputRequiredResponse_def
        formatInterruptedResponse_def split: task_state.split)
  obtain s' where s': "stream_loop p (evs @ Inr (EvStatus tid ctx st) # rest) empty_stream
        = stream_loop p (Inr (EvStatus tid ctx st) # rest) s'"
      "ss_artifacts s' = event_artifacts evs" "ss_task s' = first_nonempty (map fst (event_ids evs))"
      "ss_context s' = first_nonempty (map snd (event_ids evs))"
    using stream_loop_prefix [OF assms(1), of p "Inr (EvStatus tid ctx st) # rest" empty_stream]
    by (auto simp: empty_stream_def)
  show ?thesis
    using s' assms(2)
    by (auto simp: handleStreamingMessage_def call_stream_def consumeStream_def assms(3,4) Let_def fn
        stream_outcome_def buildTaskFromState_def fmt)
qed

text \<open>A stream of a task in pieces: two artifacts, then the final status.\<close>

definition piece :: "string \<Rightarrow> artifact" where
  "piece s = \<lparr>art_name = [], art_parts = [text_part s]\<rparr>"

definition piece_events :: "(goerr + a2a_event) list" where
  "piece_events = [Inr (EvStatus [] [] zero_status), Inr (EvArtifact ''t1'' [] (piece ''x'')), Inr (EvArtifact ''t2'' ''ctx'' (piece ''y''))]"

definition stream_world :: "nat ext" where
  "stream_world = (sample_world (Inr ResOther))\<lparr>x_stream := (\<lambda>_ _ _ _ _.
     (piece_events @ [Inr (EvStatus ''t3'' ''c3'' (tk_status done_task))], False))\<rparr>"

lemma stream_assembles_task_witness:
  "fst (handleStreamingMessage stream_world False stale_client sample_request (pq_resolved sample_prepared) ''a'' 60 sample_gw) =
    Reply None (Some (task_output \<lparr>tk_id = ''t1'', tk_context = ''ctx'', tk_status = tk_status done_task,
      tk_artifacts = [Some (piece ''x''), Some (piece ''y'')]\<rparr>)) None"
  using stream_assembles_task [of piece_events "tk_status done_task" stream_world sample_gw stale_client 60 sample_request
      "''t3''" "''c3''" "[]" "event_ids piece_events @ [(''t3'', ''c3'')]"]
  by (simp add: stream_world_def piece_events_def done_task_def zero_status_def isTerminalOrInterrupted_def)

end
