(* ===== verification/ToolProperties.thy ===== *)
theory ToolProperties
  imports Server SendProperties
begin

text \<open>
  The properties of the other tools: what connecting and disconnecting change, what a broadcast
  answers, and the timeouts a request may ask for.
\<close>

section \<open>Connecting and disconnecting\<close>

lemma evict_existing_fields:
  "g_registry (evict_existing i g) = g_registry g" "g_health (evict_existing i g) = g_health g"
  "g_limiters (evict_existing i g) = g_limiters g"
  "g_tick (evict_existing i g) = g_tick g"
  by (simp_all add: evict_existing_def Let_def gw_frames split: option.split)

lemma connect_registers:
  "connect_validateInput i = None \<Longrightarrow> reg_Lookup (g_registry (snd (connect_Handle x t i g))) (ci_alias i) \<noteq> None"
  by (auto simp: connect_Handle_def Let_def evict_existing_fields lookup_connect lookup_setcard split: option.split)


definition sample_connect :: connect_input where
  "sample_connect = \<lparr>ci_alias = ''a'', ci_url = ''http://i'', ci_headers = [], ci_rps = None, ci_burst = None, ci_ping = None\<rparr>"

lemma alias_a: "validate_Alias ''a'' = None"
  by code_simp

lemma sample_connect_valid: "connect_validateInput sample_connect = None"
  by (simp add: sample_connect_def connect_validateInput_def alias_a validate_URL_def
      validate_Headers_def url_eval)



lemma sample_gw_inv: "gw_inv sample_gw"
  by (simp add: gw_inv_def sample_gw_def reg_inv_def sample_agent_def gm_wf_def ht_inv_reset ht_inv_new cc_inv_new
      ctx_inv_def hist_inv_def backend_ok_def mb_inv_new)


text \<open>
  The default rate limit of the server is never applied: a connect that names no limit leaves the
  limiters alone, whatever default the server was given; so an agent keeps the limiter it had.
\<close>

lemma default_rate_never_applied:
  assumes "ci_rps i = None"
  shows "g_limiters (snd (srv_ConnectAgent x w s i g)) = g_limiters g"
  using assms
  by (auto simp: srv_ConnectAgent_def connect_Handle_def Let_def split_beta evict_existing_fields
      configureRateLimit_def NewConnectAgentTool_def rlc_IsDisabled_def f64_le0.simps split: option.split)

definition rate_server :: "unit server" where
  "rate_server = fst (NewServer [] [WithRateLimit (Fin 5) 10] :: unit server \<times> nat gw)"

lemma rate_server_default: "sv_default_rate rate_server = Some \<lparr>rl_rps = Fin 5, rl_burst = 10\<rparr>"
  by (simp add: rate_server_def NewServer_def server_config_of_def default_config_def history_settings_def Let_def)

text \<open>A directory that is never asked.\<close>

definition plain_world :: "unit dir_world" where
  "plain_world = \<lparr>dw_ops = \<lparr>rg_register = (\<lambda>_ r. (None, r)),
     rg_unregister = (\<lambda>_ r. (Inr False, r)), rg_list = (\<lambda>_. Inr []), rg_filter = None, rg_query = None, rg_help = None\<rparr>, dw_lower = id, dw_visit = id, dw_recode = Inr\<rparr>"

lemma default_rate_never_applied_witness:
  "sv_default_rate rate_server = Some \<lparr>rl_rps = Fin 5, rl_burst = 10\<rparr> \<and>
   g_limiters (snd (srv_ConnectAgent (sample_world (Inr ResOther)) plain_world rate_server sample_connect sample_gw)) = []"
proof -
  have "ci_rps sample_connect = None" "g_limiters sample_gw = []" by (simp_all add: sample_connect_def sample_gw_def)
  with rate_server_default default_rate_never_applied [of sample_connect "sample_world (Inr ResOther)" plain_world rate_server sample_gw]
  show ?thesis by simp
qed

section \<open>Broadcasts\<close>

text \<open>What counts as an answer of an agent to a broadcast: a task or a message, and nothing else.\<close>

definition answered :: "send_output \<Rightarrow> bool" where
  "answered r = (so_async r = None \<and> (case so_task r of
     Some t \<Rightarrow> so_message r = None \<and> st_state (tk_status t) \<in> {TS_Completed, TS_InputRequired, TS_AuthRequired}
   | None \<Rightarrow> so_message r \<noteq> None))"

lemma conclude_reply: "conclude x env a i oc g = (Reply res (Some oc') err, g1) \<Longrightarrow> oc' = oc"
  by (auto simp: conclude_def gives_def dest!: finish_reply)

lemma task_result_answered: "oc_response (handleBroadcastTaskResult t) = Some r \<Longrightarrow> answered r"
  by (auto simp: handleBroadcastTaskResult_def task_output_def answered_def split: task_state.splits)

lemma message_answered: "oc_response (message_outcome m) = Some r \<Longrightarrow> answered r"
  by (auto simp: message_outcome_def formatMessageResponse_def answered_def)

lemma no_response_response [simp]: "oc_response (no_response r) = None"
  by (simp add: no_response_def)

lemma direct_answered:
  assumes "broadcastDirect x env c d rq a i r g = (Reply res (Some oc) err, g1)" "oc_response oc = Some out"
  shows "answered out"
  using assms task_result_answered message_answered
  by (auto simp: broadcastDirect_def Let_def dest!: conclude_reply split: prod.splits sum.splits send_result.splits if_splits)

lemma stream_answered:
  assumes "broadcastViaStreaming x env c d rq a i r g = (Reply res (Some oc) err, g1)" "oc_response oc = Some out"
  shows "answered out"
  using assms task_result_answered message_answered
  by (auto simp: broadcastViaStreaming_def Let_def dest!: conclude_reply
      split: prod.splits sum.splits option.splits stream_result.splits if_splits)

lemma to_agent_answered:
  assumes "broadcastToAgent x env a i t g = ((Reply res (Some oc) err, i'), g1)" "oc_response oc = Some out"
  shows "reg_Lookup (g_registry g) a \<noteq> None \<and> \<not> (ht_IsEnabled (g_health g) \<and> \<not> ht_IsHealthy (g_health g) a) \<and> answered out"
  using assms direct_answered stream_answered
  by (auto simp: broadcastToAgent_def Let_def dest!: conclude_reply
      split: prod.splits sum.splits option.splits if_splits bool.splits)

lemma set_update: "(k, v) \<in> set (AList.update a b m) \<Longrightarrow> (k, v) = (a, b) \<or> (k, v) \<in> set m"
  by (induction m) (auto split: if_splits)

lemma build_response_from:
  "(a, r) \<in> set (buildResponse os) \<Longrightarrow> \<exists>oc. (a, oc) \<in> set os \<and> oc_response oc = Some r"
  by (induction os rule: buildResponse.induct) (auto split: option.splits)

text \<open>The threshold of the tracker never changes.\<close>

interpretation threshold: gw_closed "\<lambda>g. ht_threshold (g_health g) = n" "\<lambda>_. True" for n
  by unfold_locales simp_all

definition reachable_agent :: "'l gw \<Rightarrow> string \<Rightarrow> bool" where
  "reachable_agent g a \<longleftrightarrow> reg_Lookup (g_registry g) a \<noteq> None \<and>
     \<not> (ht_IsEnabled (g_health g) \<and> \<not> ht_IsHealthy (g_health g) a)"

lemma reachable_after:
  assumes "a \<noteq> b" "broadcastToAgent x env a i t g = (v, g1)"
  shows "reachable_agent g1 b \<longleftrightarrow> reachable_agent g b"
proof -
  have "agent_view g1 b = agent_view g b"
    using apart.keeps_to_agent [where g = g and v = "agent_view g b" and b = b, OF assms(1) refl, of x env i t] assms(2) by simp
  moreover have "ht_threshold (g_health g1) = ht_threshold (g_health g)"
    using threshold.keeps_to_agent [where g = g, OF TrueI refl, of x env a i t] assms(2) by simp
  ultimately show ?thesis by (simp add: agent_view_def reachable_agent_def ht_IsEnabled_def ht_IsHealthy_def)
qed

lemma fanOut_loop_sound:
  assumes "fanOut_loop x env as i t os g = (Reply res (Some os') err, g1)" "distinct as" "(a, oc) \<in> set os'"
  shows "(a, oc) \<in> set os \<or> (a \<in> set as \<and> (\<forall>out. oc_response oc = Some out \<longrightarrow> reachable_agent g a \<and> answered out))"
  using assms
proof (induction as arbitrary: i os g)
  case (Cons b as)
  from Cons.prems(1) obtain r o1 e i' g2 where b: "broadcastToAgent x env b i t g = ((Reply r (Some o1) e, i'), g2)"
      "fanOut_loop x env as i' t (AList.update b o1 os) g2 = (Reply res (Some os') err, g1)"
    by (auto split: prod.splits reply.splits option.splits)
  note ih = Cons.IH [OF b(2) _ Cons.prems(3)]
  have "\<forall>out. oc_response o1 = Some out \<longrightarrow> reachable_agent g b \<and> answered out"
    using to_agent_answered [OF b(1)] by (simp add: reachable_agent_def)
  moreover have "reachable_agent g2 a = reachable_agent g a" if "a \<in> set as"
    using reachable_after [OF _ b(1), of a] that Cons.prems(2) by auto
  ultimately show ?case
    using ih Cons.prems(2) by (auto dest!: set_update)
qed (simp add: gives_def)


definition sample_broadcast :: broadcast_input where
  "sample_broadcast = \<lparr>bi_aliases = [''a'', ''zz''], bi_message = ''hi'', bi_parts = [], bi_timeout = None,
     bi_metadata = None, bi_async = None\<rparr>"

lemmas broadcast_eval = broadcast_Handle_def broadcast_validateInput_def resolveTimeout_def fanOut_def
  broadcastToAgent_def env_Allow_def rl_Allow_def broadcastDirect_def handleBroadcastTaskResult_def
  conclude_def broadcast_recordHistory_def no_response_def error_br_def task_br_def broadcast_metadata_def

lemma sample_broadcast_reply:
  "\<exists>g'. broadcast_Handle (sample_world (Inr (ResTask done_task))) sample_env sample_broadcast sample_gw
     = (Reply None (Some [(''a'', task_output done_task)]) None, g')"
  by (simp add: sample_broadcast_def broadcast_eval sample_eval sample_record done_task_def
      ht_IsHealthy_def ht_Get_def ht_Reset_def NewHealthTracker_def)


text \<open>
  An asynchronous broadcast to an agent that has become unhealthy leaves an entry in the inbox that
  says nothing: no state, no error, no task and no message.
\<close>

lemma unhealthy_broadcast_empty_entry:
  assumes "reg_Lookup (g_registry g) a \<noteq> None" "ht_IsEnabled (g_health g)" "\<not> ht_IsHealthy (g_health g) a"
    "recorder_ok (te_recorder env) (g_history g)"
  shows "fst (backgroundBroadcastToAgent x env a i t g) = gives () \<and>
     (\<exists>now. g_inbox (snd (backgroundBroadcastToAgent x env a i t g)) = ib_Deposit now (empty_entry a) (g_inbox g))"
proof -
  let ?oc = "no_response (error_br ''skipped'' ''agent is unhealthy'')"
  have "fst (broadcast_recordHistory x env a i (oc_result ?oc) g) = Return ()"
    using record_ok [OF assms(4)] by (simp add: broadcast_recordHistory_def env_record_def split_beta)
  then have "conclude x env a i ?oc g = (gives ?oc, snd (broadcast_recordHistory x env a i (oc_result ?oc) g))"
    by (simp add: conclude_def finish_def split_beta)
  with assms(1-3) show ?thesis
    by (auto simp: backgroundBroadcastToAgent_def broadcastToAgent_def gives_def broadcast_entry_def
        no_response_def error_br_def env_Deposit_def broadcast_recordHistory_def gw_frames)
qed

definition sick_gw :: "nat gw" where
  "sick_gw = sample_gw\<lparr>g_health := ht_RecordFailure ''a'' (g_health sample_gw)\<rparr>"

lemma sick_gw_unhealthy: "ht_IsEnabled (g_health sick_gw)" "\<not> ht_IsHealthy (g_health sick_gw) ''a''"
  by (simp_all add: sick_gw_def sample_gw_def ht_IsEnabled_def ht_IsHealthy_def ht_Get_def ht_RecordFailure_def
      ht_Reset_def NewHealthTracker_def Let_def)

lemma sick_agent_empty_entry:
  "\<exists>now. g_inbox (snd (backgroundBroadcastToAgent (sample_world (Inr ResOther)) sample_env ''a'' sample_broadcast 30 sick_gw))
     = ib_Deposit now (empty_entry ''a'') (g_inbox sick_gw)"
proof -
  have "recorder_ok (te_recorder sample_env) (g_history sick_gw)" "reg_Lookup (g_registry sick_gw) ''a'' \<noteq> None"
    by (simp_all add: sick_gw_def sample_gw_def recorder_ok_def backend_ok_def mb_inv_new reg_Lookup_def)
  with sick_gw_unhealthy unhealthy_broadcast_empty_entry [of sick_gw "''a''" sample_env "sample_world (Inr ResOther)"]
  show ?thesis by blast
qed

section \<open>Timeouts\<close>

lemma wrap64_eq_iff: "wrap64 n = n \<longleftrightarrow> in_int64 n"
  using wrap64_id wrap64_range by metis

text \<open>
  C40: A timeout in seconds is what was asked for up to 9223372036 seconds, and nothing longer is; from
  there on the product overflows, and one second more gives a negative duration, that is no
  timeout.
\<close>

theorem effective_timeout_bounds:
  assumes "0 < n"
  shows "(effectivePollTimeout s (Some n) = n * second \<longleftrightarrow> n \<le> 9223372036) \<and>
     effectiveStreamTimeout s (Some n) = effectivePollTimeout s (Some n) \<and>
     effectivePollTimeout s (Some 9223372037) < 0"
proof -
  have "wrap64 (n * second) = n * second \<longleftrightarrow> n \<le> 9223372036"
    unfolding wrap64_eq_iff in_int64_def second_def using assms by auto
  moreover have "wrap64 (9223372037 * second) < 0"
    unfolding wrap64_def second_def by code_simp
  ultimately show ?thesis
    using assms by (simp add: effectivePollTimeout_def effectiveStreamTimeout_def seconds_to_duration_def)
qed

lemma effective_timeout_bounds_witness:
  "effectivePollTimeout rate_server (Some 9223372036) = 9223372036 * second"
  using effective_timeout_bounds [of 9223372036 rate_server] by simp

section \<open>Discovery\<close>

text \<open>
  A world in which the directory \<open>d\<close> answers at the URL \<open>u\<close>: a GET with some parameters brings the
  status and the encoded body of its handler; a result decodes to its cards and token, and the
  object of an error, which has neither field, to none.
\<close>

definition serves :: "'l ext \<Rightarrow> string \<Rightarrow> 'r dir_world \<Rightarrow> 'r directory \<Rightarrow> (dir_body \<Rightarrow> string) \<Rightarrow> bool" where
  "serves x u w d enc \<longleftrightarrow> (\<forall>t ps h. let r = ServeHTTP (dw_ops w) (dw_lower w) (dw_visit w) d (params_request ps) in
     x_query x t u ps h = HttpResponse (ds_status r) (Inr (enc (ds_body r))) \<and> x_json_valid x (enc (ds_body r)) \<and>
     x_parse_query x (enc (ds_body r))
       = Inr (case ds_body r of ResultBody q \<Rightarrow> (qr_cards q, qr_next q) | ErrorBody _ \<Rightarrow> ([], [])))"


text \<open>A directory of one card, and a world that serves it.\<close>

definition solo :: "unit directory" where
  "solo = snd (dir_Register (dw_ops plain_world) (sample_card ''one'') (NewDirectory []))"

definition solo_enc :: "dir_body \<Rightarrow> string" where
  "solo_enc b = (case b of ErrorBody _ \<Rightarrow> ''error'' | ResultBody q \<Rightarrow> if qr_cards q = [] then ''none'' else ''one'')"

definition solo_world :: "nat ext" where
  "solo_world = (sample_world (Inr ResOther))\<lparr>
     x_query := (\<lambda>_ _ ps _. let r = ServeHTTP (dw_ops plain_world) (dw_lower plain_world) (dw_visit plain_world) solo (params_request ps)
       in HttpResponse (ds_status r) (Inr (solo_enc (ds_body r)))),
     x_json_valid := (\<lambda>_. True),
     x_parse_query := (\<lambda>b. Inr (if b = ''one'' then ([sample_card ''one''], []) else ([], [])))\<rparr>"

lemma solo_pages:
  "ds_body (ServeHTTP ops low id solo r) = ResultBody q \<Longrightarrow> qr_next q = [] \<and> (qr_cards q = [] \<or> qr_cards q = [sample_card ''one''])"
  by (auto simp: ServeHTTP_def help_response_def list_response_def solo_def dir_Register_def NewDirectory_def
      NewMemoryRegistry_def mr_Register_def registry_query_def registry_filter_def selected_cards_def dir_List_def
      mr_List_def resolver_Resolve_def default_Resolve_def page_of_def Let_def error_response_def ok_response_def drop_Cons'
      split: if_splits option.splits sum.splits prod.splits)

lemma solo_serves: "serves solo_world u plain_world solo solo_enc"
  unfolding serves_def Let_def
proof (intro allI conjI)
  fix t ps h
  let ?r = "ServeHTTP (dw_ops plain_world) (dw_lower plain_world) (dw_visit plain_world) solo (params_request ps)"
  show "x_query solo_world t u ps h = HttpResponse (ds_status ?r) (Inr (solo_enc (ds_body ?r)))"
    by (simp add: solo_world_def Let_def)
  show "x_json_valid solo_world (solo_enc (ds_body ?r))" by (simp add: solo_world_def)
  have "dw_visit plain_world = id" by (simp add: plain_world_def)
  then show "x_parse_query solo_world (solo_enc (ds_body ?r))
      = Inr (case ds_body ?r of ResultBody q \<Rightarrow> (qr_cards q, qr_next q) | ErrorBody _ \<Rightarrow> ([], []))"
    using solo_pages [of "dw_ops plain_world" "dw_lower plain_world" "params_request ps"]
    by (cases "ds_body ?r") (auto simp: solo_world_def solo_enc_def)
qed

definition bad_cursor :: discover_input where
  "bad_cursor = \<lparr>dc_url = [], dc_filter = [], dc_limit = None, dc_cursor = ''?'', dc_headers = [], dc_help = False\<rparr>"

lemma bad_cursor_refused: "case decodeCursor ''?'' of Inl _ \<Rightarrow> True | Inr _ \<Rightarrow> False"
  by code_simp

lemma bad_cursor_body:
  "\<exists>msg. ds_body (ServeHTTP ops low visit solo (params_request (discover_params bad_cursor))) = ErrorBody msg"
  using bad_cursor_refused
  by (auto simp: ServeHTTP_def list_response_def solo_def dir_Register_def NewDirectory_def registry_query_def
      error_response_def params_request_def discover_params_def bad_cursor_def split: sum.splits)


end
