(* ===== verification/Interleavings.thy ===== *)
theory Interleavings
  imports Server
begin

text \<open>
  Concurrent calls. Each component guards its state with a mutex, so whatever tool calls and background
  jobs run at the same time, the shared state changes by one operation of one component after another.
  (Resolving a client looks into the cache again once it holds the write lock, and a limiter taken out of
  its map has a lock of its own, so these operations take effect at one instant too.) The step relation has a rule per operation, labelled with the agents the running calls are for;
  every tool call is a sequence of such steps, and what holds after any sequence of them holds under
  every interleaving of calls.
\<close>

section \<open>Atomic steps\<close>

inductive atomic_step :: "string set \<Rightarrow> 'l gw \<Rightarrow> 'l gw \<Rightarrow> bool" for A where
  at_call: "atomic_step A g (g\<lparr>g_tick := k\<rparr>)"
| at_jobs: "atomic_step A g (g\<lparr>g_jobs := js\<rparr>)"
| at_evict: "atomic_step A g (g\<lparr>g_clients := cr_Evict u (g_clients g)\<rparr>)"
| at_resolve: "atomic_step A g (g\<lparr>g_clients := snd (cr_Resolve cf (g_registry g) r (g_clients g))\<rparr>)"
| at_card: "atomic_step A g (g\<lparr>g_card := cc_Set cd key (g_card g)\<rparr>)"
| at_card_remove: "atomic_step A g (g\<lparr>g_card := snd (cc_Remove (g_card g))\<rparr>)"
| at_connect: "a \<in> A \<Longrightarrow> validate_Alias a = None \<Longrightarrow> validate_URL u = None \<Longrightarrow>
    atomic_step A g (g\<lparr>g_registry := snd (reg_Connect a u h p (g_registry g))\<rparr>)"
| at_disconnect: "a \<in> A \<Longrightarrow> atomic_step A g (g\<lparr>g_registry := snd (reg_Disconnect a (g_registry g))\<rparr>)"
| at_setcard: "a \<in> A \<Longrightarrow> atomic_step A g (g\<lparr>g_registry := snd (reg_SetCard a c (g_registry g))\<rparr>)"
| at_limit_set: "a \<in> A \<Longrightarrow> atomic_step A g (g\<lparr>g_limiters := rl_Set ops a rps n (g_limiters g)\<rparr>)"
| at_limit_remove: "a \<in> A \<Longrightarrow> atomic_step A g (g\<lparr>g_limiters := rl_Remove a (g_limiters g)\<rparr>)"
| at_limit_check: "a \<in> A \<Longrightarrow>
    atomic_step A g (g\<lparr>g_limiters := snd (rl_CheckRateLimit ops clk a (g_limiters g))\<rparr>)"
| at_limit_allow: "a \<in> A \<Longrightarrow> atomic_step A g (g\<lparr>g_limiters := snd (rl_Allow ops now a (g_limiters g))\<rparr>)"
| at_success: "a \<in> A \<Longrightarrow> atomic_step A g (g\<lparr>g_health := ht_RecordSuccess a (g_health g)\<rparr>)"
| at_failure: "a \<in> A \<Longrightarrow> atomic_step A g (g\<lparr>g_health := ht_RecordFailure a (g_health g)\<rparr>)"
| at_reset: "a \<in> A \<Longrightarrow> atomic_step A g (g\<lparr>g_health := ht_Reset a (g_health g)\<rparr>)"
| at_context: "a \<in> A \<Longrightarrow> atomic_step A g (g\<lparr>g_contexts := ctx_Set a c2 (g_contexts g)\<rparr>)"
| at_context_delete: "a \<in> A \<Longrightarrow> atomic_step A g (g\<lparr>g_contexts := ctx_Delete a (g_contexts g)\<rparr>)"
| at_record: "ri_alias i \<in> A \<Longrightarrow>
    atomic_step A g (g\<lparr>g_history := snd (hist_Record fenv rc now i (g_history g))\<rparr>)"
| at_delete: "a \<in> A \<Longrightarrow> atomic_step A g (g\<lparr>g_history := snd (be_Delete fenv a (g_history g))\<rparr>)"
| at_clear: "a \<in> A \<Longrightarrow> atomic_step A g (g\<lparr>g_history := snd (be_Clear fenv a (g_history g))\<rparr>)"
| at_deposit: "ie_alias e \<in> A \<Longrightarrow> atomic_step A g (g\<lparr>g_inbox := ib_Deposit now e (g_inbox g)\<rparr>)"
| at_peek: "atomic_step A g (g\<lparr>g_inbox := snd (ib_Peek now a (g_inbox g))\<rparr>)"
| at_pop: "po_alias opts \<in> A \<Longrightarrow> atomic_step A g (g\<lparr>g_inbox := snd (ib_Pop now opts (g_inbox g))\<rparr>)"

definition interleaved :: "string set \<Rightarrow> 'l gw \<Rightarrow> 'l gw \<Rightarrow> bool" where
  "interleaved A = (atomic_step A)\<^sup>*\<^sup>*"

lemma interleaved_refl [simp]: "interleaved A g g"
  by (simp add: interleaved_def)

lemma interleaved_step: "interleaved A g h \<Longrightarrow> atomic_step A h h' \<Longrightarrow> interleaved A g h'"
  unfolding interleaved_def by (rule rtranclp.rtrancl_into_rtrancl)

lemma atomic_mono: "atomic_step A g h \<Longrightarrow> A \<subseteq> B \<Longrightarrow> atomic_step B g h"
  by (induction rule: atomic_step.induct) (auto intro: atomic_step.intros)

lemma interleaved_mono: "interleaved A g h \<Longrightarrow> A \<subseteq> B \<Longrightarrow> interleaved B g h"
  unfolding interleaved_def by (metis atomic_mono mono_rtranclp)

lemma interleaved_trans: "interleaved A g h \<Longrightarrow> interleaved A h k \<Longrightarrow> interleaved A g k"
  unfolding interleaved_def by (rule rtranclp_trans)

section \<open>Properties that steps keep hold under every interleaving\<close>

context gw_closed
begin

lemma keeps_atomic:
  assumes "atomic_step A g h" "Ball A on" "I g"
  shows "I h"
  using assms
  by (induction rule: atomic_step.induct)
    (simp_all add: I_tick I_jobs I_evict I_resolve I_card I_card_remove I_connect I_disconnect I_setcard
      I_limit_set I_limit_remove I_limit_check I_limit_allow I_success I_failure I_reset I_context
      I_context_delete I_record I_delete I_clear I_deposit I_peek I_pop)

lemma keeps_interleaved:
  assumes "interleaved A g h" "Ball A on" "I g"
  shows "I h"
  using assms(1) unfolding interleaved_def
  by (induction rule: rtranclp_induct) (use assms(2,3) keeps_atomic in \<open>blast\<close>)+

end

section \<open>Tool calls are interleavings\<close>

text \<open>Being reached by atomic steps is itself a property that every component operation keeps.\<close>

interpretation runs: gw_closed "interleaved A g" "\<lambda>a. a \<in> A" for A and g :: "'l gw"
  by unfold_locales (blast intro: interleaved_step atomic_step.intros)+

lemma step_interleaved: "server_step s A g h \<Longrightarrow> interleaved A g h"
  by (erule runs.keeps_step) simp_all

end
