(* ===== verification/Liveness.thy ===== *)
theory Liveness
  imports ToolProperties Interleavings
begin

text \<open>
  When the tools that wait for agents return. What they rely on is that the history can record, that
  the clock advances, and that a stream ends once the deadline of its context has passed.
\<close>

section \<open>Recording does not stop\<close>

text \<open>A history that can record for a recorder can do so after any step.\<close>

interpretation recording: gw_closed "\<lambda>g. recorder_ok rc (g_history g)" "\<lambda>_. True" for rc
proof unfold_locales
  fix g :: "'l gw" and i fenv rc' now
  assume "recorder_ok rc (g_history g)"
  then show "recorder_ok rc (g_history (g\<lparr>g_history := snd (hist_Record fenv rc' now i (g_history g))\<rparr>))"
    using backend_ok_append [of "g_history g" fenv "ri_alias i" "history_entry rc' now i"]
    by (auto simp: recorder_ok_def hist_Record_def split: prod.splits outcome.splits)
qed (auto simp: recorder_ok_def dest: backend_ok_clear)

definition streams_end :: "'l ext \<Rightarrow> bool" where
  "streams_end x \<longleftrightarrow> (\<forall>t c h d rq. 0 < d \<longrightarrow> \<not> snd (x_stream x t c h d rq))"

definition clock_runs :: "'l ext \<Rightarrow> bool" where
  "clock_runs x \<longleftrightarrow> (\<forall>t. x_now x t < x_now x (Suc t))"

lemma record_gives: "recorder_ok (te_recorder env) (g_history g) \<Longrightarrow> fst (env_record x env i g) = Return ()"
  using record_ok [of "te_recorder env" "g_history g"] by (simp add: env_record_def split_beta)

lemma finish_returns: "fst r = Return u \<Longrightarrow> fst (finish r reply) = reply"
  by (cases r) (simp add: finish_def)

lemma resolve_history: "env_Resolve x r g = (v, h) \<Longrightarrow> g_history h = g_history g \<and> g_inbox h = g_inbox g"
  using env_Resolve_frame [of x r g] by simp

lemma retry_history:
  "env_Resolve x r (env_Evict u (tick g)) = (v, h) \<Longrightarrow> g_history h = g_history g \<and> g_inbox h = g_inbox g"
  using resolve_history [of x r "env_Evict u (tick g)" v h] by (simp add: gw_frames)

lemma consume_returns: "\<not> snd ev \<Longrightarrow> fst (consumeStream p ev s) \<noteq> None"
  by (auto simp: consumeStream_def split: prod.splits option.splits)

section \<open>Broadcasts\<close>

lemma conclude_gives:
  "recorder_ok (te_recorder env) (g_history g) \<Longrightarrow> fst (conclude x env a i oc g) = gives oc"
  by (simp add: conclude_def broadcast_recordHistory_def finish_returns record_gives)

lemma broadcast_health_frame [simp]:
  "g_history (recordBroadcastHealthOutcome a e g) = g_history g"
  "g_inbox (recordBroadcastHealthOutcome a e g) = g_inbox g"
  by (simp_all add: recordBroadcastHealthOutcome_def gw_frames split: connection_outcome.split)

lemma conclude_inbox [simp]: "g_inbox (snd (conclude x env a i oc g)) = g_inbox g"
  by (simp add: conclude_def broadcast_recordHistory_def gw_frames)

lemma direct_gives:
  assumes "recorder_ok (te_recorder env) (g_history g)"
  shows "(\<exists>oc. fst (broadcastDirect x env c d rq a i r g) = gives oc)
    \<and> g_inbox (snd (broadcastDirect x env c d rq a i r g)) = g_inbox g"
  using assms
  by (auto simp: broadcastDirect_def Let_def call_send_def gw_frames split: prod.splits sum.splits
      intro!: exI conclude_gives dest!: retry_history)

lemma stream_gives:
  assumes "recorder_ok (te_recorder env) (g_history g)" "streams_end x" "0 < d"
  shows "(\<exists>oc. fst (broadcastViaStreaming x env c d rq a i r g) = gives oc)
    \<and> g_inbox (snd (broadcastViaStreaming x env c d rq a i r g)) = g_inbox g"
proof -
  have "consumeStream p (x_stream x t c h d rq) s \<noteq> (None, s')" for p t c h rq s s'
    using consume_returns [of "x_stream x t c h d rq" p s] assms(2,3) by (auto simp: streams_end_def)
  with assms(1) show ?thesis
    by (auto simp: broadcastViaStreaming_def Let_def call_stream_def gw_frames
        split: prod.splits sum.splits option.splits intro!: exI conclude_gives dest!: retry_history)
qed

text \<open>However an agent of a broadcast is dealt with, it ends in one of three ways, on the same history and inbox.\<close>

lemma to_agent_ends:
  assumes "broadcastToAgent x env a i t g = ((rep, i'), g')"
  obtains h r where "g_history h = g_history g" "g_inbox h = g_inbox g"
      "conclude x env a i (no_response r) h = (rep, g')"
  | h c rq res where "g_history h = g_history g" "g_inbox h = g_inbox g"
      "broadcastDirect x env c (seconds_to_duration t) rq a i res h = (rep, g')"
  | h c rq res where "g_history h = g_history g" "g_inbox h = g_inbox g"
      "broadcastViaStreaming x env c (seconds_to_duration t) rq a i res h = (rep, g')"
proof (cases "reg_Lookup (g_registry g) a")
  case None
  with assms show ?thesis
    by (simp add: broadcastToAgent_def split: prod.splits) (use that(1) [OF refl refl] in \<open>blast\<close>)
next
  case (Some e)
  let ?res = "\<lparr>rr_url = ra_url e, rr_headers = ra_headers e, rr_is_alias = True, rr_alias = a\<rparr>"
  obtain ok g1 where al: "env_Allow x a g = (ok, g1)" by (cases "env_Allow x a g")
  obtain cl g2 where rs: "env_Resolve x ?res g1 = (cl, g2)" by (cases "env_Resolve x ?res g1")
  have f1: "g_history g1 = g_history g" "g_inbox g1 = g_inbox g"
    using env_Allow_frame [of x a g] al by simp_all
  with resolve_history [OF rs] have f2: "g_history g2 = g_history g" "g_inbox g2 = g_inbox g" by simp_all
  show ?thesis
    using assms Some al rs
    by (simp add: broadcastToAgent_def Let_def split: prod.splits sum.splits bool.splits if_splits)
      (use that(1) [OF refl refl] that(1) [OF f1] that(1) [OF f2] that(2) [OF f2] that(3) [OF f2] in \<open>blast\<close>)+
qed

lemma to_agent_gives:
  assumes "recorder_ok (te_recorder env) (g_history g)" "streams_end x" "0 < seconds_to_duration t"
    "broadcastToAgent x env a i t g = ((rep, i'), g')"
  shows "(\<exists>oc. rep = gives oc) \<and> g_inbox g' = g_inbox g"
  using assms(4)
proof (cases rule: to_agent_ends)
  case (1 h r)
  with assms(1) show ?thesis
    using conclude_gives [of env h x a i "no_response r"] conclude_inbox [of x env a i "no_response r" h]
    by (metis fst_conv snd_conv)
next
  case (2 h c rq res)
  with assms(1) show ?thesis
    using direct_gives [of env h x c "seconds_to_duration t" rq a i res] by (metis fst_conv snd_conv)
next
  case (3 h c rq res)
  with assms(1) show ?thesis
    using stream_gives [OF _ assms(2,3), of env h c rq a i res] by (metis fst_conv snd_conv)
qed

lemma resolveTimeout_range: "resolveTimeout n = Inr t \<Longrightarrow> 1 \<le> t \<and> t \<le> 120"
  by (auto simp: resolveTimeout_def defaultBroadcastTimeout_def minBroadcastTimeout_def maxBroadcastTimeout_def
      split: option.splits if_splits)

lemma resolveTimeout_deadline: "resolveTimeout n = Inr t \<Longrightarrow> 0 < seconds_to_duration t"
  using resolveTimeout_range [of n t] seconds_to_duration_exact [of t] by (simp add: second_def)

text \<open>
  C34: The background part of an asynchronous broadcast ends for every agent, and leaves exactly one
  entry in the inbox, filed under the agent.
\<close>

theorem async_broadcast_one_entry:
  assumes "recorder_ok (te_recorder env) (g_history g)" "streams_end x" "resolveTimeout (bi_timeout i) = Inr t"
  shows "fst (backgroundBroadcastToAgent x env a i t g) = gives () \<and>
     (\<exists>e now. ie_alias e = a \<and> g_inbox (snd (backgroundBroadcastToAgent x env a i t g)) = ib_Deposit now e (g_inbox g))"
proof -
  obtain rep i' g1 where b: "broadcastToAgent x env a i t g = ((rep, i'), g1)"
    by (metis surj_pair)
  from to_agent_gives [OF assms(1,2) resolveTimeout_deadline [OF assms(3)] b]
  obtain oc where "rep = gives oc" "g_inbox g1 = g_inbox g" by blast
  with b show ?thesis
    by (simp add: backgroundBroadcastToAgent_def gives_def env_Deposit_def)
      (intro exI conjI, rule broadcast_entry_alias, rule refl)
qed

lemma fanOut_loop_gives:
  assumes "recorder_ok (te_recorder env) (g_history g)" "streams_end x" "0 < seconds_to_duration t"
  shows "\<exists>os'. fst (fanOut_loop x env as i t os g) = gives os'"
  using assms(1)
proof (induction as arbitrary: i os g)
  case (Cons a as)
  obtain rep i' g1 where b: "broadcastToAgent x env a i t g = ((rep, i'), g1)"
    by (metis surj_pair)
  from to_agent_gives [OF Cons.prems assms(2,3) b] obtain oc where "rep = gives oc" by blast
  moreover have "recorder_ok (te_recorder env) (g_history g1)"
    using recording.keeps_to_agent [where rc = "te_recorder env", OF TrueI Cons.prems, of x env a i t] b by simp
  ultimately show ?case using b Cons.IH by (simp add: gives_def)
qed (simp add: gives_def)

lemma broadcast_answers:
  assumes "recorder_ok (te_recorder env) (g_history g)" "streams_end x"
  shows "answers (fst (broadcast_Handle x env i g))"
proof (cases "resolveTimeout (bi_timeout i)")
  case (Inr t)
  obtain os g1 where "fanOut x env i t g = (gives os, g1)"
    using fanOut_loop_gives [of env "tick g" x t] assms resolveTimeout_deadline [OF Inr]
    by (metis fanOut_def prod.collapse tick_fields(4))
  with Inr show ?thesis
    by (simp add: broadcast_Handle_def gives_def fails_with_def split: option.split prod.split)
qed (simp add: broadcast_Handle_def fails_with_def split: option.split)

section \<open>Messages\<close>

lemma polled_answers: "answers (polled_reply t)"
  by (simp add: polled_reply_def gives_def formatTaskResponse_def split: task_state.split)

lemma poll_task_answers:
  assumes "clock_runs x" "0 < to"
  shows "answers (fst (poll_task_result x c t r a to g))"
proof -
  obtain v where "pollTaskCompletion x True c (tk_id t) to g = Some v"
    using poll_terminates [of x to True c "tk_id t" g] assms by (auto simp: clock_runs_def)
  then show ?thesis
    by (cases v) (simp add: poll_task_result_def fails_with_def polled_answers split: sum.split)
qed

lemma task_answers:
  "clock_runs x \<Longrightarrow> 0 < to \<Longrightarrow> answers (fst (handleTaskResult x c t r a to g))"
  using poll_task_answers [of x to c t r a g]
  by (simp add: handleTaskResult_def gives_def fails_with_def split: task_state.split)

lemma finish_answers:
  "recorder_ok (te_recorder env) (g_history g) \<Longrightarrow> answers reply \<Longrightarrow>
     answers (fst (finish (send_recordHistory x env i res out g) reply))"
  by (simp add: send_recordHistory_def finish_returns record_gives)

lemma process_answers:
  assumes "recorder_ok (te_recorder env) (g_history g)" "clock_runs x" "0 < te_poll env (si_poll i)"
  shows "answers (fst (processResponse x env i sr resp g))"
proof -
  let ?h = "\<lambda>t. handleTaskResult x (pq_client sr) t (pq_resolved sr) (si_agent i) (te_poll env (si_poll i)) g"
  have "answers (fst (?h t)) \<and> recorder_ok (te_recorder env) (g_history (snd (?h t)))" for t
    using task_answers [OF assms(2,3)] recording.keeps_task_result [where rc = "te_recorder env", OF TrueI assms(1)] by blast
  then have h: "?h t = (rep, g1) \<Longrightarrow> answers rep \<and> recorder_ok (te_recorder env) (g_history g1)" for t rep g1
    by (metis fst_conv snd_conv)
  have t: "answers (fst (case ?h t of (Reply res out err, g1) \<Rightarrow> finish (send_recordHistory x env i res out g1) (Reply res out err)
      | (r, g1) \<Rightarrow> (r, g1)))" for t
    using h [of t] by (cases "?h t"; cases "fst (?h t)") (auto intro: finish_answers)
  show ?thesis
    using assms(1) t
    by (auto simp: processResponse_def Let_def gives_def fails_with_def gw_frames split: send_result.split intro!: finish_answers)
qed

lemma send_answers:
  assumes "recorder_ok (te_recorder env) (g_history g)" "clock_runs x" "streams_end x"
    "0 < te_poll env (si_poll i)" "0 < te_stream env (si_poll i)"
  shows "answers (fst (send_Handle x env p i g))"
proof (cases "buildSendRequest x i g")
  case (Pair v g1)
  have g1: "recorder_ok (te_recorder env) (g_history g1)"
    using recording.keeps_build [where rc = "te_recorder env", OF TrueI assms(1), of x i] Pair by simp
  have "answers (fst (sendDirect x env i sr g1))" for sr
  proof (cases "resolveClientWithAuthRetry x (pq_resolved sr) (\<lambda>c. call_send x c 0 (pq_request sr)) g1")
    case (Pair w h)
    have "g_history (snd (resolveClientWithAuthRetry x (pq_resolved sr) (\<lambda>c. call_send x c 0 (pq_request sr)) g1)) = g_history g1"
      by (rule auth_retry_frame) (simp_all add: gw_frames)
    with Pair g1 have h: "recorder_ok (te_recorder env) (g_history h)" by simp
    show ?thesis
      using Pair h assms(2,4)
      by (auto simp: sendDirect_def fails_with_def send_recordHealthOutcome_def record_success_def gw_frames
          split: sum.split intro!: finish_answers process_answers)
  qed
  moreover have "answers (fst (sendViaStreaming x env p i sr g1))" for sr
  proof -
    have "consumeStream p (x_stream x t c h d rq) s \<noteq> (None, s')" if "0 < d" for t c h d rq s s'
      using consume_returns [of "x_stream x t c h d rq" p s] assms(3) that by (auto simp: streams_end_def)
    with assms(5) g1 show ?thesis
      by (auto simp: via_streaming handleStreamingMessage_def call_stream_def record_success_def gw_frames
          split: prod.splits option.splits sum.splits intro!: finish_answers)
  qed
  ultimately show ?thesis
    using Pair by (simp add: send_Handle_def sendAsync_def gives_def fails_with_def split: sum.split)
qed

section \<open>Servers\<close>

text \<open>
  A history configuration that can record: a backend of the embedder that keeps its own invariant, or a
  depth that is not negative. Depth 0 disables the history.
\<close>

definition sound_history :: "file_system \<Rightarrow> 'r server_option list \<Rightarrow> bool" where
  "sound_history files opts \<longleftrightarrow>
     (case sc_history_backend (server_config_of opts) of
        None \<Rightarrow> 0 \<le> sc_history_depth (server_config_of opts)
      | Some b \<Rightarrow> backend_ok \<lparr>hb_backend = Some b, hb_files = files\<rparr>)"

lemma gw_inv_start: "sound_history files opts \<Longrightarrow> gw_inv (snd (NewServer files opts))"
  by (rule gw_inv_new) (auto simp: sound_history_def split: option.splits)

lemma recorder_start:
  "NewServer files opts = (s, g0) \<Longrightarrow> sound_history files opts \<Longrightarrow>
     recorder_ok (historyRecorderAdapter s) (g_history g0)"
  by (auto simp: sound_history_def NewServer_def Let_def history_settings_def recorder_ok_def
      historyRecorderAdapter_def backend_ok_def mb_inv_new split: option.splits if_splits)

lemma recorder_reachable:
  assumes "NewServer files opts = (s, g0)" "sound_history files opts" "interleaved UNIV g0 g"
  shows "recorder_ok (te_recorder (toolEnv w s)) (g_history g)"
  using recording.keeps_interleaved [OF assms(3) _ recorder_start [OF assms(1,2)]] by (simp add: toolEnv_def)

lemma server_timeouts:
  assumes "NewServer files opts = (s, g0)" "0 < sc_poll (server_config_of opts)" "0 < sc_stream (server_config_of opts)"
    "n = None \<or> (\<exists>k. n = Some k \<and> 0 \<le> k \<and> k \<le> 9223372036)"
  shows "0 < te_poll (toolEnv w s) n" "0 < te_stream (toolEnv w s) n"
proof -
  have "sv_poll s = sc_poll (server_config_of opts)" "sv_stream s = sc_stream (server_config_of opts)"
    using assms(1) by (auto simp: NewServer_def Let_def split: prod.splits)
  with assms(2-4) show "0 < te_poll (toolEnv w s) n" "0 < te_stream (toolEnv w s) n"
    using seconds_to_duration_exact
    by (auto simp: toolEnv_def effectivePollTimeout_def effectiveStreamTimeout_def second_def)
qed

lemma async_broadcast_one_entry_witness:
  "\<exists>e now. ie_alias e = ''a'' \<and>
     g_inbox (snd (backgroundBroadcastToAgent (sample_world (Inr ResOther)) sample_env ''a'' sample_broadcast 30 sick_gw))
     = ib_Deposit now e (g_inbox sick_gw)"
proof -
  have "recorder_ok (te_recorder sample_env) (g_history sick_gw)" "streams_end (sample_world (Inr ResOther))"
      "resolveTimeout (bi_timeout sample_broadcast) = Inr 30"
    by (simp_all add: sick_gw_def sample_gw_def recorder_ok_def backend_ok_def mb_inv_new streams_end_def
        sample_world_def resolveTimeout_def sample_broadcast_def defaultBroadcastTimeout_def)
  from async_broadcast_one_entry [OF this, of "''a''"] show ?thesis by blast
qed

section \<open>A sample run\<close>

text \<open>A server with the default options and one agent connected.\<close>

definition plain_server :: "unit server" where
  "plain_server = fst (NewServer [] [] :: unit server \<times> nat gw)"

definition plain_gw :: "nat gw" where
  "plain_gw = snd (NewServer [] [] :: unit server \<times> nat gw)"

lemma plain_new: "NewServer [] [] = (plain_server, plain_gw)"
  by (simp add: plain_server_def plain_gw_def)

definition connected_gw :: "nat gw" where
  "connected_gw = snd (srv_ConnectAgent (sample_world (Inr ResOther)) plain_world plain_server sample_connect plain_gw)"

lemma connected_step: "server_step plain_server {''a''} plain_gw connected_gw"
  using server_step.connect [of plain_server sample_connect plain_gw "sample_world (Inr ResOther)" plain_world]
  by (simp add: sample_connect_def connected_gw_def)

lemma connected_reached: "interleaved UNIV plain_gw connected_gw"
  by (rule interleaved_mono [OF step_interleaved [OF connected_step]]) simp

lemma plain_sound: "sound_history [] ([] :: unit server_option list)"
  by (simp add: sound_history_def server_config_of_def default_config_def)

end
