(* ===== verification/ReplyTypes.thy ===== *)
theory ReplyTypes
  imports ToolProperties
begin

text \<open>
  The replies of \<open>send_message\<close>, \<open>broadcast_message\<close> and \<open>read_inbox\<close> have the shape their output schemas
  promise, and the input schema of \<open>discover_agents\<close> asks for a directory URL exactly when the handler
  needs one.
\<close>

section \<open>One payload\<close>

text \<open>An output carries a message, a task or a dispatch confirmation, and only one of them.\<close>

definition one_payload :: "send_output \<Rightarrow> bool" where
  "one_payload out \<longleftrightarrow>
     (\<exists>m. out = formatMessageResponse m) \<or> (\<exists>t. out = task_output t) \<or>
     (\<exists>a. out = \<lparr>so_message = None, so_task = None, so_async = Some a\<rparr>)"

lemma one_payload_intros [simp]:
  "one_payload (formatMessageResponse m)" "one_payload (task_output t)"
  "one_payload (formatTaskResponse t)" "one_payload (formatInterruptedResponse t s)"
  "one_payload (formatInputRequiredResponse t)" "one_payload (formatStreamTask t)"
  "one_payload (async_reply a s e)"
  by (auto simp: one_payload_def formatTaskResponse_def formatInterruptedResponse_def
      formatInputRequiredResponse_def formatStreamTask_def async_reply_def split: task_state.splits)

lemma answered_payload: "answered out \<Longrightarrow> one_payload out"
  by (cases out) (auto simp: answered_def one_payload_def formatMessageResponse_def task_output_def split: option.splits)

text \<open>A reply that carries an output carries a proper one.\<close>

fun well_typed :: "send_output reply \<Rightarrow> bool" where
  "well_typed (Reply _ (Some out) _) = one_payload out"
| "well_typed _ = True"

lemma well_typed_intros [simp]: "well_typed (fails_with e)" "well_typed (gives out) = one_payload out"
  "well_typed (Reply a None b)"
  by (simp_all add: fails_with_def gives_def)

lemma finish_well_typed: "well_typed rep \<Longrightarrow> well_typed (fst (finish r rep))"
  by (auto simp: finish_def split: prod.splits outcome.splits)

lemma task_well_typed: "well_typed (fst (handleTaskResult x c t r a to g))"
  by (auto simp: handleTaskResult_def poll_task_result_def polled_reply_def
      split: task_state.split option.split prod.split sum.split)

lemma process_well_typed: "well_typed (fst (processResponse x env i sr resp g))"
  using task_well_typed [of x "pq_client sr" _ "pq_resolved sr" "si_agent i" "te_poll env (si_poll i)" g]
  by (auto simp: processResponse_def Let_def intro!: finish_well_typed
      split: send_result.split prod.split reply.split) (metis fst_conv)+

lemma streaming_well_typed: "well_typed (fst (handleStreamingMessage x p c rq r a to g))"
  by (auto simp: handleStreamingMessage_def stream_outcome_def Let_def
      split: prod.splits option.splits sum.splits stream_result.splits)

lemma send_well_typed: "well_typed (fst (send_Handle x env p i g))"
proof -
  have "well_typed (fst (sendViaStreaming x env p i sr h))" for sr h
    using streaming_well_typed [of x p "pq_client sr" "pq_request sr" "pq_resolved sr" "si_agent i" "te_stream env (si_poll i)" h]
    by (auto simp: via_streaming intro!: finish_well_typed split: prod.split reply.split) (metis well_typed.simps(1) not_None_eq well_typed_intros(3))
  moreover have "well_typed (fst (sendDirect x env i sr h))" for sr h
    by (auto simp: sendDirect_def intro!: finish_well_typed process_well_typed split: prod.split sum.split)
  ultimately show ?thesis
    by (auto simp: send_Handle_def sendAsync_def one_payload_def split: prod.split sum.split)
qed

section \<open>Conformance of one output\<close>

text \<open>What an output says is right when the message or task it carries is, by its own document.\<close>

definition payload_valid :: "'k keyword_meaning \<Rightarrow> 'k spec_docs \<Rightarrow> a2a_encoder \<Rightarrow> send_output \<Rightarrow> bool" where
  "payload_valid kw docs en out =
     (case so_message out of
        Some m \<Rightarrow> document_valid kw (sd_message docs) (en_message en m)
      | None \<Rightarrow>
          (case so_task out of
             Some t \<Rightarrow> document_valid kw (sd_task docs) (en_task en t)
           | None \<Rightarrow> so_async out \<noteq> None))"

text \<open>The embedded documents are usable: their names agree, and each looks up only names it defines.\<close>

definition docs_usable :: "'k keyword_meaning \<Rightarrow> 'k spec_docs \<Rightarrow> bool" where
  "docs_usable kw docs \<longleftrightarrow> docs_agree docs \<and> self_contained kw (sd_message docs) \<and> self_contained kw (sd_task docs)"

definition reply_alternatives :: "'k spec_docs \<Rightarrow> 'k json_schema list" where
  "reply_alternatives docs = jsc_one_of (fst (SendMessageResponseSchema docs))"

lemma send_schema_parts:
  "conforms K (fst (SendMessageResponseSchema docs)) (JObj kvs)
     = (length (filter (\<lambda>s. conforms K s (JObj kvs)) (reply_alternatives docs)) = 1)"
  "jsc_definitions (fst (SendMessageResponseSchema docs)) = hoisted (sd_message docs) (sd_task docs)"
  by (simp_all add: reply_alternatives_def SendMessageResponseSchema_def MessageSchema_def TaskSchema_def)

lemma alternative_conforms:
  "conforms K (JsonSchema [] [] d [(key, s)] [key] None None [] [] []) (JObj kvs)
     = (case map_of kvs key of None \<Rightarrow> False | Some v \<Rightarrow> conforms K s v)"
  by (auto split: option.splits)

lemma async_conforms:
  "conforms K async_alternative (JObj kvs) = (case map_of kvs ''async'' of None \<Rightarrow> False
     | Some (JObj ms) \<Rightarrow> map_of ms ''alias'' \<noteq> None \<and> map_of ms ''status'' \<noteq> None \<and>
         (\<forall>k \<in> {''alias'', ''status'', ''error''}. case map_of ms k of None \<Rightarrow> True | Some v \<Rightarrow> type_allows ''string'' v)
     | Some _ \<Rightarrow> False)"
  unfolding async_alternative_def alternative_conforms
  by (auto split: option.split jval.split)

lemma map_schema_conforms:
  "conforms K (JsonSchema t ''object'' d [] [] None (Some s) [] defs []) (JObj kvs) = (\<forall>m \<in> set kvs. conforms K s (snd m))"
  by simp

lemma alternatives: "reply_alternatives docs =
   [JsonSchema [] [] ''Returned when the interaction is short-lived or synchronous.''
      [(''message'', clear_definitions (sd_message docs))] [''message''] None None [] [] [],
    JsonSchema [] [] ''Returned when a long-running workflow or background execution is triggered.''
      [(''task'', clear_definitions (sd_task docs))] [''task''] None None [] [] [],
    async_alternative]"
  by (simp add: reply_alternatives_def SendMessageResponseSchema_def MessageSchema_def TaskSchema_def)

lemma output_conforms:
  assumes "docs_usable kw docs" "one_payload out"
  shows "(length (filter (\<lambda>s. conforms (kw (hoisted (sd_message docs) (sd_task docs))) s (send_output_json en out))
       (reply_alternatives docs)) = 1) = payload_valid kw docs en out"
  using assms
  by (auto simp: one_payload_def formatMessageResponse_def task_output_def send_output_json_def optional_def
      alternatives alternative_conforms async_conforms payload_valid_def docs_usable_def hoisted_message
      hoisted_task async_json_def split: if_splits)

section \<open>Replies conform to the output schemas\<close>

text \<open>
  C14: A reply of \<open>send_message\<close> that carries an output carries exactly one of a message, a task and a
  dispatch confirmation, and its JSON form conforms to the output schema of the tool exactly when the
  message or task conforms to its own A2A schema.
\<close>

theorem send_replies_typed:
  assumes "docs_usable kw docs" "sendMessageOutputSchema docs = Return schema"
    "fst (send_Handle x env p i g) = Reply res (Some out) err"
  shows "one_payload out \<and> document_valid kw schema (send_output_json en out) = payload_valid kw docs en out"
proof
  show one: "one_payload out" using send_well_typed [of x env p i g] assms(3) by simp
  have "schema = fst (SendMessageResponseSchema docs)"
    using assms(2) by (auto simp: sendMessageOutputSchema_def split: prod.splits option.splits)
  with output_conforms [OF assms(1) one, of en]
  show "document_valid kw schema (send_output_json en out) = payload_valid kw docs en out"
    by (simp add: document_valid_def send_output_json_def send_schema_parts)
qed

text \<open>The same for every entry of the reply of a broadcast.\<close>

lemma broadcastAsync_payloads:
  assumes "broadcastAsync x as i t rs g = (rs', g')" "\<forall>p \<in> set rs. one_payload (snd p)" "distinct (map fst rs)"
  shows "(\<forall>p \<in> set rs'. one_payload (snd p)) \<and> distinct (map fst rs')"
  using assms
proof (induction as arbitrary: rs g)
  case (Cons a as)
  have "(\<forall>p \<in> set (AList.update a (async_reply a s e) rs). one_payload (snd p))" for s e
    using Cons.prems(2) by (auto dest!: set_update)
  moreover have "distinct (map fst (AList.update a v rs))" for v
    using Cons.prems(3) by (rule distinct_update)
  ultimately show ?case
    using Cons.prems(1) Cons.IH by (auto split: option.splits prod.splits)
qed simp

lemma fanOut_loop_payloads:
  assumes "fanOut_loop x env as i t os g = (Reply res (Some os') err, g1)" "distinct (map fst os)"
    "\<forall>p \<in> set os. \<forall>out. oc_response (snd p) = Some out \<longrightarrow> one_payload out"
  shows "(\<forall>p \<in> set os'. \<forall>out. oc_response (snd p) = Some out \<longrightarrow> one_payload out) \<and> distinct (map fst os')"
  using assms
proof (induction as arbitrary: i os g)
  case (Cons b as)
  from Cons.prems(1) obtain r o1 e i' g2 where b: "broadcastToAgent x env b i t g = ((Reply r (Some o1) e, i'), g2)"
      "fanOut_loop x env as i' t (AList.update b o1 os) g2 = (Reply res (Some os') err, g1)"
    by (auto split: prod.splits reply.splits option.splits)
  have "\<forall>out. oc_response o1 = Some out \<longrightarrow> one_payload out"
    using to_agent_answered [OF b(1)] answered_payload by blast
  with Cons.prems(3) have "\<forall>p \<in> set (AList.update b o1 os). \<forall>out. oc_response (snd p) = Some out \<longrightarrow> one_payload out"
    by (auto dest!: set_update)
  from Cons.IH [OF b(2) distinct_update [OF Cons.prems(2)] this] show ?case .
qed (simp add: gives_def)

lemma build_response_keys: "distinct (map fst os) \<Longrightarrow> distinct (map fst (buildResponse os))"
proof -
  have "set (map fst (buildResponse os)) \<subseteq> set (map fst os)" for os
    by (induction os rule: buildResponse.induct) (auto split: option.splits)
  then show "distinct (map fst os) \<Longrightarrow> distinct (map fst (buildResponse os))"
    by (induction os rule: buildResponse.induct) (auto split: option.splits)
qed

lemma broadcast_payloads:
  assumes "fst (broadcast_Handle x env i g) = Reply res (Some outs) err"
  shows "(\<forall>p \<in> set outs. one_payload (snd p)) \<and> distinct (map fst outs)"
proof (cases "bi_async i = Some True")
  case True
  then obtain t g1 where "broadcastAsync x (bi_aliases i) i t [] g = (outs, g1)"
    using assms by (auto simp: broadcast_Handle_def gives_def fails_with_def split: option.splits sum.splits prod.splits)
  from broadcastAsync_payloads [OF this] show ?thesis by simp
next
  case False
  then obtain t r os e g1 where f: "fanOut x env i t g = (Reply r (Some os) e, g1)" "outs = buildResponse os"
    using assms by (auto simp: broadcast_Handle_def gives_def fails_with_def
        split: option.splits sum.splits prod.splits reply.splits)
  from fanOut_loop_payloads [OF f(1) [unfolded fanOut_def]] build_response_from [of _ _ os] build_response_keys [of os] f(2)
  show ?thesis by fastforce
qed


text \<open>The output of \<open>read_inbox\<close> always conforms: its schema asks for objects and no more.\<close>

lemma read_inbox_typed: "document_valid kw readInboxOutputSchema (read_inbox_json en out)"
  by (simp add: document_valid_def readInboxOutputSchema_def read_inbox_json_def send_output_json_def)

section \<open>Sample documents\<close>

text \<open>Documents whose only keyword is a reference, and small encoders.\<close>

definition ref_meaning :: "string keyword_meaning" where
  "ref_meaning defs n j = (case map_of defs n of None \<Rightarrow> False | Some s \<Rightarrow> conforms (\<lambda>_ _. True) s j)"

definition sample_docs :: "string spec_docs" where
  "sample_docs = \<lparr>
     sd_message = JsonSchema ''A2AMessage'' ''object'' []
       [(''parts'', JsonSchema [] ''array'' [] [] [] (Some (JsonSchema [] [] [] [] [] None None [] [] [''Part''])) None [] [] [])]
       [''parts''] None None [] [(''Part'', typed_schema ''object'' [])] [],
     sd_message_err = None,
     sd_task = JsonSchema ''A2ATask'' ''object'' []
       [(''status'', JsonSchema [] [] [] [] [] None None [] [] [''TaskStatus''])] [''id'', ''status''] None None []
       [(''TaskStatus'', typed_schema ''object'' []), (''Part'', typed_schema ''object'' [])] [],
     sd_task_err = None\<rparr>"

definition sample_encoder :: a2a_encoder where
  "sample_encoder = \<lparr>en_message = (\<lambda>m. JObj [(''parts'', JArr (map (\<lambda>_. JObj []) (msg_parts m)))]),
     en_task = (\<lambda>t. JObj [(''id'', JStr (tk_id t)),
       (''status'', JObj [(''state'', JStr (task_state_text (st_state (tk_status t))))])])\<rparr>"

lemma sample_docs_usable: "docs_usable ref_meaning sample_docs"
  by (auto simp: docs_usable_def docs_agree_def self_contained_def sample_docs_def ref_meaning_def fun_eq_iff split: if_splits)

lemma sample_task_valid: "payload_valid ref_meaning sample_docs sample_encoder (task_output done_task)"
  by (simp add: payload_valid_def task_output_def document_valid_def sample_docs_def sample_encoder_def ref_meaning_def)

lemma sample_schemas:
  "\<exists>schema. sendMessageOutputSchema sample_docs = Return schema"
  "\<exists>schema. broadcastMessageOutputSchema sample_docs = Return schema"
  by (simp_all add: sendMessageOutputSchema_def broadcastMessageOutputSchema_def SendMessageResponseSchema_def
      MessageSchema_def TaskSchema_def sample_docs_def errors_join_def)

lemma send_replies_typed_witness:
  "\<exists>schema. sendMessageOutputSchema sample_docs = Return schema \<and>
     document_valid ref_meaning schema (send_output_json sample_encoder (task_output done_task))"
proof -
  obtain schema where s: "sendMessageOutputSchema sample_docs = Return schema" using sample_schemas by blast
  obtain g' where "send_Handle (sample_world (Inr (ResTask done_task))) sample_env False sample_send sample_gw
      = (Reply None (Some (task_output done_task)) None, g')" using sample_sent by blast
  then have r: "fst (send_Handle (sample_world (Inr (ResTask done_task))) sample_env False sample_send sample_gw)
      = Reply None (Some (task_output done_task)) None" by simp
  from s send_replies_typed [OF sample_docs_usable s r, of sample_encoder] sample_task_valid show ?thesis by blast
qed


section \<open>The catalog\<close>

text \<open>
  Registration panics exactly when an embedded document does not load; otherwise it offers seventeen
  tools under names of their own.
\<close>

lemma catalog_registered:
  "(\<exists>p. RegisterAll docs env = Panic p) = (sd_message_err docs \<noteq> None \<or> sd_task_err docs \<noteq> None)"
  "RegisterAll docs env = Return ts \<Longrightarrow> distinct (map mt_name ts) \<and> length ts = 17"
  by (auto simp: RegisterAll_def send_Tool_def broadcast_Tool_def sendMessageOutputSchema_def
      broadcastMessageOutputSchema_def SendMessageResponseSchema_def MessageSchema_def TaskSchema_def
      errors_join_def plain_tool_def ping_Tool_def connect_Tool_def disconnect_Tool_def list_Tool_def
      get_card_Tool_def get_task_Tool_def cancel_task_Tool_def get_history_Tool_def clear_history_Tool_def
      create_card_Tool_def view_card_Tool_def remove_card_Tool_def discover_Tool_def check_inbox_Tool_def
      read_inbox_Tool_def split: option.splits prod.splits outcome.splits)

text \<open>
  The input schema of \<open>discover_agents\<close> requires a directory URL exactly when a call without one is
  refused for that reason.
\<close>

definition url_required :: goerr where
  "url_required = errors_new
     ''directory URL is required: no explicit URL, self-hosted directory, or default URL configured''"

lemma discover_schema_requires:
  assumes "dc_url i = []" "case dc_limit i of None \<Rightarrow> True | Some n \<Rightarrow> 1 \<le> n" "validate_Headers (dc_headers i) = None"
    "te_dir_err env \<noteq> Some url_required"
  shows "''directory_url'' \<in> set (jsc_required (buildInputSchema env)) \<longleftrightarrow>
    fst (discover_Handle x env i g) = fails_with url_required"
  using assms
  by (auto simp: buildInputSchema_def discover_Handle_def discover_handleHTTP_def discover_handleInProcess_def
      url_required_def fails_with_def gives_def errors_new_def wrap_err_def
      split: option.splits sum.splits http_outcome.splits)

end
