(* ===== verification/MockAgents.thy ===== *)
theory MockAgents
  imports Directory
begin

text \<open>
  The two development agents under \<open>cmd/mockserver\<close>: \<open>minimal\<close>, which echoes a message in a completed
  task and keeps the task, and \<open>knock-knock\<close>, which tells a joke over three turns of one context. Both
  take JSON-RPC requests over POST; decoding a body or its parameters and making up an identifier are
  parameters, and each call with a mutex held is one step. Log output, time stamps and the artifact
  ids, which nothing reads, are left out.
\<close>

section \<open>JSON-RPC\<close>

text \<open>An id that is absent is null. A response has a result or an error, never both.\<close>

record rpc_request =
  jr_version :: string
  jr_method :: string
  jr_params :: string
  jr_id :: jval

datatype rpc_result = WrappedTask a2a_task | PlainTask a2a_task

record rpc_response =
  js_version :: string
  js_id :: jval
  js_result :: "rpc_result option"
  js_error :: "(int \<times> string) option"

datatype mock_reply = HttpFault int string | RpcReply rpc_response

text \<open>
  \<open>mw_message\<close> and \<open>mw_task_ref\<close> are \<open>json.Unmarshal\<close> of the parameters: the message, if there is one,
  and the id of a task. The ids made up are indexed by the requests handled before.
\<close>

record mock_world =
  mw_decode :: "string \<Rightarrow> rpc_request option"
  mw_message :: "string \<Rightarrow> goerr + a2a_message option"
  mw_task_ref :: "string \<Rightarrow> goerr + string"
  mw_context_id :: "nat \<Rightarrow> string"
  mw_task_id :: "nat \<Rightarrow> string"

definition writeJSONRPCResult :: "jval \<Rightarrow> rpc_result \<Rightarrow> mock_reply" where
  "writeJSONRPCResult i r = RpcReply \<lparr>js_version = ''2.0'', js_id = i, js_result = Some r, js_error = None\<rparr>"

definition writeJSONRPCError :: "jval \<Rightarrow> int \<Rightarrow> string \<Rightarrow> mock_reply" where
  "writeJSONRPCError i code message =
     RpcReply \<lparr>js_version = ''2.0'', js_id = i, js_result = None, js_error = Some (code, message)\<rparr>"

text \<open>The loop over the parts: the first text that is not empty.\<close>

fun user_text :: "parts \<Rightarrow> string" where
  "user_text [] = []"
| "user_text (Some (TextC t) # ps) = (if t \<noteq> [] then t else user_text ps)"
| "user_text (_ # ps) = user_text ps"

definition message_context :: "mock_world \<Rightarrow> nat \<Rightarrow> a2a_message option \<Rightarrow> string" where
  "message_context w n m =
     (let c = (case m of None \<Rightarrow> [] | Some msg \<Rightarrow> msg_context msg)
      in if c = [] then mw_context_id w n else c)"

definition invalid_params :: "goerr \<Rightarrow> string" where
  "invalid_params e = ''invalid params: '' @ err_text e"

section \<open>The echo agent\<close>

record mock_server =
  ms_name :: string
  ms_port :: int
  ms_directory :: "unit directory"
  ms_tasks :: "(string, a2a_task) gomap"
  ms_handled :: nat

definition mock_agentCard :: "string \<Rightarrow> int \<Rightarrow> agent_card" where
  "mock_agentCard name port = \<lparr>ac_name = name, ac_description = ''A mock A2A agent for testing purposes'',
     ac_version = ''1.0.0'',
     ac_interfaces = [\<lparr>ai_url = ''http://localhost:'' @ itoa port @ ''/'', ai_binding = JsonRpc\<rparr>],
     ac_input_modes = [''text/plain''], ac_output_modes = [''text/plain''], ac_streaming = False,
     ac_skills = [\<lparr>sk_id = ''echo'', sk_name = ''Echo'', sk_description = ''Echoes back the user's message'',
       sk_tags = [''echo'', ''test''], sk_examples = [''Hello, agent!'']\<rparr>]\<rparr>"

text \<open>The directory is the in-memory one, so the operations of a custom registry are not used.\<close>

definition newMockServer :: "unit registry_ops \<Rightarrow> string \<Rightarrow> int \<Rightarrow> goerr option \<times> mock_server" where
  "newMockServer ops name port =
     (case dir_Register ops (mock_agentCard name port) (NewDirectory []) of
        (e, d) \<Rightarrow> (e, \<lparr>ms_name = name, ms_port = port, ms_directory = d, ms_tasks = [], ms_handled = 0\<rparr>))"

text \<open>The completed task that echoes a message; \<open>n\<close> stands for the request it answers.\<close>

definition echo_task :: "mock_world \<Rightarrow> nat \<Rightarrow> a2a_message option \<Rightarrow> a2a_task" where
  "echo_task w n m =
     (let userText = (case m of None \<Rightarrow> [] | Some msg \<Rightarrow> user_text (msg_parts msg))
      in \<lparr>tk_id = mw_task_id w n, tk_context = message_context w n m,
          tk_status = \<lparr>st_state = TS_Completed, st_message = None\<rparr>,
          tk_artifacts = [Some \<lparr>art_name = ''response'', art_parts = [text_part (''echo: '' @ userText)]\<rparr>]\<rparr>)"

definition mock_handleSendMessage :: "mock_world \<Rightarrow> rpc_request \<Rightarrow> mock_server \<Rightarrow> mock_reply \<times> mock_server" where
  "mock_handleSendMessage w rq s =
     (case mw_message w (jr_params rq) of
        Inl e \<Rightarrow> (writeJSONRPCError (jr_id rq) (- 32602) (invalid_params e), s)
      | Inr m \<Rightarrow>
          let task = echo_task w (ms_handled s) m
          in (writeJSONRPCResult (jr_id rq) (WrappedTask task),
              s\<lparr>ms_tasks := AList.update (tk_id task) task (ms_tasks s)\<rparr>))"

definition mock_handleGetTask :: "mock_world \<Rightarrow> rpc_request \<Rightarrow> mock_server \<Rightarrow> mock_reply" where
  "mock_handleGetTask w rq s =
     (case mw_task_ref w (jr_params rq) of
        Inl e \<Rightarrow> writeJSONRPCError (jr_id rq) (- 32602) (invalid_params e)
      | Inr tid \<Rightarrow>
          (case map_of (ms_tasks s) tid of
             None \<Rightarrow> writeJSONRPCError (jr_id rq) (- 32001) ''task not found''
           | Some t \<Rightarrow> writeJSONRPCResult (jr_id rq) (PlainTask t)))"

definition mock_handleCancelTask :: "mock_world \<Rightarrow> rpc_request \<Rightarrow> mock_server \<Rightarrow> mock_reply \<times> mock_server" where
  "mock_handleCancelTask w rq s =
     (case mw_task_ref w (jr_params rq) of
        Inl e \<Rightarrow> (writeJSONRPCError (jr_id rq) (- 32602) (invalid_params e), s)
      | Inr tid \<Rightarrow>
          (case map_of (ms_tasks s) tid of
             None \<Rightarrow> (writeJSONRPCError (jr_id rq) (- 32001) ''task not found'', s)
           | Some t \<Rightarrow>
               if st_state (tk_status t) = TS_Completed \<or> st_state (tk_status t) = TS_Failed
               then (writeJSONRPCError (jr_id rq) (- 32002) ''task is not cancelable'', s)
               else let t' = t\<lparr>tk_status := \<lparr>st_state = TS_Canceled, st_message = None\<rparr>\<rparr>
                 in (writeJSONRPCResult (jr_id rq) (PlainTask t'),
                     s\<lparr>ms_tasks := AList.update tid t' (ms_tasks s)\<rparr>)))"

text \<open>A request is its content type and its body.\<close>

definition mock_handlePost :: "mock_world \<Rightarrow> string \<times> string \<Rightarrow> mock_server \<Rightarrow> mock_reply \<times> mock_server" where
  "mock_handlePost w r s0 =
     (let s = s0\<lparr>ms_handled := Suc (ms_handled s0)\<rparr> in
      if fst r \<noteq> ''application/json'' then (HttpFault 415 ''Content-Type must be application/json'', s)
      else (case mw_decode w (snd r) of
          None \<Rightarrow> (writeJSONRPCError JNull (- 32700) ''parse error'', s)
        | Some rq \<Rightarrow>
            if jr_version rq \<noteq> ''2.0''
            then (writeJSONRPCError (jr_id rq) (- 32600) ''invalid request: missing jsonrpc 2.0'', s)
            else if jr_method rq = ''SendMessage'' then mock_handleSendMessage w rq s
            else if jr_method rq = ''GetTask'' then (mock_handleGetTask w rq s, s)
            else if jr_method rq = ''CancelTask'' then mock_handleCancelTask w rq s
            else (writeJSONRPCError (jr_id rq) (- 32601) (''method not found: '' @ jr_method rq), s)))"

text \<open>
  The routes of the server, as \<open>http.ServeMux\<close> matches clean paths: a GET pattern answers HEAD too, the POST
  pattern covers every path, and any other method is refused with 405.
\<close>

record agent_request =
  aq_method :: string
  aq_path :: string
  aq_query :: "string \<Rightarrow> string"
  aq_content_type :: string
  aq_body :: string

datatype agent_reply = CardReply agent_card | DirectoryReply dir_response | PostReply mock_reply | MethodNotAllowed

abbreviation reads :: "agent_request \<Rightarrow> string \<Rightarrow> bool" where
  "reads r path \<equiv> aq_method r \<in> {''GET'', ''HEAD''} \<and> aq_path r = path"

definition mock_handleAgentCard :: "mock_server \<Rightarrow> agent_reply" where
  "mock_handleAgentCard s = CardReply (mock_agentCard (ms_name s) (ms_port s))"

definition mock_routes ::
  "mock_world \<Rightarrow> unit registry_ops \<Rightarrow> (nat \<Rightarrow> nat) \<Rightarrow> (agent_card list \<Rightarrow> agent_card list) \<Rightarrow> agent_request
    \<Rightarrow> mock_server \<Rightarrow> agent_reply \<times> mock_server" where
  "mock_routes w ops ulow visit r s =
     (if reads r ''/.well-known/agent-card.json'' then (mock_handleAgentCard s, s)
      else if reads r ''/agents'' then
        (DirectoryReply (ServeHTTP ops ulow visit (ms_directory s) \<lparr>dq_method = aq_method r, dq_get = aq_query r\<rparr>), s)
      else if aq_method r = ''POST'' then
        (case mock_handlePost w (aq_content_type r, aq_body r) s of (rep, s') \<Rightarrow> (PostReply rep, s'))
      else (MethodNotAllowed, s))"

section \<open>The knock-knock agent\<close>

datatype joke_step = StepStart | StepKnock | StepSetup | StepComplete

record conversation =
  cv_step :: joke_step
  cv_setup :: string
  cv_punchline :: string

definition jokes :: "(string \<times> string) list" where
  "jokes = [(''Atch'', ''Bless you!''), (''Nobel'', ''Nobel, that's why I knocked!''),
     (''Cow goes'', ''No, a cow goes moo!''), (''Interrupting cow'', ''Mooooo!''),
     (''Boo'', ''Don't cry, it's just a joke!'')]"

text \<open>The joke index only grows; it would take \<open>2 ^ 63\<close> conversations to overflow it.\<close>

record knock_server =
  ks_port :: int
  ks_convos :: "(string, conversation) gomap"
  ks_jokeIdx :: nat
  ks_handled :: nat

definition newKnockKnockServer :: "int \<Rightarrow> knock_server" where
  "newKnockKnockServer port = \<lparr>ks_port = port, ks_convos = [], ks_jokeIdx = 0, ks_handled = 0\<rparr>"

definition kk_agentCard :: "int \<Rightarrow> agent_card" where
  "kk_agentCard port = \<lparr>ac_name = ''knock-knock'',
     ac_description = ''A knock-knock joke agent that tests multi-turn input-required flows'',
     ac_version = ''1.0.0'',
     ac_interfaces = [\<lparr>ai_url = ''http://localhost:'' @ itoa port @ ''/'', ai_binding = JsonRpc\<rparr>],
     ac_input_modes = [''text/plain''], ac_output_modes = [''text/plain''], ac_streaming = False,
     ac_skills = [\<lparr>sk_id = ''knock-knock'', sk_name = ''Knock-Knock Joke'',
       sk_description = ''Tells a knock-knock joke through a multi-turn conversation'',
       sk_tags = [''joke'', ''multi-turn'', ''input-required''], sk_examples = [''Tell me a joke'', ''Knock knock'']\<rparr>]\<rparr>"

text \<open>What the handler does with the mutex held: one turn of the conversation of a context.\<close>

definition kk_lookup :: "string \<Rightarrow> knock_server \<Rightarrow> conversation \<times> knock_server" where
  "kk_lookup contextID s =
     (case map_of (ks_convos s) contextID of
        Some convo \<Rightarrow> (convo, s)
      | None \<Rightarrow>
          let joke = jokes ! (ks_jokeIdx s mod length jokes);
              convo = \<lparr>cv_step = StepStart, cv_setup = fst joke, cv_punchline = snd joke\<rparr>
          in (convo, s\<lparr>ks_jokeIdx := Suc (ks_jokeIdx s),
                ks_convos := AList.update contextID convo (ks_convos s)\<rparr>))"

definition kk_turn :: "string \<Rightarrow> knock_server \<Rightarrow> (string \<times> task_state) \<times> knock_server" where
  "kk_turn contextID s0 =
     (case kk_lookup contextID s0 of (convo, s) \<Rightarrow>
        let step_to = (\<lambda>st. s\<lparr>ks_convos := AList.update contextID (convo\<lparr>cv_step := st\<rparr>) (ks_convos s)\<rparr>);
            done = s\<lparr>ks_convos := AList.delete contextID (ks_convos s)\<rparr>
        in case cv_step convo of
             StepStart \<Rightarrow> ((''Knock knock'', TS_InputRequired), step_to StepKnock)
           | StepKnock \<Rightarrow> ((cv_setup convo, TS_InputRequired), step_to StepSetup)
           | StepSetup \<Rightarrow> ((cv_setup convo @ '' '' @ cv_punchline convo, TS_Completed), done)
           | StepComplete \<Rightarrow>
               ((''That joke's over! Say 'tell me a joke' to start a new one.'', TS_Completed), done))"

definition kk_task :: "string \<Rightarrow> string \<Rightarrow> string \<Rightarrow> task_state \<Rightarrow> a2a_task" where
  "kk_task tid contextID responseText state = \<lparr>tk_id = tid, tk_context = contextID,
     tk_status = \<lparr>st_state = state, st_message = Some \<lparr>msg_role_of = RoleAgent,
       msg_parts = [text_part responseText], msg_context = [], msg_task = []\<rparr>\<rparr>,
     tk_artifacts = (if state = TS_Completed
       then [Some \<lparr>art_name = ''punchline'', art_parts = [text_part responseText]\<rparr>] else [])\<rparr>"

text \<open>The writers of this agent.\<close>

definition kk_writeJSONRPCResult :: "jval \<Rightarrow> rpc_result \<Rightarrow> mock_reply" where
  "kk_writeJSONRPCResult i r = RpcReply \<lparr>js_version = ''2.0'', js_id = i, js_result = Some r, js_error = None\<rparr>"

definition kk_writeJSONRPCError :: "jval \<Rightarrow> int \<Rightarrow> string \<Rightarrow> mock_reply" where
  "kk_writeJSONRPCError i code message =
     RpcReply \<lparr>js_version = ''2.0'', js_id = i, js_result = None, js_error = Some (code, message)\<rparr>"

lemma kk_writers [simp]:
  "kk_writeJSONRPCResult = writeJSONRPCResult" "kk_writeJSONRPCError = writeJSONRPCError"
  by (simp_all add: fun_eq_iff kk_writeJSONRPCResult_def writeJSONRPCResult_def kk_writeJSONRPCError_def
      writeJSONRPCError_def)

text \<open>The text of the user is read and not used.\<close>

definition kk_handleSendMessage :: "mock_world \<Rightarrow> rpc_request \<Rightarrow> knock_server \<Rightarrow> mock_reply \<times> knock_server" where
  "kk_handleSendMessage w rq s =
     (case mw_message w (jr_params rq) of
        Inl e \<Rightarrow> (kk_writeJSONRPCError (jr_id rq) (- 32602) (invalid_params e), s)
      | Inr m \<Rightarrow>
          let contextID = message_context w (ks_handled s) m in
          (case kk_turn contextID s of
             ((responseText, state), s') \<Rightarrow>
               (kk_writeJSONRPCResult (jr_id rq) (WrappedTask
                  (kk_task (mw_task_id w (ks_handled s)) contextID responseText state)), s')))"

definition kk_handlePost :: "mock_world \<Rightarrow> string \<times> string \<Rightarrow> knock_server \<Rightarrow> mock_reply \<times> knock_server" where
  "kk_handlePost w r s0 =
     (let s = s0\<lparr>ks_handled := Suc (ks_handled s0)\<rparr> in
      if fst r \<noteq> ''application/json'' then (HttpFault 415 ''Content-Type must be application/json'', s)
      else (case mw_decode w (snd r) of
          None \<Rightarrow> (kk_writeJSONRPCError JNull (- 32700) ''parse error'', s)
        | Some rq \<Rightarrow>
            if jr_version rq \<noteq> ''2.0''
            then (kk_writeJSONRPCError (jr_id rq) (- 32600) ''invalid request: missing jsonrpc 2.0'', s)
            else if jr_method rq = ''SendMessage'' then kk_handleSendMessage w rq s
            else (kk_writeJSONRPCError (jr_id rq) (- 32601) (''method not found: '' @ jr_method rq), s)))"

definition kk_handleAgentCard :: "knock_server \<Rightarrow> agent_reply" where
  "kk_handleAgentCard s = CardReply (kk_agentCard (ks_port s))"

definition kk_routes :: "mock_world \<Rightarrow> agent_request \<Rightarrow> knock_server \<Rightarrow> agent_reply \<times> knock_server" where
  "kk_routes w r s =
     (if reads r ''/.well-known/agent-card.json'' then (kk_handleAgentCard s, s)
      else if aq_method r = ''POST'' then
        (case kk_handlePost w (aq_content_type r, aq_body r) s of (rep, s') \<Rightarrow> (PostReply rep, s'))
      else (MethodNotAllowed, s))"

section \<open>Tasks of the echo agent\<close>

definition mock_run :: "mock_world \<Rightarrow> (string \<times> string) list \<Rightarrow> mock_server \<Rightarrow> mock_server" where
  "mock_run w rs s = fold (\<lambda>r s. snd (mock_handlePost w r s)) rs s"

lemma echo_task_fields:
  "tk_id (echo_task w n m) = mw_task_id w n" "st_state (tk_status (echo_task w n m)) = TS_Completed"
  by (simp_all add: echo_task_def Let_def)

text \<open>Every stored task is completed, and was filed under an id made up before.\<close>

definition mock_inv :: "mock_world \<Rightarrow> mock_server \<Rightarrow> bool" where
  "mock_inv w s \<longleftrightarrow> (\<forall>i t. map_of (ms_tasks s) i = Some t \<longrightarrow>
     st_state (tk_status t) = TS_Completed \<and> (\<exists>n \<le> ms_handled s. i = mw_task_id w n))"

lemma mock_inv_new: "mock_inv w (snd (newMockServer ops name port))"
  by (simp add: newMockServer_def mock_inv_def split: prod.split)

text \<open>A request stores at most one new task, and leaves the stored ones as they are.\<close>

lemma post_tasks:
  assumes "mock_inv w s" "inj (mw_task_id w)"
  shows "mock_inv w (snd (mock_handlePost w r s)) \<and>
    (\<forall>i t. map_of (ms_tasks s) i = Some t \<longrightarrow> map_of (ms_tasks (snd (mock_handlePost w r s))) i = Some t)"
proof -
  let ?s = "s\<lparr>ms_handled := Suc (ms_handled s)\<rparr>"
  have inv: "mock_inv w ?s" using assms(1) unfolding mock_inv_def by simp (meson le_SucI)
  have fresh: "map_of (ms_tasks s) (mw_task_id w (Suc (ms_handled s))) = None"
  proof (rule ccontr)
    assume "\<not> ?thesis"
    with assms(1) obtain n where "n \<le> ms_handled s" "mw_task_id w (Suc (ms_handled s)) = mw_task_id w n"
      by (auto simp: mock_inv_def)
    with injD [OF assms(2), of "Suc (ms_handled s)" n] show False by simp
  qed
  have cancel: "snd (mock_handleCancelTask w rq ?s) = ?s" for rq
    using assms(1) by (auto simp: mock_handleCancelTask_def mock_inv_def split: sum.split option.split)
  have send: "snd (mock_handleSendMessage w rq ?s) = ?s \<or> (\<exists>m. snd (mock_handleSendMessage w rq ?s)
      = ?s\<lparr>ms_tasks := AList.update (mw_task_id w (Suc (ms_handled s))) (echo_task w (Suc (ms_handled s)) m) (ms_tasks s)\<rparr>)" for rq
    by (auto simp: mock_handleSendMessage_def Let_def echo_task_fields split: sum.split)
  have "snd (mock_handlePost w r s) = ?s \<or> (\<exists>rq. snd (mock_handlePost w r s) = snd (mock_handleSendMessage w rq ?s))"
    using cancel by (auto simp: mock_handlePost_def Let_def split: option.split)
  with send have "snd (mock_handlePost w r s) = ?s \<or> (\<exists>m. snd (mock_handlePost w r s)
      = ?s\<lparr>ms_tasks := AList.update (mw_task_id w (Suc (ms_handled s))) (echo_task w (Suc (ms_handled s)) m) (ms_tasks s)\<rparr>)"
    by metis
  then show ?thesis
    using inv fresh by (auto simp: mock_inv_def map_of_update echo_task_fields split: if_splits)
qed

lemma run_tasks:
  assumes "mock_inv w s" "inj (mw_task_id w)"
  shows "mock_inv w (mock_run w rs s) \<and>
    (\<forall>i t. map_of (ms_tasks s) i = Some t \<longrightarrow> map_of (ms_tasks (mock_run w rs s)) i = Some t)"
proof (induction rs rule: rev_induct)
  case (snoc r rs)
  with post_tasks [OF _ assms(2), of "mock_run w rs s" r] show ?case by (simp add: mock_run_def)
qed (simp add: mock_run_def assms)

lemma send_stores:
  assumes "mock_handlePost w r s = (RpcReply resp, s1)" "js_result resp = Some (WrappedTask t)"
  shows "map_of (ms_tasks s1) (tk_id t) = Some t"
  using assms
  by (auto simp: mock_handlePost_def Let_def mock_handleSendMessage_def mock_handleGetTask_def
      mock_handleCancelTask_def writeJSONRPCResult_def writeJSONRPCError_def map_of_update
      split: option.splits sum.splits if_splits)

text \<open>
  The echo agent gives back the task it answered a message with, whatever requests it handled in
  between, and refuses to cancel it: its tasks are completed at once.
\<close>

lemma echo_task_round_trip:
  assumes "inj (mw_task_id w)" "s = mock_run w before (snd (newMockServer ops name port))"
    "mock_handlePost w r s = (RpcReply resp, s1)" "js_result resp = Some (WrappedTask t)"
    "mw_decode w get = Some \<lparr>jr_version = ''2.0'', jr_method = ''GetTask'', jr_params = p, jr_id = k\<rparr>"
    "mw_decode w cancel = Some \<lparr>jr_version = ''2.0'', jr_method = ''CancelTask'', jr_params = p, jr_id = k\<rparr>"
    "mw_task_ref w p = Inr (tk_id t)"
  shows "fst (mock_handlePost w (''application/json'', get) (mock_run w rs s1)) = writeJSONRPCResult k (PlainTask t) \<and>
    fst (mock_handlePost w (''application/json'', cancel) (mock_run w rs s1))
      = writeJSONRPCError k (- 32002) ''task is not cancelable''"
proof -
  have "mock_inv w s" using run_tasks [OF mock_inv_new assms(1)] assms(2) by simp
  from post_tasks [OF this assms(1), of r] assms(3) have "mock_inv w s1" by simp
  note run = run_tasks [OF this assms(1), of rs]
  from run send_stores [OF assms(3,4)] have stored: "map_of (ms_tasks (mock_run w rs s1)) (tk_id t) = Some t" by simp
  with run have "st_state (tk_status t) = TS_Completed" by (auto simp: mock_inv_def)
  with stored assms(5-7) show ?thesis
    by (simp add: mock_handlePost_def Let_def mock_handleGetTask_def mock_handleCancelTask_def)
qed

text \<open>The directory of the echo agent lists the card the agent serves, before and after any requests.\<close>

lemma post_keeps_identity:
  "ms_directory (snd (mock_handlePost w r s)) = ms_directory s \<and> ms_name (snd (mock_handlePost w r s)) = ms_name s \<and>
   ms_port (snd (mock_handlePost w r s)) = ms_port s"
  by (auto simp: mock_handlePost_def mock_handleSendMessage_def mock_handleCancelTask_def Let_def
      split: option.split sum.split)

lemma run_keeps_identity:
  "ms_directory (mock_run w rs s) = ms_directory s \<and> ms_name (mock_run w rs s) = ms_name s \<and>
   ms_port (mock_run w rs s) = ms_port s"
  by (induction rs rule: rev_induct) (simp_all add: mock_run_def post_keeps_identity)

lemma echo_agent_lists_itself:
  assumes "name \<noteq> []" "s = mock_run w rs (snd (newMockServer ops name port))" "visit [mock_agentCard name port] = [mock_agentCard name port]"
    "aq_method r = ''GET''" "\<And>k. aq_query r k = []"
  shows "fst (mock_routes w ops ulow visit (r\<lparr>aq_path := ''/.well-known/agent-card.json''\<rparr>) s) = CardReply (mock_agentCard name port) \<and>
    fst (mock_routes w ops ulow visit (r\<lparr>aq_path := ''/agents''\<rparr>) s)
      = DirectoryReply \<lparr>ds_status = 200, ds_allow = None,
          ds_body = ResultBody \<lparr>qr_cards = [mock_agentCard name port], qr_next = [], qr_help = None\<rparr>\<rparr>"
proof -
  define c where "c = mock_agentCard name port"
  have "ms_directory s = snd (dir_Register ops c (NewDirectory []))" "ms_name s = name" "ms_port s = port"
    using assms(2) run_keeps_identity [of w rs "snd (newMockServer ops name port)"]
    by (simp_all add: newMockServer_def c_def split: prod.split)
  moreover have "ac_name c \<noteq> []" using assms(1) by (simp add: c_def mock_agentCard_def)
  moreover have "decodeCursor [] = Inr 0" by (simp add: decodeCursor_def)
  ultimately show ?thesis
    using assms(3-5) unfolding c_def [symmetric]
    by (auto simp: mock_routes_def mock_handleAgentCard_def c_def [symmetric] ServeHTTP_def list_response_def dir_Register_def NewDirectory_def
        NewMemoryRegistry_def mr_Register_def registry_query_def selected_cards_def dir_List_def
        mr_List_def page_of_def Let_def ok_response_def split: option.split)
qed

text \<open>A world whose bodies and parameters stand for themselves.\<close>

definition mock_sample :: mock_world where
  "mock_sample = \<lparr>mw_decode = (\<lambda>b. Some \<lparr>jr_version = ''2.0'', jr_method = b, jr_params = ''T1'', jr_id = JNum ''7''\<rparr>),
     mw_message = (\<lambda>_. Inr None), mw_task_ref = Inr, mw_context_id = (\<lambda>n. ''C''), mw_task_id = (\<lambda>n. ''T'' @ replicate n CHR ''1'')\<rparr>"

lemma mock_sample_ids: "inj (mw_task_id mock_sample)"
  by (rule injI) (auto simp: mock_sample_def dest: arg_cong [where f = length])

definition no_ops :: "unit registry_ops" where
  "no_ops = \<lparr>rg_register = (\<lambda>_ r. (None, r)), rg_unregister = (\<lambda>_ r. (Inr False, r)), rg_list = (\<lambda>_. Inr []),
     rg_filter = None, rg_query = None, rg_help = None\<rparr>"

lemma echo_task_round_trip_witness:
  "\<exists>t s1. mock_handlePost mock_sample (''application/json'', ''SendMessage'') (snd (newMockServer no_ops ''m'' 1))
      = (writeJSONRPCResult (JNum ''7'') (WrappedTask t), s1) \<and>
    fst (mock_handlePost mock_sample (''application/json'', ''GetTask'') s1) = writeJSONRPCResult (JNum ''7'') (PlainTask t)"
proof -
  let ?s = "snd (newMockServer no_ops ''m'' 1)"
  have "ms_handled ?s = 0" by (simp add: newMockServer_def split: prod.split)
  then obtain t s1 where send: "mock_handlePost mock_sample (''application/json'', ''SendMessage'') ?s
      = (RpcReply \<lparr>js_version = ''2.0'', js_id = JNum ''7'', js_result = Some (WrappedTask t), js_error = None\<rparr>, s1)"
      "tk_id t = ''T1''"
    by (simp add: mock_handlePost_def mock_handleSendMessage_def mock_sample_def writeJSONRPCResult_def
        echo_task_fields Let_def)
  have "?s = mock_run mock_sample [] ?s" by (simp add: mock_run_def)
  from echo_task_round_trip [OF mock_sample_ids this send(1), of t "''GetTask''" "''T1''" "JNum ''7''" "''CancelTask''" "[]"] send
  show ?thesis by (auto simp: mock_sample_def mock_run_def writeJSONRPCResult_def)
qed

section \<open>Jokes\<close>

text \<open>The steps of a joke are ordered, and a turn that does not end the conversation takes it forward.\<close>

fun step_rank :: "joke_step \<Rightarrow> nat" where
  "step_rank StepStart = 0"
| "step_rank StepKnock = 1"
| "step_rank StepSetup = 2"
| "step_rank StepComplete = 3"

lemma step_rank_inject: "step_rank a = step_rank b \<longleftrightarrow> a = b"
  by (cases a; cases b) simp_all

instantiation joke_step :: linorder
begin

definition less_eq_joke_step :: "joke_step \<Rightarrow> joke_step \<Rightarrow> bool" where
  "less_eq_joke_step a b \<longleftrightarrow> step_rank a \<le> step_rank b"

definition less_joke_step :: "joke_step \<Rightarrow> joke_step \<Rightarrow> bool" where
  "less_joke_step a b \<longleftrightarrow> step_rank a < step_rank b"

instance
  by standard (auto simp: less_eq_joke_step_def less_joke_step_def step_rank_inject [symmetric])

end

lemma kk_turn_forward:
  assumes "map_of (ks_convos s) c = Some cv" "map_of (ks_convos (snd (kk_turn c s))) c = Some cv'"
  shows "cv_step cv < cv_step cv' \<and> cv_setup cv' = cv_setup cv \<and> cv_punchline cv' = cv_punchline cv"
  using assms
  by (cases "cv_step cv") (auto simp: kk_turn_def kk_lookup_def Let_def map_of_update map_of_delete less_joke_step_def)

definition kk_run :: "string list \<Rightarrow> knock_server \<Rightarrow> knock_server" where
  "kk_run cs s = fold (\<lambda>c s. snd (kk_turn c s)) cs s"

text \<open>A turn of one context leaves the conversations of the others alone.\<close>

lemma kk_turn_other: "d \<noteq> c \<Longrightarrow> map_of (ks_convos (snd (kk_turn c s))) d = map_of (ks_convos s) d"
  by (auto simp: kk_turn_def kk_lookup_def Let_def map_of_update map_of_delete split: option.split joke_step.split prod.split)

lemma kk_run_other: "d \<notin> set cs \<Longrightarrow> map_of (ks_convos (kk_run cs s)) d = map_of (ks_convos s) d"
  unfolding kk_run_def by (induction cs arbitrary: s) (auto simp: kk_turn_other)

text \<open>
  The knock-knock agent tells a joke in three turns of one context, however turns of other contexts
  come in between: knock knock, the setup, and the setup with its punchline, which completes the task
  and forgets the conversation.
\<close>

lemma knock_knock_three_turns:
  assumes "map_of (ks_convos s) c = None" "c \<notin> set others1" "c \<notin> set others2"
    "kk_turn c s = (r0, s0)" "kk_turn c (kk_run others1 s0) = (r1, s1)" "kk_turn c (kk_run others2 s1) = (r2, s2)"
  shows "\<exists>j \<in> set jokes. r0 = (''Knock knock'', TS_InputRequired) \<and> r1 = (fst j, TS_InputRequired) \<and>
    r2 = (fst j @ '' '' @ snd j, TS_Completed) \<and> map_of (ks_convos s2) c = None"
proof
  let ?j = "jokes ! (ks_jokeIdx s mod length jokes)"
  show "?j \<in> set jokes" by (rule nth_mem) (simp add: jokes_def)
  let ?cv = "\<lambda>st. \<lparr>cv_step = st, cv_setup = fst ?j, cv_punchline = snd ?j\<rparr>"
  have t0: "r0 = (''Knock knock'', TS_InputRequired)" "map_of (ks_convos s0) c = Some (?cv StepKnock)"
    using assms(1,4) by (auto simp: kk_turn_def kk_lookup_def Let_def map_of_update)
  then have "map_of (ks_convos (kk_run others1 s0)) c = Some (?cv StepKnock)"
    using kk_run_other [OF assms(2)] by simp
  with assms(5) have t1: "r1 = (fst ?j, TS_InputRequired)" "map_of (ks_convos s1) c = Some (?cv StepSetup)"
    by (auto simp: kk_turn_def kk_lookup_def Let_def map_of_update)
  then have "map_of (ks_convos (kk_run others2 s1)) c = Some (?cv StepSetup)"
    using kk_run_other [OF assms(3)] by simp
  with assms(6) have "r2 = (fst ?j @ '' '' @ snd ?j, TS_Completed)" "map_of (ks_convos s2) c = None"
    by (auto simp: kk_turn_def kk_lookup_def Let_def map_of_delete)
  with t0 t1 show "r0 = (''Knock knock'', TS_InputRequired) \<and> r1 = (fst ?j, TS_InputRequired) \<and>
    r2 = (fst ?j @ '' '' @ snd ?j, TS_Completed) \<and> map_of (ks_convos s2) c = None" by simp
qed

lemma knock_knock_three_turns_witness:
  "\<exists>j \<in> set jokes. \<exists>s. kk_turn ''c'' (kk_run [''d''] (snd (kk_turn ''c'' (kk_run [''d''] (snd (kk_turn ''c'' (newKnockKnockServer 9000)))))))
     = ((fst j @ '' '' @ snd j, TS_Completed), s)"
proof -
  let ?s0 = "snd (kk_turn ''c'' (newKnockKnockServer 9000))"
  let ?s1 = "snd (kk_turn ''c'' (kk_run [''d''] ?s0))"
  obtain r0 r1 r2 s2 where "kk_turn ''c'' (newKnockKnockServer 9000) = (r0, ?s0)"
      "kk_turn ''c'' (kk_run [''d''] ?s0) = (r1, ?s1)" "kk_turn ''c'' (kk_run [''d''] ?s1) = (r2, s2)"
    by (metis prod.collapse)
  from knock_knock_three_turns [OF _ _ _ this] this(3) show ?thesis
    by (auto simp: newKnockKnockServer_def)
qed

end
