(* ===== verification/AgentSessions.thy ===== *)
theory AgentSessions
  imports MockAgents Interleavings ToolProperties
begin

text \<open>
  The gateway together with the agents of \<open>MockAgents\<close>: what a client of the gateway sees when it talks to
  the knock-knock agent and to the echo agent. Between the two lies the JSON-RPC client of the a2a SDK: it
  turns a message into a POST and the response into a task. It is a parameter, of which \<open>sdk_speaks\<close>
  says what is relied on.
\<close>

section \<open>The client between gateway and agent\<close>

record agent_sdk =
  sd_body :: "send_request \<Rightarrow> string"
  sd_result :: "mock_reply \<Rightarrow> goerr + send_result"
  sd_task_body :: "string \<Rightarrow> string"
  sd_task_result :: "mock_reply \<Rightarrow> goerr + a2a_task"

text \<open>
  The task of a response is handed back, and a context id that is made up is not empty. The body of a
  message decodes at the agent to a \<open>SendMessage\<close> request with the parts and the context of the message,
  that of a task id to a \<open>GetTask\<close> request for it.
\<close>

definition sdk_speaks :: "mock_world \<Rightarrow> agent_sdk \<Rightarrow> bool" where
  "sdk_speaks w sdk \<longleftrightarrow>
     (\<forall>k t. sd_result sdk (writeJSONRPCResult k (WrappedTask t)) = Inr (ResTask t)) \<and>
     (\<forall>k t. sd_task_result sdk (writeJSONRPCResult k (PlainTask t)) = Inr t) \<and>
     (\<forall>n. mw_context_id w n \<noteq> [])"

definition carries_message :: "mock_world \<Rightarrow> agent_sdk \<Rightarrow> send_request \<Rightarrow> bool" where
  "carries_message w sdk rq \<longleftrightarrow>
     (\<exists>ps k m. mw_decode w (sd_body sdk rq)
          = Some \<lparr>jr_version = ''2.0'', jr_method = ''SendMessage'', jr_params = ps, jr_id = k\<rparr> \<and>
        mw_message w ps = Inr (Some m) \<and> msg_parts m = sq_parts rq \<and> msg_context m = sq_context rq)"

definition carries_task :: "mock_world \<Rightarrow> agent_sdk \<Rightarrow> string \<Rightarrow> bool" where
  "carries_task w sdk tid \<longleftrightarrow>
     (\<exists>ps k. mw_decode w (sd_task_body sdk tid)
          = Some \<lparr>jr_version = ''2.0'', jr_method = ''GetTask'', jr_params = ps, jr_id = k\<rparr> \<and>
        mw_task_ref w ps = Inr tid)"

abbreviation post :: "string \<Rightarrow> string \<times> string" where
  "post body \<equiv> (''application/json'', body)"

text \<open>A world in which every message reaches the agent, and the agent is in the state \<open>k\<close>.\<close>

definition reaches_knock :: "mock_world \<Rightarrow> agent_sdk \<Rightarrow> knock_server \<Rightarrow> 'l ext \<Rightarrow> bool" where
  "reaches_knock w sdk k x \<longleftrightarrow>
     (\<forall>n c h d rq. x_send x n c h d rq = sd_result sdk (fst (kk_handlePost w (post (sd_body sdk rq)) k)))"

section \<open>A direct call\<close>

text \<open>The alias is registered and its card, if it has one, does not offer streaming.\<close>

definition direct_alias :: "'l gw \<Rightarrow> string \<Rightarrow> bool" where
  "direct_alias g a \<longleftrightarrow> (case reg_Lookup (g_registry g) a of
     None \<Rightarrow> False
   | Some e \<Rightarrow> (case ra_card e of None \<Rightarrow> True | Some c \<Rightarrow> \<not> ac_streaming c))"

lemma direct_not_streaming:
  "direct_alias g a \<Longrightarrow> rr_alias r = a \<Longrightarrow> \<not> SupportsStreaming (g_registry g) r"
  by (auto simp: direct_alias_def SupportsStreaming_def split: option.splits)

lemma direct_registered: "direct_alias g a \<Longrightarrow> reg_Lookup (g_registry g) a \<noteq> None"
  by (auto simp: direct_alias_def split: option.splits)

lemma build_frames:
  "g_registry (snd (buildSendRequest x i g)) = g_registry g"
  "g_contexts (snd (buildSendRequest x i g)) = g_contexts g"
  by (simp_all add: buildSendRequest_def Let_def split_beta gw_frames split: sum.split option.split)

text \<open>What comes back from a direct call that succeeds is the task the agent made, if that is final.\<close>

lemma direct_call:
  assumes "send_Handle x env p i g = (Reply cr (Some out) None, g')" "direct_alias g (si_agent i)"
    "si_async i \<noteq> Some True" "\<forall>n c h d rq. x_send x n c h d rq = f rq"
  shows "\<exists>sr g1 resp h. buildSendRequest x i g = (Inr sr, g1) \<and> f (pq_request sr) = Inr resp \<and>
    processResponse x env i sr resp h = (Reply cr (Some out) None, g')"
proof -
  obtain sr g1 where b: "buildSendRequest x i g = (Inr sr, g1)"
    using assms(1) by (auto simp: send_Handle_def fails_with_def split: sum.splits prod.splits)
  have "rr_alias (pq_resolved sr) = si_agent i"
    using build_alias [OF b] resolve_registered [OF direct_registered [OF assms(2)] build_resolved [OF b]] by simp
  moreover have "g_registry g1 = g_registry g" using build_frames(1) [of x i g] b by simp
  ultimately have "\<not> SupportsStreaming (g_registry g1) (pq_resolved sr)"
    using direct_not_streaming [OF assms(2)] by simp
  with assms(1,3) b have d: "sendDirect x env i sr g1 = (Reply cr (Some out) None, g')"
    by (simp add: send_Handle_def)
  have call: "call_send x c d rq h = (f rq, tick h)" for c d rq h
    using assms(4) by (simp add: call_send_def)
  show ?thesis
    using b d by (auto simp: sendDirect_def resolveClientWithAuthRetry_def call fails_with_def dest!: finish_reply
        split: prod.splits sum.splits if_splits)
qed

lemma final_task_output:
  assumes "processResponse x env i sr (ResTask t) h = (Reply cr (Some out) None, g')"
    "st_state (tk_status t) \<in> {TS_InputRequired, TS_Completed}"
  shows "out = task_output t"
  using assms
  by (auto simp: processResponse_def handleTaskResult_def gives_def formatTaskResponse_def
      formatInputRequiredResponse_def formatInterruptedResponse_def dest!: finish_reply)

section \<open>Jokes through the gateway\<close>

text \<open>What a client sees of an output, and what it should see over several jokes told one after the other.\<close>

definition shown :: "send_output \<Rightarrow> string \<times> task_state" where
  "shown out = (case so_task out of
     None \<Rightarrow> ([], TS_Unspecified) | Some t \<Rightarrow> (extractTaskResponseText t, st_state (tk_status t)))"

definition joke_script :: "(string \<times> string) list \<Rightarrow> (string \<times> task_state) list" where
  "joke_script js = concat (map (\<lambda>j. [(''Knock knock'', TS_InputRequired), (fst j, TS_InputRequired),
     (fst j @ '' '' @ snd j, TS_Completed)]) js)"

text \<open>
  A session: calls of one alias, none of which names a context, each answered by the agent in the state
  it is in; in between, calls for other agents interleave at the gateway, other callers talk to the
  agent in contexts of their own, and messages to the alias may be refused before they are sent. A context
  id the agent makes up is not in use.
\<close>

inductive joke_session ::
  "mock_world \<Rightarrow> agent_sdk \<Rightarrow> string \<Rightarrow> 'l gw \<Rightarrow> knock_server \<Rightarrow> send_output list \<Rightarrow> 'l gw \<Rightarrow> knock_server \<Rightarrow> bool"
  for w sdk a g0 k0 where
  begun: "joke_session w sdk a g0 k0 [] g0 k0"
| others: "joke_session w sdk a g0 k0 outs g k \<Longrightarrow> interleaved (UNIV - {a}) g g' \<Longrightarrow>
    ctx_Get (g_contexts g) a \<notin> set cs \<Longrightarrow> joke_session w sdk a g0 k0 outs g' (kk_run cs k)"
| refused: "joke_session w sdk a g0 k0 outs g k \<Longrightarrow> buildSendRequest x i g = (Inl e, g1) \<Longrightarrow>
    send_Handle x env p i g = (r, g') \<Longrightarrow> joke_session w sdk a g0 k0 outs g' k"
| call: "joke_session w sdk a g0 k0 outs g k \<Longrightarrow> direct_alias g a \<Longrightarrow>
    si_agent i = a \<Longrightarrow> si_context i = [] \<Longrightarrow> si_async i \<noteq> Some True \<Longrightarrow> reaches_knock w sdk k x \<Longrightarrow>
    (ctx_Get (g_contexts g) a = [] \<Longrightarrow> map_of (ks_convos k) (mw_context_id w (Suc (ks_handled k))) = None) \<Longrightarrow>
    buildSendRequest x i g = (Inr sr, g1) \<Longrightarrow> carries_message w sdk (pq_request sr) \<Longrightarrow>
    send_Handle x env p i g = (Reply cr (Some out) None, g') \<Longrightarrow>
    joke_session w sdk a g0 k0 (outs @ [out]) g' (snd (kk_handlePost w (post (sd_body sdk (pq_request sr))) k))"

text \<open>The part of its joke a conversation has told.\<close>

fun told :: "conversation option \<Rightarrow> (string \<times> task_state) list" where
  "told None = []"
| "told (Some cv) =
     (case cv_step cv of
        StepKnock \<Rightarrow> [(''Knock knock'', TS_InputRequired)]
      | StepSetup \<Rightarrow> [(''Knock knock'', TS_InputRequired), (cv_setup cv, TS_InputRequired)]
      | _ \<Rightarrow> [])"

definition kk_inv :: "knock_server \<Rightarrow> bool" where
  "kk_inv k \<longleftrightarrow> (\<forall>c cv. map_of (ks_convos k) c = Some cv \<longrightarrow>
     cv_step cv \<in> {StepKnock, StepSetup} \<and> (cv_setup cv, cv_punchline cv) \<in> set jokes)"

lemma kk_lookup_joke:
  assumes "kk_inv k" "kk_lookup c k = (cv, k1)"
  shows "(cv_setup cv, cv_punchline cv) \<in> set jokes \<and> cv_step cv \<noteq> StepComplete \<and> told (map_of (ks_convos k) c) = told (Some cv)"
proof (cases "map_of (ks_convos k) c")
  case None
  have "jokes ! (n mod length jokes) \<in> set jokes" for n by (rule nth_mem) (simp add: jokes_def)
  with None assms(2) show ?thesis by (auto simp: kk_lookup_def Let_def map_of_update)
next
  case (Some cv')
  with assms(1) have "cv_step cv' \<in> {StepKnock, StepSetup} \<and> (cv_setup cv', cv_punchline cv') \<in> set jokes"
    unfolding kk_inv_def by blast
  with Some assms(2) show ?thesis by (auto simp: kk_lookup_def)
qed

lemma joke_not_empty: "j \<in> set jokes \<Longrightarrow> fst j \<noteq> []"
  by (auto simp: jokes_def)

text \<open>One turn tells the next line; after the last one the conversation is gone.\<close>

lemma kk_turn_tells:
  assumes "kk_inv k" "kk_turn c k = ((txt, st), k')"
  shows "kk_inv k' \<and> txt \<noteq> [] \<and> st \<in> {TS_InputRequired, TS_Completed} \<and>
    (told (map_of (ks_convos k) c) @ [(txt, st)] = told (map_of (ks_convos k') c) \<or>
     map_of (ks_convos k') c = None \<and> (\<exists>j \<in> set jokes. told (map_of (ks_convos k) c) @ [(txt, st)] = joke_script [j]))"
proof -
  obtain cv k1 where l: "kk_lookup c k = (cv, k1)" by fastforce
  note facts = kk_lookup_joke [OF assms(1) l]
  then have j: "(cv_setup cv, cv_punchline cv) \<in> set jokes" and old: "told (map_of (ks_convos k) c) = told (Some cv)"
    by auto
  have inv: "kk_inv k'"
    unfolding kk_inv_def
  proof (intro allI impI)
    fix d cv' assume d: "map_of (ks_convos k') d = Some cv'"
    show "cv_step cv' \<in> {StepKnock, StepSetup} \<and> (cv_setup cv', cv_punchline cv') \<in> set jokes"
    proof (cases "d = c")
      case True
      with d assms(2) l j show ?thesis
        by (cases "cv_step cv") (auto simp: kk_turn_def Let_def map_of_update map_of_delete)
    next
      case False
      with d kk_turn_other [OF False, of k] assms(2) have "map_of (ks_convos k) d = Some cv'" by simp
      with assms(1) show ?thesis unfolding kk_inv_def by blast
    qed
  qed
  show ?thesis
  proof (cases "cv_step cv")
    case StepSetup
    with assms(2) l have t: "txt = cv_setup cv @ '' '' @ cv_punchline cv" "st = TS_Completed" "map_of (ks_convos k') c = None"
      by (auto simp: kk_turn_def Let_def map_of_delete)
    with StepSetup old have "told (map_of (ks_convos k) c) @ [(txt, st)] = joke_script [(cv_setup cv, cv_punchline cv)]"
      by (simp add: joke_script_def)
    with inv t j show ?thesis by auto
  qed (use assms(2) l facts old inv joke_not_empty [OF j] in \<open>auto simp: kk_turn_def Let_def map_of_update\<close>)
qed

lemma kk_run_inv: "kk_inv k \<Longrightarrow> kk_inv (kk_run cs k)"
  unfolding kk_run_def
proof (induction cs arbitrary: k)
  case (Cons c cs)
  obtain r k' where t: "kk_turn c k = (r, k')" by fastforce
  with kk_turn_tells [OF Cons.prems, of c "fst r" "snd r" k'] Cons.IH [of k'] show ?case by simp
qed simp

text \<open>The agent answers a message of a context with the next line of the joke of that context.\<close>

lemma knock_post:
  assumes "carries_message w sdk rq" "kk_turn c (k\<lparr>ks_handled := Suc (ks_handled k)\<rparr>) = ((txt, st), k')"
    "c = (if sq_context rq = [] then mw_context_id w (Suc (ks_handled k)) else sq_context rq)"
  shows "\<exists>j. kk_handlePost w (post (sd_body sdk rq)) k
    = (writeJSONRPCResult j (WrappedTask (kk_task (mw_task_id w (Suc (ks_handled k))) c txt st)), k')"
proof -
  obtain ps j m where "mw_decode w (sd_body sdk rq)
        = Some \<lparr>jr_version = ''2.0'', jr_method = ''SendMessage'', jr_params = ps, jr_id = j\<rparr>"
      "mw_message w ps = Inr (Some m)" "msg_context m = sq_context rq"
    using assms(1) unfolding carries_message_def by blast
  moreover from this(3) assms(3) have "message_context w (Suc (ks_handled k)) (Some m) = c"
    by (simp add: message_context_def)
  ultimately show ?thesis
    using assms(2) by (auto simp: kk_handlePost_def kk_handleSendMessage_def Let_def)
qed

text \<open>The conversation the agent has in the context the gateway holds for the alias.\<close>

definition conversation_of :: "'l gw \<Rightarrow> string \<Rightarrow> knock_server \<Rightarrow> conversation option" where
  "conversation_of g a k =
     (if ctx_Get (g_contexts g) a = [] then None else map_of (ks_convos k) (ctx_Get (g_contexts g) a))"

text \<open>The reply of one call: the next line of the joke, in the context the gateway then holds.\<close>

lemma joke_call:
  assumes sdk: "sdk_speaks w sdk" and k: "kk_inv k" and g: "direct_alias g a"
    and i: "si_agent i = a" "si_context i = []" "si_async i \<noteq> Some True" and x: "reaches_knock w sdk k x"
    and fresh: "ctx_Get (g_contexts g) a = [] \<Longrightarrow> map_of (ks_convos k) (mw_context_id w (Suc (ks_handled k))) = None"
    and b: "buildSendRequest x i g = (Inr sr, g1)" "carries_message w sdk (pq_request sr)"
    and reply: "send_Handle x env p i g = (Reply cr (Some out) None, g')"
  defines "k' \<equiv> snd (kk_handlePost w (post (sd_body sdk (pq_request sr))) k)"
  shows "kk_inv k' \<and>
    (told (conversation_of g a k) @ [shown out] = told (conversation_of g' a k') \<or>
     conversation_of g' a k' = None \<and> (\<exists>j \<in> set jokes. told (conversation_of g a k) @ [shown out] = joke_script [j]))"
proof -
  let ?rq = "pq_request sr" and ?s = "k\<lparr>ks_handled := Suc (ks_handled k)\<rparr>"
  define c where "c = (if sq_context ?rq = [] then mw_context_id w (Suc (ks_handled k)) else sq_context ?rq)"
  have ctx: "sq_context ?rq = ctx_Get (g_contexts g) a"
    using build_uses_context [OF b(1) i(2)] direct_registered [OF g] i(1) by simp
  have c: "c \<noteq> []" using sdk by (auto simp: c_def sdk_speaks_def)
  obtain said st k1 where turn: "kk_turn c ?s = ((said, st), k1)" by (metis surj_pair)
  from knock_post [OF b(2) turn c_def] obtain msg_id where posted: "kk_handlePost w (post (sd_body sdk ?rq)) k
      = (writeJSONRPCResult msg_id (WrappedTask (kk_task (mw_task_id w (Suc (ks_handled k))) c said st)), k1)" by blast
  let ?t = "kk_task (mw_task_id w (Suc (ks_handled k))) c said st"
  have inv: "kk_inv ?s" using k by (simp add: kk_inv_def)
  note tells = kk_turn_tells [OF inv turn]
  have "x_send x m cl h d ?rq = Inr (ResTask ?t)" for m cl h d
    using x sdk posted by (simp add: reaches_knock_def sdk_speaks_def)
  moreover obtain resp h where "sd_result sdk (fst (kk_handlePost w (post (sd_body sdk ?rq)) k)) = Inr resp"
      "processResponse x env i sr resp h = (Reply cr (Some out) None, g')"
    using direct_call [OF reply _ i(3), of "\<lambda>rq. sd_result sdk (fst (kk_handlePost w (post (sd_body sdk rq)) k))"]
      g i(1) x b(1) by (auto simp: reaches_knock_def)
  ultimately have "out = task_output ?t"
    using final_task_output [of x env i sr ?t h cr out g'] tells sdk posted
    by (simp add: kk_task_def sdk_speaks_def)
  then have seen: "shown out = (said, st)" and id: "extractResponseContextID (Some out) = c" and sync: "so_async out = None"
    using tells by (auto simp: shown_def task_output_def kk_task_def extractTaskResponseText_def text_part_def
        extractStatusMessageText_def renderPart_def extractResponseContextID_def)
  have stored: "ctx_Get (g_contexts g') a = c"
    using send_stores_context [OF reply sync] direct_registered [OF g] i(1) id c by simp
  have "conversation_of g a k = map_of (ks_convos ?s) c"
    using ctx fresh by (simp add: conversation_of_def c_def)
  moreover have "conversation_of g' a k' = map_of (ks_convos k1) c"
    using stored c posted by (simp add: conversation_of_def k'_def)
  ultimately show ?thesis using tells seen posted by (simp add: k'_def)
qed

lemma joke_session_inv:
  assumes "joke_session w sdk a g0 k0 outs g k" "sdk_speaks w sdk" "kk_inv k0" "ctx_Get (g_contexts g0) a = []"
  shows "kk_inv k \<and> (\<exists>js. set js \<subseteq> set jokes \<and> map shown outs = joke_script js @ told (conversation_of g a k))"
  using assms(1)
proof (induction rule: joke_session.induct)
  case begun
  from assms(3,4) show ?case
    by (intro conjI exI [of _ "[]"]) (simp_all add: joke_script_def conversation_of_def)
next
  case (others outs g k g' cs)
  have "agent_view g' a = agent_view g a"
    using apart.keeps_interleaved [where v = "agent_view g a" and b = a, OF others.hyps(2) _ refl] by simp
  then have ctx: "ctx_Get (g_contexts g') a = ctx_Get (g_contexts g) a" by (simp add: agent_view_def)
  with kk_run_other [OF others.hyps(3), of k] have "conversation_of g' a (kk_run cs k) = conversation_of g a k"
    by (simp add: conversation_of_def)
  with others.IH kk_run_inv [of k cs] show ?case by simp
next
  case (refused outs g k x i e g1 env p r g')
  have "g' = g1" using refused.hyps(2,3) by (simp add: send_Handle_def)
  moreover have "g_contexts g1 = g_contexts g" using build_frames(2) [of x i g] refused.hyps(2) by simp
  ultimately have "conversation_of g' a k = conversation_of g a k" by (simp add: conversation_of_def)
  with refused.IH show ?case by simp
next
  case (call outs g k i x sr g1 env p cr out g')
  let ?k = "snd (kk_handlePost w (post (sd_body sdk (pq_request sr))) k)"
  from call.IH obtain js where k: "kk_inv k" and js: "set js \<subseteq> set jokes"
    and so_far: "map shown outs = joke_script js @ told (conversation_of g a k)" by blast
  have "kk_inv ?k \<and> (told (conversation_of g a k) @ [shown out] = told (conversation_of g' a ?k) \<or>
     conversation_of g' a ?k = None \<and> (\<exists>j \<in> set jokes. told (conversation_of g a k) @ [shown out] = joke_script [j]))"
    by (rule joke_call [OF assms(2) k call.hyps(2-10)])
  then show ?case
  proof (elim conjE disjE)
    assume "kk_inv ?k" "told (conversation_of g a k) @ [shown out] = told (conversation_of g' a ?k)"
    with js so_far show ?thesis by (intro conjI exI [of _ js]) simp_all
  next
    assume "kk_inv ?k" "conversation_of g' a ?k = None"
      "\<exists>j \<in> set jokes. told (conversation_of g a k) @ [shown out] = joke_script [j]"
    then obtain j where "j \<in> set jokes" "told (conversation_of g a k) @ [shown out] = joke_script [j]" by blast
    with js so_far \<open>kk_inv ?k\<close> \<open>conversation_of g' a ?k = None\<close> show ?thesis
      by (intro conjI exI [of _ "js @ [j]"]) (simp_all add: joke_script_def)
  qed
qed


text \<open>A session of one call on the sample gateway.\<close>

definition knock_world :: mock_world where
  "knock_world = \<lparr>mw_decode = (\<lambda>b. Some \<lparr>jr_version = ''2.0'', jr_method = b, jr_params = b, jr_id = JNum ''1''\<rparr>),
     mw_message = (\<lambda>_. Inr (Some \<lparr>msg_role_of = RoleUser, msg_parts = [text_part ''hi''], msg_context = [], msg_task = []\<rparr>)),
     mw_task_ref = (\<lambda>_. Inr ''T1''), mw_context_id = (\<lambda>n. CHR ''C'' # replicate n CHR ''1''), mw_task_id = (\<lambda>n. CHR ''T'' # replicate n CHR ''1'')\<rparr>"

fun sample_result :: "mock_reply \<Rightarrow> goerr + rpc_result" where
  "sample_result (HttpFault _ t) = Inl (errors_new t)"
| "sample_result (RpcReply r) = (case js_result r of Some v \<Rightarrow> Inr v | None \<Rightarrow> Inl (errors_new []))"

definition sample_sdk :: agent_sdk where
  "sample_sdk = \<lparr>sd_body = (\<lambda>_. ''SendMessage''),
     sd_result = (\<lambda>r. case sample_result r of Inl e \<Rightarrow> Inl e | Inr (WrappedTask t) \<Rightarrow> Inr (ResTask t) | Inr _ \<Rightarrow> Inr ResOther),
     sd_task_body = (\<lambda>_. ''GetTask''),
     sd_task_result = (\<lambda>r. case sample_result r of Inl e \<Rightarrow> Inl e | Inr (PlainTask t) \<Rightarrow> Inr t | Inr _ \<Rightarrow> Inl (errors_new []))\<rparr>"

lemma sample_sdk_speaks: "sdk_speaks knock_world sample_sdk"
  by (simp add: sdk_speaks_def sample_sdk_def knock_world_def writeJSONRPCResult_def)

definition first_line :: a2a_task where
  "first_line = kk_task ''T1'' ''C1'' ''Knock knock'' TS_InputRequired"

lemma knock_replies: "reaches_knock knock_world sample_sdk (newKnockKnockServer 9000) (sample_world (Inr (ResTask first_line)))"
  by (simp add: reaches_knock_def sample_world_def sample_sdk_def knock_world_def kk_handlePost_def kk_handleSendMessage_def
      newKnockKnockServer_def message_context_def kk_turn_def kk_lookup_def Let_def jokes_def writeJSONRPCResult_def first_line_def)

lemma sample_first_call:
  "\<exists>g'. send_Handle (sample_world (Inr (ResTask first_line))) sample_env False sample_send sample_gw
     = (Reply None (Some (task_output first_line)) None, g')"
  "\<exists>sr g1. buildSendRequest (sample_world v) sample_send sample_gw = (Inr sr, g1) \<and>
     sq_parts (pq_request sr) = [text_part ''hi''] \<and> sq_context (pq_request sr) = []"
  by (simp_all add: sample_eval sample_record first_line_def kk_task_def formatInputRequiredResponse_def
      formatInterruptedResponse_def)

lemma sample_direct: "direct_alias sample_gw ''a''"
  by (simp add: direct_alias_def sample_gw_def reg_Lookup_def sample_agent_def)


section \<open>The echo agent through the gateway\<close>

definition reaches_echo :: "mock_world \<Rightarrow> agent_sdk \<Rightarrow> mock_server \<Rightarrow> 'l ext \<Rightarrow> bool" where
  "reaches_echo w sdk s x \<longleftrightarrow>
     (\<forall>n c h d rq. x_send x n c h d rq = sd_result sdk (fst (mock_handlePost w (post (sd_body sdk rq)) s))) \<and>
     (\<forall>n c h tid. x_get_task x n c h tid = sd_task_result sdk (fst (mock_handlePost w (post (sd_task_body sdk tid)) s)))"

lemma echo_post:
  assumes "carries_message w sdk rq"
  shows "\<exists>k m. mock_handlePost w (post (sd_body sdk rq)) s
      = (writeJSONRPCResult k (WrappedTask (echo_task w (Suc (ms_handled s)) (Some m))),
         s\<lparr>ms_handled := Suc (ms_handled s), ms_tasks := AList.update (mw_task_id w (Suc (ms_handled s)))
             (echo_task w (Suc (ms_handled s)) (Some m)) (ms_tasks s)\<rparr>) \<and>
    msg_parts m = sq_parts rq"
proof -
  obtain ps k m where "mw_decode w (sd_body sdk rq)
        = Some \<lparr>jr_version = ''2.0'', jr_method = ''SendMessage'', jr_params = ps, jr_id = k\<rparr>"
      "mw_message w ps = Inr (Some m)" "msg_parts m = sq_parts rq"
    using assms unfolding carries_message_def by blast
  then show ?thesis
    by (intro exI [of _ k] exI [of _ m]) (simp add: mock_handlePost_def mock_handleSendMessage_def Let_def echo_task_fields)
qed

text \<open>The tool asks the agent once when the answer is a task.\<close>

lemma get_task_answer:
  assumes "\<forall>n c h tid. x_get_task x n c h tid = f tid" "f (ti_task j) = Inr t" "st_state (tk_status t) = TS_Completed"
    "fst (get_task_Handle x j h) = Reply cr (Some t') e"
  shows "t' = t \<and> e = None"
  using assms
  by (auto simp: get_task_Handle_def resolveClientWithAuthRetry_def call_get_task_def fails_with_def gives_def
      split: if_splits sum.splits prod.splits)


text \<open>A message to the echo agent of the sample world, and its task fetched again.\<close>

definition echo_ext :: "mock_server \<Rightarrow> nat ext" where
  "echo_ext s = (sample_world (Inr ResOther))\<lparr>
     x_send := (\<lambda>_ _ _ _ rq. sd_result sample_sdk (fst (mock_handlePost knock_world (post (sd_body sample_sdk rq)) s))),
     x_get_task := (\<lambda>_ _ _ tid. sd_task_result sample_sdk (fst (mock_handlePost knock_world (post (sd_task_body sample_sdk tid)) s)))\<rparr>"

lemma echo_ext_reaches: "reaches_echo knock_world sample_sdk s (echo_ext s)"
  by (simp add: reaches_echo_def echo_ext_def)

definition hi_task :: a2a_task where
  "hi_task = \<lparr>tk_id = ''T1'', tk_context = ''C1'', tk_status = \<lparr>st_state = TS_Completed, st_message = None\<rparr>,
     tk_artifacts = [Some \<lparr>art_name = ''response'', art_parts = [text_part ''echo: hi'']\<rparr>]\<rparr>"

definition fresh_echo :: mock_server where
  "fresh_echo = snd (newMockServer no_ops ''m'' 1)"

lemma echo_answers:
  "ms_handled s = 0 \<Longrightarrow> mock_handlePost knock_world (post ''SendMessage'') s
     = (writeJSONRPCResult (JNum ''1'') (WrappedTask hi_task),
        s\<lparr>ms_handled := 1, ms_tasks := AList.update ''T1'' hi_task (ms_tasks s)\<rparr>)"
  by (simp add: mock_handlePost_def mock_handleSendMessage_def knock_world_def echo_task_def message_context_def
      hi_task_def text_part_def Let_def)

lemma fresh_echo_handled: "ms_handled fresh_echo = 0"
  by (simp add: fresh_echo_def newMockServer_def split: prod.split)

lemma echo_sent:
  "\<exists>g'. send_Handle (echo_ext fresh_echo) sample_env False sample_send sample_gw = (Reply None (Some (task_output hi_task)) None, g')"
proof -
  have "x_send (echo_ext fresh_echo) n c h d rq = Inr (ResTask hi_task)" for n c h d rq
    using echo_answers [OF fresh_echo_handled]
    by (simp add: echo_ext_def sample_sdk_def writeJSONRPCResult_def)
  moreover have "x_send (sample_world v) = (\<lambda>_ _ _ _ _. v)" for v by (simp add: sample_world_def)
  ultimately have "x_send (echo_ext fresh_echo) = x_send (sample_world (Inr (ResTask hi_task)))" by (intro ext) simp
  then show ?thesis
    by (simp add: sample_eval sample_record echo_ext_def hi_task_def)
qed


end
