(* ===== verification/Goroutines.thy ===== *)
theory Goroutines
  imports Prelude
begin

text \<open>
  Goroutines that share memory. A system is a list of program points, one per goroutine, and the memory
  they share; one goroutine at a time takes a step, which may emit events. The locale \<open>noninterference\<close>
  is the proof rule for such systems: what a goroutine knows at its program point is established by its
  own steps and kept by the steps of the others.
\<close>

section \<open>Runs\<close>

type_synonym ('p, 's, 'e) local_step = "nat \<Rightarrow> 'p \<Rightarrow> 's \<Rightarrow> 'e list \<Rightarrow> 'p \<Rightarrow> 's \<Rightarrow> bool"

inductive par_run ::
  "('p, 's, 'e) local_step \<Rightarrow> 'p list \<times> 's \<Rightarrow> 'e list \<Rightarrow> 'p list \<times> 's \<Rightarrow> bool" for L c where
  par_start: "par_run L c [] c"
| par_move: "par_run L c tr (ps, s) \<Longrightarrow> i < length ps \<Longrightarrow> L i (ps ! i) s es p t \<Longrightarrow>
    par_run L c (tr @ es) (ps[i := p], t)"

lemma par_run_length:
  assumes "par_run L c tr d"
  shows "length (fst d) = length (fst c)"
  using assms by (induction rule: par_run.induct) simp_all

text \<open>One more step, with the resulting list and events as they are.\<close>

lemma par_runI:
  assumes "par_run L c tr (ps, s)" "i < length ps" "L i (ps ! i) s es p t" "qs = ps[i := p]" "tr' = tr @ es"
  shows "par_run L c tr' (qs, t)"
  unfolding assms(4,5) by (rule par_move [OF assms(1-3)])

text \<open>What no step changes of a goroutine, and events that carry the goroutine they come from.\<close>

lemma par_run_const:
  assumes "par_run L c tr d" "\<And>i p s es q t. L i p s es q t \<Longrightarrow> h q = h p"
  shows "map h (fst d) = map h (fst c)"
  using assms(1)
proof (induction rule: par_run.induct)
  case (par_move tr ps s i es p t)
  from assms(2) [OF par_move(3)] have "map h (ps[i := p]) = map h ps" by (metis list_update_id map_update)
  with par_move.IH show ?case by simp
qed simp

lemma par_run_own:
  assumes "par_run L c tr d" "\<And>i p s es q t. L i p s es q t \<Longrightarrow> \<forall>e \<in> set es. fst e = i"
  shows "\<forall>e \<in> set tr. fst e < length (fst d)"
  using assms(1)
proof (induction rule: par_run.induct)
  case (par_move tr ps s i es p t)
  with assms(2) [OF par_move(3)] show ?case by auto
qed simp

lemma distinct_fst:
  "(\<And>i. length (filter (\<lambda>e. fst e = i) tr) \<le> 1) \<Longrightarrow> distinct (map fst tr)"
proof (induction tr)
  case (Cons e tr)
  have "length (filter (\<lambda>d. fst d = i) tr) \<le> 1" for i using Cons.prems [of i] by (auto split: if_splits)
  moreover have "filter (\<lambda>d. fst d = fst e) tr = []" using Cons.prems [of "fst e"] by simp
  ultimately show ?case using Cons.IH by (auto simp: filter_empty_conv)
qed simp

text \<open>Events of which each goroutine has exactly one.\<close>

lemma one_event_each:
  assumes "\<And>i. i < n \<Longrightarrow> filter (\<lambda>e. fst e = i) tr = [ev i]" "\<And>e. e \<in> set tr \<Longrightarrow> fst e < n"
  shows "distinct (map fst tr) \<and> set tr = ev ` {..<n}"
proof
  have "filter (\<lambda>e. fst e = i) tr = []" if "\<not> i < n" for i
    using that assms(2) by (auto simp: filter_empty_conv)
  with assms(1) have "length (filter (\<lambda>e. fst e = i) tr) \<le> 1" for i by (cases "i < n") simp_all
  then show "distinct (map fst tr)" by (rule distinct_fst)
  show "set tr = ev ` {..<n}"
  proof (intro set_eqI iffI)
    fix e assume e: "e \<in> set tr"
    then have "e \<in> set (filter (\<lambda>d. fst d = fst e) tr)" by simp
    with assms(1) [OF assms(2) [OF e]] assms(2) [OF e] show "e \<in> ev ` {..<n}" by auto
  next
    fix e assume "e \<in> ev ` {..<n}"
    then obtain i where i: "i < n" "e = ev i" by blast
    with assms(1) [OF i(1)] have "e \<in> set (filter (\<lambda>d. fst d = i) tr)" by simp
    then show "e \<in> set tr" by simp
  qed
qed

text \<open>
  When the step of a goroutine is a function, a schedule determines a run; \<^const>\<open>None\<close> is a goroutine that
  waits or has ended.
\<close>

definition scheduled ::
  "(nat \<Rightarrow> 'p \<Rightarrow> 's \<Rightarrow> ('e list \<times> 'p \<times> 's) option) \<Rightarrow> nat \<Rightarrow> 'e list \<times> 'p list \<times> 's \<Rightarrow> 'e list \<times> 'p list \<times> 's" where
  "scheduled F i d =
     (case d of (tr, ps, s) \<Rightarrow>
        if i < length ps
        then (case F i (ps ! i) s of None \<Rightarrow> d | Some (es, q, t) \<Rightarrow> (tr @ es, ps[i := q], t)) else d)"

lemma scheduled_run:
  assumes "\<And>i p s es q t. F i p s = Some (es, q, t) \<Longrightarrow> L i p s es q t"
  shows "fold (scheduled F) js ([], c) = (tr, d) \<Longrightarrow> par_run L c tr d"
proof (induction js arbitrary: tr d rule: rev_induct)
  case Nil
  then show ?case by (simp add: par_start)
next
  case (snoc j js)
  obtain tr1 ps s where h: "fold (scheduled F) js ([], c) = (tr1, ps, s)" by (metis prod_cases3)
  with snoc.prems have "scheduled F j (tr1, ps, s) = (tr, d)" by simp
  with snoc.IH [OF h] show ?case
    by (auto simp: scheduled_def split: if_splits option.splits intro: par_move assms)
qed

section \<open>Knowledge that no other goroutine disturbs\<close>

text \<open>
  \<open>known tr i p s\<close> is what goroutine \<open>i\<close> knows at \<open>p\<close>, of the memory and of the events so far; \<open>glob\<close> is
  what all goroutines rely on.
\<close>

locale noninterference =
  fixes L :: "('p, 's, 'e) local_step"
    and glob :: "'e list \<Rightarrow> 's \<Rightarrow> bool"
    and known :: "'e list \<Rightarrow> nat \<Rightarrow> 'p \<Rightarrow> 's \<Rightarrow> bool"
  assumes glob_step: "glob tr s \<Longrightarrow> known tr i p s \<Longrightarrow> L i p s es q t \<Longrightarrow> glob (tr @ es) t"
    and own_step: "glob tr s \<Longrightarrow> known tr i p s \<Longrightarrow> L i p s es q t \<Longrightarrow> known (tr @ es) i q t"
    and other_step: "glob tr s \<Longrightarrow> known tr i p s \<Longrightarrow> known tr j r s \<Longrightarrow> i \<noteq> j \<Longrightarrow> L i p s es q t \<Longrightarrow>
      known (tr @ es) j r t"
begin

lemma run_knows:
  assumes "par_run L c tr d" "glob [] (snd c)" "\<And>i. i < length (fst c) \<Longrightarrow> known [] i (fst c ! i) (snd c)"
  shows "glob tr (snd d) \<and> (\<forall>i < length (fst d). known tr i (fst d ! i) (snd d))"
  using assms(1)
proof (induction rule: par_run.induct)
  case par_start
  with assms(2,3) show ?case by simp
next
  case (par_move tr ps s i es p t)
  then have g: "glob tr s" and k: "\<forall>j < length ps. known tr j (ps ! j) s" by auto
  with par_move have ki: "known tr i (ps ! i) s" by simp
  have "known (tr @ es) j (ps[i := p] ! j) t" if "j < length ps" for j
  proof (cases "j = i")
    case True
    with that own_step [OF g ki par_move(3)] show ?thesis by simp
  next
    case False
    with that k other_step [OF g ki _ _ par_move(3), of j "ps ! j"] show ?thesis by simp
  qed
  with glob_step [OF g ki par_move(3)] show ?case by simp
qed

end

section \<open>Atomic operations\<close>

text \<open>
  A concurrent object implements an atomic one when the events of a run, each an operation with its
  result, can be replayed one after another: \<open>apply_op\<close> is the atomic operation.
\<close>

type_synonym ('o, 'r) op_event = "nat \<times> 'o \<times> 'r"

fun replay :: "('o \<Rightarrow> 's \<Rightarrow> 'r \<times> 's) \<Rightarrow> ('o, 'r) op_event list \<Rightarrow> 's \<Rightarrow> 's" where
  "replay f [] s = s"
| "replay f ((i, x, r) # tr) s = replay f tr (snd (f x s))"

fun replays :: "('o \<Rightarrow> 's \<Rightarrow> 'r \<times> 's) \<Rightarrow> ('o, 'r) op_event list \<Rightarrow> 's \<Rightarrow> bool" where
  "replays f [] s = True"
| "replays f ((i, x, r) # tr) s \<longleftrightarrow> r = fst (f x s) \<and> replays f tr (snd (f x s))"

lemma replay_append: "replay f (tr @ es) s = replay f es (replay f tr s)"
  by (induction tr arbitrary: s) auto

lemma replays_append: "replays f (tr @ es) s \<longleftrightarrow> replays f tr s \<and> replays f es (replay f tr s)"
  by (induction tr arbitrary: s) auto

lemmas replay_simps = replay_append replays_append

end
