(* ===== verification/MetadataRace.thy ===== *)
theory MetadataRace
  imports Goroutines ToolBroadcast
begin

text \<open>
  The metadata map that the goroutines of one broadcast share. \<open>broadcastToAgent\<close> hands \<open>input.Metadata\<close> to
  \<open>InjectCallerCard\<close>, which stores the caller card in it without a lock; here the accesses to the map are steps
  of their own. A program point is where a goroutine stands that has passed the checks on its agent. The
  SDK reads the map later, when it encodes the request; these reads are not counted.
\<close>

section \<open>Program points\<close>

text \<open>The map a request holds: none, the one of the input, or one made for it.\<close>

datatype map_ref = NilMap | SharedMap | OwnMap "(string, meta_value) gomap"

datatype inject_pc =
    AtLen
  | AtCard map_ref
  | AtExists map_ref caller_card string
  | AtStore map_ref caller_card string
  | Sends map_ref

definition card_key :: "caller_card_store \<Rightarrow> string" where
  "card_key c = (if cst_key c = [] then defaultCallerCardKey else cst_key c)"

text \<open>
  One step, with the card store as it is and the shared map. The card and its key are read together under
  the lock of the store, which is released before the map is touched.
\<close>

fun inject_step :: "caller_card_store \<Rightarrow> inject_pc \<Rightarrow> metadata \<Rightarrow> inject_pc \<times> metadata" where
  "inject_step c AtLen md =
     (AtCard (case md of Some m \<Rightarrow> if length m > 0 then SharedMap else NilMap | None \<Rightarrow> NilMap), md)"
| "inject_step c (AtCard r) md =
     (case cst_card c of None \<Rightarrow> Sends r | Some cd \<Rightarrow> AtExists r cd (card_key c), md)"
| "inject_step c (AtExists SharedMap cd k) md =
     (case md of
        Some m \<Rightarrow> if map_of m k \<noteq> None then Sends SharedMap else AtStore SharedMap cd k
      | None \<Rightarrow> AtStore NilMap cd k, md)"
| "inject_step c (AtExists r cd k) md = (AtStore r cd k, md)"
| "inject_step c (AtStore SharedMap cd k) md = (Sends SharedMap, map_option (AList.update k (MetaCard cd)) md)"
| "inject_step c (AtStore r cd k) md = (Sends (OwnMap [(k, MetaCard cd)]), md)"
| "inject_step c (Sends r) md = (Sends r, md)"

fun sends :: "inject_pc \<Rightarrow> bool" where
  "sends (Sends r) = True"
| "sends _ = False"

text \<open>The step of a goroutine while the card store takes values in \<open>C\<close>.\<close>

definition injecting :: "caller_card_store set \<Rightarrow> (inject_pc, metadata, unit) local_step" where
  "injecting C i p md es q md' \<longleftrightarrow> es = [] \<and> \<not> sends p \<and> (\<exists>c \<in> C. inject_step c p md = (q, md'))"

definition broadcast_start :: "nat \<Rightarrow> broadcast_input \<Rightarrow> inject_pc list \<times> metadata" where
  "broadcast_start n i = (replicate n AtLen, bi_metadata i)"

text \<open>The metadata a goroutine sends, when the shared map is \<open>md\<close>.\<close>

fun sent_metadata :: "metadata \<Rightarrow> inject_pc \<Rightarrow> metadata" where
  "sent_metadata md (Sends NilMap) = None"
| "sent_metadata md (Sends SharedMap) = md"
| "sent_metadata md (Sends (OwnMap m)) = Some m"
| "sent_metadata md _ = None"

section \<open>Races\<close>

datatype access = Reads | Writes

fun map_access :: "metadata \<Rightarrow> inject_pc \<Rightarrow> access option" where
  "map_access md AtLen = (if md = None then None else Some Reads)"
| "map_access md (AtExists SharedMap cd k) = Some Reads"
| "map_access md (AtStore SharedMap cd k) = Some Writes"
| "map_access md _ = None"

text \<open>
  Two goroutines may access the shared map at the same moment, one of them to write. Go's runtime aborts the
  whole process when it sees this happen.
\<close>

definition map_race :: "inject_pc list \<Rightarrow> metadata \<Rightarrow> bool" where
  "map_race ps md \<longleftrightarrow> (\<exists>i < length ps. \<exists>j < length ps. i \<noteq> j \<and>
     map_access md (ps ! i) = Some Writes \<and> map_access md (ps ! j) \<noteq> None)"

text \<open>A broadcast with metadata of its own, and a caller card under a key that the metadata does not have.\<close>

definition card_collides :: "caller_card_store set \<Rightarrow> broadcast_input \<Rightarrow> bool" where
  "card_collides C i \<longleftrightarrow> (\<exists>m. bi_metadata i = Some m \<and> m \<noteq> [] \<and>
     (\<exists>c \<in> C. cst_card c \<noteq> None \<and> map_of m (card_key c) = None))"

text \<open>What a goroutine knows when no card collides: nobody is about to write.\<close>

fun calm_point :: "caller_card_store set \<Rightarrow> metadata \<Rightarrow> inject_pc \<Rightarrow> bool" where
  "calm_point C md (AtCard SharedMap) \<longleftrightarrow> (\<exists>m. md = Some m \<and> m \<noteq> [])"
| "calm_point C md (AtExists SharedMap cd k) \<longleftrightarrow>
     (\<exists>m. md = Some m \<and> m \<noteq> []) \<and> (\<exists>c \<in> C. cst_card c = Some cd \<and> k = card_key c)"
| "calm_point C md (AtStore SharedMap cd k) \<longleftrightarrow> False"
| "calm_point C md _ \<longleftrightarrow> True"

lemma calm_exists [simp]:
  "calm_point C md (AtCard r) \<Longrightarrow> c \<in> C \<Longrightarrow> cst_card c = Some cd \<Longrightarrow> calm_point C md (AtExists r cd (card_key c))"
  by (cases r) auto

lemma calm_step:
  assumes "\<not> card_collides C i" "calm_point C (bi_metadata i) p" "injecting C j p (bi_metadata i) es q md'"
  shows "md' = bi_metadata i \<and> calm_point C (bi_metadata i) q"
proof -
  from assms(3) obtain c where c: "c \<in> C" "inject_step c p (bi_metadata i) = (q, md')" "\<not> sends p"
    by (auto simp: injecting_def)
  with assms(1,2) show ?thesis
    by (cases "(c, p, bi_metadata i)" rule: inject_step.cases)
      (auto simp: card_collides_def split: option.splits if_splits)
qed

lemma calm: "\<not> card_collides C i \<Longrightarrow> noninterference (injecting C) (\<lambda>tr md. md = bi_metadata i)
    (\<lambda>tr j p md. calm_point C (bi_metadata i) p)"
  by unfold_locales (use calm_step in blast)+

lemma no_race:
  assumes "\<not> card_collides C i" "par_run (injecting C) (broadcast_start n i) tr (ps, md)"
  shows "\<not> map_race ps md"
proof -
  from noninterference.run_knows [OF calm [OF assms(1)] assms(2)]
  have "\<forall>j < length ps. calm_point C (bi_metadata i) (ps ! j)"
    by (simp add: broadcast_start_def)
  then have "map_access md (ps ! j) \<noteq> Some Writes" if "j < length ps" for j
    using that by (cases "(md, ps ! j)" rule: map_access.cases) auto
  then show ?thesis by (auto simp: map_race_def)
qed

text \<open>Any goroutine can be brought to the point before its write, whatever the others do.\<close>

lemma walk_to_store:
  assumes "par_run (injecting C) c0 tr (ps, Some m)" "j < length ps" "ps ! j = AtLen"
    "m \<noteq> []" "c \<in> C" "cst_card c = Some cd" "map_of m (card_key c) = None"
  shows "par_run (injecting C) c0 tr (ps[j := AtStore SharedMap cd (card_key c)], Some m)"
proof -
  note intro = par_runI [where i = j and es = "[]"]
  have "par_run (injecting C) c0 tr (ps[j := AtCard SharedMap], Some m)"
    by (rule intro [OF assms(1)]) (use assms in \<open>auto simp: injecting_def\<close>)
  then have "par_run (injecting C) c0 tr (ps[j := AtExists SharedMap cd (card_key c)], Some m)"
    by (rule intro) (use assms in \<open>auto simp: injecting_def intro!: bexI [of _ c]\<close>)
  then show ?thesis
    by (rule intro) (use assms in \<open>auto simp: injecting_def\<close>)
qed

lemma writers_meet:
  assumes "card_collides C i" "2 \<le> n"
  shows "\<exists>tr ps md. par_run (injecting C) (broadcast_start n i) tr (ps, md) \<and>
    map_access md (ps ! 0) = Some Writes \<and> map_access md (ps ! 1) = Some Writes"
proof -
  from assms(1) obtain m c cd where m: "bi_metadata i = Some m" "m \<noteq> []"
    and c: "c \<in> C" "cst_card c = Some cd" "map_of m (card_key c) = None"
    by (auto simp: card_collides_def)
  let ?p = "AtStore SharedMap cd (card_key c)"
  let ?start = "broadcast_start n i"
  have "par_run (injecting C) ?start [] (replicate n AtLen, Some m)"
    using par_start [of "injecting C" ?start] by (simp add: broadcast_start_def m)
  from walk_to_store [OF this, of 0] assms(2) m(2) c
  have "par_run (injecting C) ?start [] ((replicate n AtLen)[0 := ?p], Some m)" by simp
  from walk_to_store [OF this, of 1] assms(2) m(2) c
  have "par_run (injecting C) ?start [] ((replicate n AtLen)[0 := ?p, 1 := ?p], Some m)" by simp
  then show ?thesis using assms(2) by (intro exI conjI) auto
qed

section \<open>What the goroutines send\<close>

text \<open>
  If no race strikes, the order does not matter: at every point a goroutine knows what it will send, and that
  it is what the sequential model sends.
\<close>

definition sent_map :: "caller_card_store \<Rightarrow> broadcast_input \<Rightarrow> metadata" where
  "sent_map c i = fst (broadcast_metadata c i)"

definition left_map :: "caller_card_store \<Rightarrow> broadcast_input \<Rightarrow> metadata" where
  "left_map c i = bi_metadata (snd (broadcast_metadata c i))"

lemma left_map_cases:
  "left_map c i = (case bi_metadata i of
     Some m \<Rightarrow> if m \<noteq> [] then InjectCallerCard c (Some m) else Some m | None \<Rightarrow> None)"
  "sent_map c i = (case bi_metadata i of
     Some m \<Rightarrow> InjectCallerCard c (if m \<noteq> [] then Some m else None) | None \<Rightarrow> InjectCallerCard c None)"
  by (auto simp: left_map_def sent_map_def broadcast_metadata_def Let_def split: option.splits)

lemma gm_update_again [simp]: "AList.update k v (AList.update k v m) = AList.update k v m"
  by (induction m) auto

fun injects_point :: "caller_card_store \<Rightarrow> broadcast_input \<Rightarrow> metadata \<Rightarrow> inject_pc \<Rightarrow> bool" where
  "injects_point c i md AtLen \<longleftrightarrow> True"
| "injects_point c i md (AtCard r) \<longleftrightarrow>
     r = (if \<exists>m. bi_metadata i = Some m \<and> m \<noteq> [] then SharedMap else NilMap)"
| "injects_point c i md (AtExists r cd k) \<longleftrightarrow> cst_card c = Some cd \<and> k = card_key c \<and>
     r = (if \<exists>m. bi_metadata i = Some m \<and> m \<noteq> [] then SharedMap else NilMap)"
| "injects_point c i md (AtStore r cd k) \<longleftrightarrow> cst_card c = Some cd \<and> k = card_key c \<and>
     r = (if \<exists>m. bi_metadata i = Some m \<and> m \<noteq> [] then SharedMap else NilMap) \<and>
     (\<forall>m. bi_metadata i = Some m \<longrightarrow> m \<noteq> [] \<longrightarrow> map_of m k = None)"
| "injects_point c i md (Sends r) \<longleftrightarrow>
     sent_metadata (left_map c i) (Sends r) = sent_map c i \<and>
     ((\<exists>m. bi_metadata i = Some m \<and> m \<noteq> []) \<longrightarrow> md = left_map c i \<and> r = SharedMap)"

lemma inject_step_point:
  assumes "md = bi_metadata i \<or> md = left_map c i" "injects_point c i md p" "inject_step c p md = (q, md')"
  shows "(md' = md \<or> md' = left_map c i) \<and> injects_point c i md' q"
  using assms
  by (cases "(c, p, md)" rule: inject_step.cases)
    (auto simp: left_map_cases InjectCallerCard_def Let_def map_of_update
      update_nonempty update_nonempty [symmetric] card_key_def [symmetric] split: option.splits if_splits)

lemma injects_point_left:
  "injects_point c i md p \<Longrightarrow> md' = md \<or> md' = left_map c i \<Longrightarrow> injects_point c i md' p"
  by (cases p) auto

lemma injects: "noninterference (injecting {c}) (\<lambda>tr md. md = bi_metadata i \<or> md = left_map c i)
    (\<lambda>tr j p md. injects_point c i md p)"
proof
  fix md md' :: metadata and es :: "unit list" and p q r j
  assume g: "md = bi_metadata i \<or> md = left_map c i" and p: "injects_point c i md p"
    and s: "injecting {c} j p md es q md'"
  from s have "inject_step c p md = (q, md')" by (simp add: injecting_def)
  note step = inject_step_point [OF g p this]
  from step g show "md' = bi_metadata i \<or> md' = left_map c i" by auto
  from step show "injects_point c i md' q" by simp
  from step injects_point_left show "injects_point c i md r \<Longrightarrow> injects_point c i md' r" by blast
qed

text \<open>What one agent of the sequential model does to the input.\<close>

lemma to_agent_input:
  "snd (fst (broadcastToAgent x env a i t g)) \<in> {i, snd (broadcast_metadata (g_card g) i)}"
proof -
  have al: "env_Allow x a g = (ok, g1) \<Longrightarrow> g_card g1 = g_card g" for ok g1
    by (auto simp: env_Allow_def split: prod.splits)
  have rs: "env_Resolve x r g1 = (v, g2) \<Longrightarrow> g_card g2 = g_card g1" for r g1 v g2
    by (auto simp: env_Resolve_def split: prod.splits)
  show ?thesis
    unfolding broadcastToAgent_def Let_def
    by (simp split: option.split prod.split sum.split bool.split) (metis al rs snd_conv)
qed

text \<open>The step as a function, to evaluate runs.\<close>

definition inject_next :: "caller_card_store \<Rightarrow> nat \<Rightarrow> inject_pc \<Rightarrow> metadata \<Rightarrow> (unit list \<times> inject_pc \<times> metadata) option" where
  "inject_next c i p md = (if sends p then None else Some ([], inject_step c p md))"

lemma inject_next_run:
  "fold (scheduled (inject_next c)) js ([], st) = (tr, d) \<Longrightarrow> par_run (injecting {c}) st tr d"
  by (rule scheduled_run) (auto simp: inject_next_def injecting_def split: if_splits)

section \<open>Properties\<close>

text \<open>
  C7: The goroutines of a broadcast may access its metadata map at the same moment, one of them writing,
  exactly when at least two of them get as far, the metadata is not empty, and there is a caller card
  under a key the metadata does not have. Go's runtime may then abort the gateway.
\<close>

theorem metadata_race_iff:
  "(\<exists>tr ps md. par_run (injecting C) (broadcast_start n i) tr (ps, md) \<and> map_race ps md)
    \<longleftrightarrow> card_collides C i \<and> 2 \<le> n"
proof
  assume "\<exists>tr ps md. par_run (injecting C) (broadcast_start n i) tr (ps, md) \<and> map_race ps md"
  then obtain tr ps md where run: "par_run (injecting C) (broadcast_start n i) tr (ps, md)"
    and race: "map_race ps md" by blast
  from par_run_length [OF run] have "length ps = n" by (simp add: broadcast_start_def)
  with race have "2 \<le> n" by (auto simp: map_race_def)
  with no_race [OF _ run] race show "card_collides C i \<and> 2 \<le> n" by blast
next
  assume a: "card_collides C i \<and> 2 \<le> n"
  then obtain tr ps md where run: "par_run (injecting C) (broadcast_start n i) tr (ps, md)"
    and w: "map_access md (ps ! 0) = Some Writes" "map_access md (ps ! 1) = Some Writes"
    using writers_meet by blast
  from par_run_length [OF run] a have "2 \<le> length ps" by (simp add: broadcast_start_def)
  then have "0 < length ps" "1 < length ps" by linarith+
  with w have "map_race ps md" unfolding map_race_def
    by (intro exI [of _ 0] conjI exI [of _ "1 :: nat"]) auto
  with run show "\<exists>tr ps md. par_run (injecting C) (broadcast_start n i) tr (ps, md) \<and> map_race ps md" by blast
qed

text \<open>
  C8: If no race strikes, however the goroutines of a broadcast interleave, each of them sends the metadata
  that the sequential model sends, and the input is left with the same map.
\<close>

theorem fan_out_metadata:
  assumes "par_run (injecting {c}) (broadcast_start n i) tr (ps, md)" "list_all sends ps" "0 < n"
  shows "md = bi_metadata (snd (broadcast_metadata c i)) \<and>
    map (sent_metadata md) ps = replicate n (fst (broadcast_metadata c i))"
proof -
  from par_run_length [OF assms(1)] have n: "length ps = n" by (simp add: broadcast_start_def)
  from noninterference.run_knows [OF injects assms(1)]
  have g: "md = bi_metadata i \<or> md = left_map c i" and k: "\<forall>j < n. injects_point c i md (ps ! j)"
    by (simp_all add: broadcast_start_def n)
  have p: "sent_metadata (left_map c i) (ps ! j) = sent_map c i \<and>
      ((\<exists>m. bi_metadata i = Some m \<and> m \<noteq> []) \<longrightarrow> md = left_map c i)" if "j < n" for j
    using that k assms(2) n by (cases "ps ! j") (auto simp: list_all_length)
  have "left_map c i = bi_metadata i" if "\<not> (\<exists>m. bi_metadata i = Some m \<and> m \<noteq> [])"
    using that by (auto simp: left_map_cases split: option.split)
  with g p [OF assms(3)] have "md = left_map c i" by metis
  with p n show ?thesis
    by (auto simp: left_map_def sent_map_def intro: nth_equalityI)
qed

definition shared_input :: broadcast_input where
  "shared_input = \<lparr>bi_aliases = [''a'', ''b''], bi_message = ''hi'', bi_parts = [], bi_timeout = None,
     bi_metadata = Some [(''k'', MetaJson JNull)], bi_async = None\<rparr>"

definition shared_card :: caller_card_store where
  "shared_card = cc_Set \<lparr>cd_name = ''me'', cd_description = [], cd_url = [], cd_skills = [], cd_capabilities = None\<rparr>
     [] NewCallerCardStore"

lemma fan_out_metadata_witness:
  "snd (snd (fold (scheduled (inject_next shared_card)) [0, 1, 0, 1, 0, 1, 0, 1] ([], broadcast_start 2 shared_input)))
     = bi_metadata (snd (broadcast_metadata shared_card shared_input))"
proof -
  obtain tr ps md where d: "fold (scheduled (inject_next shared_card)) [0, 1, 0, 1, 0, 1, 0, 1]
      ([], broadcast_start 2 shared_input) = (tr, ps, md)" by (metis prod_cases3)
  then have "list_all sends ps"
    by (simp add: scheduled_def inject_next_def broadcast_start_def shared_input_def shared_card_def cc_Set_def
        NewCallerCardStore_def card_key_def defaultCallerCardKey_def numeral_2_eq_2) (auto simp: list_all_iff)
  with fan_out_metadata [OF inject_next_run [OF d]] d show ?thesis by simp
qed

end
