(* ===== verification/HistoryLocks.thy ===== *)
theory HistoryLocks
  imports Goroutines HistoryFile
begin

text \<open>
  The locks of the file backend (\<open>history/history_file.go\<close>). Each alias has a read-write lock of its own, made on
  first use. Here a method is not one step: a goroutine gets the lock, acquires it, reads the file, opens it
  for writing, which empties it, writes it, and releases the lock. Any number of goroutines run the methods
  on aliases of their choice; together they do what the methods do one after another, each in one step, as the
  model of \<open>HistoryFile\<close> has them.
\<close>

section \<open>Operations and locks\<close>

datatype file_op = OpAppend string hist_entry | OpList string | OpDelete string | OpClear string

datatype file_result = ErrorOnly "goerr option" | Listed "goerr + hist_entry list"

fun fop_alias :: "file_op \<Rightarrow> string" where
  "fop_alias (OpAppend a _) = a"
| "fop_alias (OpList a) = a"
| "fop_alias (OpDelete a) = a"
| "fop_alias (OpClear a) = a"

fun fop_writes :: "file_op \<Rightarrow> bool" where
  "fop_writes (OpList _) = False"
| "fop_writes _ = True"

text \<open>The method as one step.\<close>

fun file_apply :: "fs_env \<Rightarrow> file_backend \<Rightarrow> file_op \<Rightarrow> file_system \<Rightarrow> file_result \<times> file_system" where
  "file_apply env f (OpAppend a e) fs = map_prod ErrorOnly id (fb_Append env f a e fs)"
| "file_apply env f (OpList a) fs = (Listed (fb_List env f a fs), fs)"
| "file_apply env f (OpDelete a) fs = map_prod ErrorOnly id (fb_Delete env f a fs)"
| "file_apply env f (OpClear a) fs = map_prod ErrorOnly id (fb_Clear env f a fs)"

datatype lock_status = Unlocked | WriteLocked nat | ReadLocked "nat set"

record lock_store =
  ls_files :: file_system
  ls_locks :: "(string, nat) gomap"
  ls_status :: "lock_status list"

text \<open>The lock of an alias; a lock is its index in the list of locks made so far.\<close>

definition fb_aliasLock :: "string \<Rightarrow> lock_store \<Rightarrow> nat \<times> lock_store" where
  "fb_aliasLock a s =
     (case map_of (ls_locks s) a of
        Some l \<Rightarrow> (l, s)
      | None \<Rightarrow> (length (ls_status s),
          s\<lparr>ls_locks := AList.update a (length (ls_status s)) (ls_locks s), ls_status := ls_status s @ [Unlocked]\<rparr>))"

text \<open>What acquiring and releasing do to a lock; \<^const>\<open>None\<close> is waiting.\<close>

fun acquire :: "nat \<Rightarrow> bool \<Rightarrow> lock_status \<Rightarrow> lock_status option" where
  "acquire i True Unlocked = Some (WriteLocked i)"
| "acquire i False Unlocked = Some (ReadLocked {i})"
| "acquire i False (ReadLocked R) = Some (ReadLocked (insert i R))"
| "acquire i _ _ = None"

fun release :: "nat \<Rightarrow> lock_status \<Rightarrow> lock_status" where
  "release i (ReadLocked R) = (if R - {i} = {} then Unlocked else ReadLocked (R - {i}))"
| "release i _ = Unlocked"

section \<open>The steps of a method\<close>

datatype file_pc =
    FileStart file_op
  | FileHas file_op nat
  | FileIn file_op nat
  | FileRead string hist_entry nat "hist_entry list"
  | FileOpened string hist_entry nat "hist_entry list"
  | FileOut file_op nat file_result
  | FileBack file_op file_result

text \<open>The entries an append writes, from those it has read.\<close>

definition appended_entries :: "file_backend \<Rightarrow> hist_entry \<Rightarrow> hist_entry list \<Rightarrow> hist_entry list" where
  "appended_entries f e es =
     (if int (length es) \<ge> fb_depth f then drop (nat (int (length es) - fb_depth f + 1)) es else es) @ [e]"

text \<open>An empty file is no JSON text. A directory or a file that cannot be opened stops the write before it.\<close>

definition emptied :: hist_file where
  "emptied = BadFile (errors_new ''unexpected end of JSON input'')"

definition opens :: "fs_env \<Rightarrow> file_backend \<Rightarrow> string \<Rightarrow> bool" where
  "opens env f a \<longleftrightarrow> fe_mkdir env (fb_dir f) = None \<and>
     (case fe_write env (aliasPath f a) of Some (e, None) \<Rightarrow> False | _ \<Rightarrow> True)"

type_synonym file_events = "(file_op, file_result) op_event list"

text \<open>
  One step of goroutine \<open>i\<close>: the events, the next point and the memory, or \<^const>\<open>None\<close> when it waits or has
  returned. The event of a method is where it takes effect.
\<close>

fun file_step ::
  "fs_env \<Rightarrow> file_backend \<Rightarrow> nat \<Rightarrow> file_pc \<Rightarrow> lock_store \<Rightarrow> (file_events \<times> file_pc \<times> lock_store) option" where
  "file_step env f i (FileStart x) s =
     (case fb_aliasLock (fop_alias x) s of (l, s') \<Rightarrow> Some ([], FileHas x l, s'))"
| "file_step env f i (FileHas x l) s =
     (case acquire i (fop_writes x) (ls_status s ! l) of
        None \<Rightarrow> None
      | Some st \<Rightarrow> Some ([], FileIn x l, s\<lparr>ls_status := (ls_status s)[l := st]\<rparr>))"
| "file_step env f i (FileIn (OpAppend a e) l) s =
     (case fb_readEntries env f a (ls_files s) of
        Inl err \<Rightarrow> Some ([(i, OpAppend a e, ErrorOnly (Some err))], FileOut (OpAppend a e) l (ErrorOnly (Some err)), s)
      | Inr es \<Rightarrow> Some ([], FileRead a e l es, s))"
| "file_step env f i (FileIn x l) s =
     (case file_apply env f x (ls_files s) of
        (r, fs) \<Rightarrow> Some ([(i, x, r)], FileOut x l r, s\<lparr>ls_files := fs\<rparr>))"
| "file_step env f i (FileRead a e l es) s =
     (if opens env f a then
        Some ([], FileOpened a e l es, s\<lparr>ls_files := AList.update (aliasPath f a) emptied (ls_files s)\<rparr>)
      else (case fb_writeEntries env f a (appended_entries f e es) (ls_files s) of
          (err, fs) \<Rightarrow> Some ([(i, OpAppend a e, ErrorOnly err)], FileOut (OpAppend a e) l (ErrorOnly err), s\<lparr>ls_files := fs\<rparr>)))"
| "file_step env f i (FileOpened a e l es) s =
     (case fb_writeEntries env f a (appended_entries f e es) (ls_files s) of
        (err, fs) \<Rightarrow> Some ([(i, OpAppend a e, ErrorOnly err)], FileOut (OpAppend a e) l (ErrorOnly err), s\<lparr>ls_files := fs\<rparr>))"
| "file_step env f i (FileOut x l r) s =
     Some ([], FileBack x r, s\<lparr>ls_status := (ls_status s)[l := release i (ls_status s ! l)]\<rparr>)"
| "file_step env f i (FileBack x r) s = None"

definition filing :: "fs_env \<Rightarrow> file_backend \<Rightarrow> (file_pc, lock_store, (file_op, file_result) op_event) local_step" where
  "filing env f i p s es q t \<longleftrightarrow> file_step env f i p s = Some (es, q, t)"

definition file_start :: "file_op list \<Rightarrow> file_system \<Rightarrow> file_pc list \<times> lock_store" where
  "file_start xs fs = (map FileStart xs, \<lparr>ls_files = fs, ls_locks = [], ls_status = []\<rparr>)"

section \<open>What a method reads and writes\<close>

abbreviation plain :: "string \<Rightarrow> bool" where
  "plain a \<equiv> CHR ''/'' \<notin> set a"

lemma append_writes:
  "fb_readEntries env f a fs = Inr es \<Longrightarrow>
   fb_Append env f a e fs = fb_writeEntries env f a (appended_entries f e es) fs"
  by (simp add: fb_Append_def appended_entries_def Let_def)

lemma append_error:
  "fb_readEntries env f a fs = Inl err \<Longrightarrow> fb_Append env f a e fs = (Some err, fs)"
  by (simp add: fb_Append_def)

lemma read_local:
  "map_of fs (aliasPath f a) = map_of fs' (aliasPath f a) \<Longrightarrow>
   fb_readEntries env f a fs = fb_readEntries env f a fs'"
  by (auto simp: fb_readEntries_def split: option.split)

lemma write_local:
  "fst (fb_writeEntries env f a es fs) = fst (fb_writeEntries env f a es fs')"
  "q \<noteq> aliasPath f a \<Longrightarrow> map_of (snd (fb_writeEntries env f a es fs)) q = map_of fs q"
  "map_of fs (aliasPath f a) = map_of fs' (aliasPath f a) \<or> opens env f a \<Longrightarrow>
   map_of (snd (fb_writeEntries env f a es fs)) (aliasPath f a)
     = map_of (snd (fb_writeEntries env f a es fs')) (aliasPath f a)"
  by (auto simp: fb_writeEntries_def map_of_update opens_def split: option.splits)

lemma remove_local:
  "fst (fb_remove w env f a fs) = fst (fb_remove w env f a fs')"
  "q \<noteq> aliasPath f a \<Longrightarrow> map_of (snd (fb_remove w env f a fs)) q = map_of fs q"
  "map_of fs (aliasPath f a) = map_of fs' (aliasPath f a) \<Longrightarrow>
   map_of (snd (fb_remove w env f a fs)) (aliasPath f a) = map_of (snd (fb_remove w env f a fs')) (aliasPath f a)"
  by (auto simp: fb_remove_def map_of_delete split: option.splits)

lemma apply_other:
  "q \<noteq> aliasPath f (fop_alias x) \<Longrightarrow> map_of (snd (file_apply env f x fs)) q = map_of fs q"
  by (cases x) (auto simp: fb_Append_def Let_def fb_Delete_def fb_Clear_def write_local remove_local split: sum.split)

lemma apply_read_only: "\<not> fop_writes x \<Longrightarrow> snd (file_apply env f x fs) = fs"
  by (cases x) auto

lemma apply_same:
  assumes "map_of fs (aliasPath f (fop_alias x)) = map_of fs' (aliasPath f (fop_alias x))"
  shows "fst (file_apply env f x fs) = fst (file_apply env f x fs')"
    "map_of (snd (file_apply env f x fs)) (aliasPath f (fop_alias x))
       = map_of (snd (file_apply env f x fs')) (aliasPath f (fop_alias x))"
proof -
  have r: "fb_readEntries env f (fop_alias x) fs = fb_readEntries env f (fop_alias x) fs'"
    by (rule read_local [OF assms])
  show "fst (file_apply env f x fs) = fst (file_apply env f x fs')"
    using r by (cases x) (auto simp: fb_Append_def fb_List_def Let_def fb_Delete_def fb_Clear_def
        intro: write_local(1) remove_local(1) split: sum.split)
  show "map_of (snd (file_apply env f x fs)) (aliasPath f (fop_alias x))
       = map_of (snd (file_apply env f x fs')) (aliasPath f (fop_alias x))"
    using r assms by (cases x) (auto simp: fb_Append_def Let_def fb_Delete_def fb_Clear_def
        intro: write_local(3) remove_local(3) split: sum.split)
qed

section \<open>What a goroutine knows\<close>

fun pc_op :: "file_pc \<Rightarrow> file_op" where
  "pc_op (FileStart x) = x"
| "pc_op (FileHas x _) = x"
| "pc_op (FileIn x _) = x"
| "pc_op (FileRead a e _ _) = OpAppend a e"
| "pc_op (FileOpened a e _ _) = OpAppend a e"
| "pc_op (FileOut x _ _) = x"
| "pc_op (FileBack x _) = x"

text \<open>The lock a goroutine works with, whether it holds it, and its event once it has taken effect.\<close>

fun pc_lock :: "file_pc \<Rightarrow> nat option" where
  "pc_lock (FileHas _ l) = Some l"
| "pc_lock (FileIn _ l) = Some l"
| "pc_lock (FileRead _ _ l _) = Some l"
| "pc_lock (FileOpened _ _ l _) = Some l"
| "pc_lock (FileOut _ l _) = Some l"
| "pc_lock _ = None"

fun pc_inside :: "file_pc \<Rightarrow> bool" where
  "pc_inside (FileStart _) = False"
| "pc_inside (FileHas _ _) = False"
| "pc_inside (FileBack _ _) = False"
| "pc_inside _ = True"

fun pc_events :: "nat \<Rightarrow> file_pc \<Rightarrow> file_events" where
  "pc_events i (FileOut x _ r) = [(i, x, r)]"
| "pc_events i (FileBack x r) = [(i, x, r)]"
| "pc_events i _ = []"

definition holds_lock :: "nat \<Rightarrow> bool \<Rightarrow> lock_status \<Rightarrow> bool" where
  "holds_lock i w st \<longleftrightarrow> (if w then st = WriteLocked i else \<exists>R. st = ReadLocked R \<and> i \<in> R)"

abbreviation pc_path :: "file_backend \<Rightarrow> file_pc \<Rightarrow> path" where
  "pc_path f p \<equiv> aliasPath f (fop_alias (pc_op p))"

text \<open>
  \<open>A\<close> is the file system after the events so far, one after another. Who holds the write lock of an alias and
  has not opened the file finds there what \<open>A\<close> has.
\<close>

fun pc_content :: "fs_env \<Rightarrow> file_backend \<Rightarrow> file_system \<Rightarrow> file_system \<Rightarrow> file_pc \<Rightarrow> bool" where
  "pc_content env f A C (FileRead a e l es) \<longleftrightarrow>
     fb_readEntries env f a A = Inr es \<and> map_of C (aliasPath f a) = map_of A (aliasPath f a)"
| "pc_content env f A C (FileOpened a e l es) \<longleftrightarrow> fb_readEntries env f a A = Inr es \<and> opens env f a"
| "pc_content env f A C p \<longleftrightarrow> (pc_inside p \<and> fop_writes (pc_op p) \<longrightarrow>
     map_of C (pc_path f p) = map_of A (pc_path f p))"

definition write_locked :: "lock_store \<Rightarrow> string \<Rightarrow> bool" where
  "write_locked s a \<longleftrightarrow> (\<exists>l j. map_of (ls_locks s) a = Some l \<and> ls_status s ! l = WriteLocked j)"

definition locks_wf :: "lock_store \<Rightarrow> bool" where
  "locks_wf s \<longleftrightarrow>
     (\<forall>a b l. map_of (ls_locks s) a = Some l \<longrightarrow> map_of (ls_locks s) b = Some l \<longrightarrow> a = b) \<and>
     (\<forall>a l. map_of (ls_locks s) a = Some l \<longrightarrow> l < length (ls_status s) \<and> plain a)"

definition file_glob :: "fs_env \<Rightarrow> file_backend \<Rightarrow> file_system \<Rightarrow> file_events \<Rightarrow> lock_store \<Rightarrow> bool" where
  "file_glob env f fs0 tr s \<longleftrightarrow> locks_wf s \<and> replays (file_apply env f) tr fs0 \<and>
     (\<forall>q. (\<forall>a. plain a \<and> aliasPath f a = q \<longrightarrow> \<not> write_locked s a) \<longrightarrow>
        map_of (ls_files s) q = map_of (replay (file_apply env f) tr fs0) q)"

definition lock_known :: "nat \<Rightarrow> file_pc \<Rightarrow> lock_store \<Rightarrow> bool" where
  "lock_known i p s \<longleftrightarrow> plain (fop_alias (pc_op p)) \<and>
     (\<forall>l. pc_lock p = Some l \<longrightarrow> map_of (ls_locks s) (fop_alias (pc_op p)) = Some l \<and>
        (pc_inside p \<longrightarrow> holds_lock i (fop_writes (pc_op p)) (ls_status s ! l))) \<and>
     (\<forall>l < length (ls_status s). \<forall>w. holds_lock i w (ls_status s ! l) \<longrightarrow> pc_inside p \<and> pc_lock p = Some l)"

definition file_known ::
  "fs_env \<Rightarrow> file_backend \<Rightarrow> file_system \<Rightarrow> file_events \<Rightarrow> nat \<Rightarrow> file_pc \<Rightarrow> lock_store \<Rightarrow> bool" where
  "file_known env f fs0 tr i p s \<longleftrightarrow> lock_known i p s \<and>
     filter (\<lambda>e. fst e = i) tr = pc_events i p \<and>
     pc_content env f (replay (file_apply env f) tr fs0) (ls_files s) p"

section \<open>Locks exclude each other\<close>

lemma aliasLock_grows:
  "fb_aliasLock a s = (l, t) \<Longrightarrow> map_of (ls_locks s) b = Some m \<Longrightarrow> map_of (ls_locks t) b = Some m"
  by (auto simp: fb_aliasLock_def map_of_update split: option.splits)

lemma aliasLock_status:
  "fb_aliasLock a s = (l, t) \<Longrightarrow> locks_wf s \<Longrightarrow> m < length (ls_status t) \<Longrightarrow>
   ls_status t ! m = (if m < length (ls_status s) then ls_status s ! m else Unlocked)"
  by (auto simp: fb_aliasLock_def nth_append split: option.splits)

lemma aliasLock_old:
  "fb_aliasLock a s = (l, t) \<Longrightarrow> m < length (ls_status s) \<Longrightarrow> ls_status t ! m = ls_status s ! m"
  by (auto simp: fb_aliasLock_def nth_append split: option.splits)

lemma aliasLock_wf: "fb_aliasLock a s = (l, t) \<Longrightarrow> locks_wf s \<Longrightarrow> plain a \<Longrightarrow> locks_wf t"
  by (fastforce simp: fb_aliasLock_def locks_wf_def map_of_update less_Suc_eq split: option.splits if_splits)

lemma aliasLock_gives:
  "fb_aliasLock a s = (l, t) \<Longrightarrow> map_of (ls_locks t) a = Some l \<and> ls_files t = ls_files s"
  by (auto simp: fb_aliasLock_def map_of_update split: option.splits)

lemma aliasLock_files: "ls_files (snd (fb_aliasLock a s)) = ls_files s"
  by (simp add: fb_aliasLock_def split: option.split)

lemma same_lock:
  "locks_wf s \<Longrightarrow> map_of (ls_locks s) a = Some l \<Longrightarrow> map_of (ls_locks s) b = Some l \<Longrightarrow> a = b"
  unfolding locks_wf_def by blast

lemma holds_excludes:
  "holds_lock i w st \<Longrightarrow> holds_lock j v st \<Longrightarrow> w \<or> v \<Longrightarrow> i = j"
  by (auto simp: holds_lock_def split: if_splits)

lemma acquire_holds:
  "acquire i w st = Some st' \<Longrightarrow> holds_lock i w st' \<and> (\<forall>j. st' = WriteLocked j \<longrightarrow> j = i \<and> w)"
  by (cases "(i, w, st)" rule: acquire.cases) (auto simp: holds_lock_def)

lemma acquire_keeps:
  "acquire i w st = Some st' \<Longrightarrow> holds_lock j v st \<Longrightarrow> holds_lock j v st'"
  by (cases "(i, w, st)" rule: acquire.cases) (auto simp: holds_lock_def split: if_splits)

lemma release_keeps:
  "holds_lock i w st \<Longrightarrow> holds_lock j v st \<Longrightarrow> i \<noteq> j \<Longrightarrow> holds_lock j v (release i st)"
  by (cases st) (auto simp: holds_lock_def split: if_splits)

lemma release_unlocks: "release i st \<noteq> WriteLocked j" "\<not> holds_lock i w (release i st)"
  by (cases st; auto simp: holds_lock_def)+

lemma acquire_only: "acquire i w st = Some st' \<Longrightarrow> holds_lock j v st' \<Longrightarrow> j \<noteq> i \<Longrightarrow> holds_lock j v st"
  by (cases "(i, w, st)" rule: acquire.cases) (auto simp: holds_lock_def split: if_splits)

lemma release_only: "holds_lock j v (release i st) \<Longrightarrow> holds_lock j v st"
  by (cases st) (auto simp: holds_lock_def split: if_splits)

lemma unlocked_free [simp]: "\<not> holds_lock i w Unlocked"
  by (simp add: holds_lock_def)

text \<open>Two goroutines inside at the same alias are both readers.\<close>

lemma inside_apart:
  assumes "locks_wf s" "lock_known i p s" "lock_known j r s" "i \<noteq> j" "pc_inside p" "pc_inside r"
    "fop_writes (pc_op p)"
  shows "fop_alias (pc_op r) \<noteq> fop_alias (pc_op p)"
proof
  assume a: "fop_alias (pc_op r) = fop_alias (pc_op p)"
  from assms(5,6) obtain l m where "pc_lock p = Some l" "pc_lock r = Some m"
    by (cases p; cases r) auto
  with assms(2,3,5,6) a have "holds_lock i (fop_writes (pc_op p)) (ls_status s ! l)"
    "holds_lock j (fop_writes (pc_op r)) (ls_status s ! l)" by (auto simp: lock_known_def)
  from holds_excludes [OF this] assms(4,7) show False by blast
qed

section \<open>One step\<close>

lemma step_op:
  "file_step env f i p s = Some (es, q, t) \<Longrightarrow> pc_op q = pc_op p"
  by (cases "(env, f, i, p, s)" rule: file_step.cases) (auto split: prod.splits option.splits sum.splits if_splits)

lemma step_events:
  "file_step env f i p s = Some (es, q, t) \<Longrightarrow> pc_events i q = pc_events i p @ es \<and> (\<forall>e \<in> set es. fst e = i)"
  by (cases "(env, f, i, p, s)" rule: file_step.cases) (auto split: prod.splits option.splits sum.splits if_splits)

text \<open>Outside the lock, and as a reader, a goroutine changes no file; inside it changes its own only.\<close>

lemma step_quiet:
  "file_step env f i p s = Some (es, q, t) \<Longrightarrow> \<not> (pc_inside p \<and> fop_writes (pc_op p)) \<Longrightarrow> ls_files t = ls_files s"
  by (cases "(env, f, i, p, s)" rule: file_step.cases)
    (auto dest: aliasLock_gives split: prod.splits option.splits sum.splits if_splits)

lemma step_frame:
  assumes "file_step env f i p s = Some (es, q, t)" "x \<noteq> pc_path f p"
  shows "map_of (ls_files t) x = map_of (ls_files s) x"
  using assms
  by (cases "(env, f, i, p, s)" rule: file_step.cases)
    (auto simp del: file_apply.simps simp: map_of_update apply_other write_local(2) case_prod_unfold
      aliasLock_files split: option.splits sum.splits if_splits)

lemma step_locks:
  "file_step env f i p s = Some (es, q, t) \<Longrightarrow> map_of (ls_locks s) a = Some l \<Longrightarrow> map_of (ls_locks t) a = Some l"
  by (cases "(env, f, i, p, s)" rule: file_step.cases)
    (auto dest: aliasLock_grows split: prod.splits option.splits sum.splits if_splits)

text \<open>Who reads, or is about to acquire the lock to write, finds the alias not locked by a writer.\<close>

lemma not_write_locked:
  assumes "lock_known i p s" "file_step env f i p s = Some (es, q, t)" "pc_inside q"
    "\<not> (pc_inside p \<and> fop_writes (pc_op p))"
  shows "\<not> write_locked s (fop_alias (pc_op p))"
proof (cases "pc_inside p")
  case True
  then obtain l where "pc_lock p = Some l" by (cases p) auto
  with True assms(1,4) show ?thesis by (auto simp: lock_known_def holds_lock_def write_locked_def)
next
  case False
  with assms(2,3) obtain x l where p: "p = FileHas x l"
    by (cases p) (auto split: prod.splits)
  with assms(2) have "ls_status s ! l \<noteq> WriteLocked j" for j
    by (cases "fop_writes x") (auto split: option.splits)
  with assms(1) p show ?thesis by (auto simp: lock_known_def write_locked_def)
qed

text \<open>The event of a step is that of the atomic operation.\<close>

lemma step_effect:
  assumes "file_step env f i p s = Some (es, q, t)" "pc_content env f A (ls_files s) p"
    "pc_inside q \<Longrightarrow> \<not> (pc_inside p \<and> fop_writes (pc_op p)) \<Longrightarrow>
      map_of (ls_files s) (pc_path f p) = map_of A (pc_path f p)"
  shows "replays (file_apply env f) es A \<and> pc_content env f (replay (file_apply env f) es A) (ls_files t) q"
proof (cases p)
  case (FileIn x l)
  moreover from assms(1) FileIn have "pc_inside q"
    by (cases x) (auto split: sum.splits prod.splits)
  ultimately have same: "map_of (ls_files s) (aliasPath f (fop_alias x)) = map_of A (aliasPath f (fop_alias x))"
    using assms(2,3) by (cases "fop_writes x") auto
  show ?thesis
  proof (cases x)
    case (OpAppend a e)
    with same read_local [of "ls_files s" f a A env] assms(1) FileIn show ?thesis
      by (auto simp: append_error split: sum.splits)
  next
    case (OpList a)
    with FileIn assms(1) apply_same [OF same, of env] show ?thesis by auto
  next
    case (OpDelete a)
    with FileIn assms(1) apply_same [OF same, of env] show ?thesis
      by (auto simp del: file_apply.simps simp: case_prod_unfold)
  next
    case (OpClear a)
    with FileIn assms(1) apply_same [OF same, of env] show ?thesis
      by (auto simp del: file_apply.simps simp: case_prod_unfold)
  qed
next
  case (FileRead a e l es')
  with assms(1,2) append_writes [of env f a A es' e] show ?thesis
    using write_local(1,3) [where env = env and f = f and a = a and fs = "ls_files s" and fs' = A]
    by (auto simp: case_prod_unfold split: if_splits)
next
  case (FileOpened a e l es')
  with assms(1,2) append_writes [of env f a A es' e] show ?thesis
    using write_local(1,3) [where env = env and f = f and a = a and fs = "ls_files s" and fs' = A]
    by (auto simp: case_prod_unfold split: if_splits)
qed (use assms in \<open>auto split: prod.splits option.splits\<close>)

lemma step_other_files:
  assumes "file_step env f i p s = Some (es, q, t)"
  shows "x \<noteq> pc_path f p \<Longrightarrow> map_of (replay (file_apply env f) es A) x = map_of A x"
    "\<not> (pc_inside p \<and> fop_writes (pc_op p)) \<Longrightarrow> replay (file_apply env f) es A = A"
  using assms
  by (cases "(env, f, i, p, s)" rule: file_step.cases;
      auto simp del: file_apply.simps simp: apply_other apply_read_only
        split: prod.splits option.splits sum.splits if_splits)+

text \<open>A step takes a goroutine from outside to inside, or back, or leaves the locks as they are.\<close>

lemma step_lock_cases:
  assumes "file_step env f i p s = Some (es, q, t)"
  obtains (start) x l where "p = FileStart x" "q = FileHas x l" "fb_aliasLock (fop_alias x) s = (l, t)"
  | (enter) x l st where "p = FileHas x l" "q = FileIn x l" "acquire i (fop_writes x) (ls_status s ! l) = Some st"
      "ls_locks t = ls_locks s" "ls_status t = (ls_status s)[l := st]"
  | (inside) "pc_inside p" "pc_inside q" "pc_lock q = pc_lock p" "ls_locks t = ls_locks s" "ls_status t = ls_status s"
  | (leave) x l r where "p = FileOut x l r" "q = FileBack x r" "ls_locks t = ls_locks s"
      "ls_status t = (ls_status s)[l := release i (ls_status s ! l)]"
  using assms
  by (cases "(env, f, i, p, s)" rule: file_step.cases)
    (auto split: prod.splits option.splits sum.splits if_splits)

lemma lock_bound: "locks_wf s \<Longrightarrow> lock_known i p s \<Longrightarrow> pc_lock p = Some l \<Longrightarrow> l < length (ls_status s)"
  by (auto simp: locks_wf_def lock_known_def)

lemma step_locks_wf:
  assumes "file_step env f i p s = Some (es, q, t)" "locks_wf s" "lock_known i p s"
  shows "locks_wf t"
  using assms(1)
proof (cases rule: step_lock_cases)
  case start
  then show ?thesis using aliasLock_wf assms(2,3) by (auto simp: lock_known_def)
qed (use assms(2) in \<open>simp_all add: locks_wf_def\<close>)

lemma step_lock_own:
  assumes "file_step env f i p s = Some (es, q, t)" "locks_wf s" "lock_known i p s"
  shows "lock_known i q t"
  using assms(1)
proof (cases rule: step_lock_cases)
  case start
  with assms(2,3) aliasLock_gives [OF start(3)] aliasLock_status [OF start(3) assms(2)] show ?thesis
    by (auto simp: lock_known_def split: if_splits)
next
  case enter
  with lock_bound [OF assms(2,3)] acquire_holds [OF enter(3)] assms(3) show ?thesis
    by (auto simp: lock_known_def nth_list_update)
next
  case inside
  with step_op [OF assms(1)] assms(3) show ?thesis by (simp add: lock_known_def)
next
  case leave
  with lock_bound [OF assms(2,3)] release_unlocks assms(3) show ?thesis
    by (auto simp: lock_known_def nth_list_update)
qed

lemma lock_known_frame:
  assumes "locks_wf s" "lock_known j r s"
    "\<And>a l. map_of (ls_locks s) a = Some l \<Longrightarrow> map_of (ls_locks t) a = Some l"
    "\<And>l w. l < length (ls_status s) \<Longrightarrow> holds_lock j w (ls_status s ! l) \<Longrightarrow> holds_lock j w (ls_status t ! l)"
    "\<And>l w. l < length (ls_status t) \<Longrightarrow> holds_lock j w (ls_status t ! l) \<Longrightarrow>
      l < length (ls_status s) \<and> holds_lock j w (ls_status s ! l)"
  shows "lock_known j r t"
  unfolding lock_known_def
proof (intro conjI allI impI)
  note k = assms(2) [unfolded lock_known_def]
  show "plain (fop_alias (pc_op r))" using k by blast
  fix l w
  show "map_of (ls_locks t) (fop_alias (pc_op r)) = Some l" if "pc_lock r = Some l" using k that assms(3) by blast
  show "holds_lock j (fop_writes (pc_op r)) (ls_status t ! l)" if "pc_lock r = Some l" "pc_inside r"
    using k that assms(4) [OF lock_bound [OF assms(1,2) that(1)]] by blast
  show "pc_inside r" if "l < length (ls_status t)" "holds_lock j w (ls_status t ! l)"
    using k assms(5) [OF that] by blast
  show "pc_lock r = Some l" if "l < length (ls_status t)" "holds_lock j w (ls_status t ! l)"
    using k assms(5) [OF that] by blast
qed

lemma step_lock_other:
  assumes "file_step env f i p s = Some (es, q, t)" "locks_wf s" "lock_known i p s" "lock_known j r s" "i \<noteq> j"
  shows "lock_known j r t"
proof (rule lock_known_frame [OF assms(2,4)])
  show "map_of (ls_locks t) a = Some l" if "map_of (ls_locks s) a = Some l" for a l
    using step_locks [OF assms(1) that] .
  show "holds_lock j w (ls_status t ! l)" if "l < length (ls_status s)" "holds_lock j w (ls_status s ! l)" for l w
    using assms(1)
  proof (cases rule: step_lock_cases)
    case (start x m)
    from aliasLock_old [OF start(3) that(1)] that(2) show ?thesis by simp
  next
    case (enter x m st)
    with that acquire_keeps [OF enter(3)] show ?thesis by (cases "m = l") simp_all
  next
    case (leave x m res)
    with assms(3) have "holds_lock i (fop_writes x) (ls_status s ! m)" by (simp add: lock_known_def)
    with leave that release_keeps assms(5) show ?thesis by (cases "m = l") simp_all
  qed (use that in simp_all)
  show "l < length (ls_status s) \<and> holds_lock j w (ls_status s ! l)"
    if "l < length (ls_status t)" "holds_lock j w (ls_status t ! l)" for l w
    using assms(1)
  proof (cases rule: step_lock_cases)
    case (start x m)
    with that aliasLock_status [OF start(3) assms(2), of l] show ?thesis by (auto split: if_splits)
  next
    case (enter x m st)
    with that acquire_only [OF enter(3)] assms(5) show ?thesis by (cases "m = l") auto
  next
    case (leave x m res)
    with that release_only show ?thesis by (cases "m = l") auto
  qed (use that in simp_all)
qed

section \<open>No goroutine disturbs another\<close>

text \<open>An alias that is locked by a writer stays so, unless the step is that of the writer.\<close>

lemma write_lock_stays:
  assumes "file_step env f i p s = Some (es, q, t)" "locks_wf s" "lock_known i p s" "write_locked s a"
    "\<not> (pc_inside p \<and> fop_writes (pc_op p) \<and> fop_alias (pc_op p) = a)"
  shows "write_locked t a"
proof -
  from assms(4) obtain l j where l: "map_of (ls_locks s) a = Some l" "ls_status s ! l = WriteLocked j"
    by (auto simp: write_locked_def)
  then have b: "l < length (ls_status s)" using assms(2) by (auto simp: locks_wf_def)
  from assms(1) have "ls_status t ! l = WriteLocked j"
  proof (cases rule: step_lock_cases)
    case start
    from aliasLock_old [OF start(3) b] l show ?thesis by simp
  next
    case (enter x m st)
    with l show ?thesis by (cases "m = l"; cases "fop_writes x") auto
  next
    case (leave x m r)
    with assms(3) have m: "map_of (ls_locks s) (fop_alias x) = Some m" "holds_lock i (fop_writes x) (ls_status s ! m)"
      by (simp_all add: lock_known_def)
    have "m \<noteq> l"
    proof
      assume "m = l"
      with m l same_lock [OF assms(2) m(1)] have "fop_alias x = a" by simp
      with assms(5) leave \<open>m = l\<close> m(2) l(2) show False by (simp add: holds_lock_def)
    qed
    with leave l show ?thesis by simp
  qed (use l in simp_all)
  with step_locks [OF assms(1) l(1)] show ?thesis by (auto simp: write_locked_def)
qed

lemma content_frame:
  assumes "pc_content env f A C r" "map_of C (pc_path f r) = map_of C' (pc_path f r)"
    "map_of A (pc_path f r) = map_of A' (pc_path f r)"
  shows "pc_content env f A' C' r"
  using assms read_local [of A f _ A' env] by (cases r) auto

lemma unlocked_same:
  assumes "file_glob env f fs0 tr s" "plain a" "\<not> write_locked s a"
  shows "map_of (ls_files s) (aliasPath f a) = map_of (replay (file_apply env f) tr fs0) (aliasPath f a)"
proof -
  have "\<forall>b. plain b \<and> aliasPath f b = aliasPath f a \<longrightarrow> \<not> write_locked s b"
    using assms(2,3) aliasPath_inject by blast
  with assms(1) show ?thesis unfolding file_glob_def by blast
qed

lemma filing_effect:
  assumes "file_step env f i p s = Some (es, q, t)" "file_glob env f fs0 tr s" "file_known env f fs0 tr i p s"
  defines "A \<equiv> replay (file_apply env f) tr fs0"
  shows "replays (file_apply env f) es A \<and> pc_content env f (replay (file_apply env f) es A) (ls_files t) q"
proof (rule step_effect [OF assms(1)])
  from assms(3) have k: "lock_known i p s" by (simp add: file_known_def)
  then have pl: "plain (fop_alias (pc_op p))" by (simp add: lock_known_def)
  show "pc_content env f A (ls_files s) p" using assms(3) by (simp add: file_known_def A_def)
  show "map_of (ls_files s) (pc_path f p) = map_of A (pc_path f p)"
    if "pc_inside q" "\<not> (pc_inside p \<and> fop_writes (pc_op p))"
    using unlocked_same [OF assms(2) pl not_write_locked [OF k assms(1) that]] by (simp add: A_def)
qed

lemma filing_glob:
  assumes "file_step env f i p s = Some (es, q, t)" "file_glob env f fs0 tr s" "file_known env f fs0 tr i p s"
  shows "file_glob env f fs0 (tr @ es) t"
proof -
  let ?A = "replay (file_apply env f) tr fs0"
  let ?w = "pc_inside p \<and> fop_writes (pc_op p)"
  from assms(2,3) have wf: "locks_wf s" and k: "lock_known i p s" by (simp_all add: file_glob_def file_known_def)
  then have pl: "plain (fop_alias (pc_op p))" by (simp add: lock_known_def)
  have "map_of (ls_files t) x = map_of (replay (file_apply env f) es ?A) x"
    if x: "\<forall>a. plain a \<and> aliasPath f a = x \<longrightarrow> \<not> write_locked t a" for x
  proof (cases "x = pc_path f p \<and> ?w")
    case True
    with x pl have "\<not> write_locked t (fop_alias (pc_op q))" by (simp add: step_op [OF assms(1)])
    moreover have "lock_known i q t" by (rule step_lock_own [OF assms(1) wf k])
    ultimately have "\<not> pc_inside q"
      using True step_op [OF assms(1)] by (cases q) (auto simp: lock_known_def write_locked_def holds_lock_def)
    with True assms(1) obtain y l r where "p = FileOut y l r"
      by (cases rule: step_lock_cases [OF assms(1)]) auto
    with True assms(1,3) show ?thesis by (auto simp: file_known_def)
  next
    case False
    then have "\<not> write_locked s a" if "plain a" "aliasPath f a = x" for a
      using that x write_lock_stays [OF assms(1) wf k, of a] by auto
    then have "map_of (ls_files s) x = map_of ?A x" using assms(2) unfolding file_glob_def by blast
    with False step_quiet [OF assms(1)] step_frame [OF assms(1)] step_other_files [OF assms(1)] show ?thesis
      by (cases "x = pc_path f p") auto
  qed
  with filing_effect [OF assms] step_locks_wf [OF assms(1) wf k] assms(2) show ?thesis
    by (simp add: file_glob_def replay_simps)
qed

lemma filing_own:
  assumes "file_step env f i p s = Some (es, q, t)" "file_glob env f fs0 tr s" "file_known env f fs0 tr i p s"
  shows "file_known env f fs0 (tr @ es) i q t"
  using assms filing_effect [OF assms] step_events [OF assms(1)] step_lock_own [OF assms(1)]
  by (auto simp: file_known_def file_glob_def replay_simps filter_id_conv)

lemma filing_other:
  assumes "file_step env f i p s = Some (es, q, t)" "file_glob env f fs0 tr s" "file_known env f fs0 tr i p s"
    "file_known env f fs0 tr j r s" "i \<noteq> j"
  shows "file_known env f fs0 (tr @ es) j r t"
proof -
  let ?A = "replay (file_apply env f) tr fs0"
  from assms(2-4) have wf: "locks_wf s" and k: "lock_known i p s" "lock_known j r s"
    and c: "pc_content env f ?A (ls_files s) r"
    by (simp_all add: file_glob_def file_known_def)
  then have pl: "plain (fop_alias (pc_op p))" "plain (fop_alias (pc_op r))" by (simp_all add: lock_known_def)
  have "pc_content env f (replay (file_apply env f) es ?A) (ls_files t) r"
  proof (cases "pc_inside p \<and> fop_writes (pc_op p)")
    case False
    with c step_quiet [OF assms(1)] step_other_files(2) [OF assms(1)] show ?thesis by simp
  next
    case True
    show ?thesis
    proof (cases "pc_inside r")
      case True
      with \<open>pc_inside p \<and> fop_writes (pc_op p)\<close> inside_apart [OF wf k assms(5)]
      have "pc_path f r \<noteq> pc_path f p" using pl by (simp add: aliasPath_inject)
      with step_frame [OF assms(1)] step_other_files(1) [OF assms(1)] show ?thesis
        by (intro content_frame [OF c]) simp_all
    next
      case False
      then show ?thesis by (cases r) auto
    qed
  qed
  moreover from step_events [OF assms(1)] assms(5) have "filter (\<lambda>e. fst e = j) es = []"
    by (auto simp: filter_empty_conv)
  ultimately show ?thesis
    using step_lock_other [OF assms(1) wf k assms(5)] assms(4) by (simp add: file_known_def replay_simps)
qed

interpretation filing: noninterference "filing env f" "file_glob env f fs0" "file_known env f fs0"
  for env :: fs_env and f and fs0
  by unfold_locales (auto simp: filing_def intro: filing_glob filing_own filing_other)

section \<open>Runs of the backend\<close>

fun returned :: "file_pc \<Rightarrow> bool" where
  "returned (FileBack _ _) = True"
| "returned _ = False"

fun pc_result :: "file_pc \<Rightarrow> file_result option" where
  "pc_result (FileBack _ r) = Some r"
| "pc_result _ = None"

text \<open>The steps a goroutine has left at most.\<close>

fun pc_rank :: "file_pc \<Rightarrow> nat" where
  "pc_rank (FileStart _) = 6"
| "pc_rank (FileHas _ _) = 5"
| "pc_rank (FileIn _ _) = 4"
| "pc_rank (FileRead _ _ _ _) = 3"
| "pc_rank (FileOpened _ _ _ _) = 2"
| "pc_rank (FileOut _ _ _) = 1"
| "pc_rank (FileBack _ _) = 0"

lemma step_rank: "file_step env f i p s = Some (es, q, t) \<Longrightarrow> pc_rank q < pc_rank p"
  by (cases "(env, f, i, p, s)" rule: file_step.cases) (auto split: prod.splits option.splits sum.splits if_splits)

lemma start_glob: "file_glob env f fs [] (snd (file_start xs fs))"
  by (simp add: file_glob_def file_start_def locks_wf_def)

lemma start_known:
  "list_all (\<lambda>x. plain (fop_alias x)) xs \<Longrightarrow> i < length (fst (file_start xs fs)) \<Longrightarrow>
   file_known env f fs [] i (fst (file_start xs fs) ! i) (snd (file_start xs fs))"
  by (simp add: file_known_def lock_known_def file_start_def list_all_length)

text \<open>Only goroutines of the run hold locks, and a lock that is not free is held by someone.\<close>

definition held_by :: "nat \<Rightarrow> lock_status \<Rightarrow> bool" where
  "held_by n st \<longleftrightarrow> (\<forall>j w. holds_lock j w st \<longrightarrow> j < n) \<and> (st \<noteq> Unlocked \<longrightarrow> (\<exists>j w. holds_lock j w st))"

lemma held_steps:
  "held_by n Unlocked"
  "i < n \<Longrightarrow> held_by n st \<Longrightarrow> acquire i w st = Some st' \<Longrightarrow> held_by n st'"
  "held_by n st \<Longrightarrow> held_by n (release i st)"
proof -
  show "held_by n Unlocked" by (simp add: held_by_def)
  show "held_by n st'" if "i < n" "held_by n st" "acquire i w st = Some st'"
    using that(1,2) acquire_holds [OF that(3)] acquire_only [OF that(3)] unfolding held_by_def by metis
  show "held_by n (release i st)" if "held_by n st"
  proof (cases st)
    case (ReadLocked R)
    then have "holds_lock j False (release i st)" if "j \<in> R - {i}" for j
      using that by (auto simp: holds_lock_def)
    with that ReadLocked show ?thesis
      unfolding held_by_def by (metis equals0I release.simps(1) release_only)
  qed (simp_all add: held_by_def)
qed

lemma run_held:
  assumes "par_run (filing env f) (file_start xs fs) tr d"
  shows "\<forall>l < length (ls_status (snd d)). held_by (length (fst d)) (ls_status (snd d) ! l)"
  using assms
proof (induction rule: par_run.induct)
  case par_start
  show ?case by (simp add: file_start_def)
next
  case (par_move tr ps s i es p t)
  from par_move(3) have step: "file_step env f i (ps ! i) s = Some (es, p, t)" by (simp add: filing_def)
  then show ?case
  proof (cases rule: step_lock_cases)
    case start
    with par_move.IH show ?thesis
      by (auto simp: fb_aliasLock_def nth_append held_steps split: option.splits)
  next
    case (enter x l st)
    have "held_by (length ps) (ls_status t ! m)" if "m < length (ls_status s)" for m
      using that enter par_move.IH held_steps(2) [OF par_move(2) _ enter(3)] by (cases "m = l") simp_all
    with enter show ?thesis by simp
  next
    case (leave x l r)
    have "held_by (length ps) (ls_status t ! m)" if "m < length (ls_status s)" for m
      using that leave par_move.IH held_steps(3) by (cases "m = l") simp_all
    with leave show ?thesis by simp
  qed (use par_move.IH in simp_all)
qed

section \<open>Properties\<close>

text \<open>What is known when a run of the backend has come to \<open>(ps, s)\<close>.\<close>

lemma run_facts:
  assumes "list_all (\<lambda>x. plain (fop_alias x)) xs" "par_run (filing env f) (file_start xs fs) tr (ps, s)"
  shows "file_glob env f fs tr s" "i < length xs \<Longrightarrow> file_known env f fs tr i (ps ! i) s"
    "length ps = length xs" "i < length xs \<Longrightarrow> pc_op (ps ! i) = xs ! i"
    "l < length (ls_status s) \<Longrightarrow> held_by (length xs) (ls_status s ! l)" "e \<in> set tr \<Longrightarrow> fst e < length xs"
proof -
  from par_run_length [OF assms(2)] show n: "length ps = length xs" by (simp add: file_start_def)
  note k = filing.run_knows [OF assms(2) start_glob start_known [OF assms(1)]]
  from k show "file_glob env f fs tr s" "i < length xs \<Longrightarrow> file_known env f fs tr i (ps ! i) s"
    by (simp_all add: n)
  have "map pc_op (fst (ps, s)) = map pc_op (fst (file_start xs fs))"
    by (rule par_run_const [OF assms(2)]) (auto simp: filing_def dest: step_op)
  then have "map pc_op ps = xs" by (simp add: file_start_def comp_def)
  then show "i < length xs \<Longrightarrow> pc_op (ps ! i) = xs ! i" by (metis n nth_map)
  from run_held [OF assms(2)] n show "l < length (ls_status s) \<Longrightarrow> held_by (length xs) (ls_status s ! l)" by simp
  have "\<forall>e \<in> set tr. fst e < length (fst (ps, s))"
    by (rule par_run_own [OF assms(2)]) (auto simp: filing_def dest: step_events)
  with n show "e \<in> set tr \<Longrightarrow> fst e < length xs" by simp
qed

text \<open>
  C5: However goroutines run the methods of the file backend on aliases at the same time, they do together
  what the methods do in one step each, one after another: there is an order of the calls, each in it
  exactly once, in which they return what they returned and leave the files as they are left. No
  call sees a file half written and no entry is lost.
\<close>

theorem concurrent_history_atomic:
  assumes "list_all (\<lambda>x. plain (fop_alias x)) xs" "par_run (filing env f) (file_start xs fs) tr (ps, s)"
    "list_all returned ps"
  shows "map_of (ls_files s) = map_of (replay (file_apply env f) tr fs) \<and>
    replays (file_apply env f) tr fs \<and> distinct (map fst tr) \<and>
    set tr = (\<lambda>i. (i, xs ! i, the (pc_result (ps ! i)))) ` {..<length xs}"
proof (intro conjI)
  note facts = run_facts [OF assms(1,2)]
  have done_call: "\<exists>x r. ps ! i = FileBack x r" if "i < length xs" for i
    using that assms(3) facts(3) by (cases "ps ! i") (auto simp: list_all_length)
  have ev: "filter (\<lambda>e. fst e = i) tr = [(i, xs ! i, the (pc_result (ps ! i)))]" if "i < length xs" for i
    using facts(2,4) [OF that] done_call [OF that] by (auto simp: file_known_def)
  show "replays (file_apply env f) tr fs" using facts(1) by (simp add: file_glob_def)
  have free: "\<not> write_locked s a" for a
  proof
    assume "write_locked s a"
    then obtain l j where m: "map_of (ls_locks s) a = Some l" "ls_status s ! l = WriteLocked j"
      by (auto simp: write_locked_def)
    with facts(1) have l: "l < length (ls_status s)" "ls_status s ! l = WriteLocked j"
      by (simp_all add: file_glob_def locks_wf_def)
    then have h: "holds_lock j True (ls_status s ! l)" by (simp add: holds_lock_def)
    with facts(5) [OF l(1)] have j: "j < length xs" unfolding held_by_def by blast
    with facts(2) [OF j] h l(1) have "pc_inside (ps ! j)" unfolding file_known_def lock_known_def by blast
    with done_call [OF j] show False by auto
  qed
  with facts(1) show "map_of (ls_files s) = map_of (replay (file_apply env f) tr fs)"
    by (simp add: file_glob_def fun_eq_iff)
  from one_event_each [of "length xs", OF ev facts(6)]
  show "distinct (map fst tr)" "set tr = (\<lambda>i. (i, xs ! i, the (pc_result (ps ! i)))) ` {..<length xs}" by blast+
qed

text \<open>Until all calls have returned, some goroutine can go on.\<close>

lemma file_progress:
  assumes "list_all (\<lambda>x. plain (fop_alias x)) xs" "par_run (filing env f) (file_start xs fs) tr (ps, s)"
    "\<not> list_all returned ps"
  shows "\<exists>i < length ps. file_step env f i (ps ! i) s \<noteq> None"
proof (rule ccontr)
  note facts = run_facts [OF assms(1,2)]
  assume "\<not> ?thesis"
  with facts(3) have stuck: "file_step env f j (ps ! j) s = None" if "j < length xs" for j using that by metis
  from assms(3) facts(3) obtain i where i: "i < length xs" "\<not> returned (ps ! i)" by (auto simp: list_all_length)
  have outside: "\<not> pc_inside (ps ! j)" if "j < length xs" for j
    using stuck [OF that]
    by (cases "(env, f, j, ps ! j, s)" rule: file_step.cases) (auto split: sum.splits prod.splits if_splits)
  from i(2) stuck [OF i(1)] outside [OF i(1)] obtain x l where p: "ps ! i = FileHas x l"
    by (cases "ps ! i") (auto split: prod.splits)
  with facts(1) facts(2) [OF i(1)] have l: "l < length (ls_status s)"
    by (auto simp: file_known_def file_glob_def intro: lock_bound)
  have "ls_status s ! l = Unlocked"
  proof (rule ccontr)
    assume "ls_status s ! l \<noteq> Unlocked"
    with facts(5) [OF l] obtain j w where "j < length xs" "holds_lock j w (ls_status s ! l)"
      by (auto simp: held_by_def)
    with facts(2) l outside show False by (auto simp: file_known_def lock_known_def)
  qed
  with p stuck [OF i(1)] show False by (cases "fop_writes x") simp_all
qed

text \<open>
  C24: The locks of the file backend do not deadlock: from every state that concurrent calls may have led to,
  the goroutines can go on until all calls have returned, and since each step leaves its goroutine fewer
  steps to take, every way of going on ends there.
\<close>

theorem file_calls_return:
  assumes "list_all (\<lambda>x. plain (fop_alias x)) xs" "par_run (filing env f) (file_start xs fs) tr (ps, s)"
  shows "(\<exists>tr' ps' s'. par_run (filing env f) (file_start xs fs) (tr @ tr') (ps', s') \<and> list_all returned ps') \<and>
    (\<forall>i es q t. file_step env f i (ps ! i) s = Some (es, q, t) \<longrightarrow> pc_rank q < pc_rank (ps ! i))"
proof
  show "\<exists>tr' ps' s'. par_run (filing env f) (file_start xs fs) (tr @ tr') (ps', s') \<and> list_all returned ps'"
    using assms(2)
  proof (induction "sum_list (map pc_rank ps)" arbitrary: tr ps s rule: less_induct)
    case less
    show ?case
    proof (cases "list_all returned ps")
      case True
      with less.prems show ?thesis by (intro exI [of _ "[]"] exI conjI) simp_all
    next
      case False
      from file_progress [OF assms(1) less.prems False] obtain i es q t
        where i: "i < length ps" "file_step env f i (ps ! i) s = Some (es, q, t)" by auto
      then have run: "par_run (filing env f) (file_start xs fs) (tr @ es) (ps[i := q], t)"
        by (intro par_move [OF less.prems]) (simp_all add: filing_def)
      have "map pc_rank (ps[i := q]) = (map pc_rank ps)[i := pc_rank q]" by (rule map_update)
      with step_rank [OF i(2)] i(1) have "sum_list (map pc_rank (ps[i := q])) < sum_list (map pc_rank ps)"
        using member_le_sum_list [of "pc_rank (ps ! i)" "map pc_rank ps"] by (simp add: sum_list_update)
      from less.hyps [OF this run] show ?thesis by (metis append.assoc)
    qed
  qed
  show "\<forall>i es q t. file_step env f i (ps ! i) s = Some (es, q, t) \<longrightarrow> pc_rank q < pc_rank (ps ! i)"
    using step_rank by blast
qed

section \<open>Runs to evaluate\<close>

definition file_history_dir :: file_backend where
  "file_history_dir = \<lparr>fb_dir = ''/h'', fb_depth = 5\<rparr>"

definition plain_entry :: "string \<Rightarrow> hist_entry" where
  "plain_entry m = \<lparr>he_time = [], he_sent = m, he_response = [], he_context = [], he_task = [], he_error = False\<rparr>"

definition file_run :: "nat list \<Rightarrow> file_op list \<Rightarrow> file_events \<times> file_pc list \<times> lock_store" where
  "file_run js xs = fold (scheduled (file_step no_faults file_history_dir)) js ([], file_start xs [])"

lemma file_run_par: "file_run js xs = (tr, d) \<Longrightarrow> par_run (filing no_faults file_history_dir) (file_start xs []) tr d"
  unfolding file_run_def by (rule scheduled_run) (simp_all add: filing_def)

lemma valid_entry: "to_valid_utf8 [] = []" "to_valid_utf8 ''1'' = ''1''" "to_valid_utf8 ''2'' = ''2''"
  by (simp_all add: is_ascii_def byte_def)

lemmas file_eval = file_run_def scheduled_def file_start_def fb_aliasLock_def opens_def no_faults_def
  fb_readEntries_def fb_writeEntries_def appended_entries_def file_history_dir_def plain_entry_def
  normal_entry_def valid_entry emptied_def

text \<open>Two goroutines append to the history of one alias: the second waits for the lock of the first.\<close>

definition two_appends :: "file_op list" where
  "two_appends = [OpAppend ''a'' (plain_entry ''1''), OpAppend ''a'' (plain_entry ''2'')]"

lemma concurrent_history_atomic_witness:
  "\<exists>tr ps s. file_run [0, 1, 0, 1, 0, 1, 0, 1, 0, 1, 0, 0, 1, 1, 1, 1, 1, 1] two_appends = (tr, ps, s) \<and>
     map_of (ls_files s) = map_of (replay (file_apply no_faults file_history_dir) tr []) \<and> length tr = 2"
proof -
  obtain tr ps s where run: "file_run [0, 1, 0, 1, 0, 1, 0, 1, 0, 1, 0, 0, 1, 1, 1, 1, 1, 1] two_appends = (tr, ps, s)"
    by (metis prod_cases3)
  from run have "list_all returned ps \<and> length tr = 2"
    by (simp add: file_eval two_appends_def) (auto simp: list_all_iff)
  with concurrent_history_atomic [OF _ file_run_par [OF run]] run show ?thesis
    by (simp add: two_appends_def)
qed

lemma file_calls_return_witness:
  "case file_run [0, 0, 1, 1] two_appends of (tr, ps, s) \<Rightarrow> \<exists>tr' ps' s'. list_all returned ps' \<and>
     par_run (filing no_faults file_history_dir) (file_start two_appends []) (tr @ tr') (ps', s')"
proof -
  obtain tr ps s where run: "file_run [0, 0, 1, 1] two_appends = (tr, ps, s)" by (metis prod_cases3)
  with file_calls_return [OF _ file_run_par [OF run]] show ?thesis by (auto simp: two_appends_def)
qed

text \<open>
  Two URLs may name one file and have different locks. Appending to both at the same time loses an entry:
  both goroutines read before either writes.
\<close>

lemma urls_share_file_not_lock:
  "validate_URL ''http://i/x'' = None \<and> validate_URL ''http://i//x'' = None \<and>
   (case file_run [0, 1, 0, 1, 0, 1, 0, 0, 0, 1, 1, 1]
       [OpAppend ''http://i/x'' (plain_entry ''1''), OpAppend ''http://i//x'' (plain_entry ''2'')] of
     (tr, ps, s) \<Rightarrow> list_all returned ps \<and>
       fb_List no_faults file_history_dir ''http://i/x'' (ls_files s) = Inr [plain_entry ''2''])"
proof -
  have paths: "aliasPath file_history_dir ''http://i/x'' = (True, [''h'', ''http:'', ''i'', ''x.json''])"
    "aliasPath file_history_dir ''http://i//x'' = (True, [''h'', ''http:'', ''i'', ''x.json''])"
    by (simp_all add: aliasPath_def path_join_def clean_path_def has_prefix_def file_history_dir_def)
  have urls: "validate_URL ''http://i/x'' = None" "validate_URL ''http://i//x'' = None" by (simp_all add: url_eval)
  show ?thesis
    by (simp add: urls paths [unfolded file_history_dir_def] file_eval fb_List_def)
qed

end
