(* ===== verification/ClientLocks.thy ===== *)
theory ClientLocks
  imports Goroutines ClientResolver
begin

text \<open>
  The lock of the client cache (\<open>registry/client_resolver.go\<close>). \<open>Resolve\<close> looks into the cache under the read lock,
  gives it up, takes the write lock, looks again and only then builds a client. Here the two critical sections
  are two steps, between which other goroutines may resolve and evict; what the lock gives is that a
  section is one step. The registry stays as it is.
\<close>

datatype client_op = OpResolve resolve_result | OpEvict string

type_synonym client_result = "(goerr + a2a_client) option"

text \<open>The methods as one step.\<close>

fun client_apply ::
  "client_factory \<Rightarrow> agent_registry \<Rightarrow> client_op \<Rightarrow> client_cache \<Rightarrow> client_result \<times> client_cache" where
  "client_apply cf reg (OpResolve r) cl = map_prod Some id (cr_Resolve cf reg r cl)"
| "client_apply cf reg (OpEvict u) cl = (None, cr_Evict u cl)"

datatype client_pc = ClientStart client_op | ClientMissed resolve_result | ClientBack client_op client_result

type_synonym client_events = "(client_op, client_result) op_event list"

fun client_step ::
  "client_factory \<Rightarrow> agent_registry \<Rightarrow> nat \<Rightarrow> client_pc \<Rightarrow> client_cache
    \<Rightarrow> (client_events \<times> client_pc \<times> client_cache) option" where
  "client_step cf reg i (ClientStart (OpResolve r)) cl =
     (case map_of cl (rr_url r) of
        Some c \<Rightarrow> Some ([(i, OpResolve r, Some (Inr c))], ClientBack (OpResolve r) (Some (Inr c)), cl)
      | None \<Rightarrow> Some ([], ClientMissed r, cl))"
| "client_step cf reg i (ClientMissed r) cl =
     (case map_of cl (rr_url r) of
        Some c \<Rightarrow> Some ([(i, OpResolve r, Some (Inr c))], ClientBack (OpResolve r) (Some (Inr c)), cl)
      | None \<Rightarrow>
          (case cr_createClient cf r
                  (if rr_is_alias r then cr_findCard reg r else None)
                  (cr_httpClientForResolved r) of
             Inl e \<Rightarrow> Some ([(i, OpResolve r, Some (Inl e))], ClientBack (OpResolve r) (Some (Inl e)), cl)
           | Inr c \<Rightarrow> Some ([(i, OpResolve r, Some (Inr c))], ClientBack (OpResolve r) (Some (Inr c)),
               AList.update (rr_url r) c cl)))"
| "client_step cf reg i (ClientStart (OpEvict u)) cl =
     Some ([(i, OpEvict u, None)], ClientBack (OpEvict u) None, cr_Evict u cl)"
| "client_step cf reg i (ClientBack x res) cl = None"

definition resolving ::
  "client_factory \<Rightarrow> agent_registry \<Rightarrow> (client_pc, client_cache, (client_op, client_result) op_event) local_step" where
  "resolving cf reg i p cl es q cl' \<longleftrightarrow> client_step cf reg i p cl = Some (es, q, cl')"

fun client_op_of :: "client_pc \<Rightarrow> client_op" where
  "client_op_of (ClientStart x) = x"
| "client_op_of (ClientMissed r) = OpResolve r"
| "client_op_of (ClientBack x _) = x"

fun client_back :: "client_pc \<Rightarrow> bool" where
  "client_back (ClientBack _ _) = True"
| "client_back _ = False"

fun client_answer :: "client_pc \<Rightarrow> client_result" where
  "client_answer (ClientBack _ res) = res"
| "client_answer _ = None"

section \<open>The second look makes a call atomic\<close>

fun client_events_of :: "nat \<Rightarrow> client_pc \<Rightarrow> client_events" where
  "client_events_of i (ClientBack x res) = [(i, x, res)]"
| "client_events_of i _ = []"

lemma client_step_atomic:
  assumes "client_step cf reg i p cl = Some (es, q, cl')"
  shows "replays (client_apply cf reg) es cl \<and> cl' = replay (client_apply cf reg) es cl \<and>
    client_op_of q = client_op_of p \<and> client_events_of i q = client_events_of i p @ es \<and> (\<forall>e \<in> set es. fst e = i)"
  using assms
  by (cases "(cf, reg, i, p, cl)" rule: client_step.cases)
    (auto simp: cr_Resolve_def split: option.splits sum.splits)

interpretation resolving: noninterference "resolving cf reg"
  "\<lambda>tr cl. replays (client_apply cf reg) tr cl0 \<and> cl = replay (client_apply cf reg) tr cl0"
  "\<lambda>tr i p cl. filter (\<lambda>e. fst e = i) tr = client_events_of i p"
  for cf reg cl0
  by unfold_locales
    (auto simp: resolving_def replay_simps filter_id_conv filter_empty_conv dest!: client_step_atomic)

text \<open>A client stays in the cache while nothing is evicted.\<close>

fun resolves :: "client_op \<Rightarrow> bool" where
  "resolves (OpResolve _) = True"
| "resolves (OpEvict _) = False"

lemma cached_stays:
  "map_of cl u = Some c \<Longrightarrow> list_all (\<lambda>e. resolves (fst (snd e))) tr \<Longrightarrow>
   map_of (replay (client_apply cf reg) tr cl) u = Some c"
proof (induction tr arbitrary: cl)
  case (Cons e tr)
  then obtain i r res where e: "e = (i, OpResolve r, res)" by (cases e; cases "fst (snd e)") auto
  have "map_of (snd (cr_Resolve cf reg r cl)) u = Some c"
    using Cons.prems(1) resolve_hit [of cl r c cf reg] resolve_other [of u r cf reg cl] by (cases "u = rr_url r") simp_all
  with Cons e show ?case by simp
qed simp

lemma resolved_cached:
  "replays (client_apply cf reg) tr cl \<Longrightarrow> list_all (\<lambda>e. resolves (fst (snd e))) tr \<Longrightarrow>
   (i, OpResolve r, Some (Inr c)) \<in> set tr \<Longrightarrow>
   map_of (replay (client_apply cf reg) tr cl) (rr_url r) = Some c"
proof (induction tr arbitrary: cl)
  case (Cons e tr)
  obtain j x res where e: "e = (j, x, res)" by (cases e)
  show ?case
  proof (cases "e = (i, OpResolve r, Some (Inr c))")
    case True
    with Cons.prems(1) have "fst (cr_Resolve cf reg r cl) = Inr c" by simp
    then have "map_of (snd (cr_Resolve cf reg r cl)) (rr_url r) = Some c"
      using resolve_caches [of cf reg r cl c] by (metis prod.collapse)
    with Cons.prems(2) True cached_stays show ?thesis by simp
  next
    case False
    with Cons e show ?thesis by auto
  qed
qed simp

section \<open>Properties\<close>

text \<open>Calls that resolved agents of one URL have one client.\<close>

definition one_client_per_url :: "client_op list \<Rightarrow> client_pc list \<Rightarrow> bool" where
  "one_client_per_url xs ps \<longleftrightarrow> (\<forall>i < length xs. \<forall>j < length xs. \<forall>r r' c c'.
     xs ! i = OpResolve r \<longrightarrow> xs ! j = OpResolve r' \<longrightarrow> rr_url r = rr_url r' \<longrightarrow>
     client_answer (ps ! i) = Some (Inr c) \<longrightarrow> client_answer (ps ! j) = Some (Inr c') \<longrightarrow> c = c')"

text \<open>
  C6: However goroutines resolve and evict clients at the same time, their calls have the effect they have in one
  step each, one after another; and as long as nothing is evicted, all that resolve agents of one
  URL get the same client, whatever headers and alias each of them came with.
\<close>

theorem clients_resolved_once:
  assumes "par_run (resolving cf reg) (map ClientStart xs, cl0) tr (ps, cl)" "list_all client_back ps"
  shows "cl = replay (client_apply cf reg) tr cl0 \<and> replays (client_apply cf reg) tr cl0 \<and>
    distinct (map fst tr) \<and> set tr = (\<lambda>i. (i, xs ! i, client_answer (ps ! i))) ` {..<length xs} \<and>
    (list_all resolves xs \<longrightarrow> one_client_per_url xs ps)"
proof -
  let ?ev = "\<lambda>i. (i, xs ! i, client_answer (ps ! i))"
  from par_run_length [OF assms(1)] have n: "length ps = length xs" by simp
  have "map client_op_of (fst (ps, cl)) = map client_op_of (fst (map ClientStart xs, cl0))"
    by (rule par_run_const [OF assms(1)]) (auto simp: resolving_def dest: client_step_atomic)
  then have "map client_op_of ps = xs" by (simp add: comp_def)
  then have ops: "client_op_of (ps ! i) = xs ! i" if "i < length xs" for i using that n by (metis nth_map)
  from resolving.run_knows [OF assms(1)]
  have rep: "cl = replay (client_apply cf reg) tr cl0" "replays (client_apply cf reg) tr cl0"
    and ev: "i < length xs \<Longrightarrow> filter (\<lambda>e. fst e = i) tr = client_events_of i (ps ! i)" for i
    by (auto simp: n)
  have one: "filter (\<lambda>e. fst e = i) tr = [?ev i]" if "i < length xs" for i
    using ev [OF that] ops [OF that] assms(2) that n by (cases "ps ! i") (auto simp: list_all_length)
  have "\<forall>e \<in> set tr. fst e < length (fst (ps, cl))"
    by (rule par_run_own [OF assms(1)]) (auto simp: resolving_def dest: client_step_atomic)
  then have each: "distinct (map fst tr)" "set tr = ?ev ` {..<length xs}"
    using one_event_each [of "length xs" tr ?ev, OF one] n by auto
  have same: "c = c'" if "list_all resolves xs" "i < length xs" "j < length xs" "xs ! i = OpResolve r"
    "xs ! j = OpResolve r'" "rr_url r = rr_url r'" "client_answer (ps ! i) = Some (Inr c)"
    "client_answer (ps ! j) = Some (Inr c')" for i j r r' c c'
  proof -
    have all: "list_all (\<lambda>e. resolves (fst (snd e))) tr"
      using that(1) by (auto simp: list_all_iff each(2))
    have "?ev i \<in> set tr" "?ev j \<in> set tr" unfolding each(2) using that(2,3) by blast+
    then have "(i, OpResolve r, Some (Inr c)) \<in> set tr" "(j, OpResolve r', Some (Inr c')) \<in> set tr"
      by (simp_all only: that(4,5,7,8))
    from this [THEN resolved_cached [OF rep(2) all]] that(6) show ?thesis by simp
  qed
  have "one_client_per_url xs ps" if "list_all resolves xs"
    unfolding one_client_per_url_def by (intro allI impI) (rule same [OF that])
  with rep each show ?thesis by simp
qed

definition all_built :: client_factory where
  "all_built = \<lparr>cf_from_card = (\<lambda>_ _. None), cf_from_endpoint = (\<lambda>_. None)\<rparr>"

definition raw_agent :: "string \<Rightarrow> resolve_result" where
  "raw_agent u = \<lparr>rr_url = u, rr_headers = [], rr_is_alias = False, rr_alias = []\<rparr>"

lemma clients_resolved_once_witness:
  "\<exists>tr ps cl. fold (scheduled (client_step all_built [])) [0, 1, 0, 1]
      ([], map ClientStart [OpResolve (raw_agent ''u''), OpResolve (raw_agent ''u'')], []) = (tr, ps, cl) \<and>
     client_answer (ps ! 0) \<noteq> None \<and> client_answer (ps ! 0) = client_answer (ps ! 1)"
proof -
  let ?xs = "[OpResolve (raw_agent ''u''), OpResolve (raw_agent ''u'')]"
  obtain tr ps cl where run: "fold (scheduled (client_step all_built [])) [0, 1, 0, 1] ([], map ClientStart ?xs, []) = (tr, ps, cl)"
    by (metis prod_cases3)
  then have par: "par_run (resolving all_built []) (map ClientStart ?xs, []) tr (ps, cl)"
    by (intro scheduled_run [OF _ run]) (simp add: resolving_def)
  from run have done_calls: "list_all client_back ps"
    and "\<exists>c c'. client_answer (ps ! 0) = Some (Inr c) \<and> client_answer (ps ! 1) = Some (Inr c')"
    by (auto simp: scheduled_def raw_agent_def all_built_def cr_createClient_def endpoint_client_def
        cr_httpClientForResolved_def)
  then obtain c c' where c: "client_answer (ps ! 0) = Some (Inr c)" "client_answer (ps ! 1) = Some (Inr c')" by blast
  have "one_client_per_url ?xs ps" using clients_resolved_once [OF par done_calls] by simp
  from this [unfolded one_client_per_url_def, rule_format, of 0 1 "raw_agent ''u''" "raw_agent ''u''" c c'] c
  have "c = c'" by simp
  with c run show ?thesis by (metis option.distinct(1))
qed

end
