(* ===== verification/Commands.thy ===== *)
theory Commands
  imports Liveness ReplyTypes MockAgents
begin

text \<open>
  The programs. \<open>cmd/a2a-gateway-mcp\<close> makes a server from its environment, serves the tools on stdio and exits;
  a session is the list of tool calls and background jobs as they take effect, one after another. The MCP
  library decodes a call and finds its handler by the name the tool was registered under. The two
  development agents serve HTTP until they are interrupted; flags are given as parsed.
\<close>

section \<open>Tools by name\<close>

datatype tool_call =
    CallSend bool send_input
  | CallBroadcast broadcast_input
  | CallPing ping_input
  | CallConnect connect_input
  | CallDisconnect disconnect_input
  | CallList
  | CallCard card_input
  | CallGetTask task_input
  | CallCancelTask task_input
  | CallGetHistory get_history_input
  | CallClearHistory clear_history_input
  | CallCreateCard create_card_input
  | CallViewCard
  | CallRemoveCard
  | CallDiscover discover_input
  | CallCheckInbox check_inbox_input
  | CallReadInbox read_inbox_input

fun call_name :: "tool_call \<Rightarrow> string" where
  "call_name (CallSend _ _) = ''send_message''"
| "call_name (CallBroadcast _) = ''broadcast_message''"
| "call_name (CallPing _) = ''ping_agent''"
| "call_name (CallConnect _) = ''connect_agent''"
| "call_name (CallDisconnect _) = ''disconnect_agent''"
| "call_name CallList = ''list_agents''"
| "call_name (CallCard _) = ''get_agent_card''"
| "call_name (CallGetTask _) = ''get_task''"
| "call_name (CallCancelTask _) = ''cancel_task''"
| "call_name (CallGetHistory _) = ''get_history''"
| "call_name (CallClearHistory _) = ''clear_history''"
| "call_name (CallCreateCard _) = ''create_caller_card''"
| "call_name CallViewCard = ''view_caller_card''"
| "call_name CallRemoveCard = ''remove_caller_card''"
| "call_name (CallDiscover _) = ''discover_agents''"
| "call_name (CallCheckInbox _) = ''check_inbox''"
| "call_name (CallReadInbox _) = ''read_inbox''"

text \<open>The agents a call names.\<close>

fun call_agents :: "tool_call \<Rightarrow> string set" where
  "call_agents (CallSend _ i) = {si_agent i}"
| "call_agents (CallBroadcast i) = set (bi_aliases i)"
| "call_agents (CallPing i) = {pi_alias i}"
| "call_agents (CallConnect i) = {ci_alias i}"
| "call_agents (CallDisconnect i) = {di_alias i}"
| "call_agents (CallCard i) = {gc_agent i}"
| "call_agents (CallGetTask i) = {ti_agent i}"
| "call_agents (CallCancelTask i) = {ti_agent i}"
| "call_agents (CallGetHistory i) = {gh_agent i}"
| "call_agents (CallClearHistory i) = {ch_agent i}"
| "call_agents (CallReadInbox i) = {ib_alias i}"
| "call_agents _ = {}"

text \<open>
  \<open>registerToolsV2\<close> wires the tools of the MCP server by hand, as \<open>toolEnv\<close> does for the programmatic operations.
\<close>

definition registered_env :: "'r dir_world \<Rightarrow> 'r server \<Rightarrow> tool_env" where
  "registered_env w s =
     (let dir = (case sv_directory s of None \<Rightarrow> None | Some d \<Rightarrow> Some (adapter_Query w d))
      in \<lparr>te_recorder = historyRecorderAdapter s, te_poll = effectivePollTimeout s,
          te_stream = effectiveStreamTimeout s, te_default_rate = toolDefaultRateLimit s,
          te_ping = sv_ping s, te_dir_url = sv_dir_url s, te_dir_err = sv_dir_err s, te_directory = dir\<rparr>)"

definition registerToolsV2 :: "'k spec_docs \<Rightarrow> 'r dir_world \<Rightarrow> 'r server \<Rightarrow> 'k mcp_tool list outcome" where
  "registerToolsV2 docs w s = RegisterAll docs (registered_env w s)"

text \<open>The state a call of a registered tool leaves.\<close>

fun call_effect :: "'l ext \<Rightarrow> tool_env \<Rightarrow> tool_call \<Rightarrow> 'l gw \<Rightarrow> 'l gw" where
  "call_effect x env (CallSend progress i) g = snd (send_Handle x env progress i g)"
| "call_effect x env (CallBroadcast i) g = snd (broadcast_Handle x env i g)"
| "call_effect x env (CallPing i) g = snd (ping_Handle x env i g)"
| "call_effect x env (CallConnect i) g = snd (connect_Handle x (NewConnectAgentTool env) i g)"
| "call_effect x env (CallDisconnect i) g = snd (disconnect_Handle x i g)"
| "call_effect x env CallList g = g"
| "call_effect x env (CallCard i) g = snd (get_card_Handle x i g)"
| "call_effect x env (CallGetTask i) g = snd (get_task_Handle x i g)"
| "call_effect x env (CallCancelTask i) g = snd (cancel_task_Handle x i g)"
| "call_effect x env (CallGetHistory i) g = snd (get_history_Handle x i g)"
| "call_effect x env (CallClearHistory i) g = snd (clear_history_Handle x i g)"
| "call_effect x env (CallCreateCard i) g = snd (create_card_Handle i g)"
| "call_effect x env CallViewCard g = g"
| "call_effect x env CallRemoveCard g = snd (remove_card_Handle g)"
| "call_effect x env (CallDiscover i) g = snd (discover_Handle x env i g)"
| "call_effect x env (CallCheckInbox i) g = snd (check_inbox_Handle x i g)"
| "call_effect x env (CallReadInbox i) g = snd (read_inbox_Handle x i g)"

lemma registered_env: "registered_env w s = toolEnv w s"
  by (cases "sv_directory s") (simp_all add: registered_env_def toolEnv_def)

text \<open>A call reaches a tool that is registered, and no two tools have one name.\<close>

definition tool_names :: "string list" where
  "tool_names = [''send_message'', ''broadcast_message'', ''ping_agent'', ''connect_agent'', ''disconnect_agent'',
     ''list_agents'', ''get_agent_card'', ''get_task'', ''cancel_task'', ''get_history'', ''clear_history'',
     ''create_caller_card'', ''view_caller_card'', ''remove_caller_card'', ''discover_agents'', ''check_inbox'', ''read_inbox'']"

lemma registered_names: "registerToolsV2 docs w s = Return ts \<Longrightarrow> map mt_name ts = tool_names"
  by (auto simp: registerToolsV2_def RegisterAll_def send_Tool_def broadcast_Tool_def sendMessageOutputSchema_def
      broadcastMessageOutputSchema_def plain_tool_def ping_Tool_def connect_Tool_def disconnect_Tool_def list_Tool_def
      get_card_Tool_def get_task_Tool_def cancel_task_Tool_def get_history_Tool_def clear_history_Tool_def
      create_card_Tool_def view_card_Tool_def remove_card_Tool_def discover_Tool_def check_inbox_Tool_def
      read_inbox_Tool_def Let_def tool_names_def split: outcome.splits prod.splits option.splits if_splits)

lemma call_registered: "call_name c \<in> set tool_names" "distinct tool_names"
  by (cases c; simp add: tool_names_def)+

section \<open>Sessions\<close>

text \<open>One call, or the \<open>n\<close>th of the background jobs that have not ended.\<close>

datatype session_event = ToolCalled tool_call | JobRuns nat

fun session_step :: "'l ext \<Rightarrow> tool_env \<Rightarrow> session_event \<Rightarrow> 'l gw \<Rightarrow> 'l gw" where
  "session_step x env (ToolCalled c) g = call_effect x env c g"
| "session_step x env (JobRuns n) g =
     (if n < length (g_jobs g)
      then snd (run_job x env (g_jobs g ! n) (g\<lparr>g_jobs := remove1 (g_jobs g ! n) (g_jobs g)\<rparr>)) else g)"

definition fair_fan_out :: "'l ext \<Rightarrow> bool" where
  "fair_fan_out x \<longleftrightarrow> (\<forall>n as. mset (x_schedule x n as) = mset as)"

lemmas server_steps = server_step.intros [unfolded srv_ConnectAgent_def srv_DisconnectAgent_def srv_GetTask_def
  srv_CancelTask_def srv_DiscoverAgents_def srv_GetAgentCard_def srv_PingAgent_def srv_BroadcastMessage_def
  srv_GetHistory_def srv_ClearHistory_def srv_CreateCallerCard_def srv_RemoveCallerCard_def srv_CheckInbox_def
  srv_ReadInbox_def snd_output]

lemma call_step:
  assumes "fair_fan_out x"
  shows "server_step s (call_agents c) g (call_effect x (toolEnv w s) c g) \<or> call_effect x (toolEnv w s) c g = g"
  using assms by (cases c) (auto simp: fair_fan_out_def intro: server_steps)

lemma session_step_reaches:
  assumes "fair_fan_out x"
  shows "interleaved UNIV g (session_step x (toolEnv w s) e g)"
proof (cases e)
  case (ToolCalled c)
  with call_step [OF assms, of s c g w] interleaved_mono [OF step_interleaved] show ?thesis by fastforce
next
  case (JobRuns n)
  then show ?thesis
    using interleaved_mono [OF step_interleaved [OF server_step.job [of "g_jobs g ! n" g s x w]]] by simp
qed

lemma session_reaches:
  assumes "fair_fan_out x"
  shows "interleaved UNIV g (fold (session_step x (toolEnv w s)) es g)"
proof (induction es arbitrary: g)
  case (Cons e es)
  from interleaved_trans [OF session_step_reaches [OF assms] Cons.IH] show ?case by simp
qed simp

section \<open>The gateway command (cmd/a2a-gateway-mcp)\<close>

datatype exit_status = ExitOk | ExitFatal string | ExitPanic string

definition be_Close :: "hist_backend \<Rightarrow> goerr option" where
  "be_Close b = (case b of MemoryB m \<Rightarrow> mb_Close m | FileB f \<Rightarrow> fb_Close f)"

text \<open>\<open>Run\<close>: the error with which the transport ended, and what closing the history gave, which is dropped.\<close>

definition srv_Run :: "'r server \<Rightarrow> 'l gw \<Rightarrow> goerr option \<Rightarrow> goerr option \<times> goerr option option" where
  "srv_Run s g ended =
     (ended, if sv_history_enabled s then map_option be_Close (hb_backend (g_history g)) else None)"

lemma run_closes_iff: "snd (srv_Run s g ended) \<noteq> None \<longleftrightarrow> run_closes s g"
  by (simp add: srv_Run_def run_closes_def)

text \<open>
  \<open>main\<close>: the exit status and the state at the end. \<open>files\<close> is the file system, \<open>es\<close> what happens until the transport
  ends, and \<open>ended\<close> the error it ends with.
\<close>

definition gateway_main ::
  "'k spec_docs \<Rightarrow> 'r dir_world \<Rightarrow> 'l ext \<Rightarrow> file_system \<Rightarrow> (string \<Rightarrow> string) \<Rightarrow> session_event list
    \<Rightarrow> goerr option \<Rightarrow> exit_status \<times> 'r server \<times> 'l gw" where
  "gateway_main docs w x files getenv es ended =
     (case NewServer files (main_options (getenv ''A2A_GATEWAY_NAME'') (getenv ''A2A_GATEWAY_VERSION'')) of
        (s, g0) \<Rightarrow>
          (case registerToolsV2 docs w s of
             Panic p \<Rightarrow> (ExitPanic p, s, g0)
           | Return tools \<Rightarrow>
               let g = fold (session_step x (registered_env w s)) es g0
               in (case fst (srv_Run s g ended) of
                     None \<Rightarrow> (ExitOk, s, g)
                   | Some e \<Rightarrow> (ExitFatal (err_text e), s, g))))"

lemma main_config:
  "sc_name (server_config_of (main_options n v)) = (if n = [] then ''a2a-gateway-mcp'' else n)"
  "sc_version (server_config_of (main_options n v)) = (if v = [] then ''0.1.0'' else v)"
  "sound_history files (main_options n v)"
  by (simp_all add: server_config_of_def main_options_def default_config_def sound_history_def)



section \<open>The development agents (cmd/mockserver)\<close>

text \<open>The flags: their values, or the defaults.\<close>

definition minimal_flags :: "int option \<Rightarrow> string option \<Rightarrow> int \<times> string" where
  "minimal_flags port name =
     ((case port of None \<Rightarrow> 8080 | Some p \<Rightarrow> p), (case name of None \<Rightarrow> ''mock-agent'' | Some n \<Rightarrow> n))"

definition knock_flags :: "int option \<Rightarrow> int" where
  "knock_flags port = (case port of None \<Rightarrow> 9000 | Some p \<Rightarrow> p)"

definition server_closed :: goerr where
  "server_closed = \<lparr>err_text = ''http: Server closed'', err_chain = [ServerClosed]\<rparr>"

text \<open>
  Two goroutines: one serves, the other waits for an interrupt and then shuts the server down. After the
  shutdown has begun, serving ends with \<open>http.ErrServerClosed\<close>; before, with any other error.
\<close>

record agent_proc =
  ap_serving :: bool
  ap_interrupted :: bool
  ap_stopping :: bool
  ap_exit :: "exit_status option"

definition agent_started :: agent_proc where
  "agent_started = \<lparr>ap_serving = True, ap_interrupted = False, ap_stopping = False, ap_exit = None\<rparr>"

definition serve_end :: "goerr option \<Rightarrow> agent_proc \<Rightarrow> agent_proc" where
  "serve_end err p =
     (case err of
        None \<Rightarrow> p\<lparr>ap_serving := False\<rparr>
      | Some e \<Rightarrow>
          if e \<noteq> server_closed
          then p\<lparr>ap_serving := False, ap_exit := Some (ExitFatal (''server error: '' @ err_text e))\<rparr>
          else p\<lparr>ap_serving := False\<rparr>)"

definition shutdown_end :: "goerr option \<Rightarrow> agent_proc \<Rightarrow> agent_proc" where
  "shutdown_end err p = p\<lparr>ap_exit := Some (case err of
     None \<Rightarrow> ExitOk | Some e \<Rightarrow> ExitFatal (''shutdown error: '' @ err_text e))\<rparr>"

text \<open>What \<open>main\<close> starts with: the echo agent ends at once when its own directory refuses its card.\<close>

definition minimal_main :: "unit registry_ops \<Rightarrow> int option \<Rightarrow> string option \<Rightarrow> agent_proc \<times> mock_server" where
  "minimal_main ops port name =
     (case minimal_flags port name of (p, n) \<Rightarrow>
        (case newMockServer ops n p of
           (None, s) \<Rightarrow> (agent_started, s)
         | (Some e, s) \<Rightarrow> (agent_started\<lparr>ap_serving := False,
              ap_exit := Some (ExitFatal (''failed to register agent card: '' @ err_text e))\<rparr>, s)))"

definition knock_main :: "int option \<Rightarrow> agent_proc \<times> knock_server" where
  "knock_main port = (agent_started, newKnockKnockServer (knock_flags port))"

inductive agent_step :: "agent_proc \<Rightarrow> agent_proc \<Rightarrow> bool" where
  ag_serve: "ap_exit p = None \<Longrightarrow> ap_serving p \<Longrightarrow> (ap_stopping p \<longleftrightarrow> err = Some server_closed) \<Longrightarrow>
     agent_step p (serve_end err p)"
| ag_interrupt: "ap_exit p = None \<Longrightarrow> agent_step p (p\<lparr>ap_interrupted := True\<rparr>)"
| ag_stop: "ap_exit p = None \<Longrightarrow> ap_interrupted p \<Longrightarrow> \<not> ap_stopping p \<Longrightarrow> agent_step p (p\<lparr>ap_stopping := True\<rparr>)"
| ag_shutdown: "ap_exit p = None \<Longrightarrow> ap_stopping p \<Longrightarrow> agent_step p (shutdown_end err p)"

inductive_simps agent_step_iff: "agent_step p q"

text \<open>An agent ends well only after an interrupt, and can always do so once it has been interrupted.\<close>

definition agent_inv :: "agent_proc \<Rightarrow> bool" where
  "agent_inv p \<longleftrightarrow> (ap_stopping p \<longrightarrow> ap_interrupted p) \<and> (ap_exit p = Some ExitOk \<longrightarrow> ap_stopping p) \<and>
     (\<not> ap_interrupted p \<longrightarrow> ap_exit p = None \<or> \<not> ap_serving p)"

lemma agent_inv_step: "agent_step p q \<Longrightarrow> agent_inv p \<Longrightarrow> agent_inv q"
  by (induction rule: agent_step.induct)
    (auto simp: agent_inv_def serve_end_def shutdown_end_def split: option.splits)

lemma agent_exits_ok_interrupted:
  assumes "agent_step\<^sup>*\<^sup>* agent_started p" "ap_exit p = Some ExitOk"
  shows "ap_interrupted p"
proof -
  have "agent_inv p" using assms(1)
  proof (induction rule: rtranclp_induct)
    case base
    show ?case by (simp add: agent_inv_def agent_started_def)
  next
    case (step q r)
    then show ?case by (blast intro: agent_inv_step)
  qed
  with assms(2) show ?thesis by (simp add: agent_inv_def)
qed

lemma agent_can_exit:
  assumes "ap_exit p = None" "ap_interrupted p"
  shows "\<exists>q. agent_step\<^sup>*\<^sup>* p q \<and> ap_exit q = Some ExitOk"
proof -
  have stop: "agent_step\<^sup>*\<^sup>* p (p\<lparr>ap_stopping := True\<rparr>)"
  proof (cases "ap_stopping p")
    case True
    then have "p\<lparr>ap_stopping := True\<rparr> = p" by simp
    then show ?thesis by simp
  next
    case False
    with assms show ?thesis by (blast intro: ag_stop)
  qed
  have "agent_step (p\<lparr>ap_stopping := True\<rparr>) (shutdown_end None (p\<lparr>ap_stopping := True\<rparr>))"
    using assms by (intro ag_shutdown) simp_all
  with stop have "agent_step\<^sup>*\<^sup>* p (shutdown_end None (p\<lparr>ap_stopping := True\<rparr>))" by (rule rtranclp.rtrancl_into_rtrancl)
  then show ?thesis by (auto simp: shutdown_end_def)
qed

lemma agent_exit_final: "ap_exit p \<noteq> None \<Longrightarrow> \<not> agent_step p q"
  by (auto simp: agent_step_iff)

lemma minimal_exits_ok_interrupted:
  assumes "agent_step\<^sup>*\<^sup>* (fst (minimal_main ops port name)) p" "ap_exit p = Some ExitOk"
  shows "ap_interrupted p \<and> fst (newMockServer ops (snd (minimal_flags port name)) (fst (minimal_flags port name))) = None"
proof (cases "fst (newMockServer ops (snd (minimal_flags port name)) (fst (minimal_flags port name)))")
  case None
  with assms show ?thesis
    by (auto simp: minimal_main_def intro: agent_exits_ok_interrupted split: prod.splits)
next
  case (Some e)
  then have exited: "ap_exit (fst (minimal_main ops port name)) = Some (ExitFatal (''failed to register agent card: '' @ err_text e))"
    by (auto simp: minimal_main_def split: prod.splits)
  with assms(1) have "p = fst (minimal_main ops port name)"
    by (metis agent_exit_final converse_rtranclpE option.distinct(1))
  with assms(2) exited show ?thesis by simp
qed

end
