(* ===== verification/Spec2Isabelle.thy ===== *)
theory Spec2Isabelle
  imports Liveness ReplyTypes AgentSessions MetadataRace HistoryLocks ClientLocks Commands
begin

text \<open>
  The A2A gateway is an MCP server written in Go. An MCP client talks to it through seventeen tools; the
  gateway keeps a registry of remote agents that speak the A2A protocol and sends messages to them:
  directly with polling, over a stream, in the background with an inbox, or to many agents at once. A
  second package serves a directory of agents over HTTP. This development models the program's own code
  under \<open>src/\<close> and proves what makes it correct, or where it is not.

  \<^bold>\<open>How the code is modelled.\<close> A Go string is a \<^typ>\<open>string\<close> of bytes, a Go map an association list with
  distinct keys, a Go error its text and the sentinels on its chain (\<open>GoError\<close>). A function that may
  panic returns an \<open>outcome\<close>, one that may fail a sum. Integers are 64 bits wide on the platforms the
  gateway runs on: they are \<^typ>\<open>int\<close>, with \<open>wrap64\<close> where the source can overflow. What the tools share is
  one record \<open>gw\<close> (\<open>ToolEnv\<close>), and a handler is a function from it to a reply and a new state. The world
  outside is a record \<open>ext\<close> of functions: the clock, the network, the file system, the A2A SDK, the token
  bucket of \<open>golang.org/x/time/rate\<close> and JSON decoding. Each is indexed by the number of calls made before,
  so an agent may answer the same request differently each time. A property quantifies over such worlds,
  and says what it needs of them.

  \<^bold>\<open>The theories.\<close>
  \<^item> \<open>Prelude\<close>, \<open>GoUtf8\<close>, \<open>GoStrings\<close>, \<open>GoBase64\<close>, \<open>GoJson\<close>, \<open>GoError\<close>, \<open>GoTime\<close>, \<open>GoPath\<close>, \<open>GoUrl\<close>: what the source uses
    of Go's standard library, and lemmas on it.
  \<^item> \<open>KeyedStore\<close>: the contract of a store of values by key, interpreted on the registries.
  \<^item> \<open>Validate\<close> (\<open>internal/validate\<close>); \<open>A2ATypes\<close> and \<open>ApiTypes\<close> (\<open>gateway/api\<close>): data and its checks.
  \<^item> \<open>AgentRegistry\<close>, \<open>ContextStore\<close>, \<open>CallerCards\<close>, \<open>RateLimits\<close>, \<open>HttpHeaders\<close>, \<open>ClientResolver\<close>, \<open>Inbox\<close>: the files of
    \<open>registry/\<close>, each with its state, operations, invariant and contract.
  \<^item> \<open>Health\<close> (\<open>health/\<close>); \<open>HistoryStore\<close>, \<open>HistoryFile\<close>, \<open>Recorder\<close> (\<open>history/\<close>), the file backend over an explicit file
    system that may fail.
  \<^item> \<open>Directory\<close>, \<open>DirectoryPages\<close> (\<open>directory/\<close>): the directory and its HTTP handler; walking its pages.
  \<^item> \<open>ToolEnv\<close>, \<open>Rendering\<close>, \<open>Streaming\<close>, \<open>ToolSend\<close>, \<open>SendFacts\<close>, \<open>ToolConnect\<close>, \<open>ToolTasks\<close>, \<open>ToolBroadcast\<close>: the files of
    \<open>internal/tool/\<close>, one handler per tool, and the background jobs of the asynchronous forms.
  \<^item> \<open>JsonSchema\<close> (\<open>internal/specification/schema.go\<close>): schemas, conformance, and the schema of a reply made from the
    two embedded documents; \<open>ToolCatalog\<close>: the \<open>Tool\<close> methods and \<open>RegisterAll\<close>, with names, descriptions and schemas.
  \<^item> \<open>Server\<close> (\<open>gateway/\<close>): options, construction, wiring, programmatic operations, and the relation
    \<open>server_step\<close>: one tool call or background job.
  \<^item> \<open>Interleavings\<close>: the relation \<open>atomic_step\<close>, one operation of one component, and the states that
    concurrent calls may lead to.
  \<^item> \<open>Goroutines\<close>: interleaved runs of goroutines with points of their own over a shared memory; \<open>MetadataRace\<close>: the
    goroutines of a broadcast on the metadata map they share; \<open>HistoryLocks\<close>: the calls of the file backend, access by
    access, with the locks per alias; \<open>ClientLocks\<close>: the two looks into the cache of clients.
  \<^item> \<open>MockAgents\<close> (\<open>cmd/mockserver\<close>): the two development agents; \<open>AgentSessions\<close>: the gateway talking to them.
  \<^item> \<open>Commands\<close> (\<open>cmd/\<close>, \<open>registerToolsV2\<close>, \<open>Run\<close>): tools called by name, sessions, exit status; the agents' processes.
  \<^item> \<open>StoreProperties\<close>, \<open>SendProperties\<close>, \<open>ToolProperties\<close>, \<open>ReplyTypes\<close>, \<open>Liveness\<close> and this theory: the properties.

  \<^bold>\<open>How the parts meet.\<close> The locale \<open>gw_closed\<close> of \<open>ToolEnv\<close> is the interface between the components and the
  tools: a property of the shared state that every operation of a component keeps, when it is done for
  an agent of a given set. Each tool is shown to keep any such property, in its own theory, and so does
  \<open>server_step\<close>. Being reached by atomic steps is such a property itself (\<open>runs\<close>), so every call is a sequence
  of atomic steps; and any such property holds after every interleaving of them. The locale is further
  interpreted on the component invariants (\<open>shared\<close>), on the presence of a history backend (\<open>backed\<close>,
  \<open>unbacked\<close>, \<open>recording\<close>), on valid registrations (\<open>checked\<close>), on the health threshold (\<open>threshold\<close>) and on what
  is held for one agent while others are served (\<open>apart\<close>). The locales \<open>keyed_store\<close>, \<open>async_inbox\<close>,
  \<open>failure_tracking\<close>, \<open>history_contract\<close> and \<open>paged_listing\<close> are the contracts of single components. The locale
  \<open>noninterference\<close> of \<open>Goroutines\<close> is the rely-guarantee rule for goroutines: what one knows of the shared memory
  survives the steps of the others. It is interpreted on the file backend (\<open>filing\<close>) and the client cache
  (\<open>resolving\<close>), and its laws are discharged for the metadata map twice, for races and for what is sent.

  \<^bold>\<open>Loops.\<close> Polling may go on for ever, so \<open>poll_loop\<close> is a \<open>partial_function\<close> whose value \<^const>\<open>None\<close> is not
  returning; when it returns is proved as such. All other loops are structural or have a measure; no
  function uses fuel.

  \<^bold>\<open>What is shown.\<close> Every message and broadcast is answered, in every state that concurrent calls may lead
  to; these states keep the invariants of all components; agents do not disturb each other; conversations continue; the
  inbox delivers at most once, in order, and exactly once without expiry; unhealthy means that the
  failures since the last success reached the threshold; both history backends hold the last entries
  up to their depth; headers reach agents as registered; walking the directory is complete; replies
  conform to the schemas the tools advertise; and sessions with the development agents run as they
  should through the gateway. Below the atomic operations, the file accesses of history calls for plain
  names and the looks into the client cache have the effect of whole calls in some order, and the locks of
  the files never block for ever; a broadcast races on its metadata exactly when a caller card collides
  with it. A session with the command keeps all invariants, and ends with the exit status it should. Some
  theorems prove that the code does not do what it means to; the manifest lists those as findings.

  \<^bold>\<open>Not modelled.\<close> The A2A and MCP SDKs, sockets and the stdio transport, logging, progress notifications as
  they are delivered, the parsing of flags, and the schemas the MCP library derives from Go types. The two embedded
  schema documents are read by the schema library: they are parameters, and so is what their keywords mean. The
  reply of a tool call is that of a call which runs without others in between, from any state that
  interleaved calls may have led to; what holds of the state itself is proved for all interleavings. In \<open>ToolBroadcast\<close>
  the goroutines of a broadcast run one after another in an order the world chooses; their metadata is
  the same in every interleaving without a race. Registries that keep one mutex for a whole method are taken
  as atomic, and the events of a session are calls that have taken effect one after another.
\<close>

section \<open>Every call is answered\<close>


lemma plain_timeouts: "0 < sc_poll (server_config_of [])" "0 < sc_stream (server_config_of [])"
  by (simp_all add: server_config_of_def default_config_def taskPollTimeout_def defaultStreamTimeout_def second_def)

lemma sample_runs: "clock_runs (sample_world r)" "streams_end (sample_world r)"
  by (simp_all add: clock_runs_def streams_end_def sample_world_def)




section \<open>What holds however calls interleave\<close>

text \<open>
  C11: However calls interleave, the components keep their invariants: keys are distinct, an agent is
  filed under its own alias, unhealthy means that the failures have reached the threshold, the caller
  card and its key are set together, no stored conversation id is empty, and no history is longer than
  its depth.
\<close>

theorem reachable_invariant:
  assumes "NewServer files opts = (s, g0)" "sound_history files opts" "interleaved UNIV g0 g"
  shows "gw_inv g"
proof -
  have "gw_inv g0" using gw_inv_start [OF assms(2)] assms(1) by (metis snd_conv)
  from shared.keeps_interleaved [OF assms(3) _ this] show ?thesis by simp
qed

lemma reachable_invariant_witness: "gw_inv connected_gw"
  using reachable_invariant [OF plain_new plain_sound connected_reached] .



text \<open>
  C4: Every tool call and background job is a sequence of operations of single components, and those that
  change what is held for an agent are for an agent the call names; so whatever holds under every
  interleaving of component operations holds for calls that run at the same time.
\<close>

theorem calls_are_interleavings:
  assumes "server_step s A g g'"
  shows "interleaved A g g'"
  using assms by (rule step_interleaved)

lemma calls_are_interleavings_witness: "interleaved {''a''} plain_gw connected_gw"
  by (rule calls_are_interleavings [OF connected_step])

text \<open>
  C32: Aliases and URLs are never confused: however calls interleave, each registered agent has a valid
  alias and a valid URL, and an identifier that is a valid URL resolves to that URL itself and never to
  an alias.
\<close>

theorem urls_never_aliases:
  assumes "NewServer files opts = (s, g0)" "interleaved UNIV g0 g"
  shows "checked_agents g \<and> (validate_URL u = None \<longrightarrow> ResolveAgent (g_registry g) u
     = Inr \<lparr>rr_url = u, rr_headers = [], rr_is_alias = False, rr_alias = []\<rparr>)"
proof -
  have "g_registry g0 = NewAgentRegistry" using assms(1) by (auto simp: NewServer_def Let_def split: prod.splits)
  then have "checked_agents g0" by (simp add: checked_agents_def NewAgentRegistry_def reg_Lookup_def)
  from checked.keeps_interleaved [OF assms(2) _ this] have c: "checked_agents g" by simp
  then have "reg_Lookup (g_registry g) u = None" if "validate_URL u = None"
    using that alias_not_URL [of u] by (cases "reg_Lookup (g_registry g) u") (auto simp: checked_agents_def)
  with c show ?thesis by (auto simp: ResolveAgent_def)
qed

lemma urls_never_aliases_witness:
  "ResolveAgent (g_registry connected_gw) ''http://i''
     = Inr \<lparr>rr_url = ''http://i'', rr_headers = [], rr_is_alias = False, rr_alias = []\<rparr>"
proof -
  have "validate_URL ''http://i'' = None" by (simp add: url_eval)
  with urls_never_aliases [OF plain_new connected_reached, of "''http://i''"] show ?thesis by blast
qed

section \<open>A disabled history\<close>

text \<open>
  When the history is disabled the history tools panic on every registered agent, in every state
  calls may lead to: they are registered all the same and call a backend that is nil.
\<close>

lemma disabled_history_panics:
  assumes "NewServer files opts = (s, g0)" "interleaved UNIV g0 g"
    "sc_history_configured (server_config_of opts)" "sc_history_depth (server_config_of opts) = 0"
    "reg_Lookup (g_registry g) a \<noteq> None" "a \<noteq> []"
  shows "fst (srv_GetHistory x \<lparr>gh_agent = a, gh_limit = n\<rparr> g) = ApiPanics nil_panic \<and>
     fst (srv_ClearHistory x \<lparr>ch_agent = a\<rparr> g) = ApiPanics nil_panic"
proof -
  have "hb_backend (g_history g0) = None"
    using assms(1,3,4) by (auto simp: NewServer_def Let_def history_settings_def)
  from unbacked.keeps_interleaved [OF assms(2) _ this] assms(5,6) show ?thesis
    by (auto simp: srv_GetHistory_def srv_ClearHistory_def get_history_Handle_def clear_history_Handle_def
        be_List_def be_Clear_def)
qed

definition mute :: "unit server_option list" where
  "mute = [WithHistory \<lparr>hi_depth = 0, hi_max = 0, hi_backend = None\<rparr>]"

lemma disabled_history_panics_witness:
  "\<exists>s g0 g. NewServer [] mute = (s, g0) \<and> interleaved UNIV g0 (g :: nat gw) \<and>
     fst (srv_GetHistory (sample_world (Inr ResOther)) \<lparr>gh_agent = ''a'', gh_limit = None\<rparr> g) = ApiPanics nil_panic"
proof -
  obtain s and g :: "nat gw" where new: "NewServer [] mute = (s, g)" by (metis surj_pair)
  let ?x = "sample_world (Inr ResOther)"
  let ?h = "snd (srv_ConnectAgent ?x plain_world s sample_connect g)"
  have al: "ci_alias sample_connect = ''a''" by (simp add: sample_connect_def)
  have "reg_Lookup (g_registry ?h) ''a'' \<noteq> None"
    using connect_registers [OF sample_connect_valid] by (simp add: srv_ConnectAgent_def snd_output al)
  moreover have reach: "interleaved UNIV g ?h"
    by (rule interleaved_mono [OF step_interleaved [OF server_step.connect]]) simp
  ultimately have "fst (srv_GetHistory ?x \<lparr>gh_agent = ''a'', gh_limit = None\<rparr> ?h) = ApiPanics nil_panic"
    using disabled_history_panics [OF new, of ?h "''a''" ?x None]
    by (auto simp: mute_def server_config_of_def default_config_def)
  with new reach show ?thesis by blast
qed

end
